(* ===== verification/Prelude.thy ===== *)
theory Prelude
  imports Complex_Main "HOL-Library.Word" "HOL-Library.Log_Nat"
begin

text \<open>
  The vocabulary the components share: the types that stand for Go's machine types, the
  standard-library string functions the sources call, big-endian integers as
  \<^verbatim>\<open>encoding/binary\<close> writes them, and the generic lemmas on lists, words and sums
  that the component proofs rest on.

  Go strings and byte slices are byte sequences.  A byte is an \<open>8 word\<close>, a byte slice a
  list of bytes (a nil slice is the empty list: the sources only ever ask for the length
  or the contents of one), and a string a list of characters.  \<^verbatim>\<open>strings.TrimSpace\<close>,
  \<^verbatim>\<open>ToLower\<close>, \<^verbatim>\<open>ToUpper\<close> and \<^verbatim>\<open>EqualFold\<close> are modelled on
  their ASCII range.  Durations and instants are integers of nanoseconds, and the clock is
  always an argument.
\<close>

unbundle bit_operations_syntax

section \<open>Types\<close>

type_synonym byte = "8 word"
type_synonym bytes = "8 word list"
type_synonym u16 = "16 word"
type_synonym u32 = "32 word"
type_synonym u128 = "128 word"
type_synonym duration = int
type_synonym gotime = int

named_theorems wire \<open>round trips and lengths of the wire encodings\<close>
named_theorems frame \<open>what an operation leaves unchanged\<close>

definition nanosecond :: duration where "nanosecond = 1"
definition millisecond :: duration where "millisecond = 1000000"
definition second :: duration where "second = 1000000000"
definition minute :: duration where "minute = 60 * second"
definition hour :: duration where "hour = 3600 * second"

lemmas duration_units = nanosecond_def millisecond_def second_def minute_def hour_def

section \<open>Strings\<close>

definition is_space :: "char \<Rightarrow> bool" where
  "is_space c \<longleftrightarrow> of_char c \<in> {9, 10, 11, 12, 13, 32 :: nat}"

definition trim_left :: "string \<Rightarrow> string" where
  "trim_left s = dropWhile is_space s"

definition trim_right :: "string \<Rightarrow> string" where
  "trim_right s = rev (dropWhile is_space (rev s))"

text \<open>\<^verbatim>\<open>strings.TrimSpace\<close>.\<close>

definition trim_space :: "string \<Rightarrow> string" where
  "trim_space s = trim_right (trim_left s)"

definition lower_char :: "char \<Rightarrow> char" where
  "lower_char c = (let n = of_char c :: nat in if 65 \<le> n \<and> n \<le> 90 then char_of (n + 32) else c)"

definition upper_char :: "char \<Rightarrow> char" where
  "upper_char c = (let n = of_char c :: nat in if 97 \<le> n \<and> n \<le> 122 then char_of (n - 32) else c)"

definition to_lower :: "string \<Rightarrow> string" where
  "to_lower s = map lower_char s"

definition to_upper :: "string \<Rightarrow> string" where
  "to_upper s = map upper_char s"

definition equal_fold :: "string \<Rightarrow> string \<Rightarrow> bool" where
  "equal_fold s t \<longleftrightarrow> to_lower s = to_lower t"

definition has_prefix :: "string \<Rightarrow> string \<Rightarrow> bool" where
  "has_prefix s p \<longleftrightarrow> take (length p) s = p"

fun str_contains :: "string \<Rightarrow> string \<Rightarrow> bool" where
  "str_contains [] sub = (sub = [])"
| "str_contains (c # s) sub = (has_prefix (c # s) sub \<or> str_contains s sub)"

text \<open>\<^verbatim>\<open>strings.Split\<close> at a one-byte separator: never empty.\<close>

fun split_at_char :: "char \<Rightarrow> string \<Rightarrow> string list" where
  "split_at_char sep [] = [[]]"
| "split_at_char sep (c # s) =
     (if c = sep then [] # split_at_char sep s
      else (case split_at_char sep s of
              [] \<Rightarrow> [[c]]
            | w # ws \<Rightarrow> (c # w) # ws))"

fun join_with :: "string \<Rightarrow> string list \<Rightarrow> string" where
  "join_with sep [] = []"
| "join_with sep [w] = w"
| "join_with sep (w # ws) = w @ sep @ join_with sep ws"

definition string_of_bytes :: "bytes \<Rightarrow> string" where
  "string_of_bytes bs = map (\<lambda>b. char_of (unat b)) bs"

definition bytes_of_string :: "string \<Rightarrow> bytes" where
  "bytes_of_string s = map of_char s"

subsection \<open>Decimal and hexadecimal digits\<close>

definition digit_char :: "nat \<Rightarrow> char" where
  "digit_char d = char_of (48 + d)"

definition is_digit :: "char \<Rightarrow> bool" where
  "is_digit c \<longleftrightarrow> 48 \<le> (of_char c :: nat) \<and> (of_char c :: nat) \<le> 57"

definition digit_val :: "char \<Rightarrow> nat" where
  "digit_val c = of_char c - 48"

fun dec :: "nat \<Rightarrow> string" where
  "dec n = (if n < 10 then [digit_char n] else dec (n div 10) @ [digit_char (n mod 10)])"

declare dec.simps [simp del]

definition hex_char :: "nat \<Rightarrow> char" where
  "hex_char d = (if d < 10 then char_of (48 + d) else char_of (87 + d))"

definition hex_byte :: "byte \<Rightarrow> string" where
  "hex_byte b = [hex_char (unat b div 16), hex_char (unat b mod 16)]"

text \<open>The verb \<^verbatim>\<open>%q\<close> of \<^verbatim>\<open>fmt\<close> on ASCII strings.\<close>

definition quote_char :: "char \<Rightarrow> string" where
  "quote_char c =
     (let n = of_char c :: nat in
      if n = 34 \<or> n = 92 then [char_of (92::nat), c]
      else if 32 \<le> n \<and> n \<le> 126 then [c]
      else if 7 \<le> n \<and> n \<le> 13 then [char_of (92::nat), ''abtnvfr'' ! (n - 7)]
      else [char_of (92::nat), CHR ''x'', hex_char (n div 16), hex_char (n mod 16)])"

definition quoted :: "string \<Rightarrow> string" where
  "quoted s = [char_of (34::nat)] @ concat (map quote_char s) @ [char_of (34::nat)]"

section \<open>Big-endian integers\<close>

definition be16 :: "byte \<Rightarrow> byte \<Rightarrow> u16" where
  "be16 a b = push_bit 8 (ucast a) OR ucast b"

definition be32 :: "byte \<Rightarrow> byte \<Rightarrow> byte \<Rightarrow> byte \<Rightarrow> u32" where
  "be32 a b c d = push_bit 24 (ucast a) OR push_bit 16 (ucast b) OR push_bit 8 (ucast c) OR ucast d"

definition put16 :: "u16 \<Rightarrow> bytes" where
  "put16 w = [ucast (drop_bit 8 w), ucast w]"

definition put32 :: "u32 \<Rightarrow> bytes" where
  "put32 w = [ucast (drop_bit 24 w), ucast (drop_bit 16 w), ucast (drop_bit 8 w), ucast w]"

text \<open>\<^verbatim>\<open>binary.BigEndian.Uint16\<close> and \<^verbatim>\<open>Uint32\<close> panic on a shorter slice; every
  caller checks the length first, and the model reads the first bytes of the slice.\<close>

fun get16 :: "bytes \<Rightarrow> u16" where
  "get16 (a # b # _) = be16 a b"
| "get16 _ = 0"

fun get32 :: "bytes \<Rightarrow> u32" where
  "get32 (a # b # c # d # _) = be32 a b c d"
| "get32 _ = 0"

text \<open>\<^verbatim>\<open>data[i:j]\<close>.\<close>

definition slice :: "nat \<Rightarrow> nat \<Rightarrow> 'a list \<Rightarrow> 'a list" where
  "slice i j xs = take (j - i) (drop i xs)"

text \<open>Go's integer division and remainder truncate towards zero.\<close>

definition quot :: "int \<Rightarrow> int \<Rightarrow> int" where
  "quot a b = sgn a * sgn b * (\<bar>a\<bar> div \<bar>b\<bar>)"

definition rem :: "int \<Rightarrow> int \<Rightarrow> int" where
  "rem a b = a - b * quot a b"

section \<open>Lemmas on words and byte lists\<close>

lemma bit_byte_bound: "bit (b :: byte) n \<Longrightarrow> n < 8"
  by (auto dest: bit_imp_le_length)

lemma bit_u16_bound: "bit (w :: u16) n \<Longrightarrow> n < 16"
  by (auto dest: bit_imp_le_length)

lemma bit_u32_bound: "bit (w :: u32) n \<Longrightarrow> n < 32"
  by (auto dest: bit_imp_le_length)

lemmas bit_bounds = bit_byte_bound bit_u16_bound bit_u32_bound

lemma length_put16 [simp, wire]: "length (put16 w) = 2"
  by (simp add: put16_def)

lemma length_put32 [simp, wire]: "length (put32 w) = 4"
  by (simp add: put32_def)

lemma be16_split: "be16 (ucast (drop_bit 8 w)) (ucast w) = w"
  unfolding be16_def
  by (rule bit_word_eqI) (auto simp: bit_simps dest: bit_bounds)

lemma be32_split:
  "be32 (ucast (drop_bit 24 w)) (ucast (drop_bit 16 w)) (ucast (drop_bit 8 w)) (ucast w) = w"
  unfolding be32_def
  apply (rule bit_word_eqI)
  apply (auto simp: bit_simps)
  subgoal for n by (cases "16 \<le> n") auto
  subgoal for n by (cases "16 \<le> n"; cases "24 \<le> n") auto
  done

lemma get16_put16 [simp, wire]: "get16 (put16 w @ rest) = w"
  by (simp add: put16_def be16_split)

lemma get32_put32 [simp, wire]: "get32 (put32 w @ rest) = w"
  by (simp add: put32_def be32_split)

lemma put16_be16 [simp]: "put16 (be16 a b) = [a, b]"
proof -
  have "ucast (drop_bit 8 (be16 a b)) = a"
    unfolding be16_def by (rule bit_word_eqI) (auto simp: bit_simps dest: bit_bounds)
  moreover have "ucast (be16 a b) = b"
    unfolding be16_def by (rule bit_word_eqI) (auto simp: bit_simps dest: bit_bounds)
  ultimately show ?thesis by (simp add: put16_def)
qed

lemma put32_be32 [simp]: "put32 (be32 a b c d) = [a, b, c, d]"
proof -
  have "ucast (drop_bit 24 (be32 a b c d)) = a" "ucast (drop_bit 16 (be32 a b c d)) = b"
    "ucast (drop_bit 8 (be32 a b c d)) = c" "ucast (be32 a b c d) = d"
    unfolding be32_def
    by (rule bit_word_eqI; auto simp: bit_simps dest: bit_bounds)+
  then show ?thesis by (simp add: put32_def)
qed

lemma length_slice [simp]: "j \<le> length xs \<Longrightarrow> length (slice i j xs) = j - i"
  by (simp add: slice_def)

text \<open>A field that starts where the bytes before it end.\<close>

lemma slice_field:
  assumes "length pre = i" and "length f = j - i" and "i \<le> j"
  shows "slice i j (pre @ f @ rest) = f"
  using assms by (simp add: slice_def)

lemma length_four_cases:
  assumes "length (xs :: 'a list) = 4"
  obtains a b c d where "xs = [a, b, c, d]"
  using assms by (auto simp: numeral_eq_Suc length_Suc_conv)

lemma put32_get32: "length bs = 4 \<Longrightarrow> put32 (get32 bs) = bs"
  by (erule length_four_cases) simp

lemma length_two_cases:
  assumes "length (xs :: 'a list) = 2"
  obtains a b where "xs = [a, b]"
  using assms by (auto simp: numeral_eq_Suc length_Suc_conv)

lemma put16_get16: "length bs = 2 \<Longrightarrow> put16 (get16 bs) = bs"
  by (erule length_two_cases) simp

lemma unat_byte_bound [simp]: "unat (b :: byte) < 256"
  using unsigned_less [of b, where ?'a = nat] by simp

lemma unat_of_nat_byte: "n < 256 \<Longrightarrow> unat (of_nat n :: byte) = n"
  by (simp add: unat_of_nat)

lemma of_nat_unat_id [simp]: "of_nat (unat w) = w" for w :: "'a::len word"
  by (simp add: of_nat_unat)

lemma unat_drop_bit: "unat (drop_bit k w) = unat w div 2 ^ k" for w :: "'a::len word"
  by (metis drop_bit_eq_div unat_drop_bit_eq)

lemma unat_take_bit: "unat (take_bit k w) = unat w mod 2 ^ k" for w :: "'a::len word"
  by (metis take_bit_eq_mod unsigned_take_bit_eq)

lemma unat_and_255: "unat (x AND 255) = unat x mod 256" for x :: u32
proof -
  have "x AND 255 = take_bit 8 x"
    unfolding take_bit_eq_mask by (simp add: mask_eq_exp_minus_1)
  then show ?thesis using unat_take_bit [of 8 x] by simp
qed

lemma unat_u32_bound: "unat (w :: u32) < 2 ^ 32"
  using unsigned_less [of w, where ?'a = nat] by simp

lemma unat_of_nat_u32: "n < 2 ^ 32 \<Longrightarrow> unat (of_nat n :: u32) = n"
  by (simp add: unat_of_nat)

lemma byte_of_unat: "(of_nat (unat x) :: byte) = ucast x" for x :: u32
  by (simp add: of_nat_unat)

lemma byte_of_unat_and: "(of_nat (unat (x AND 255)) :: byte) = ucast x" for x :: u32
proof -
  have "unat (of_nat (unat (x AND 255)) :: byte) = unat (ucast x :: byte)"
    by (simp only: unat_and_255 unat_of_nat unsigned_ucast_eq take_bit_eq_mod)
       (simp add: take_bit_eq_mod)
  then show ?thesis by (simp only: word_unat_eq_iff)
qed

section \<open>Lemmas on strings\<close>

lemma of_char_bound: "(of_char c :: nat) < 256"
  by (cases c) (auto simp: of_char_def horner_sum_simps of_bool_def split: if_splits)

lemma string_of_bytes_append [simp]:
  "string_of_bytes (xs @ ys) = string_of_bytes xs @ string_of_bytes ys"
  by (simp add: string_of_bytes_def)

lemma of_char_digit_char [simp]: "d < 10 \<Longrightarrow> (of_char (digit_char d) :: nat) = 48 + d"
  by (simp add: digit_char_def)

lemma is_digit_digit_char [simp]: "d < 10 \<Longrightarrow> is_digit (digit_char d)"
  by (simp add: is_digit_def)

lemma digit_val_digit_char [simp]: "d < 10 \<Longrightarrow> digit_val (digit_char d) = d"
  by (simp add: digit_val_def)

lemma dec_nonempty [simp]: "dec n \<noteq> []"
  by (subst dec.simps) simp

lemma dec_digits: "c \<in> set (dec n) \<Longrightarrow> is_digit c"
proof (induction n rule: dec.induct)
  case (1 n)
  then show ?case
    by (cases "n < 10") (auto simp: dec.simps [of n])
qed

lemma trim_space_subset: "set (trim_space s) \<subseteq> set s"
  unfolding trim_space_def trim_right_def trim_left_def
  by (auto dest!: set_dropWhileD)

lemma trim_left_id: "s = [] \<or> \<not> is_space (hd s) \<Longrightarrow> trim_left s = s"
  by (cases s) (auto simp: trim_left_def)

lemma trim_space_id:
  "s = [] \<or> (\<not> is_space (hd s) \<and> \<not> is_space (last s)) \<Longrightarrow> trim_space s = s"
proof (cases "s = []")
  case False
  assume "s = [] \<or> (\<not> is_space (hd s) \<and> \<not> is_space (last s))"
  with False have h: "\<not> is_space (hd s)" and l: "\<not> is_space (last s)" by auto
  have "trim_left s = s" using h by (simp add: trim_left_id)
  moreover have "dropWhile is_space (rev s) = rev s"
    using False l by (cases s rule: rev_cases) auto
  ultimately show ?thesis by (simp add: trim_space_def trim_right_def)
qed (simp add: trim_space_def trim_left_def trim_right_def)

lemma is_space_lower [simp]: "is_space (lower_char c) \<longleftrightarrow> is_space c"
  by (auto simp: is_space_def lower_char_def Let_def)

lemma lower_char_idem [simp]: "lower_char (lower_char c) = lower_char c"
  by (auto simp: lower_char_def Let_def)

lemma to_lower_idem [simp]: "to_lower (to_lower s) = to_lower s"
  by (simp add: to_lower_def)

lemma to_lower_trim: "trim_space (to_lower s) = to_lower (trim_space s)"
  by (simp add: trim_space_def trim_left_def trim_right_def to_lower_def dropWhile_map rev_map comp_def)

lemma trim_space_idem [simp]: "trim_space (trim_space s) = trim_space s"
proof (rule trim_space_id)
  let ?u = "trim_left s" and ?t = "trim_space s"
  have "\<not> is_space (last ?t)" if "?t \<noteq> []"
    using that hd_dropWhile [of is_space "rev ?u"] by (simp add: trim_space_def trim_right_def last_rev)
  moreover have "hd ?t = hd ?u" if "?t \<noteq> []"
  proof -
    have "?t @ rev (takeWhile is_space (rev ?u)) = ?u"
      unfolding trim_space_def trim_right_def by (metis rev_append rev_rev_ident takeWhile_dropWhile_id)
    then show ?thesis using that by (metis hd_append2)
  qed
  moreover have "\<not> is_space (hd ?u)" if "?u \<noteq> []"
    using that unfolding trim_left_def by (rule hd_dropWhile)
  ultimately show "?t = [] \<or> (\<not> is_space (hd ?t) \<and> \<not> is_space (last ?t))"
    by (metis trim_space_def trim_right_def dropWhile.simps(1) rev.simps(1))
qed

lemma in_map_filter: "y \<in> set (List.map_filter f xs) \<longleftrightarrow> (\<exists>x \<in> set xs. f x = Some y)"
  by (force simp: List.map_filter_def)

section \<open>Lemmas on sums\<close>

lemma sum_bind_Inr:
  "(case r of Inl e \<Rightarrow> Inl e | Inr a \<Rightarrow> f a) = Inr b \<longleftrightarrow> (\<exists>a. r = Inr a \<and> f a = Inr b)"
  by (cases r) auto

section \<open>Evaluation of characters\<close>

text \<open>The conversions between numbers and characters are generic in the number type; these
  equations let characters be computed bit by bit.\<close>

definition nat_char :: "nat \<Rightarrow> char" where
  "nat_char n = Char (n mod 2 = 1) (n div 2 mod 2 = 1) (n div 4 mod 2 = 1) (n div 8 mod 2 = 1)
     (n div 16 mod 2 = 1) (n div 32 mod 2 = 1) (n div 64 mod 2 = 1) (n div 128 mod 2 = 1)"

lemma nat_char: "char_of n = nat_char n"
  by (simp add: char_of_def nat_char_def bit_iff_odd odd_iff_mod_2_eq_one)

lemma digit_char_code [code]: "digit_char d = nat_char (48 + d)"
  by (simp add: digit_char_def nat_char)

lemma hex_char_code [code]: "hex_char d = (if d < 10 then nat_char (48 + d) else nat_char (87 + d))"
  by (simp add: hex_char_def nat_char)

lemma string_of_bytes_code [code]: "string_of_bytes bs = map (\<lambda>b. nat_char (unat b)) bs"
  by (simp add: string_of_bytes_def nat_char)

lemma char_of_constants: "char_of (34::nat) = CHR 0x22" "char_of (92::nat) = CHR 0x5C"
  by (simp_all add: nat_char nat_char_def)

lemma quoted_code [code]: "quoted s = CHR 0x22 # concat (map quote_char s) @ [CHR 0x22]"
  by (simp add: quoted_def char_of_constants)

lemma quote_char_code [code]:
  "quote_char c =
     (let n = of_char c :: nat in
      if n = 34 \<or> n = 92 then [CHR 0x5C, c]
      else if 32 \<le> n \<and> n \<le> 126 then [c]
      else if 7 \<le> n \<and> n \<le> 13 then [CHR 0x5C, ''abtnvfr'' ! (n - 7)]
      else [CHR 0x5C, CHR ''x'', hex_char (n div 16), hex_char (n mod 16)])"
  by (simp add: quote_char_def Let_def char_of_constants)

lemma lower_char_code [code]:
  "lower_char (Char b0 b1 b2 b3 b4 b5 b6 b7) =
     (if b6 \<and> \<not> b5 \<and> \<not> b7 \<and> (b0 \<or> b1 \<or> b2 \<or> b3 \<or> b4) \<and> \<not> (b4 \<and> b3 \<and> (b2 \<or> b1 \<and> b0))
      then Char b0 b1 b2 b3 b4 True b6 b7 else Char b0 b1 b2 b3 b4 b5 b6 b7)"
  by (cases b0; cases b1; cases b2; cases b3; cases b4; cases b5; cases b6; cases b7;
      simp add: lower_char_def of_char_def horner_sum_simps char_of_def bit_iff_odd)

lemma upper_char_code [code]:
  "upper_char (Char b0 b1 b2 b3 b4 b5 b6 b7) =
     (if b6 \<and> b5 \<and> \<not> b7 \<and> (b0 \<or> b1 \<or> b2 \<or> b3 \<or> b4) \<and> \<not> (b4 \<and> b3 \<and> (b2 \<or> b1 \<and> b0))
      then Char b0 b1 b2 b3 b4 False b6 b7 else Char b0 b1 b2 b3 b4 b5 b6 b7)"
  by (cases b0; cases b1; cases b2; cases b3; cases b4; cases b5; cases b6; cases b7;
      simp add: upper_char_def of_char_def horner_sum_simps char_of_def bit_iff_odd)

lemma is_digit_code [code]:
  "is_digit (Char b0 b1 b2 b3 b4 b5 b6 b7) \<longleftrightarrow> \<not> b7 \<and> \<not> b6 \<and> b5 \<and> b4 \<and> \<not> (b3 \<and> (b1 \<or> b2))"
  by (cases b0; cases b1; cases b2; cases b3; cases b4; cases b5; cases b6; cases b7;
      simp add: is_digit_def of_char_def horner_sum_simps)

lemma is_space_code [code]:
  "is_space (Char b0 b1 b2 b3 b4 b5 b6 b7) \<longleftrightarrow> \<not> b7 \<and> \<not> b6 \<and> \<not> b4 \<and>
     (if b5 then \<not> b3 \<and> \<not> b2 \<and> \<not> b1 \<and> \<not> b0 else b3 \<and> (if b2 then \<not> b1 else b1 \<or> b0))"
  by (cases b0; cases b1; cases b2; cases b3; cases b4; cases b5; cases b6; cases b7;
      simp add: is_space_def of_char_def horner_sum_simps)

end
