(* ===== verification/Float64.thy ===== *)
theory Float64
  imports Prelude
begin

text \<open>
  Go's \<^verbatim>\<open>float64\<close> arithmetic on the values the sources compute with: every operation
  is exact arithmetic on rationals followed by rounding to a 53-bit significand, ties to
  even.  Exponents are unbounded here: the quantities involved (seconds, percentages, token
  counts) stay far from overflow and from the subnormal range.
\<close>

section \<open>Rounding\<close>

definition ilog2 :: "rat \<Rightarrow> int" where
  "ilog2 x = (if x \<ge> 1 then bitlen \<lfloor>x\<rfloor> - 1 else - bitlen (\<lceil>1 / x\<rceil> - 1))"

definition round_even :: "rat \<Rightarrow> int" where
  "round_even x =
     (let f = \<lfloor>x\<rfloor>; d = x - of_int f in
      if d < 1 / 2 then f else if d > 1 / 2 then f + 1 else if even f then f else f + 1)"

definition pow2 :: "int \<Rightarrow> rat" where
  "pow2 e = (if e \<ge> 0 then 2 ^ nat e else 1 / 2 ^ nat (- e))"

definition fl64 :: "rat \<Rightarrow> rat" where
  "fl64 x = (if x = 0 then 0
     else let e = ilog2 \<bar>x\<bar> - 52 in of_int (round_even (x / pow2 e)) * pow2 e)"

definition fadd :: "rat \<Rightarrow> rat \<Rightarrow> rat" where "fadd x y = fl64 (x + y)"
definition fsub :: "rat \<Rightarrow> rat \<Rightarrow> rat" where "fsub x y = fl64 (x - y)"
definition fmul :: "rat \<Rightarrow> rat \<Rightarrow> rat" where "fmul x y = fl64 (x * y)"
definition fdiv :: "rat \<Rightarrow> rat \<Rightarrow> rat" where "fdiv x y = fl64 (x / y)"
definition float_of_int :: "int \<Rightarrow> rat" where "float_of_int k = fl64 (of_int k)"

text \<open>Conversion to an integer type truncates towards zero.\<close>

definition trunc :: "rat \<Rightarrow> int" where
  "trunc x = (if x \<ge> 0 then \<lfloor>x\<rfloor> else \<lceil>x\<rceil>)"

text \<open>\<^verbatim>\<open>Duration.Seconds\<close>.\<close>

definition Seconds :: "duration \<Rightarrow> rat" where
  "Seconds d = fadd (float_of_int (quot d second)) (fdiv (float_of_int (rem d second)) 1000000000)"

section \<open>Powers of two and the binary logarithm\<close>

lemma pow2_pos [simp]: "0 < pow2 e"
  by (simp add: pow2_def)

lemma pow2_nonneg [simp]: "0 \<le> pow2 e" "pow2 e \<noteq> 0"
  using pow2_pos [of e] by (auto simp: less_imp_le simp del: pow2_pos)

lemma bitlen_ge_one: "0 < n \<Longrightarrow> 1 \<le> bitlen n"
  using bitlen_bounds [of n] by (cases "bitlen n \<le> 0") auto

lemma pow2_add: "pow2 (a + b) = pow2 a * pow2 b"
proof -
  have p: "pow2 e = 2 powi e" for e
    by (cases "e \<ge> 0") (simp_all add: pow2_def power_int_def inverse_eq_divide power_one_over)
  show ?thesis unfolding p by (simp add: power_int_add)
qed

lemma pow2_of_nat [simp]: "pow2 (int n) = 2 ^ n"
  by (simp add: pow2_def)

lemma pow2_numeral_exps [simp]: "pow2 0 = 1" "pow2 1 = 2"
  by (simp_all add: pow2_def)

lemma pow2_mono: "a \<le> b \<Longrightarrow> pow2 a \<le> pow2 b"
proof -
  assume "a \<le> b"
  then have "pow2 b = pow2 a * 2 ^ nat (b - a)"
    using pow2_add [of a "b - a"] by (simp add: pow2_def)
  moreover have "(1::rat) \<le> 2 ^ nat (b - a)" by simp
  ultimately show ?thesis using mult_left_mono [of 1 "2 ^ nat (b - a)" "pow2 a"] by simp
qed

lemma pow2_strict_mono: "a < b \<Longrightarrow> pow2 a < pow2 b"
proof -
  assume "a < b"
  then have "pow2 (a + 1) \<le> pow2 b" by (intro pow2_mono) simp
  moreover have "pow2 a < pow2 (a + 1)" by (simp add: pow2_add)
  ultimately show ?thesis by linarith
qed

lemma ilog2_bounds:
  assumes "0 < x"
  shows "pow2 (ilog2 x) \<le> x \<and> x < pow2 (ilog2 x + 1)"
proof (cases "x \<ge> 1")
  case True
  let ?n = "\<lfloor>x\<rfloor>"
  have "?n > 0" using True by (simp add: less_le_trans [OF zero_less_one])
  from bitlen_bounds [OF this] have b: "2 ^ nat (bitlen ?n - 1) \<le> ?n" "?n < 2 ^ nat (bitlen ?n)" by auto
  have bl: "bitlen ?n \<ge> 1" using \<open>?n > 0\<close> by (rule bitlen_ge_one)
  have "(2::rat) ^ nat (bitlen ?n - 1) \<le> of_int ?n" using b(1) by (metis of_int_le_iff of_int_numeral of_int_power)
  also have "\<dots> \<le> x" by simp
  finally have lo: "(2::rat) ^ nat (bitlen ?n - 1) \<le> x" .
  have "x < of_int (?n + 1)" by linarith
  also have "\<dots> \<le> of_int (2 ^ nat (bitlen ?n))" using b(2) by (simp only: of_int_le_iff)
  finally have "x < 2 ^ nat (bitlen ?n)" by simp
  with lo True bl show ?thesis by (simp add: ilog2_def pow2_def)
next
  case False
  let ?m = "\<lceil>1 / x\<rceil> - 1"
  have inv: "1 < 1 / x" using assms False by simp
  then have m: "?m > 0" by (simp add: less_ceiling_iff)
  from bitlen_bounds [OF this] have b: "2 ^ nat (bitlen ?m - 1) \<le> ?m" "?m < 2 ^ nat (bitlen ?m)" by auto
  have bl: "bitlen ?m \<ge> 1" using m by (rule bitlen_ge_one)
  have "1 / x \<le> of_int (?m + 1)" by simp
  also have "\<dots> \<le> of_int (2 ^ nat (bitlen ?m))" using b(2) by (simp only: of_int_le_iff)
  finally have "1 / x \<le> 2 ^ nat (bitlen ?m)" by simp
  then have lo: "1 / 2 ^ nat (bitlen ?m) \<le> x" using assms by (simp add: field_simps)
  have "(2::rat) ^ nat (bitlen ?m - 1) \<le> of_int ?m" using b(1) by (metis of_int_le_iff of_int_numeral of_int_power)
  also have "\<dots> < 1 / x" by (meson ceiling_less_iff less_ceiling_iff zle_diff1_eq order_refl)
  finally have "x < 1 / 2 ^ nat (bitlen ?m - 1)" using assms by (simp add: field_simps)
  with lo False bl show ?thesis
    by (auto simp: ilog2_def pow2_def nat_diff_distrib' algebra_simps split: if_splits)
qed

lemma ilog2_mono:
  assumes "0 < x" and "x \<le> y"
  shows "ilog2 x \<le> ilog2 y"
proof (rule ccontr)
  assume "\<not> ?thesis"
  then have "pow2 (ilog2 y + 1) \<le> pow2 (ilog2 x)" by (intro pow2_mono) simp
  with ilog2_bounds [OF assms(1)] ilog2_bounds [of y] assms show False by linarith
qed

section \<open>Rounding is monotone and exact where it can be\<close>

lemma round_even_of_int [simp]: "round_even (of_int k) = k"
  by (simp add: round_even_def)

lemma round_even_bounds: "\<lfloor>x\<rfloor> \<le> round_even x" "round_even x \<le> \<lceil>x\<rceil>"
proof -
  show "\<lfloor>x\<rfloor> \<le> round_even x" by (simp add: round_even_def Let_def)
  have "\<lfloor>x\<rfloor> + 1 \<le> \<lceil>x\<rceil>" if "x - of_int \<lfloor>x\<rfloor> \<noteq> 0"
    using that by (metis ceiling_altdef diff_self order_refl)
  then show "round_even x \<le> \<lceil>x\<rceil>"
    by (force simp: round_even_def Let_def not_less intro: floor_le_ceiling)
qed

lemma round_even_mono:
  assumes "x \<le> y"
  shows "round_even x \<le> round_even y"
proof (cases "\<lfloor>x\<rfloor> = \<lfloor>y\<rfloor>")
  case True
  then show ?thesis using assms by (auto simp: round_even_def Let_def)
next
  case False
  then have "\<lfloor>x\<rfloor> + 1 \<le> \<lfloor>y\<rfloor>" using assms floor_mono [OF assms] by linarith
  then have "\<lceil>x\<rceil> \<le> \<lfloor>y\<rfloor>" by (simp add: ceiling_altdef)
  then show ?thesis using round_even_bounds [of x] round_even_bounds [of y] by linarith
qed

lemma fl64_nonneg: "0 \<le> x \<Longrightarrow> 0 \<le> fl64 x"
proof (cases "x = 0")
  case False
  assume "0 \<le> x"
  then have "0 \<le> \<lfloor>x / pow2 (ilog2 \<bar>x\<bar> - 52)\<rfloor>" by (simp add: divide_nonneg_pos)
  then have "0 \<le> round_even (x / pow2 (ilog2 \<bar>x\<bar> - 52))"
    using round_even_bounds(1) order_trans by blast
  then show ?thesis
    using False
    by (simp add: fl64_def Let_def)
qed (simp add: fl64_def)

text \<open>A positive value rounds to a value of its own binade or to the start of the next.\<close>

lemma fl64_binade:
  assumes "0 < x"
  shows "pow2 (ilog2 x) \<le> fl64 x" "fl64 x \<le> pow2 (ilog2 x + 1)"
proof -
  let ?e = "ilog2 x - 52"
  have lo: "(2::rat) ^ 52 \<le> x / pow2 ?e" and hi: "x / pow2 ?e \<le> 2 ^ 53"
    using ilog2_bounds [OF assms] pow2_add [of ?e 52] pow2_add [of ?e 53] pow2_of_nat [of 52] pow2_of_nat [of 53]
    by (simp_all add: field_simps)
  have l: "(2::int) ^ 52 \<le> round_even (x / pow2 ?e)"
    using round_even_mono [OF lo] round_even_of_int [of "2 ^ 52"] by simp
  have h: "round_even (x / pow2 ?e) \<le> (2::int) ^ 53"
    using round_even_mono [OF hi] round_even_of_int [of "2 ^ 53"] by simp
  have fl: "fl64 x = of_int (round_even (x / pow2 ?e)) * pow2 ?e"
    using assms by (simp add: fl64_def Let_def)
  have "(2::rat) ^ 52 * pow2 ?e \<le> fl64 x"
    unfolding fl using l by (intro mult_right_mono) (metis of_int_le_iff of_int_numeral of_int_power, simp)
  then show "pow2 (ilog2 x) \<le> fl64 x"
    using pow2_add [of ?e 52] pow2_of_nat [of 52] by (simp add: mult.commute)
  have "fl64 x \<le> 2 ^ 53 * pow2 ?e"
    unfolding fl using h by (intro mult_right_mono) (metis of_int_le_iff of_int_numeral of_int_power, simp)
  then show "fl64 x \<le> pow2 (ilog2 x + 1)"
    using pow2_add [of ?e 53] pow2_of_nat [of 53] by (simp add: mult.commute add.commute)
qed

lemma fl64_mono:
  assumes "0 \<le> x" and "x \<le> y"
  shows "fl64 x \<le> fl64 y"
proof (cases "x = 0")
  case True
  then show ?thesis using assms fl64_nonneg [of y] by (simp add: fl64_def)
next
  case False
  then have pos: "0 < x" "0 < y" using assms by auto
  show ?thesis
  proof (cases "ilog2 x = ilog2 y")
    case True
    let ?e = "ilog2 x - 52"
    have "x / pow2 ?e \<le> y / pow2 ?e" using assms(2) by (simp add: divide_right_mono less_imp_le)
    then have "round_even (x / pow2 ?e) \<le> round_even (y / pow2 ?e)" by (rule round_even_mono)
    then show ?thesis
      using pos True by (simp add: fl64_def Let_def mult_right_mono less_imp_le)
  next
    case False
    then have "ilog2 x + 1 \<le> ilog2 y" using ilog2_mono [OF pos(1) assms(2)] by linarith
    then have "pow2 (ilog2 x + 1) \<le> pow2 (ilog2 y)" by (rule pow2_mono)
    then show ?thesis using fl64_binade [OF pos(1)] fl64_binade [OF pos(2)] by linarith
  qed
qed

lemma fl64_of_int:
  assumes "0 \<le> k" and "k \<le> 2 ^ 53"
  shows "fl64 (of_int k) = of_int k"
proof (cases "k = 0")
  case False
  then have pos: "(0::rat) < of_int k" using assms(1) by simp
  let ?e = "ilog2 (of_int k) - 52"
  have e: "?e \<le> 1"
  proof (rule ccontr)
    assume "\<not> ?e \<le> 1"
    then have "pow2 54 \<le> pow2 (ilog2 (of_int k))" by (intro pow2_mono) simp
    also have "\<dots> \<le> of_int k" using ilog2_bounds [OF pos] by simp
    also have "\<dots> \<le> of_int (2 ^ 53)" using assms(2) by (simp only: of_int_le_iff)
    finally show False using pow2_of_nat [of 54] by simp
  qed
  have "\<exists>q. of_int k / pow2 ?e = of_int q"
  proof (cases "?e \<le> 0")
    case True
    then have "of_int k / pow2 ?e = of_int (k * 2 ^ nat (- ?e))"
      by (cases "?e = 0") (simp_all add: pow2_def)
    then show ?thesis by blast
  next
    case False
    with e have e1: "?e = 1" by simp
    then have "pow2 53 \<le> of_int k" using ilog2_bounds [OF pos] by simp
    then have "of_int (2 ^ 53) \<le> (of_int k :: rat)" using pow2_of_nat [of 53] by simp
    then have "2 ^ 53 \<le> k" by (simp only: of_int_le_iff)
    then have "k = 2 ^ 53" using assms(2) by linarith
    then have "of_int k / pow2 ?e = of_int (2 ^ 52 :: int)" using e1 by simp
    then show ?thesis by blast
  qed
  then obtain q where q: "of_int k / pow2 ?e = of_int q" by blast
  then have "of_int q * pow2 ?e = of_int k" by (simp add: divide_eq_eq)
  then show ?thesis using pos q by (simp add: fl64_def Let_def)
qed (simp add: fl64_def)

lemma float_of_int_exact: "0 \<le> k \<Longrightarrow> k \<le> 2 ^ 53 \<Longrightarrow> float_of_int k = of_int k"
  by (simp add: float_of_int_def fl64_of_int)

lemma fmul_nonneg: "0 \<le> x \<Longrightarrow> 0 \<le> y \<Longrightarrow> 0 \<le> fmul x y"
  by (simp add: fmul_def fl64_nonneg)

text \<open>A duration of whole seconds is converted exactly.\<close>

lemma Seconds_whole:
  assumes "0 \<le> s" and "s \<le> 2 ^ 53"
  shows "Seconds (s * second) = of_int s"
  using assms
  by (cases "s = 0")
     (simp_all add: Seconds_def quot_def rem_def second_def float_of_int_exact fdiv_def fadd_def
       fl64_of_int sgn_mult fl64_def [of 0])

end
