(* ===== verification/Dhcpv4_Message.thy ===== *)
theory Dhcpv4_Message
  imports Prelude
begin

text \<open>
  The DHCPv4 wire format: \<^verbatim>\<open>internal/dhcpv4/consts\<close>, \<^verbatim>\<open>internal/dhcpv4/errors\<close>
  and \<^verbatim>\<open>internal/dhcpv4/parser/message.go\<close>.  A datagram is a list of bytes, a
  \<^verbatim>\<open>net.IP\<close> the list of its bytes (nil and the empty slice are both \<open>[]\<close>), and the
  option table a partial map from option codes.  The loop of \<^verbatim>\<open>ParseMessage\<close> over the
  index \<^verbatim>\<open>idx\<close> is recursion over the bytes that are left.
\<close>

section \<open>Constants and errors\<close>

definition DHCPMagicCookie :: u32 where "DHCPMagicCookie = 0x63825363"

definition OpBootRequest :: byte where "OpBootRequest = 1"
definition OpBootReply :: byte where "OpBootReply = 2"

definition MessageTypeDiscover :: byte where "MessageTypeDiscover = 1"
definition MessageTypeOffer :: byte where "MessageTypeOffer = 2"
definition MessageTypeRequest :: byte where "MessageTypeRequest = 3"
definition MessageTypeDecline :: byte where "MessageTypeDecline = 4"
definition MessageTypeAck :: byte where "MessageTypeAck = 5"
definition MessageTypeNak :: byte where "MessageTypeNak = 6"
definition MessageTypeRelease :: byte where "MessageTypeRelease = 7"
definition MessageTypeInform :: byte where "MessageTypeInform = 8"

lemmas message_type_defs =
  MessageTypeDiscover_def MessageTypeOffer_def MessageTypeRequest_def MessageTypeDecline_def
  MessageTypeAck_def MessageTypeNak_def MessageTypeRelease_def MessageTypeInform_def

definition OptionRequestedIPAddress :: byte where "OptionRequestedIPAddress = 50"
definition OptionIPAddressLeaseTime :: byte where "OptionIPAddressLeaseTime = 51"
definition OptionDHCPMessageType :: byte where "OptionDHCPMessageType = 53"
definition OptionServerIdentifier :: byte where "OptionServerIdentifier = 54"
definition OptionMessage :: byte where "OptionMessage = 56"
definition OptionRenewalTime :: byte where "OptionRenewalTime = 58"
definition OptionRebindingTime :: byte where "OptionRebindingTime = 59"
definition OptionVendorClass :: byte where "OptionVendorClass = 60"
definition OptionClientIdentifier :: byte where "OptionClientIdentifier = 61"
definition OptionUserClass :: byte where "OptionUserClass = 77"
definition OptionRelayAgentInfo :: byte where "OptionRelayAgentInfo = 82"
definition OptionVendorVIVendorInfo :: byte where "OptionVendorVIVendorInfo = 125"

lemmas option_code_defs =
  OptionRequestedIPAddress_def OptionIPAddressLeaseTime_def OptionDHCPMessageType_def
  OptionServerIdentifier_def OptionMessage_def OptionRenewalTime_def OptionRebindingTime_def
  OptionVendorClass_def OptionClientIdentifier_def OptionUserClass_def OptionRelayAgentInfo_def
  OptionVendorVIVendorInfo_def

datatype error_code =
  CodeOption82Invalid | CodeIPConflict | CodeRateLimited | CodeRelayRejected | CodeMalformedPacket

text \<open>\<^verbatim>\<open>Wrap(code, msg, err)\<close>: the code, the message and the text of the cause.\<close>

datatype dhcpv4_error = WrapErr error_code string string

primrec code_text :: "error_code \<Rightarrow> string" where
  "code_text CodeOption82Invalid = ''ErrOption82Invalid''"
| "code_text CodeIPConflict = ''ErrIPConflict''"
| "code_text CodeRateLimited = ''ErrRateLimited''"
| "code_text CodeRelayRejected = ''ErrRelayRejected''"
| "code_text CodeMalformedPacket = ''ErrMalformedPacket''"

primrec error_text :: "dhcpv4_error \<Rightarrow> string" where
  "error_text (WrapErr c msg cause) = code_text c @ '': '' @ msg @ '': '' @ cause"

abbreviation malformed :: "string \<Rightarrow> string \<Rightarrow> dhcpv4_error" where
  "malformed msg cause \<equiv> WrapErr CodeMalformedPacket msg cause"

section \<open>Messages\<close>

type_synonym options = "byte \<rightharpoonup> bytes"

record message =
  Op :: byte
  HType :: byte
  HLen :: byte
  Hops :: byte
  XID :: u32
  Secs :: u16
  Flags :: u16
  CIAddr :: bytes
  YIAddr :: bytes
  SIAddr :: bytes
  GIAddr :: bytes
  CHAddr :: bytes
  SName :: bytes
  File :: bytes
  Options :: options

text \<open>\<^verbatim>\<open>net.IP.To4\<close>: \<open>[]\<close> is Go's nil.\<close>

definition ip_to4 :: "bytes \<Rightarrow> bytes" where
  "ip_to4 ip =
     (if length ip = 4 then ip
      else if length ip = 16 \<and> take 10 ip = replicate 10 0 \<and> ip ! 10 = 255 \<and> ip ! 11 = 255
      then drop 12 ip else [])"

definition PadIP :: "bytes \<Rightarrow> bytes" where
  "PadIP ip = (if ip = [] then [0, 0, 0, 0]
     else let v4 = ip_to4 ip in if v4 \<noteq> [] then v4 else [0, 0, 0, 0])"

section \<open>Parsing\<close>

function parse_options :: "bytes \<Rightarrow> options \<Rightarrow> dhcpv4_error + options" where
  "parse_options data opts =
     (case data of
        [] \<Rightarrow> Inr opts
      | code # rest \<Rightarrow>
          if code = 0 then parse_options rest opts
          else if code = 255 then Inr opts
          else (case rest of
              [] \<Rightarrow> Inl (malformed ''malformed options'' ''malformed options'')
            | len # body \<Rightarrow>
                if unat len > length body
                then Inl (malformed ''truncated option'' ''truncated option'')
                else parse_options (drop (unat len) body)
                       (opts(code \<mapsto> take (unat len) body))))"
  by pat_completeness auto
termination
  by (relation "measure (\<lambda>(data, opts). length data)") auto

declare parse_options.simps [simp del]

definition ParseMessage :: "bytes \<Rightarrow> dhcpv4_error + message" where
  "ParseMessage data =
     (if length data < 240
      then Inl (malformed ''dhcpv4 packet too short'' ''packet too short'')
      else
        let hlen = data ! 2; chEnd = 28 + unat hlen in
        if chEnd > length data
        then Inl (malformed ''invalid chaddr length'' ''invalid chaddr length'')
        else if get32 (slice 236 240 data) \<noteq> DHCPMagicCookie
        then Inl (malformed ''bad magic cookie'' ''bad magic cookie'')
        else
          (case parse_options (drop 240 data) Map.empty of
             Inl e \<Rightarrow> Inl e
           | Inr opts \<Rightarrow> Inr
               \<lparr> Op = data ! 0, HType = data ! 1, HLen = hlen, Hops = data ! 3,
                 XID = get32 (slice 4 8 data), Secs = get16 (slice 8 10 data),
                 Flags = get16 (slice 10 12 data),
                 CIAddr = slice 12 16 data, YIAddr = slice 16 20 data,
                 SIAddr = slice 20 24 data, GIAddr = slice 24 28 data,
                 CHAddr = slice 28 chEnd data,
                 SName = slice 44 108 data, File = slice 108 236 data,
                 Options = opts \<rparr>))"

definition SetOption :: "message \<Rightarrow> byte \<Rightarrow> bytes \<Rightarrow> message" where
  "SetOption m code value = m\<lparr>Options := (Options m)(code \<mapsto> value)\<rparr>"

text \<open>\<^verbatim>\<open>Option\<close> returns nil for an absent code.\<close>

definition get_option :: "message \<Rightarrow> byte \<Rightarrow> bytes" where
  "get_option m code = (case Options m code of None \<Rightarrow> [] | Some v \<Rightarrow> v)"

section \<open>Marshalling\<close>

text \<open>The keys of the option table, sorted as \<^verbatim>\<open>sort.Ints\<close> leaves them.\<close>

definition option_codes :: "options \<Rightarrow> nat list" where
  "option_codes opts = filter (\<lambda>c. opts (of_nat c) \<noteq> None) [0..<256]"

definition option_tlv :: "options \<Rightarrow> nat \<Rightarrow> bytes" where
  "option_tlv opts c =
     (let code = of_nat c :: byte;
          val = (case opts code of None \<Rightarrow> [] | Some v \<Rightarrow> v);
          val = (if length val > 255 then take 255 val else val)
      in code # of_nat (length val) # val)"

definition buildOptions :: "options \<Rightarrow> bytes" where
  "buildOptions opts =
     (if option_codes opts = [] then [255]
      else concat (map (option_tlv opts) (option_codes opts)) @ [255])"

text \<open>
  \<^verbatim>\<open>MarshalBinary\<close> fills in a zero \<^verbatim>\<open>HLen\<close> in the message it is called on, so the
  model returns the message with the bytes.  \<^verbatim>\<open>chaddr_field\<close> is the sixteen-byte field
  the hardware address is copied into.
\<close>

definition chaddr_field :: "bytes \<Rightarrow> bytes" where
  "chaddr_field ch = ch @ replicate (16 - length ch) 0"

definition header_bytes :: "message \<Rightarrow> bytes" where
  "header_bytes m =
     [Op m, HType m, HLen m, Hops m] @ put32 (XID m) @ put16 (Secs m) @ put16 (Flags m)
     @ PadIP (CIAddr m) @ PadIP (YIAddr m) @ PadIP (SIAddr m) @ PadIP (GIAddr m)
     @ chaddr_field (CHAddr m) @ SName m @ File m @ put32 DHCPMagicCookie"

definition fill_hlen :: "message \<Rightarrow> message" where
  "fill_hlen m = (if HLen m = 0 then m\<lparr>HLen := of_nat (length (CHAddr m))\<rparr> else m)"

definition MarshalBinary :: "message \<Rightarrow> string + (message \<times> bytes)" where
  "MarshalBinary m =
     (if length (CHAddr m) > 16 then Inl ''dhcpv4: chaddr too long''
      else let m = fill_hlen m in Inr (m, header_bytes m @ buildOptions (Options m)))"

definition FormatClientID :: "bytes \<Rightarrow> string" where
  "FormatClientID data = concat (map hex_byte data)"

section \<open>Lengths\<close>

lemma length_PadIP [simp, wire]: "length (PadIP ip) = 4"
  by (auto simp: PadIP_def ip_to4_def Let_def)

lemma PadIP_four: "length ip = 4 \<Longrightarrow> PadIP ip = ip"
  by (auto simp: PadIP_def ip_to4_def Let_def)

lemma length_chaddr_field [simp, wire]: "length ch \<le> 16 \<Longrightarrow> length (chaddr_field ch) = 16"
  by (simp add: chaddr_field_def)

text \<open>The arrays of the Go struct have fixed lengths.\<close>

definition fixed_fields :: "message \<Rightarrow> bool" where
  "fixed_fields m \<longleftrightarrow> length (SName m) = 64 \<and> length (File m) = 128"

lemma length_header_bytes [wire]:
  "fixed_fields m \<Longrightarrow> length (CHAddr m) \<le> 16 \<Longrightarrow> length (header_bytes m) = 240"
  by (simp add: header_bytes_def fixed_fields_def)

section \<open>The option table survives the wire\<close>

text \<open>What a marshalled table decodes to: values longer than a length byte can say are cut.\<close>

definition wire_options :: "options \<Rightarrow> options" where
  "wire_options opts c = map_option (take 255) (opts c)"

definition plain_codes :: "options \<Rightarrow> bool" where
  "plain_codes opts \<longleftrightarrow> opts 0 = None \<and> opts 255 = None"

lemma parse_options_end [simp]: "parse_options (255 # rest) opts = Inr opts"
  by (simp add: parse_options.simps)

lemma parse_options_tlv:
  assumes "code \<noteq> 0" and "code \<noteq> 255" and "length val < 256"
  shows "parse_options (code # of_nat (length val) # val @ rest) opts
         = parse_options rest (opts(code \<mapsto> val))"
  using assms by (subst parse_options.simps) (simp add: unat_of_nat)

lemma option_tlv_eq:
  assumes "opts (of_nat c) = Some v"
  shows "option_tlv opts c = of_nat c # of_nat (length (take 255 v)) # take 255 v"
  using assms by (auto simp: option_tlv_def Let_def)

lemma set_option_codes: "c \<in> set (option_codes opts) \<longleftrightarrow> c < 256 \<and> opts (of_nat c) \<noteq> None"
  by (auto simp: option_codes_def)

lemma option_code_plain:
  assumes "plain_codes opts" and "c \<in> set (option_codes opts)"
  shows "(of_nat c :: byte) \<noteq> 0" and "(of_nat c :: byte) \<noteq> 255"
  using assms by (auto simp: plain_codes_def set_option_codes)

lemma parse_options_tlvs:
  assumes "plain_codes opts" and "set cs \<subseteq> set (option_codes opts)"
  shows "parse_options (concat (map (option_tlv opts) cs) @ 255 # rest) acc
         = Inr (acc ++ (wire_options opts |` (of_nat ` set cs)))"
  using assms(2)
proof (induction cs arbitrary: acc)
  case Nil
  then show ?case by simp
next
  case (Cons c cs)
  then obtain v where v: "opts (of_nat c) = Some v" and c: "c \<in> set (option_codes opts)"
    by (auto simp: set_option_codes)
  have "parse_options (concat (map (option_tlv opts) (c # cs)) @ 255 # rest) acc
      = parse_options (concat (map (option_tlv opts) cs) @ 255 # rest) (acc(of_nat c \<mapsto> take 255 v))"
    using option_code_plain [OF assms(1) c] parse_options_tlv [of "of_nat c" "take 255 v"]
    by (simp add: option_tlv_eq [of opts c v] v)
  also have "\<dots> = Inr (acc(of_nat c \<mapsto> take 255 v) ++ (wire_options opts |` (of_nat ` set cs)))"
    using Cons.prems by (intro Cons.IH) simp
  also have "acc(of_nat c \<mapsto> take 255 v) ++ (wire_options opts |` (of_nat ` set cs))
      = acc ++ (wire_options opts |` (of_nat ` set (c # cs)))"
    by (rule ext) (auto simp: map_add_def restrict_map_def wire_options_def v split: option.splits)
  finally show ?case .
qed

lemma option_codes_cover: "wire_options opts |` (of_nat ` set (option_codes opts)) = wire_options opts"
proof (rule ext)
  fix b :: byte
  have "b \<in> of_nat ` set (option_codes opts)" if "opts b \<noteq> None"
    using that by (intro image_eqI [of _ _ "unat b"]) (auto simp: set_option_codes)
  then show "(wire_options opts |` (of_nat ` set (option_codes opts))) b = wire_options opts b"
    by (cases "opts b") (auto simp: restrict_map_def wire_options_def)
qed

lemma parse_buildOptions [wire]:
  assumes "plain_codes opts"
  shows "parse_options (buildOptions opts) Map.empty = Inr (wire_options opts)"
proof -
  have "buildOptions opts = concat (map (option_tlv opts) (option_codes opts)) @ [255]"
    by (auto simp: buildOptions_def)
  then show ?thesis
    using parse_options_tlvs [OF assms subset_refl, of "[]" Map.empty]
    by (simp add: option_codes_cover)
qed

text \<open>Every table the parser accepts is one the encoder can carry unchanged.\<close>

definition wire_table :: "options \<Rightarrow> bool" where
  "wire_table opts \<longleftrightarrow> plain_codes opts \<and> (\<forall>c v. opts c = Some v \<longrightarrow> length v < 256)"

lemma wire_options_id:
  assumes "wire_table opts"
  shows "wire_options opts = opts"
proof (rule ext)
  fix c
  show "wire_options opts c = opts c"
    using assms by (cases "opts c") (auto simp: wire_table_def wire_options_def less_Suc_eq_le numeral_eq_Suc)
qed

lemma parse_options_wire_table:
  "parse_options data acc = Inr opts \<Longrightarrow> wire_table acc \<Longrightarrow> wire_table opts"
proof (induction data acc rule: parse_options.induct)
  case (1 data acc)
  show ?case
  proof (cases data)
    case Nil
    with "1.prems" show ?thesis by (simp add: parse_options.simps)
  next
    case (Cons code rest)
    note data = Cons
    show ?thesis
    proof (cases "code = 0 \<or> code = 255")
      case True
      with "1.prems" data have "code = 0 \<and> parse_options rest acc = Inr opts \<or> opts = acc"
        by (auto simp: parse_options.simps [of "_ # _"])
      with "1.IH"(1) [OF data] "1.prems"(2) show ?thesis by auto
    next
      case False
      then obtain len body where rest: "rest = len # body" and le: "unat len \<le> length body"
        and p: "parse_options (drop (unat len) body) (acc(code \<mapsto> take (unat len) body)) = Inr opts"
        using "1.prems"(1) data
        by (auto simp: parse_options.simps [of "_ # _"] split: list.splits if_splits)
      have "wire_table (acc(code \<mapsto> take (unat len) body))"
        using "1.prems"(2) False unat_byte_bound [of len] le
        by (auto simp: wire_table_def plain_codes_def min_def)
      with "1.IH"(2) [OF data _ _ rest] False p le show ?thesis by (simp add: fun_upd_def)
    qed
  qed
qed

section \<open>The header survives the wire\<close>

lemma header_layout:
  assumes "fixed_fields m" and "length (CHAddr m) \<le> 16"
  shows "header_bytes m ! 0 = Op m" "header_bytes m ! 1 = HType m"
    "header_bytes m ! 2 = HLen m" "header_bytes m ! 3 = Hops m"
    "slice 4 8 (header_bytes m) = put32 (XID m)"
    "slice 8 10 (header_bytes m) = put16 (Secs m)"
    "slice 10 12 (header_bytes m) = put16 (Flags m)"
    "slice 12 16 (header_bytes m) = PadIP (CIAddr m)"
    "slice 16 20 (header_bytes m) = PadIP (YIAddr m)"
    "slice 20 24 (header_bytes m) = PadIP (SIAddr m)"
    "slice 24 28 (header_bytes m) = PadIP (GIAddr m)"
    "slice 28 (28 + length (CHAddr m)) (header_bytes m) = CHAddr m"
    "slice 44 108 (header_bytes m) = SName m"
    "slice 108 236 (header_bytes m) = File m"
    "slice 236 240 (header_bytes m) = put32 DHCPMagicCookie"
  using assms by (simp_all add: header_bytes_def slice_def fixed_fields_def chaddr_field_def)

lemma slice_append_left: "j \<le> length xs \<Longrightarrow> slice i j (xs @ ys) = slice i j xs"
  by (cases "i \<le> j") (auto simp: slice_def)

text \<open>What a datagram marshalled from \<open>m\<close> parses to.\<close>

definition wire_message :: "message \<Rightarrow> message" where
  "wire_message m = m\<lparr>CIAddr := PadIP (CIAddr m), YIAddr := PadIP (YIAddr m),
     SIAddr := PadIP (SIAddr m), GIAddr := PadIP (GIAddr m), Options := wire_options (Options m)\<rparr>"

lemma parse_header_options:
  assumes ff: "fixed_fields m" and ch: "length (CHAddr m) \<le> 16"
    and hlen: "unat (HLen m) = length (CHAddr m)"
    and opts: "parse_options ob Map.empty = Inr opts"
  shows "ParseMessage (header_bytes m @ ob)
         = Inr ((wire_message m)\<lparr>Options := opts\<rparr>)"
proof -
  note len = length_header_bytes [OF ff ch]
  note lay = header_layout [OF ff ch]
  let ?d = "header_bytes m @ ob"
  have nth: "?d ! i = header_bytes m ! i" if "i < 240" for i
    using that len by (simp add: nth_append)
  have sl: "slice i j ?d = slice i j (header_bytes m)" if "j \<le> 240" for i j
    using that len by (simp add: slice_append_left)
  have cookie: "get32 (put32 DHCPMagicCookie) = DHCPMagicCookie"
    and xid: "get32 (put32 (XID m)) = XID m" and secs: "get16 (put16 (Secs m)) = Secs m"
    and flags: "get16 (put16 (Flags m)) = Flags m"
    using get32_put32 [of _ "[]"] get16_put16 [of _ "[]"] by simp_all
  have chsl: "slice 28 (28 + unat (HLen m)) ?d = CHAddr m"
    using sl [of "28 + length (CHAddr m)" 28] ch lay(12) hlen by simp
  have "ParseMessage ?d = Inr \<lparr> Op = Op m, HType = HType m, HLen = HLen m, Hops = Hops m,
      XID = XID m, Secs = Secs m, Flags = Flags m, CIAddr = PadIP (CIAddr m),
      YIAddr = PadIP (YIAddr m), SIAddr = PadIP (SIAddr m), GIAddr = PadIP (GIAddr m),
      CHAddr = CHAddr m, SName = SName m, File = File m, Options = opts \<rparr>"
    using len ch lay(2)
    by (simp add: ParseMessage_def Let_def nth sl lay cookie opts hlen xid secs flags
        chsl [unfolded hlen])
  then show ?thesis by (cases m) (simp add: wire_message_def)
qed

section \<open>Properties\<close>

definition wire_ready :: "message \<Rightarrow> bool" where
  "wire_ready m \<longleftrightarrow> fixed_fields m \<and> length (CHAddr m) \<le> 16
     \<and> (HLen m = 0 \<or> unat (HLen m) = length (CHAddr m)) \<and> plain_codes (Options m)"

text \<open>C10: a message whose hardware address fits the field and whose table uses no PAD or END
  code is marshalled without error, and the bytes parse back to the same message, with the
  addresses padded to four bytes and option values cut to 255 bytes.\<close>

theorem marshal_parse_roundtrip:
  assumes "wire_ready m"
  shows "\<exists>m' bs. MarshalBinary m = Inr (m', bs) \<and> ParseMessage bs = Inr (wire_message m')
           \<and> unat (HLen m') = length (CHAddr m) \<and> m' = m\<lparr>HLen := HLen m'\<rparr>"
proof -
  let ?m = "fill_hlen m"
  have ff: "fixed_fields ?m" and ch: "length (CHAddr ?m) \<le> 16" and pl: "plain_codes (Options ?m)"
    and same: "CHAddr ?m = CHAddr m" and upd: "?m = m\<lparr>HLen := HLen ?m\<rparr>"
    using assms by (auto simp: wire_ready_def fixed_fields_def fill_hlen_def)
  have hl: "unat (HLen ?m) = length (CHAddr ?m)"
    using assms by (auto simp: wire_ready_def unat_of_nat fill_hlen_def)
  have "MarshalBinary m = Inr (?m, header_bytes ?m @ buildOptions (Options ?m))"
    using assms by (simp add: MarshalBinary_def Let_def wire_ready_def)
  moreover have "ParseMessage (header_bytes ?m @ buildOptions (Options ?m)) = Inr (wire_message ?m)"
    using parse_header_options [OF ff ch hl parse_buildOptions [OF pl]]
    by (simp add: wire_message_def)
  ultimately show ?thesis using hl same upd by (intro exI conjI) auto
qed

definition example_message :: message where
  "example_message = \<lparr> Op = 1, HType = 1, HLen = 6, Hops = 0, XID = 0x3903F326, Secs = 0,
     Flags = 0x8000, CIAddr = [], YIAddr = [], SIAddr = [], GIAddr = [10, 0, 0, 1],
     CHAddr = [0, 5, 60, 4, 141, 89], SName = replicate 64 0, File = replicate 128 0,
     Options = [53 \<mapsto> [1], 61 \<mapsto> [1, 0, 5, 60, 4, 141, 89]] \<rparr>"

theorem marshal_parse_roundtrip_witness:
  "\<exists>m' bs. MarshalBinary example_message = Inr (m', bs) \<and> ParseMessage bs = Inr (wire_message m')
     \<and> unat (HLen m') = 6 \<and> m' = example_message\<lparr>HLen := HLen m'\<rparr>"
proof -
  have "wire_ready example_message"
    by (simp add: wire_ready_def example_message_def fixed_fields_def plain_codes_def)
  moreover have "length (CHAddr example_message) = 6" by (simp add: example_message_def)
  ultimately show ?thesis using marshal_parse_roundtrip [of example_message] by simp
qed

lemma ParseMessage_shape:
  assumes "ParseMessage data = Inr m"
  shows "fixed_fields m" "length (CHAddr m) = unat (HLen m)" "wire_table (Options m)"
    "length (CIAddr m) = 4" "length (YIAddr m) = 4" "length (SIAddr m) = 4" "length (GIAddr m) = 4"
proof -
  have "wire_table Map.empty" by (simp add: wire_table_def plain_codes_def)
  with assms show "wire_table (Options m)"
    by (auto simp: ParseMessage_def Let_def split: if_splits sum.splits
        intro: parse_options_wire_table)
qed (use assms in \<open>auto simp: ParseMessage_def Let_def fixed_fields_def split: if_splits sum.splits\<close>)

lemma wire_message_id:
  assumes "ParseMessage data = Inr m"
  shows "wire_message m = m"
  using ParseMessage_shape [OF assms]
  by (simp add: wire_message_def PadIP_four wire_options_id)

text \<open>A datagram the parser accepts can be sent on unchanged exactly when it announces a
  hardware address of at most sixteen bytes.  The parser itself accepts any announced length
  that lies inside the datagram, and such a message is then refused by the encoder.\<close>

theorem accepted_message_reencodes:
  assumes "ParseMessage data = Inr m"
  shows "if unat (HLen m) \<le> 16
         then \<exists>bs. MarshalBinary m = Inr (m, bs) \<and> ParseMessage bs = Inr m
         else MarshalBinary m = Inl ''dhcpv4: chaddr too long''"
proof (cases "unat (HLen m) \<le> 16")
  case True
  note sh = ParseMessage_shape [OF assms]
  have "fill_hlen m = m"
    using sh(2) by (cases m) (auto simp: fill_hlen_def)
  then have "MarshalBinary m = Inr (m, header_bytes m @ buildOptions (Options m))"
    using True sh(2) by (simp add: MarshalBinary_def Let_def)
  moreover have "ParseMessage (header_bytes m @ buildOptions (Options m)) = Inr m"
  proof -
    have ch: "length (CHAddr m) \<le> 16" and pl: "plain_codes (Options m)"
      using True sh(2,3) by (auto simp: wire_table_def)
    have "ParseMessage (header_bytes m @ buildOptions (Options m))
        = Inr ((wire_message m)\<lparr>Options := wire_options (Options m)\<rparr>)"
      by (rule parse_header_options [OF sh(1) ch sh(2) [symmetric] parse_buildOptions [OF pl]])
    then show ?thesis by (simp add: wire_message_id [OF assms] wire_options_id [OF sh(3)])
  qed
  ultimately show ?thesis using True by simp
next
  case False
  then show ?thesis using ParseMessage_shape(2) [OF assms] by (simp add: MarshalBinary_def)
qed

definition example_datagram :: bytes where
  "example_datagram = [1, 1, 17, 0] @ replicate 232 0 @ [0x63, 0x82, 0x53, 0x63] @ [53, 1, 1, 255]"

theorem accepted_message_reencodes_witness:
  "\<exists>m. ParseMessage example_datagram = Inr m \<and> HLen m = 17
     \<and> MarshalBinary m = Inl ''dhcpv4: chaddr too long''"
proof -
  have "\<exists>m. ParseMessage example_datagram = Inr m \<and> HLen m = 17"
    by (simp add: ParseMessage_def example_datagram_def Let_def slice_def DHCPMagicCookie_def
        be32_def parse_options.simps replicate_eq_replicate)
  then obtain m where m: "ParseMessage example_datagram = Inr m" "HLen m = 17" by blast
  with accepted_message_reencodes [OF m(1)] show ?thesis by auto
qed

end
