(* ===== verification/Dhcpv4_Option.thy ===== *)
theory Dhcpv4_Option
  imports Dhcpv4_Message
begin

text \<open>
  \<^verbatim>\<open>internal/dhcpv4/option/option.go\<close>: the relay agent information option (option 82),
  its validator, the user class option and the small encoders.  The validator's sets are
  sets of strings; a nil map and an empty map behave alike there (\<^verbatim>\<open>len\<close> is 0 for
  both).  The parse loop over the index \<^verbatim>\<open>i\<close> is recursion over the bytes that are
  left, with the index kept for the error text.
\<close>

section \<open>Definitions\<close>

definition Option82SubOptionCircuitID :: byte where "Option82SubOptionCircuitID = 1"
definition Option82SubOptionRemoteID :: byte where "Option82SubOptionRemoteID = 2"
definition Option82SubOptionSubscriberID :: byte where "Option82SubOptionSubscriberID = 6"

lemmas suboption_code_defs =
  Option82SubOptionCircuitID_def Option82SubOptionRemoteID_def Option82SubOptionSubscriberID_def

record option82_policy =
  Enabled :: bool
  CircuitIDAllow :: "string list"
  CircuitIDDeny :: "string list"
  RemoteIDAllow :: "string list"
  RemoteIDDeny :: "string list"

record option82_parsed =
  CircuitID :: string
  RemoteID :: string
  SubscriberID :: string

definition empty_parsed :: option82_parsed where
  "empty_parsed = \<lparr>CircuitID = [], RemoteID = [], SubscriberID = []\<rparr>"

record validator =
  enabled :: bool
  circuitIDAllow :: "string set"
  circuitIDDeny :: "string set"
  remoteIDAllow :: "string set"
  remoteIDDeny :: "string set"

fun normalizeSet :: "string list \<Rightarrow> string set" where
  "normalizeSet [] = {}"
| "normalizeSet (v # vs) =
     (let trimmed = trim_space v in
      if trimmed = [] then normalizeSet vs else insert trimmed (normalizeSet vs))"

definition NewOption82Validator :: "option82_policy \<Rightarrow> validator" where
  "NewOption82Validator policy =
     \<lparr>enabled = Enabled policy,
      circuitIDAllow = normalizeSet (CircuitIDAllow policy),
      circuitIDDeny = normalizeSet (CircuitIDDeny policy),
      remoteIDAllow = normalizeSet (RemoteIDAllow policy),
      remoteIDDeny = normalizeSet (RemoteIDDeny policy)\<rparr>"

definition matchDeny :: "string \<Rightarrow> string set \<Rightarrow> bool" where
  "matchDeny value deny \<longleftrightarrow> (if deny = {} then False else trim_space value \<in> deny)"

definition matchAllow :: "string \<Rightarrow> string set \<Rightarrow> bool" where
  "matchAllow value allow \<longleftrightarrow> (if allow = {} then True else trim_space value \<in> allow)"

abbreviation opt82_invalid :: "string \<Rightarrow> string \<Rightarrow> dhcpv4_error" where
  "opt82_invalid msg cause \<equiv> WrapErr CodeOption82Invalid msg cause"

text \<open>\<^verbatim>\<open>Validate\<close>: \<open>None\<close> is the nil error, and the receiver may be nil.\<close>

definition Validate ::
  "validator option \<Rightarrow> bool \<Rightarrow> string \<Rightarrow> string \<Rightarrow> string \<Rightarrow> dhcpv4_error option" where
  "Validate v present parseErr circuitID remoteID =
     (if present \<and> trim_space parseErr \<noteq> []
      then Some (opt82_invalid ''invalid option82 format''
                   (''ErrOption82Invalid: dhcpv4 option82 invalid: '' @ parseErr))
      else case v of
        None \<Rightarrow> None
      | Some v \<Rightarrow>
          if \<not> enabled v \<or> \<not> present then None
          else if matchDeny circuitID (circuitIDDeny v)
          then Some (opt82_invalid ''option82 circuit-id denied'' (''circuit-id='' @ quoted circuitID))
          else if matchDeny remoteID (remoteIDDeny v)
          then Some (opt82_invalid ''option82 remote-id denied'' (''remote-id='' @ quoted remoteID))
          else if \<not> matchAllow circuitID (circuitIDAllow v)
          then Some (opt82_invalid ''option82 circuit-id not allowed'' (''circuit-id='' @ quoted circuitID))
          else if \<not> matchAllow remoteID (remoteIDAllow v)
          then Some (opt82_invalid ''option82 remote-id not allowed'' (''remote-id='' @ quoted remoteID))
          else None)"

definition SanitizeASCII :: "bytes \<Rightarrow> string" where
  "SanitizeASCII value =
     trim_space (string_of_bytes (filter (\<lambda>b. 32 \<le> b \<and> b \<le> 126) value))"

definition set_suboption :: "byte \<Rightarrow> bytes \<Rightarrow> option82_parsed \<Rightarrow> option82_parsed" where
  "set_suboption code value parsed =
     (if code = Option82SubOptionCircuitID
      then (if CircuitID parsed = [] then parsed\<lparr>CircuitID := SanitizeASCII value\<rparr> else parsed)
      else if code = Option82SubOptionRemoteID
      then (if RemoteID parsed = [] then parsed\<lparr>RemoteID := SanitizeASCII value\<rparr> else parsed)
      else if code = Option82SubOptionSubscriberID
      then (if SubscriberID parsed = [] then parsed\<lparr>SubscriberID := SanitizeASCII value\<rparr> else parsed)
      else parsed)"

function parse_suboptions :: "nat \<Rightarrow> bytes \<Rightarrow> option82_parsed \<Rightarrow> string + option82_parsed" where
  "parse_suboptions i data parsed =
     (case data of
        [] \<Rightarrow> Inr parsed
      | code # tl1 \<Rightarrow>
         (case tl1 of
            [] \<Rightarrow> Inl (''truncated sub-option header at offset '' @ dec i)
          | len # rest \<Rightarrow>
              if unat len > length rest then Inl (''truncated sub-option '' @ dec (unat code))
              else parse_suboptions (i + 2 + unat len) (drop (unat len) rest)
                     (set_suboption code (take (unat len) rest) parsed)))"
  by pat_completeness auto
termination
  by (relation "measure (\<lambda>(i, data, parsed). length data)") auto

declare parse_suboptions.simps [simp del]

definition ParseOption82 :: "bytes \<Rightarrow> string + option82_parsed" where
  "ParseOption82 data = parse_suboptions 0 data empty_parsed"

function user_classes :: "bytes \<Rightarrow> string list" where
  "user_classes data =
     (case data of
        [] \<Rightarrow> []
      | l # rest \<Rightarrow>
          if l = 0 \<or> unat l > length rest then []
          else SanitizeASCII (take (unat l) rest) # user_classes (drop (unat l) rest))"
  by pat_completeness auto
termination
  by (relation "measure length") auto

declare user_classes.simps [simp del]

definition DecodeUserClass :: "bytes \<Rightarrow> string" where
  "DecodeUserClass data = join_with '','' (user_classes data)"

definition EncodeUint32 :: "u32 \<Rightarrow> bytes" where
  "EncodeUint32 v = put32 v"

definition ParseVendorClass :: "bytes \<Rightarrow> string" where
  "ParseVendorClass data = SanitizeASCII data"

definition BuildVendorOption43 :: "bytes \<Rightarrow> bytes" where
  "BuildVendorOption43 payload = (if length payload > 255 then take 255 payload else payload)"

definition BuildOption121ClasslessStaticRoutes :: "bytes \<Rightarrow> bytes" where
  "BuildOption121ClasslessStaticRoutes raw = raw"

definition IsDHCPMessageTypeRequest :: "bytes \<Rightarrow> bool" where
  "IsDHCPMessageTypeRequest mt \<longleftrightarrow> length mt = 1 \<and> mt ! 0 = MessageTypeRequest"

section \<open>Parsing\<close>

text \<open>A sub-option list as a relay agent writes it.\<close>

definition suboption_wire :: "(byte \<times> bytes) list \<Rightarrow> bytes" where
  "suboption_wire subs = concat (map (\<lambda>(c, v). c # of_nat (length v) # v) subs)"

definition first_nonempty :: "byte \<Rightarrow> (byte \<times> bytes) list \<Rightarrow> string" where
  "first_nonempty c subs =
     (case filter (\<lambda>s. s \<noteq> []) (map (SanitizeASCII \<circ> snd) (filter (\<lambda>(c', v). c' = c) subs)) of
        [] \<Rightarrow> [] | s # _ \<Rightarrow> s)"

definition keep_first :: "string \<Rightarrow> byte \<Rightarrow> (byte \<times> bytes) list \<Rightarrow> string" where
  "keep_first s c subs = (if s = [] then first_nonempty c subs else s)"

lemma parse_suboptions_wire:
  assumes "\<forall>(c, v) \<in> set subs. length v < 256"
  shows "parse_suboptions i (suboption_wire subs) parsed =
    Inr \<lparr>CircuitID = keep_first (CircuitID parsed) 1 subs,
         RemoteID = keep_first (RemoteID parsed) 2 subs,
         SubscriberID = keep_first (SubscriberID parsed) 6 subs\<rparr>"
  using assms
proof (induction subs arbitrary: i parsed)
  case Nil
  then show ?case
    by (simp add: parse_suboptions.simps suboption_wire_def keep_first_def first_nonempty_def)
next
  case (Cons sub subs)
  obtain c v where sub: "sub = (c, v)" by (cases sub)
  have len: "unat (of_nat (length v) :: byte) = length v"
    using Cons.prems by (simp add: sub unat_of_nat_byte)
  have "parse_suboptions i (suboption_wire (sub # subs)) parsed
      = parse_suboptions (i + 2 + length v) (suboption_wire subs) (set_suboption c v parsed)"
    by (subst parse_suboptions.simps) (simp add: sub suboption_wire_def len)
  also have "\<dots> = Inr \<lparr>CircuitID = keep_first (CircuitID (set_suboption c v parsed)) 1 subs,
         RemoteID = keep_first (RemoteID (set_suboption c v parsed)) 2 subs,
         SubscriberID = keep_first (SubscriberID (set_suboption c v parsed)) 6 subs\<rparr>"
    using Cons.prems by (intro Cons.IH) simp
  also have "\<dots> = Inr \<lparr>CircuitID = keep_first (CircuitID parsed) 1 (sub # subs),
         RemoteID = keep_first (RemoteID parsed) 2 (sub # subs),
         SubscriberID = keep_first (SubscriberID parsed) 6 (sub # subs)\<rparr>"
    by (simp add: sub keep_first_def first_nonempty_def set_suboption_def suboption_code_defs)
  finally show ?case .
qed

text \<open>\<^verbatim>\<open>ParseOption82\<close> of a well-formed option 82 never fails, and each of the three
  identifiers is the first sub-option of its code whose printable, trimmed content is not
  empty; other sub-options are skipped.\<close>

theorem option82_roundtrip:
  assumes "\<forall>(c, v) \<in> set subs. length v < 256"
  shows "ParseOption82 (suboption_wire subs) =
    Inr \<lparr>CircuitID = first_nonempty 1 subs, RemoteID = first_nonempty 2 subs,
         SubscriberID = first_nonempty 6 subs\<rparr>"
  by (simp add: ParseOption82_def parse_suboptions_wire [OF assms] empty_parsed_def keep_first_def)

theorem option82_roundtrip_witness:
  "ParseOption82 (suboption_wire [(9, [1]), (1, [32]), (1, [101, 0, 48]), (2, [114, 49])]) =
    Inr \<lparr>CircuitID = ''e0'', RemoteID = ''r1'', SubscriberID = []\<rparr>"
proof -
  let ?subs = "[(9, [1]), (1, [32]), (1, [101, 0, 48]), (2, [114, 49])] :: (byte \<times> bytes) list"
  have "first_nonempty 1 ?subs = ''e0'' \<and> first_nonempty 2 ?subs = ''r1'' \<and> first_nonempty 6 ?subs = []"
    by code_simp
  then show ?thesis using option82_roundtrip [of ?subs] by simp
qed

section \<open>The validator\<close>

lemma normalizeSet_iff: "s \<in> normalizeSet vs \<longleftrightarrow> s \<noteq> [] \<and> (\<exists>v \<in> set vs. trim_space v = s)"
  by (induction vs) (auto simp: Let_def)

definition listed :: "string \<Rightarrow> string list \<Rightarrow> bool" where
  "listed s vs \<longleftrightarrow> (\<exists>v \<in> set vs. trim_space v = trim_space s)"

definition blank_list :: "string list \<Rightarrow> bool" where
  "blank_list vs \<longleftrightarrow> (\<forall>v \<in> set vs. trim_space v = [])"

lemma normalizeSet_empty: "normalizeSet vs = {} \<longleftrightarrow> blank_list vs"
  unfolding blank_list_def by (metis all_not_in_conv normalizeSet_iff)

lemma matchDeny_normalized:
  "matchDeny s (normalizeSet vs) \<longleftrightarrow> trim_space s \<noteq> [] \<and> listed s vs"
  by (auto simp: matchDeny_def normalizeSet_iff listed_def) (metis empty_iff normalizeSet_iff)

lemma matchAllow_normalized:
  "matchAllow s (normalizeSet vs) \<longleftrightarrow> blank_list vs \<or> (trim_space s \<noteq> [] \<and> listed s vs)"
  by (auto simp: matchAllow_def normalizeSet_empty normalizeSet_iff listed_def)

text \<open>What the validator built from a policy accepts.  With a parsed option 82 present
  and the policy enabled, a request passes exactly when neither identifier is on its deny
  list and each identifier is on its allow list, where an allow list without a non-blank
  entry allows everything and an empty identifier matches no entry.  Without option 82
  everything passes; a parse error on a present option never does.\<close>

theorem option82_validator_spec:
  "Validate (Some (NewOption82Validator policy)) present parseErr cid rid = None \<longleftrightarrow>
     (if \<not> present then True
      else if trim_space parseErr \<noteq> [] then False
      else if \<not> Enabled policy then True
      else \<not> (trim_space cid \<noteq> [] \<and> listed cid (CircuitIDDeny policy)) \<and>
           \<not> (trim_space rid \<noteq> [] \<and> listed rid (RemoteIDDeny policy)) \<and>
           (blank_list (CircuitIDAllow policy) \<or>
              (trim_space cid \<noteq> [] \<and> listed cid (CircuitIDAllow policy))) \<and>
           (blank_list (RemoteIDAllow policy) \<or>
              (trim_space rid \<noteq> [] \<and> listed rid (RemoteIDAllow policy))))"
  by (auto simp: Validate_def NewOption82Validator_def matchDeny_normalized matchAllow_normalized)

section \<open>Sanitised text\<close>

lemma SanitizeASCII_printable:
  "c \<in> set (SanitizeASCII bs) \<Longrightarrow> 32 \<le> (of_char c :: nat) \<and> (of_char c :: nat) \<le> 126"
  using trim_space_subset [of "string_of_bytes (filter (\<lambda>b. 32 \<le> b \<and> b \<le> 126) bs)"]
  by (auto simp: SanitizeASCII_def string_of_bytes_def word_le_nat_alt)

end
