(* ===== verification/Netip.thy ===== *)
theory Netip
  imports Prelude
begin

text \<open>
  The address types of the Go standard library as the sources use them
  (\<^verbatim>\<open>net/netip\<close>: \<^verbatim>\<open>Addr\<close>, \<^verbatim>\<open>Prefix\<close>, \<^verbatim>\<open>ParseAddr\<close>,
  \<^verbatim>\<open>ParsePrefix\<close>, \<^verbatim>\<open>String\<close>, \<^verbatim>\<open>Compare\<close>; the text forms of
  \<^verbatim>\<open>net.IP\<close> and \<^verbatim>\<open>net.HardwareAddr\<close>), and the program's own
  \<^verbatim>\<open>internal/netutil\<close>, which computes on addresses through big integers.

  An address is the zero value, an IPv4 address or an IPv6 address with its zone.  Parsing
  follows the library's character loops, so that malformed text is refused where the
  library refuses it.
\<close>

section \<open>Addresses\<close>

datatype addr = AddrZero | Addr4 u32 | Addr6 u128 string

fun IsValid :: "addr \<Rightarrow> bool" where
  "IsValid AddrZero = False"
| "IsValid _ = True"

fun Is4 :: "addr \<Rightarrow> bool" where
  "Is4 (Addr4 _) = True"
| "Is4 _ = False"

fun Is6 :: "addr \<Rightarrow> bool" where
  "Is6 (Addr6 _ _) = True"
| "Is6 _ = False"

definition mapped_prefix :: u128 where "mapped_prefix = 0xFFFF00000000"

definition is_4in6 :: "u128 \<Rightarrow> bool" where
  "is_4in6 w \<longleftrightarrow> drop_bit 32 w = 0xFFFF"

fun Unmap :: "addr \<Rightarrow> addr" where
  "Unmap (Addr6 w z) = (if is_4in6 w then Addr4 (ucast w) else Addr6 w z)"
| "Unmap a = a"

fun BitLen :: "addr \<Rightarrow> nat" where
  "BitLen AddrZero = 0"
| "BitLen (Addr4 _) = 32"
| "BitLen (Addr6 _ _) = 128"

fun string_less :: "string \<Rightarrow> string \<Rightarrow> bool" where
  "string_less [] [] = False"
| "string_less [] (_ # _) = True"
| "string_less (_ # _) [] = False"
| "string_less (a # s) (b # t) =
     ((of_char a :: nat) < of_char b \<or> (a = b \<and> string_less s t))"

text \<open>\<^verbatim>\<open>Addr.Compare\<close>: by family, then by value, then by zone.\<close>

fun addr_value :: "addr \<Rightarrow> int" where
  "addr_value AddrZero = 0"
| "addr_value (Addr4 w) = uint w"
| "addr_value (Addr6 w _) = uint w"

fun Compare :: "addr \<Rightarrow> addr \<Rightarrow> int" where
  "Compare a b =
     (if BitLen a < BitLen b then -1 else if BitLen b < BitLen a then 1
      else if addr_value a < addr_value b then -1
      else if addr_value b < addr_value a then 1
      else (case (a, b) of
              (Addr6 _ z1, Addr6 _ z2) \<Rightarrow>
                 if string_less z1 z2 then -1 else if string_less z2 z1 then 1 else 0
            | _ \<Rightarrow> 0))"

section \<open>Text form of addresses\<close>

definition v4_string :: "u32 \<Rightarrow> string" where
  "v4_string w =
     dec (unat (drop_bit 24 w)) @ ''.'' @ dec (unat (drop_bit 16 w AND 255)) @ ''.''
     @ dec (unat (drop_bit 8 w AND 255)) @ ''.'' @ dec (unat (w AND 255))"

definition groups6 :: "u128 \<Rightarrow> u16 list" where
  "groups6 w = map (\<lambda>i. ucast (drop_bit (16 * (7 - i)) w)) [0..<8]"

fun hex_nat :: "nat \<Rightarrow> string" where
  "hex_nat n = (if n < 16 then [hex_char n] else hex_nat (n div 16) @ [hex_char (n mod 16)])"

declare hex_nat.simps [simp del]

text \<open>The run of zero groups the text form replaces by two colons: the first longest run of
  at least two.\<close>

fun zero_run :: "u16 list \<Rightarrow> nat" where
  "zero_run [] = 0"
| "zero_run (g # gs) = (if g = 0 then Suc (zero_run gs) else 0)"

definition zero_span :: "u16 list \<Rightarrow> nat \<times> nat" where
  "zero_span gs = foldl (\<lambda>(s, e) i. let l = zero_run (drop i gs) in
      if l \<ge> 2 \<and> l > e - s then (i, i + l) else (s, e)) (255, 255) [0..<8]"

fun append_groups :: "u16 list \<Rightarrow> nat \<Rightarrow> nat \<Rightarrow> nat \<Rightarrow> nat \<Rightarrow> string" where
  "append_groups gs s e i 0 = []"
| "append_groups gs s e i (Suc fuel) =
     (if i \<ge> 8 then []
      else if i = s
      then ''::'' @ (if e \<ge> 8 then [] else hex_nat (unat (gs ! e)) @ append_groups gs s e (Suc e) fuel)
      else (if i > 0 then '':'' else []) @ hex_nat (unat (gs ! i)) @ append_groups gs s e (Suc i) fuel)"

definition v6_string :: "u128 \<Rightarrow> string" where
  "v6_string w = (let gs = groups6 w; (s, e) = zero_span gs in append_groups gs s e 0 9)"

definition zone_suffix :: "string \<Rightarrow> string" where
  "zone_suffix z = (if z = [] then [] else ''%'' @ z)"

fun addr_string :: "addr \<Rightarrow> string" where
  "addr_string AddrZero = ''invalid IP''"
| "addr_string (Addr4 w) = v4_string w"
| "addr_string (Addr6 w z) =
     (if is_4in6 w then ''::ffff:'' @ v4_string (ucast w) @ zone_suffix z
      else v6_string w @ zone_suffix z)"

section \<open>Parsing addresses\<close>

text \<open>
  \<^verbatim>\<open>parseIPv4Fields\<close>: the state of the loop is the value of the current octet, the number
  of its digits, the octets already read and whether the last character was a dot (true at
  the start, since a leading dot is refused too).
\<close>

fun parse_v4_fields :: "string \<Rightarrow> nat \<Rightarrow> nat \<Rightarrow> nat list \<Rightarrow> bool \<Rightarrow> nat list option" where
  "parse_v4_fields [] val digLen fields lastDot =
     (if length fields < 3 then None else Some (fields @ [val]))"
| "parse_v4_fields (c # s) val digLen fields lastDot =
     (if is_digit c then
        (if digLen = 1 \<and> val = 0 then None
         else let val = val * 10 + digit_val c in
           if val > 255 then None else parse_v4_fields s val (digLen + 1) fields False)
      else if c = CHR ''.'' then
        (if lastDot \<or> s = [] then None
         else if length fields = 3 then None
         else parse_v4_fields s 0 0 (fields @ [val]) True)
      else None)"

fun v4_of_fields :: "nat list \<Rightarrow> u32" where
  "v4_of_fields (a # b # c # d # _) = be32 (of_nat a) (of_nat b) (of_nat c) (of_nat d)"
| "v4_of_fields _ = 0"

definition parse_v4 :: "string \<Rightarrow> u32 option" where
  "parse_v4 s = map_option v4_of_fields (parse_v4_fields s 0 0 [] True)"

definition hex_digit_val :: "char \<Rightarrow> nat option" where
  "hex_digit_val c =
     (let n = of_char c :: nat in
      if 48 \<le> n \<and> n \<le> 57 then Some (n - 48)
      else if 97 \<le> n \<and> n \<le> 102 then Some (n - 87)
      else if 65 \<le> n \<and> n \<le> 70 then Some (n - 55)
      else None)"

text \<open>One hexadecimal group: at most four digits.  The result is the value and the rest.\<close>

fun parse_group :: "string \<Rightarrow> nat \<Rightarrow> nat \<Rightarrow> (nat \<times> nat \<times> string) option" where
  "parse_group [] off acc = Some (off, acc, [])"
| "parse_group (c # s) off acc =
     (case hex_digit_val c of
        None \<Rightarrow> Some (off, acc, c # s)
      | Some d \<Rightarrow> if off > 3 then None else parse_group s (Suc off) (acc * 16 + d))"

text \<open>
  The loop of \<^verbatim>\<open>parseIPv6\<close>.  \<open>gs\<close> are the sixteen-bit groups read so far,
  \<open>ell\<close> the position of the ellipsis if one was seen.  The fuel bounds the number of groups: eight.
\<close>

fun parse_v6_loop ::
  "nat \<Rightarrow> string \<Rightarrow> nat list \<Rightarrow> nat option \<Rightarrow> (nat list \<times> nat option \<times> string) option" where
  "parse_v6_loop 0 s gs ell = Some (gs, ell, s)"
| "parse_v6_loop (Suc fuel) s gs ell =
     (if length gs \<ge> 8 then Some (gs, ell, s)
      else case parse_group s 0 0 of
        None \<Rightarrow> None
      | Some (off, acc, rest) \<Rightarrow>
          if off = 0 then None
          else (case rest of
              [] \<Rightarrow> Some (gs @ [acc], ell, [])
            | c # rest1 \<Rightarrow>
                if c = CHR ''.'' then
                  (if ell = None \<and> length gs \<noteq> 6 then None
                   else if length gs > 6 then None
                   else (case parse_v4_fields s 0 0 [] True of
                      Some [a, b, c, d] \<Rightarrow> Some (gs @ [a * 256 + b, c * 256 + d], ell, [])
                    | _ \<Rightarrow> None))
                else if c \<noteq> CHR '':'' then None
                else (case rest1 of
                    [] \<Rightarrow> None
                  | c1 # rest2 \<Rightarrow>
                      if c1 = CHR '':'' then
                        (if ell \<noteq> None then None
                         else if rest2 = [] then Some (gs @ [acc], Some (Suc (length gs)), [])
                         else parse_v6_loop fuel rest2 (gs @ [acc]) (Some (Suc (length gs))))
                      else parse_v6_loop fuel rest1 (gs @ [acc]) ell)))"

definition u128_of_groups :: "nat list \<Rightarrow> u128" where
  "u128_of_groups gs = foldl (\<lambda>acc g. push_bit 16 acc OR of_nat g) 0 gs"

definition expand_ellipsis :: "nat list \<Rightarrow> nat option \<Rightarrow> u128 option" where
  "expand_ellipsis gs ell =
     (if length gs < 8
      then (case ell of
              None \<Rightarrow> None
            | Some e \<Rightarrow> Some (u128_of_groups (take e gs @ replicate (8 - length gs) 0 @ drop e gs)))
      else (case ell of None \<Rightarrow> Some (u128_of_groups gs) | Some _ \<Rightarrow> None))"

definition split_zone :: "string \<Rightarrow> (string \<times> string) option" where
  "split_zone s =
     (let body = takeWhile (\<lambda>c. c \<noteq> CHR ''%'') s; rest = drop (length body) s in
      case rest of [] \<Rightarrow> Some (body, []) | _ # z \<Rightarrow> if z = [] then None else Some (body, z))"

definition parse_v6 :: "string \<Rightarrow> addr option" where
  "parse_v6 inp =
     (case split_zone inp of
        None \<Rightarrow> None
      | Some (s, zone) \<Rightarrow>
          let lead = has_prefix s ''::''; s' = (if lead then drop 2 s else s) in
          if lead \<and> s' = [] then Some (Addr6 0 zone)
          else (case parse_v6_loop 8 s' [] (if lead then Some 0 else None) of
              None \<Rightarrow> None
            | Some (gs, ell, rest) \<Rightarrow>
                if rest \<noteq> [] then None
                else map_option (\<lambda>w. Addr6 w zone) (expand_ellipsis gs ell)))"

text \<open>\<^verbatim>\<open>netip.ParseAddr\<close>: the first dot, colon or percent sign decides.\<close>

fun ParseAddr_scan :: "string \<Rightarrow> string \<Rightarrow> addr option" where
  "ParseAddr_scan s [] = None"
| "ParseAddr_scan s (c # cs) =
     (if c = CHR ''.'' then map_option Addr4 (parse_v4 s)
      else if c = CHR '':'' then parse_v6 s
      else if c = CHR ''%'' then None
      else ParseAddr_scan s cs)"

definition ParseAddr :: "string \<Rightarrow> addr option" where
  "ParseAddr s = ParseAddr_scan s s"

section \<open>Prefixes\<close>

record prefix =
  pfx_addr :: addr
  pfx_bits :: nat

definition pfx_valid :: "prefix \<Rightarrow> bool" where
  "pfx_valid p \<longleftrightarrow> IsValid (pfx_addr p) \<and> pfx_bits p \<le> BitLen (pfx_addr p)"

definition all_digits :: "string \<Rightarrow> bool" where
  "all_digits s \<longleftrightarrow> s \<noteq> [] \<and> list_all is_digit s"

definition nat_of_digits :: "string \<Rightarrow> nat" where
  "nat_of_digits s = foldl (\<lambda>n c. n * 10 + digit_val c) 0 s"

text \<open>\<^verbatim>\<open>ParsePrefix\<close> splits at the last slash; an address with a zone or a
  prefix length with a sign or a leading zero is refused.\<close>

definition ParsePrefix :: "string \<Rightarrow> prefix option" where
  "ParsePrefix s =
     (let bitsStr = rev (takeWhile (\<lambda>c. c \<noteq> CHR ''/'') (rev s));
          ipStr = take (length s - length bitsStr - 1) s in
      if CHR ''/'' \<notin> set s then None
      else case ParseAddr ipStr of
        None \<Rightarrow> None
      | Some a \<Rightarrow>
          (case a of
             Addr6 _ (_ # _) \<Rightarrow> None
           | _ \<Rightarrow>
              if \<not> all_digits bitsStr \<or> (length bitsStr > 1 \<and> hd bitsStr = CHR ''0'') then None
              else let bits = nat_of_digits bitsStr in
                if bits > BitLen a then None else Some \<lparr> pfx_addr = a, pfx_bits = bits \<rparr>))"

definition clear_low :: "nat \<Rightarrow> 'a::len word \<Rightarrow> 'a word" where
  "clear_low k w = push_bit k (drop_bit k w)"

text \<open>\<^verbatim>\<open>Prefix.Masked\<close> drops the zone.\<close>

fun masked_addr :: "addr \<Rightarrow> nat \<Rightarrow> addr" where
  "masked_addr AddrZero bits = AddrZero"
| "masked_addr (Addr4 w) bits = Addr4 (clear_low (32 - bits) w)"
| "masked_addr (Addr6 w z) bits = Addr6 (clear_low (128 - bits) w) []"

definition Masked :: "prefix \<Rightarrow> prefix" where
  "Masked p = p\<lparr>pfx_addr := masked_addr (pfx_addr p) (pfx_bits p)\<rparr>"

fun Contains :: "prefix \<Rightarrow> addr \<Rightarrow> bool" where
  "Contains p ip =
     (pfx_valid p \<and>
      (case (pfx_addr p, ip) of
         (Addr4 n, Addr4 w) \<Rightarrow> drop_bit (32 - pfx_bits p) (w XOR n) = 0
       | (Addr6 n _, Addr6 w z) \<Rightarrow> z = [] \<and> drop_bit (128 - pfx_bits p) (w XOR n) = 0
       | _ \<Rightarrow> False))"

definition prefix_string :: "prefix \<Rightarrow> string" where
  "prefix_string p = (if pfx_valid p then addr_string (pfx_addr p) @ ''/'' @ dec (pfx_bits p)
     else ''invalid Prefix'')"

section \<open>\<^verbatim>\<open>net.IP\<close> and \<^verbatim>\<open>net.HardwareAddr\<close> as text\<close>

definition u128_of_bytes :: "bytes \<Rightarrow> u128" where
  "u128_of_bytes bs = foldl (\<lambda>acc b. push_bit 8 acc OR ucast b) 0 bs"

definition bytes_of_u128 :: "u128 \<Rightarrow> bytes" where
  "bytes_of_u128 w = map (\<lambda>i. ucast (drop_bit (8 * (15 - i)) w)) [0..<16]"

text \<open>\<^verbatim>\<open>netip.AddrFromSlice\<close>.\<close>

definition AddrFromSlice :: "bytes \<Rightarrow> addr option" where
  "AddrFromSlice bs =
     (if length bs = 4 then Some (Addr4 (get32 bs))
      else if length bs = 16 then Some (Addr6 (u128_of_bytes bs) [])
      else None)"

definition ip_string :: "bytes \<Rightarrow> string" where
  "ip_string ip =
     (case AddrFromSlice ip of
        None \<Rightarrow> if ip = [] then ''<nil>'' else ''?'' @ concat (map hex_byte ip)
      | Some a \<Rightarrow> addr_string (Unmap a))"

text \<open>\<^verbatim>\<open>net.IP.To4\<close>: \<open>None\<close> is the nil slice.\<close>

definition To4 :: "bytes \<Rightarrow> bytes option" where
  "To4 ip =
     (if length ip = 4 then Some ip
      else if length ip = 16 \<and> take 12 ip = replicate 10 0 @ [255, 255] then Some (drop 12 ip)
      else None)"

definition hw_string :: "bytes \<Rightarrow> string" where
  "hw_string hw = join_with '':'' (map hex_byte hw)"

text \<open>\<^verbatim>\<open>net.ParseIP\<close>: like \<^verbatim>\<open>ParseAddr\<close>, but an address with a zone is refused.\<close>

definition ParseIP :: "string \<Rightarrow> addr option" where
  "ParseIP s = (case ParseAddr s of
      Some (Addr6 w (_ # _)) \<Rightarrow> None
    | r \<Rightarrow> r)"

section \<open>\<^verbatim>\<open>internal/netutil\<close>\<close>

definition AddrToBig :: "addr \<Rightarrow> int" where
  "AddrToBig a = addr_value a"

definition BigToAddr :: "int \<Rightarrow> addr option" where
  "BigToAddr v = (if v < 0 \<or> v \<ge> 2 ^ 128 then None else Some (Addr6 (word_of_int v) []))"

fun ipv4FromCompat :: "addr \<Rightarrow> addr option" where
  "ipv4FromCompat (Addr6 w z) = (if drop_bit 32 w = 0 then Some (Addr4 (ucast w)) else None)"
| "ipv4FromCompat _ = None"

definition to_v4_form :: "addr \<Rightarrow> addr" where
  "to_v4_form a = (case ipv4FromCompat a of Some v4 \<Rightarrow> v4 | None \<Rightarrow> Unmap a)"

datatype netutil_error = ErrInvalidAddress

definition MaxAddress :: "prefix \<Rightarrow> netutil_error + addr" where
  "MaxAddress p =
     (let base = AddrToBig (pfx_addr (Masked p));
          bits = (if Is4 (pfx_addr p) then 32 else 128);
          hostBits = bits - pfx_bits p;
          span = 2 ^ hostBits - 1
      in case BigToAddr (base + span) of
           None \<Rightarrow> Inl ErrInvalidAddress
         | Some a \<Rightarrow> Inr (if Is4 (pfx_addr p) then to_v4_form a else a))"

definition AddToAddr :: "addr \<Rightarrow> int \<Rightarrow> addr option" where
  "AddToAddr a delta =
     (let result = AddrToBig a + delta in
      if result < 0 then None
      else case BigToAddr result of
        None \<Rightarrow> None
      | Some out \<Rightarrow> Some (if Is4 a then to_v4_form out else out))"

definition DefaultHostRange :: "prefix \<Rightarrow> netutil_error + (addr \<times> addr)" where
  "DefaultHostRange p =
     (let start = pfx_addr (Masked p) in
      case MaxAddress p of
        Inl e \<Rightarrow> Inl e
      | Inr end \<Rightarrow>
          if Is4 (pfx_addr p) \<and> 32 - pfx_bits p > 1
          then Inr (case AddToAddr start 1 of Some inc \<Rightarrow> inc | None \<Rightarrow> start,
                    case AddToAddr end (-1) of Some d \<Rightarrow> d | None \<Rightarrow> end)
          else Inr (start, end))"

section \<open>Dotted quads read back\<close>

lemma dec_cases:
  assumes "n < 256"
  shows "dec n = (if n < 10 then [digit_char n]
     else if n < 100 then [digit_char (n div 10), digit_char (n mod 10)]
     else [digit_char (n div 100), digit_char (n div 10 mod 10), digit_char (n mod 10)])"
proof -
  have q: "n div 10 div 10 = n div 100" by (simp add: div_mult2_eq [symmetric])
  have small: "dec m = [digit_char m]" if "m < 10" for m
    using that by (simp add: dec.simps)
  have step: "dec m = dec (m div 10) @ [digit_char (m mod 10)]" if "\<not> m < 10" for m
    using that by (subst dec.simps) simp
  consider "n < 10" | "\<not> n < 10" "n < 100" | "\<not> n < 100" by linarith
  then show ?thesis
  proof cases
    case 2
    then have "n div 10 < 10" by simp
    with 2 show ?thesis by (simp add: step small)
  next
    case 3
    then have "\<not> n div 10 < 10" and "n div 100 < 10" using assms by simp_all
    with 3 show ?thesis by (simp add: step small q)
  qed (simp add: small)
qed

lemma parse_v4_octet:
  assumes "n < 256"
  shows "parse_v4_fields (dec n @ rest) 0 0 fs dot = parse_v4_fields rest n (length (dec n)) fs False"
proof -
  have "n div 100 = n div 10 div 10" by (simp add: div_mult2_eq [symmetric])
  then have "n div 100 * 10 + n div 10 mod 10 = n div 10" by simp
  then have "(n div 100 * 10 + n div 10 mod 10) * 10 + n mod 10 = n" by simp
  moreover have "n div 10 * 10 + n mod 10 = n" by simp
  ultimately show ?thesis
    using assms by (auto simp: dec_cases Let_def)
qed

lemma parse_v4_dot:
  "length fs < 3 \<Longrightarrow> rest \<noteq> [] \<Longrightarrow>
   parse_v4_fields (CHR ''.'' # rest) n d fs False = parse_v4_fields rest 0 0 (fs @ [n]) True"
  by (simp add: is_digit_def)

definition octets :: "u32 \<Rightarrow> nat list" where
  "octets w = [unat (drop_bit 24 w), unat (drop_bit 16 w AND 255), unat (drop_bit 8 w AND 255), unat (w AND 255)]"

lemma octet_bounds:
  "unat (drop_bit 24 w) < 256" "unat (drop_bit 16 w AND 255) < 256"
  "unat (drop_bit 8 w AND 255) < 256" "unat (w AND 255) < 256" for w :: u32
  using unat_u32_bound [of w]
  by (auto simp: unat_drop_bit unat_and_255 simp del: drop_bit_eq_div)

lemma parse_v4_fields_v4_string: "parse_v4_fields (v4_string w) 0 0 [] True = Some (octets w)"
proof -
  have "parse_v4_fields (dec d @ []) 0 0 [a, b, c] True = Some [a, b, c, d]" if "d < 256" for a b c d
    unfolding parse_v4_octet [OF that] by simp
  then have last: "parse_v4_fields (dec d) 0 0 [a, b, c] True = Some [a, b, c, d]" if "d < 256" for a b c d
    using that by simp
  show ?thesis
    unfolding v4_string_def octets_def
    using octet_bounds [of w]
    by (simp add: parse_v4_octet parse_v4_dot last del: parse_v4_fields.simps)
qed

lemma v4_of_octets: "v4_of_fields (octets w) = w"
  unfolding octets_def v4_of_fields.simps byte_of_unat_and
  by (simp only: byte_of_unat be32_split)

lemma parse_v4_v4_string [wire]: "parse_v4 (v4_string w) = Some w"
  by (simp add: parse_v4_def parse_v4_fields_v4_string v4_of_octets)

lemma ParseAddr_scan_dot:
  assumes "\<And>c. c \<in> set pre \<Longrightarrow> is_digit c"
  shows "ParseAddr_scan s (pre @ CHR ''.'' # rest) = map_option Addr4 (parse_v4 s)"
  using assms
proof (induction pre)
  case (Cons c pre)
  then have "is_digit c" by simp
  then have "c \<noteq> CHR ''.''" "c \<noteq> CHR '':''" "c \<noteq> CHR ''%''" by (auto simp: is_digit_def)
  with Cons show ?case by simp
qed simp

lemma ParseAddr_v4_string [simp, wire]: "ParseAddr (v4_string w) = Some (Addr4 w)"
proof -
  have "v4_string w = dec (unat (drop_bit 24 w)) @ CHR ''.'' # (dec (unat (drop_bit 16 w AND 255)) @ ''.''
     @ dec (unat (drop_bit 8 w AND 255)) @ ''.'' @ dec (unat (w AND 255)))"
    by (simp add: v4_string_def)
  then have "ParseAddr_scan (v4_string w) (v4_string w) = map_option Addr4 (parse_v4 (v4_string w))"
    using ParseAddr_scan_dot [of "dec (unat (drop_bit 24 w))" "v4_string w", OF dec_digits] by simp
  then show ?thesis by (simp add: ParseAddr_def parse_v4_v4_string)
qed

lemma v4_string_inj [simp]: "v4_string a = v4_string b \<longleftrightarrow> a = b"
  by (metis parse_v4_v4_string option.inject)

lemma v4_string_nonempty [simp]: "v4_string w \<noteq> []"
  by (simp add: v4_string_def)

section \<open>IPv4 prefixes in arithmetic\<close>

lemma drop_bit_xor_zero: "drop_bit k (a XOR b) = 0 \<longleftrightarrow> drop_bit k a = drop_bit k b" for a b :: "'a::len word"
  by (auto simp: bit_eq_iff bit_simps)

lemma unat_clear_low:
  fixes w :: "'a::len word"
  shows "unat (clear_low k w) = unat w div 2 ^ k * 2 ^ k"
proof -
  have "unat w div 2 ^ k * 2 ^ k \<le> unat w" by simp
  also have "\<dots> < 2 ^ LENGTH('a)" by (rule unsigned_less)
  finally have lt: "unat w div 2 ^ k * 2 ^ k < 2 ^ LENGTH('a)" .
  have "clear_low k w = of_nat (unat w div 2 ^ k * 2 ^ k)"
    unfolding clear_low_def push_bit_eq_mult
    by (metis of_nat_mult of_nat_power of_nat_numeral unat_drop_bit of_nat_unat_id)
  then show ?thesis using lt by (metis unat_of_nat mod_less)
qed

text \<open>The network and the last address of an IPv4 prefix, as numbers.\<close>

definition net_lo :: "u32 \<Rightarrow> nat \<Rightarrow> nat" where
  "net_lo n bits = unat n div 2 ^ (32 - bits) * 2 ^ (32 - bits)"

definition net_hi :: "u32 \<Rightarrow> nat \<Rightarrow> nat" where
  "net_hi n bits = net_lo n bits + 2 ^ (32 - bits) - 1"

lemma net_hi_bound: "bits \<le> 32 \<Longrightarrow> net_hi n bits < 2 ^ 32"
proof -
  assume b: "bits \<le> 32"
  let ?k = "32 - bits"
  have "(2::nat) ^ bits * 2 ^ ?k = 2 ^ 32" using b by (simp flip: power_add)
  moreover have "unat n div 2 ^ ?k < 2 ^ bits"
    using unat_u32_bound [of n] calculation by (simp add: less_mult_imp_div_less)
  then have "Suc (unat n div 2 ^ ?k) * 2 ^ ?k \<le> 2 ^ bits * 2 ^ ?k"
    by (intro mult_le_mono1) simp
  ultimately have "net_lo n bits + 2 ^ ?k \<le> 2 ^ 32" by (simp add: net_lo_def)
  then show ?thesis
    unfolding net_hi_def by (metis Suc_diff_1 add_gr_0 less_eq_Suc_le zero_less_numeral zero_less_power)
qed

lemma net_lo_le_hi: "net_lo n bits \<le> net_hi n bits"
  using zero_less_power [of "2::nat" "32 - bits"] unfolding net_hi_def by linarith

lemma Contains_v4:
  assumes "pfx_addr p = Addr4 n" and "pfx_bits p \<le> 32"
  shows "Contains p (Addr4 w) \<longleftrightarrow> net_lo n (pfx_bits p) \<le> unat w \<and> unat w \<le> net_hi n (pfx_bits p)"
proof -
  let ?k = "32 - pfx_bits p"
  have "Contains p (Addr4 w) \<longleftrightarrow> drop_bit ?k w = drop_bit ?k n"
    using assms drop_bit_xor_zero [of ?k w n] by (simp add: pfx_valid_def)
  also have "\<dots> \<longleftrightarrow> unat w div 2 ^ ?k = unat n div 2 ^ ?k"
    by (simp only: word_unat_eq_iff unat_drop_bit)
  also have "\<dots> \<longleftrightarrow> net_lo n (pfx_bits p) \<le> unat w \<and> unat w \<le> net_hi n (pfx_bits p)"
  proof
    assume eq: "unat w div 2 ^ ?k = unat n div 2 ^ ?k"
    have "unat w mod 2 ^ ?k < 2 ^ ?k" by simp
    then show "net_lo n (pfx_bits p) \<le> unat w \<and> unat w \<le> net_hi n (pfx_bits p)"
      using div_mult_mod_eq [of "unat w" "2 ^ ?k"]
      unfolding net_hi_def net_lo_def eq [symmetric] by (intro conjI) linarith+
  next
    assume a: "net_lo n (pfx_bits p) \<le> unat w \<and> unat w \<le> net_hi n (pfx_bits p)"
    then have "unat n div 2 ^ ?k * 2 ^ ?k \<le> unat w"
      and "unat w < Suc (unat n div 2 ^ ?k) * 2 ^ ?k"
      using zero_less_power [of "2::nat" ?k] unfolding net_hi_def net_lo_def by (auto, linarith)
    then show "unat w div 2 ^ ?k = unat n div 2 ^ ?k"
      by (metis div_nat_eqI mult.commute)
  qed
  finally show ?thesis .
qed

lemma masked_v4:
  assumes "pfx_addr p = Addr4 n"
  shows "pfx_addr (Masked p) = Addr4 (of_nat (net_lo n (pfx_bits p)))"
proof -
  have "clear_low (32 - pfx_bits p) n = of_nat (net_lo n (pfx_bits p))"
    using unat_clear_low [of "32 - pfx_bits p" n] of_nat_unat_id [of "clear_low (32 - pfx_bits p) n"]
    unfolding net_lo_def by simp
  then show ?thesis using assms by (simp add: Masked_def)
qed

lemma to_v4_form_small:
  assumes "0 \<le> v" and "v < 2 ^ 32"
  shows "to_v4_form (Addr6 (word_of_int v) []) = Addr4 (word_of_int v)"
proof -
  have "drop_bit 32 (word_of_int v :: u128) = 0"
  proof -
    have "uint (word_of_int v :: u128) = v"
      using assms by (simp add: uint_word_of_int)
    then have "unat (word_of_int v :: u128) = nat v" by (metis unat_eq_nat_uint)
    then have "unat (drop_bit 32 (word_of_int v :: u128)) = nat v div 2 ^ 32"
      by (simp only: unat_drop_bit)
    also have "\<dots> = 0" using assms by (simp add: nat_less_iff)
    finally show ?thesis by (metis unat_eq_zero)
  qed
  moreover have "ucast (word_of_int v :: u128) = (word_of_int v :: u32)"
    by (simp add: unsigned_of_int take_bit_word_eq_self flip: of_int_take_bit)
       (rule bit_word_eqI, auto simp: bit_simps)
  ultimately show ?thesis by (simp add: to_v4_form_def)
qed

lemma uint_of_nat_small: "k < 2 ^ 32 \<Longrightarrow> uint (of_nat k :: u32) = int k"
  by (simp add: uint_nat unat_of_nat)

lemma MaxAddress_v4:
  assumes "pfx_addr p = Addr4 n" and "pfx_bits p \<le> 32"
  shows "MaxAddress p = Inr (Addr4 (of_nat (net_hi n (pfx_bits p))))"
proof -
  let ?b = "pfx_bits p"
  have lo: "net_lo n ?b < 2 ^ 32" using net_hi_bound [OF assms(2)] net_lo_le_hi le_less_trans by blast
  have base: "AddrToBig (pfx_addr (Masked p)) = int (net_lo n ?b)"
    by (simp only: masked_v4 [OF assms(1)] AddrToBig_def addr_value.simps uint_of_nat_small [OF lo])
  have hi: "int (net_lo n ?b) + (2 ^ (32 - ?b) - 1) = int (net_hi n ?b)"
  proof -
    have "int (net_lo n ?b + 2 ^ (32 - ?b) - 1) = int (net_lo n ?b + 2 ^ (32 - ?b)) - 1"
      using zero_less_power [of "2::nat" "32 - ?b"] by (simp add: of_nat_diff Suc_leI)
    then show ?thesis by (simp add: net_hi_def)
  qed
  have bnd: "int (net_hi n ?b) < 2 ^ 32" using net_hi_bound [OF assms(2), of n] by simp
  then have "BigToAddr (int (net_hi n ?b)) = Some (Addr6 (word_of_int (int (net_hi n ?b))) [])"
    by (simp add: BigToAddr_def)
  moreover have "to_v4_form (Addr6 (word_of_int (int (net_hi n ?b))) []) = Addr4 (of_nat (net_hi n ?b))"
    using to_v4_form_small [OF _ bnd] by simp
  ultimately show ?thesis
    unfolding MaxAddress_def Let_def base using assms(1) hi by simp
qed

lemma AddToAddr_v4:
  assumes "0 \<le> uint w + d" and "uint w + d < 2 ^ 32"
  shows "AddToAddr (Addr4 w) d = Some (Addr4 (word_of_int (uint w + d)))"
  using assms to_v4_form_small [OF assms] by (simp add: AddToAddr_def AddrToBig_def BigToAddr_def Let_def)

text \<open>The first and last allocatable address of an IPv4 prefix: network and broadcast are left
  out unless the prefix is a \<^verbatim>\<open>/31\<close> or a \<^verbatim>\<open>/32\<close>.\<close>

definition host_lo :: "u32 \<Rightarrow> nat \<Rightarrow> nat" where
  "host_lo n bits = (if 32 - bits > 1 then net_lo n bits + 1 else net_lo n bits)"

definition host_hi :: "u32 \<Rightarrow> nat \<Rightarrow> nat" where
  "host_hi n bits = (if 32 - bits > 1 then net_hi n bits - 1 else net_hi n bits)"

lemma host_bounds:
  assumes "bits \<le> 32"
  shows "net_lo n bits \<le> host_lo n bits" "host_lo n bits \<le> host_hi n bits"
    "host_hi n bits \<le> net_hi n bits" "host_hi n bits < 2 ^ 32"
proof -
  have "(2::nat) ^ 2 \<le> 2 ^ (32 - bits)" if "32 - bits > 1"
    using that by (intro power_increasing) auto
  then have "net_lo n bits + 3 \<le> net_hi n bits" if "32 - bits > 1"
    using that unfolding net_hi_def by auto
  then show "net_lo n bits \<le> host_lo n bits" "host_lo n bits \<le> host_hi n bits"
    "host_hi n bits \<le> net_hi n bits" "host_hi n bits < 2 ^ 32"
    using net_lo_le_hi [of n bits] net_hi_bound [OF assms, of n]
    by (fastforce simp: host_lo_def host_hi_def)+
qed

lemma DefaultHostRange_v4:
  assumes "pfx_addr p = Addr4 n" and "pfx_bits p \<le> 32"
  shows "DefaultHostRange p = Inr (Addr4 (of_nat (host_lo n (pfx_bits p))), Addr4 (of_nat (host_hi n (pfx_bits p))))"
proof (cases "32 - pfx_bits p > 1")
  case True
  let ?b = "pfx_bits p"
  note hb = host_bounds [OF assms(2), of n]
  have lo: "net_lo n ?b + 1 \<le> net_hi n ?b - 1" and hi: "net_hi n ?b < 2 ^ 32"
    using hb True net_hi_bound [OF assms(2), of n] by (auto simp: host_lo_def host_hi_def)
  have "AddToAddr (Addr4 (of_nat (net_lo n ?b))) 1 = Some (Addr4 (of_nat (host_lo n ?b)))"
    using AddToAddr_v4 [of "of_nat (net_lo n ?b)" 1] uint_of_nat_small [of "net_lo n ?b"] lo hi True
    by (simp add: host_lo_def)
  moreover have "AddToAddr (Addr4 (of_nat (net_hi n ?b))) (-1) = Some (Addr4 (of_nat (host_hi n ?b)))"
    using AddToAddr_v4 [of "of_nat (net_hi n ?b)" "-1"] uint_of_nat_small [of "net_hi n ?b"] lo hi True
    by (simp add: host_hi_def of_nat_diff)
  ultimately show ?thesis
    using True assms(1) unfolding DefaultHostRange_def Let_def masked_v4 [OF assms(1)] MaxAddress_v4 [OF assms]
    by simp
next
  case False
  then show ?thesis
    unfolding DefaultHostRange_def Let_def masked_v4 [OF assms(1)] MaxAddress_v4 [OF assms]
    by (simp add: host_lo_def host_hi_def)
qed

end
