(* ===== verification/Models.thy ===== *)
theory Models
  imports Prelude "HOL-Library.List_Lexorder" "HOL-Library.Char_ord"
begin

text \<open>
  The records of \<^verbatim>\<open>pkg/models\<close> that the modelled components work on, and the JSON
  values stored in them.  A field keeps the name of the Go field behind a prefix that names
  its struct; an optional pointer is an option, an instant the number of nanoseconds since
  the Unix epoch.  The zero \<^verbatim>\<open>time.Time\<close> is 1 January of year 1.

  A \<^verbatim>\<open>json.RawMessage\<close> column is represented by what the code can observe of it: it is
  empty, it is the text \<^verbatim>\<open>json.Marshal\<close> writes for a value, or it is another text, with
  the value it decodes to if it is valid JSON.
\<close>

section \<open>JSON\<close>

datatype json =
  JNull | JBool bool | JInt int | JStr string | JArr "json list" | JObj "(string \<times> json) list"

datatype raw_json = RawEmpty | RawCanonical json | RawOther "json option"

text \<open>A Go map marshals with its keys in byte order: an object is a key-sorted list.\<close>

fun obj_put :: "string \<Rightarrow> json \<Rightarrow> (string \<times> json) list \<Rightarrow> (string \<times> json) list" where
  "obj_put k v [] = [(k, v)]"
| "obj_put k v ((k', v') # fs) =
     (if k = k' then (k, v) # fs
      else if k < k' then (k, v) # (k', v') # fs
      else (k', v') # obj_put k v fs)"

definition json_char :: "char \<Rightarrow> string" where
  "json_char c =
     (let n = of_char c :: nat; bs = char_of (92::nat) in
      if n = 34 \<or> n = 92 then [bs, c]
      else if n = 8 then [bs, CHR ''b''] else if n = 12 then [bs, CHR ''f'']
      else if n = 10 then [bs, CHR ''n''] else if n = 13 then [bs, CHR ''r'']
      else if n = 9 then [bs, CHR ''t'']
      else if n < 32 \<or> n = 60 \<or> n = 62 \<or> n = 38
      then [bs] @ ''u00'' @ [hex_char (n div 16), hex_char (n mod 16)]
      else [c])"

definition json_string :: "string \<Rightarrow> string" where
  "json_string s = [char_of (34::nat)] @ concat (map json_char s) @ [char_of (34::nat)]"

lemma json_char_code [code]:
  "json_char c =
     (let n = of_char c :: nat in
      if n = 34 \<or> n = 92 then [CHR 0x5C, c]
      else if n = 8 then [CHR 0x5C, CHR ''b''] else if n = 12 then [CHR 0x5C, CHR ''f'']
      else if n = 10 then [CHR 0x5C, CHR ''n''] else if n = 13 then [CHR 0x5C, CHR ''r'']
      else if n = 9 then [CHR 0x5C, CHR ''t'']
      else if n < 32 \<or> n = 60 \<or> n = 62 \<or> n = 38
      then [CHR 0x5C] @ ''u00'' @ [hex_char (n div 16), hex_char (n mod 16)]
      else [c])"
  by (simp add: json_char_def Let_def char_of_constants)

lemma json_string_code [code]: "json_string s = CHR 0x22 # concat (map json_char s) @ [CHR 0x22]"
  by (simp add: json_string_def char_of_constants)

definition json_int :: "int \<Rightarrow> string" where
  "json_int i = (if i < 0 then ''-'' else []) @ dec (nat \<bar>i\<bar>)"

fun json_text :: "json \<Rightarrow> string" where
  "json_text JNull = ''null''"
| "json_text (JBool b) = (if b then ''true'' else ''false'')"
| "json_text (JInt i) = json_int i"
| "json_text (JStr s) = json_string s"
| "json_text (JArr vs) = ''['' @ join_with '','' (map json_text vs) @ '']''"
| "json_text (JObj fs) =
     ''{'' @ join_with '','' (map (\<lambda>(k, v). json_string k @ '':'' @ json_text v) fs) @ ''}''"

lemma map_of_obj_put [simp]: "map_of (obj_put k v fs) = (map_of fs)(k \<mapsto> v)"
  by (induction fs) (auto simp: fun_eq_iff)

lemma obj_put_keys: "fst ` set (obj_put k v fs) = insert k (fst ` set fs)"
  by (induction k v fs rule: obj_put.induct) (simp_all add: insert_commute)

lemma obj_put_sorted:
  "sorted (map fst fs) \<Longrightarrow> distinct (map fst fs) \<Longrightarrow>
   sorted (map fst (obj_put k v fs)) \<and> distinct (map fst (obj_put k v fs))"
proof (induction fs)
  case (Cons f fs)
  obtain k' v' where f: "f = (k', v')" by (cases f)
  have keys: "set (map fst (obj_put k v fs)) = insert k (fst ` set fs)"
    using obj_put_keys [of k v fs] by simp
  from Cons have IH: "sorted (map fst (obj_put k v fs))" "distinct (map fst (obj_put k v fs))"
    by auto
  show ?case using Cons.prems IH keys by (force simp: f)
qed simp

section \<open>Instants\<close>

definition zero_time :: gotime where "zero_time = - 62135596800 * second"

definition IsZeroTime :: "gotime \<Rightarrow> bool" where "IsZeroTime t \<longleftrightarrow> t = zero_time"

text \<open>The calendar date of a day number counted from 1 January 1970 (proleptic Gregorian).\<close>

definition civil_date :: "int \<Rightarrow> int \<times> int \<times> int" where
  "civil_date days =
     (let z = days + 719468; era = z div 146097; doe = z mod 146097;
          yoe = (doe - doe div 1460 + doe div 36524 - doe div 146096) div 365;
          doy = doe - (365 * yoe + yoe div 4 - yoe div 100);
          mp = (5 * doy + 2) div 153;
          d = doy - (153 * mp + 2) div 5 + 1;
          m = (if mp < 10 then mp + 3 else mp - 9) in
      (yoe + era * 400 + (if m \<le> 2 then 1 else 0), m, d))"

definition pad_dec :: "nat \<Rightarrow> int \<Rightarrow> string" where
  "pad_dec w n = (let s = dec (nat n) in replicate (w - length s) (CHR ''0'') @ s)"

text \<open>\<^verbatim>\<open>UTC().Format(time.RFC3339)\<close>.\<close>

definition rfc3339 :: "gotime \<Rightarrow> string" where
  "rfc3339 t =
     (let s = t div second; days = s div 86400; sod = s mod 86400; (y, m, d) = civil_date days in
      pad_dec 4 y @ ''-'' @ pad_dec 2 m @ ''-'' @ pad_dec 2 d @ ''T'' @ pad_dec 2 (sod div 3600)
      @ '':'' @ pad_dec 2 (sod div 60 mod 60) @ '':'' @ pad_dec 2 (sod mod 60) @ ''Z'')"

section \<open>Records\<close>

definition AllocationModeSequential :: string where "AllocationModeSequential = ''SEQUENTIAL''"
definition AllocationModeRoundRobin :: string where "AllocationModeRoundRobin = ''ROUND_ROBIN''"
definition AllocationModePriorityWeighted :: string where
  "AllocationModePriorityWeighted = ''PRIORITY_WEIGHTED''"

definition SecurityStateOK :: string where "SecurityStateOK = ''OK''"
definition SecurityStateSuspect :: string where "SecurityStateSuspect = ''SUSPECT''"
definition SecurityStateBlocked :: string where "SecurityStateBlocked = ''BLOCKED''"

record ip_range =
  exStart :: string
  exEnd :: string

record address_pool =
  poolID :: string
  poolTenantID :: string
  poolScope :: string
  poolParentID :: "string option"
  poolName :: string
  poolCIDR :: string
  poolNetwork :: string
  poolNetmask :: string
  poolRangeStart :: string
  poolRangeEnd :: string
  poolGateway :: string
  poolOption43 :: string
  poolDNS :: "string list"
  poolVLANID :: "int option"
  poolInterfaceID :: "string option"
  poolSSID :: "string option"
  poolLocation :: "string option"
  poolGeoCode :: "string option"
  poolDeviceProfile :: "string option"
  poolTagFingerprint :: "string option"
  poolReservePercent :: int
  poolMinLeaseTime :: int
  poolMaxLeaseTime :: int
  poolLeaseProfileID :: string
  poolTags :: raw_json
  poolExclusions :: "ip_range list"
  poolAllocationMode :: string
  poolPriorityWeight :: int
  poolStatus :: string
  poolCreatedAt :: gotime
  poolUpdatedAt :: gotime

text \<open>The column \<^verbatim>\<open>conflict_history\<close> holds a JSON list of conflict entries, nothing, or a
  text that does not decode.\<close>

record conflict_entry =
  ceTimestamp :: gotime
  ceSignal :: string
  ceReason :: string

datatype conflict_raw = ConflictNone | ConflictEntries "conflict_entry list" | ConflictInvalid

definition empty_pool :: address_pool where
  "empty_pool =
     \<lparr>poolID = [], poolTenantID = [], poolScope = [], poolParentID = None, poolName = [],
      poolCIDR = [], poolNetwork = [], poolNetmask = [], poolRangeStart = [], poolRangeEnd = [],
      poolGateway = [], poolOption43 = [], poolDNS = [], poolVLANID = None, poolInterfaceID = None,
      poolSSID = None, poolLocation = None, poolGeoCode = None, poolDeviceProfile = None,
      poolTagFingerprint = None, poolReservePercent = 0, poolMinLeaseTime = 0,
      poolMaxLeaseTime = 0, poolLeaseProfileID = [], poolTags = RawEmpty, poolExclusions = [],
      poolAllocationMode = [], poolPriorityWeight = 0, poolStatus = [],
      poolCreatedAt = zero_time, poolUpdatedAt = zero_time\<rparr>"

record lease =
  leaseID :: string
  leaseTenantID :: string
  leasePoolID :: string
  leaseIPAddress :: string
  leaseHardwareAddr :: string
  leaseClientID :: string
  leaseUserID :: string
  leaseMobilityAnchorID :: string
  leaseDeviceType :: string
  leaseLastAccessPointID :: string
  leaseLastControllerID :: string
  leaseLastGeoZone :: string
  leaseMobilityLocationHint :: string
  leaseMDMManaged :: bool
  leaseMDMSource :: string
  leaseMDMTags :: raw_json
  leaseMDMObservedAt :: "gotime option"
  leaseRelayInfo :: bytes
  leaseSessionContinuity :: raw_json
  leaseExpiresAt :: gotime
  leaseState :: string
  leaseSecurityState :: string
  leaseCooldownUntil :: "gotime option"
  leaseConflictHistory :: conflict_raw
  leaseCreatedAt :: gotime
  leaseUpdatedAt :: gotime

definition empty_lease :: lease where
  "empty_lease =
     \<lparr>leaseID = [], leaseTenantID = [], leasePoolID = [], leaseIPAddress = [],
      leaseHardwareAddr = [], leaseClientID = [], leaseUserID = [], leaseMobilityAnchorID = [],
      leaseDeviceType = [], leaseLastAccessPointID = [], leaseLastControllerID = [],
      leaseLastGeoZone = [], leaseMobilityLocationHint = [], leaseMDMManaged = False,
      leaseMDMSource = [], leaseMDMTags = RawEmpty, leaseMDMObservedAt = None, leaseRelayInfo = [],
      leaseSessionContinuity = RawEmpty, leaseExpiresAt = zero_time, leaseState = [],
      leaseSecurityState = [], leaseCooldownUntil = None, leaseConflictHistory = ConflictNone,
      leaseCreatedAt = zero_time, leaseUpdatedAt = zero_time\<rparr>"

record prefix_lease =
  plID :: string
  plTenantID :: string
  plPoolID :: string
  plClientID :: string
  plIAPDID :: u32
  plPrefix :: string
  plPrefixLen :: int
  plState :: string
  plExpiresAt :: gotime
  plCreatedAt :: gotime
  plUpdatedAt :: gotime

record lease_profile =
  profID :: string
  profTenantID :: string
  profName :: string
  profDefaultDuration :: duration
  profMinDuration :: duration
  profMaxDuration :: duration
  profRenewalTime :: duration
  profRebindingTime :: duration
  profNotificationLead :: duration
  profInfinite :: bool
  profSleepyCapable :: bool
  profSleepyOfflineWindow :: duration
  profSleepyHoldDuration :: duration
  profMobilityGracePeriod :: duration
  profDeviceType :: string
  profCreatedAt :: gotime
  profUpdatedAt :: gotime

definition empty_profile :: lease_profile where
  "empty_profile =
     \<lparr>profID = [], profTenantID = [], profName = [], profDefaultDuration = 0,
      profMinDuration = 0, profMaxDuration = 0, profRenewalTime = 0, profRebindingTime = 0,
      profNotificationLead = 0, profInfinite = False, profSleepyCapable = False,
      profSleepyOfflineWindow = 0, profSleepyHoldDuration = 0, profMobilityGracePeriod = 0,
      profDeviceType = [], profCreatedAt = zero_time, profUpdatedAt = zero_time\<rparr>"

record static_binding =
  bindID :: string
  bindTenantID :: string
  bindIdentifier :: string
  bindIdentifierType :: string
  bindPoolID :: string
  bindIPAddress :: string
  bindLeaseProfileID :: string
  bindMetadata :: raw_json
  bindStatus :: string
  bindStatusSource :: "string option"
  bindLastSeenAt :: "gotime option"
  bindStatusUpdatedAt :: "gotime option"
  bindCreatedAt :: gotime
  bindUpdatedAt :: gotime

end
