(* ===== verification/Lease_Range.thy ===== *)
theory Lease_Range
  imports Netip Models "HOL-Library.Product_Lexorder"
begin

text \<open>
  Address selection inside one pool: the range arithmetic of
  \<^verbatim>\<open>internal/lease/service.go\<close> (pool bounds, exclusions, the reserve window and the three
  IPv4 allocation modes, and the randomised IPv6 search).

  Addresses are \<^verbatim>\<open>uint32\<close> and wrap.  \<^verbatim>\<open>scanIPv4Range\<close> compares its counter with
  the end of the range before it is incremented, so a range that ends at 255.255.255.255
  may never be left: the loop is a partial function, and \<open>None\<close> is a loop that does not
  end.  The address sets of the code are sets of strings.

  The contract of an allocation mode is the locale \<open>ipv4_allocator\<close>: over a window whose
  end is not the last address of the space it returns a free address of the window exactly
  when there is one.  Draining a pool is reasoned about once, inside it.
\<close>

section \<open>Definitions\<close>

definition addrToUint32 :: "addr \<Rightarrow> u32" where
  "addrToUint32 a = (case Unmap a of Addr4 w \<Rightarrow> w | _ \<Rightarrow> 0)"

definition uint32ToAddr :: "u32 \<Rightarrow> addr" where
  "uint32ToAddr v = Addr4 v"

definition isUsableHost :: "prefix \<Rightarrow> addr \<Rightarrow> bool" where
  "isUsableHost prefix addr =
     (if \<not> Contains prefix addr then False
      else if Is4 addr then
        let hostBits = 32 - int (pfx_bits prefix) in
        if hostBits \<le> 1 then True
        else
          let start = addrToUint32 (pfx_addr (Masked prefix)); value = addrToUint32 addr in
          if value = start then False
          else value \<noteq> start + of_int (2 ^ nat hostBits - 1)
      else True)"

record ipv4Range =
  start4 :: u32
  end4 :: u32

record ipv6Range =
  start6 :: int
  end6 :: int

fun isIPv4Excluded :: "u32 \<Rightarrow> ipv4Range list \<Rightarrow> bool" where
  "isIPv4Excluded value [] = False"
| "isIPv4Excluded value (r # rs) =
     (if value < start4 r then False
      else if start4 r \<le> value \<and> value \<le> end4 r then True
      else isIPv4Excluded value rs)"

fun isIPv6Excluded :: "int \<Rightarrow> ipv6Range list \<Rightarrow> bool" where
  "isIPv6Excluded value [] = False"
| "isIPv6Excluded value (r # rs) =
     (if value < start6 r then False
      else if start6 r \<le> value \<and> value \<le> end6 r then True
      else isIPv6Excluded value rs)"

definition isExcluded :: "addr \<Rightarrow> ipv4Range list \<Rightarrow> ipv6Range list \<Rightarrow> bool" where
  "isExcluded addr v4 v6 =
     (if Is4 addr then isIPv4Excluded (addrToUint32 addr) v4
      else isIPv6Excluded (AddrToBig addr) v6)"

definition withinBounds :: "addr \<Rightarrow> addr \<Rightarrow> addr \<Rightarrow> bool" where
  "withinBounds addr start end \<longleftrightarrow> Compare addr start \<ge> 0 \<and> Compare addr end \<le> 0"

text \<open>The body of every IPv4 search: the three reasons to skip a candidate.\<close>

definition candidate_blocked :: "string set \<Rightarrow> string set \<Rightarrow> ipv4Range list \<Rightarrow> u32 \<Rightarrow> bool" where
  "candidate_blocked used cooldown exclusions c \<longleftrightarrow>
     isIPv4Excluded c exclusions \<or> addr_string (uint32ToAddr c) \<in> cooldown \<or>
     addr_string (uint32ToAddr c) \<in> used"

partial_function (option) scan_loop ::
  "u32 \<Rightarrow> u32 \<Rightarrow> string set \<Rightarrow> string set \<Rightarrow> ipv4Range list \<Rightarrow> string option option" where
  "scan_loop candidate end used cooldown exclusions =
     (if candidate \<le> end
      then if candidate_blocked used cooldown exclusions candidate
           then scan_loop (candidate + 1) end used cooldown exclusions
           else Some (Some (addr_string (uint32ToAddr candidate)))
      else Some None)"

declare scan_loop.simps [code]

definition scanIPv4Range ::
  "u32 \<Rightarrow> u32 \<Rightarrow> string set \<Rightarrow> string set \<Rightarrow> ipv4Range list \<Rightarrow> string option option" where
  "scanIPv4Range start end used cooldown exclusions =
     (if end < start then Some None else scan_loop start end used cooldown exclusions)"

definition window_end :: "u32 \<Rightarrow> u32 \<Rightarrow> int \<Rightarrow> u32" where
  "window_end start end alloc =
     (let allocEnd = start + of_int (alloc - 1) in if allocEnd > end then end else allocEnd)"

definition applyReserveWindow :: "u32 \<Rightarrow> u32 \<Rightarrow> int \<Rightarrow> u32 option" where
  "applyReserveWindow start end reservePercent =
     (if end < start then None
      else
        let span = uint (end - start) + 1 in
        if span \<le> 0 then None
        else if reservePercent > 0
        then if reservePercent \<ge> 100 then None
             else let reserved = quot (span * reservePercent) 100 in
               if reserved \<ge> span then None
               else Some (window_end start end (span - reserved))
        else Some (window_end start end span))"

definition nextAvailableIPv4Sequential ::
  "u32 \<Rightarrow> u32 \<Rightarrow> string set \<Rightarrow> string set \<Rightarrow> int \<Rightarrow> ipv4Range list \<Rightarrow> string option option" where
  "nextAvailableIPv4Sequential start end used cooldown reservePercent exclusions =
     (case applyReserveWindow start end reservePercent of
        None \<Rightarrow> Some None
      | Some allocEnd \<Rightarrow> scanIPv4Range start allocEnd used cooldown exclusions)"

definition preferred_end :: "u32 \<Rightarrow> u32 \<Rightarrow> int \<Rightarrow> u32" where
  "preferred_end start allocEnd weight =
     (if weight > 0 \<and> weight < 100 then
        let span = uint (allocEnd - start) + 1;
            preferred = quot (span * weight) 100;
            preferred = (if preferred \<le> 0 then 1 else preferred);
            pe = start + of_int (preferred - 1) in
        if pe > allocEnd then allocEnd else pe
      else allocEnd)"

definition nextAvailableIPv4Priority ::
  "u32 \<Rightarrow> u32 \<Rightarrow> string set \<Rightarrow> string set \<Rightarrow> int \<Rightarrow> ipv4Range list \<Rightarrow> int \<Rightarrow> string option option" where
  "nextAvailableIPv4Priority start end used cooldown reservePercent exclusions weight =
     (case applyReserveWindow start end reservePercent of
        None \<Rightarrow> Some None
      | Some allocEnd \<Rightarrow>
          let preferredEnd = preferred_end start allocEnd weight in
          (case scanIPv4Range start preferredEnd used cooldown exclusions of
             None \<Rightarrow> None
           | Some (Some ip) \<Rightarrow> Some (Some ip)
           | Some None \<Rightarrow>
               if preferredEnd < allocEnd
               then scanIPv4Range (preferredEnd + 1) allocEnd used cooldown exclusions
               else Some None))"

definition incrementIPv4 :: "u32 \<Rightarrow> u32 \<Rightarrow> u32 \<Rightarrow> u32" where
  "incrementIPv4 current start end =
     (if current < start \<or> current > end then start
      else if current = end then start
      else current + 1)"

text \<open>The cursors \<^verbatim>\<open>rrCursor\<close> of the service, one per pool.\<close>

type_synonym cursors = "string \<rightharpoonup> u32"

definition roundRobinCursor :: "cursors \<Rightarrow> string \<Rightarrow> u32 \<Rightarrow> u32 \<Rightarrow> u32" where
  "roundRobinCursor cur pool start end =
     (case cur pool of
        None \<Rightarrow> end
      | Some value \<Rightarrow> if value < start \<or> value > end then end else value)"

fun rr_loop ::
  "nat \<Rightarrow> u32 \<Rightarrow> u32 \<Rightarrow> u32 \<Rightarrow> string set \<Rightarrow> string set \<Rightarrow> ipv4Range list \<Rightarrow> u32 option" where
  "rr_loop 0 value start end used cooldown exclusions = None"
| "rr_loop (Suc left) value start end used cooldown exclusions =
     (let value = incrementIPv4 value start end in
      if candidate_blocked used cooldown exclusions value
      then rr_loop left value start end used cooldown exclusions
      else Some value)"

definition nextAvailableIPv4RoundRobin ::
  "cursors \<Rightarrow> string \<Rightarrow> u32 \<Rightarrow> u32 \<Rightarrow> string set \<Rightarrow> string set \<Rightarrow> int \<Rightarrow> ipv4Range list \<Rightarrow>
   string option \<times> cursors" where
  "nextAvailableIPv4RoundRobin cur pool start end used cooldown reservePercent exclusions =
     (case applyReserveWindow start end reservePercent of
        None \<Rightarrow> (None, cur)
      | Some allocEnd \<Rightarrow>
          let window = uint (allocEnd - start) + 1;
              cursor = roundRobinCursor cur pool start allocEnd in
          if window \<le> 0 then (None, cur)
          else (case rr_loop (nat window) cursor start allocEnd used cooldown exclusions of
                  None \<Rightarrow> (None, cur)
                | Some value \<Rightarrow>
                    (Some (addr_string (uint32ToAddr value)), cur(pool \<mapsto> value))))"

definition normalizeAllocationMode :: "address_pool \<Rightarrow> string" where
  "normalizeAllocationMode pool =
     (let mode = trim_space (to_upper (poolAllocationMode pool)) in
      if mode = AllocationModeRoundRobin \<or> mode = AllocationModePriorityWeighted then mode
      else AllocationModeSequential)"

definition normalizePriorityWeight :: "address_pool \<Rightarrow> int" where
  "normalizePriorityWeight pool =
     (if poolPriorityWeight pool \<le> 0 then 50
      else if poolPriorityWeight pool > 100 then 100
      else poolPriorityWeight pool)"

text \<open>The \<^verbatim>\<open>switch mode\<close> of \<^verbatim>\<open>pickIPAddress\<close>: one search in the pool's mode.\<close>

definition next_by_mode ::
  "address_pool \<Rightarrow> cursors \<Rightarrow> u32 \<Rightarrow> u32 \<Rightarrow> string set \<Rightarrow> string set \<Rightarrow> int \<Rightarrow> ipv4Range list \<Rightarrow>
   (string option \<times> cursors) option" where
  "next_by_mode pool cur start32 end32 used cooldown reservePercent exclusions =
     (let mode = normalizeAllocationMode pool in
      if mode = AllocationModeRoundRobin
      then Some (nextAvailableIPv4RoundRobin cur (poolID pool) start32 end32 used cooldown
                   reservePercent exclusions)
      else if mode = AllocationModePriorityWeighted
      then map_option (\<lambda>r. (r, cur))
             (nextAvailableIPv4Priority start32 end32 used cooldown reservePercent exclusions
                (normalizePriorityWeight pool))
      else map_option (\<lambda>r. (r, cur))
             (nextAvailableIPv4Sequential start32 end32 used cooldown reservePercent exclusions))"

text \<open>\<^verbatim>\<open>nextAvailableIPv6\<close> draws offsets below the usable span from
  \<^verbatim>\<open>crypto/rand\<close>; the draws are an argument, one entry per attempt and \<open>None\<close> for a
  failing reader.\<close>

fun ipv6_attempts ::
  "int option list \<Rightarrow> int \<Rightarrow> int \<Rightarrow> string set \<Rightarrow> string set \<Rightarrow> ipv6Range list \<Rightarrow> string option" where
  "ipv6_attempts [] startInt endInt used cooldown exclusions = None"
| "ipv6_attempts (None # draws) startInt endInt used cooldown exclusions = None"
| "ipv6_attempts (Some offset # draws) startInt endInt used cooldown exclusions =
     (let candidateInt = startInt + offset;
          continue = ipv6_attempts draws startInt endInt used cooldown exclusions in
      if candidateInt > endInt then continue
      else if isIPv6Excluded candidateInt exclusions then continue
      else case BigToAddr candidateInt of
        None \<Rightarrow> continue
      | Some addr \<Rightarrow>
          let ip = addr_string addr in
          if ip \<in> cooldown then continue
          else if ip \<in> used then continue
          else Some ip)"

definition ipv6_usable :: "int \<Rightarrow> int \<Rightarrow> int option" where
  "ipv6_usable addrs reservePercent =
     (if reservePercent > 0 \<and> reservePercent < 100
      then let reserved = addrs * reservePercent div 100 in
        if reserved \<ge> addrs then None else Some (addrs - reserved)
      else Some addrs)"

definition nextAvailableIPv6 ::
  "(int \<Rightarrow> int option list) \<Rightarrow> addr \<Rightarrow> addr \<Rightarrow> string set \<Rightarrow> string set \<Rightarrow> int \<Rightarrow>
   ipv6Range list \<Rightarrow> string option" where
  "nextAvailableIPv6 rand_draws start end used cooldown reservePercent exclusions =
     (let startInt = AddrToBig start; endInt = AddrToBig end; span = endInt - startInt + 1 in
      if span \<le> 0 then None
      else case ipv6_usable span reservePercent of
        None \<Rightarrow> None
      | Some usable \<Rightarrow>
          if usable \<le> 0 then None
          else ipv6_attempts (take 2048 (rand_draws usable)) startInt endInt used cooldown exclusions)"

definition resolvePoolBounds :: "address_pool \<Rightarrow> prefix \<Rightarrow> addr \<times> addr" where
  "resolvePoolBounds pool prefix =
     (case DefaultHostRange prefix of
        Inl _ \<Rightarrow> (pfx_addr (Masked prefix), pfx_addr (Masked prefix))
      | Inr (start, end) \<Rightarrow>
          let start1 = (case ParseAddr (poolRangeStart pool) of
                 Some addr \<Rightarrow> if poolRangeStart pool \<noteq> [] \<and> Contains prefix addr then addr else start
               | None \<Rightarrow> start);
              end1 = (case ParseAddr (poolRangeEnd pool) of
                 Some addr \<Rightarrow> if poolRangeEnd pool \<noteq> [] \<and> Contains prefix addr then addr else end
               | None \<Rightarrow> end);
              (start2, end2) = (if Compare start1 end1 > 0 then (start, end) else (start1, end1));
              (start3, end3) = (if \<not> IsValid start2 \<or> \<not> IsValid end2
                 then (pfx_addr (Masked prefix), pfx_addr (Masked prefix)) else (start2, end2)) in
          if Is4 (pfx_addr prefix)
          then let start4 = Unmap start3; end4 = Unmap end3 in
            (if \<not> Is4 start4 then Unmap (pfx_addr (Masked prefix)) else start4,
             if \<not> Is4 end4 then Unmap (pfx_addr (Masked prefix)) else end4)
          else (start3, end3))"

text \<open>The clipped bounds of one exclusion, \<open>None\<close> when the entry is skipped.\<close>

definition exclusion_range4 :: "prefix \<Rightarrow> u32 \<Rightarrow> u32 \<Rightarrow> ip_range \<Rightarrow> ipv4Range option" where
  "exclusion_range4 prefix startBound endBound ex =
     (case (ParseAddr (exStart ex), ParseAddr (exEnd ex)) of
        (Some sAddr, Some eAddr) \<Rightarrow>
          if \<not> Is4 sAddr \<or> \<not> Is4 eAddr then None
          else if \<not> Contains prefix sAddr \<or> \<not> Contains prefix eAddr then None
          else let sVal = addrToUint32 sAddr; eVal = addrToUint32 eAddr in
            if eVal < startBound \<or> sVal > endBound then None
            else Some \<lparr>start4 = (if sVal < startBound then startBound else sVal),
                       end4 = (if eVal > endBound then endBound else eVal)\<rparr>
      | _ \<Rightarrow> None)"

definition buildIPv4Exclusions ::
  "address_pool \<Rightarrow> prefix \<Rightarrow> addr \<Rightarrow> addr \<Rightarrow> ipv4Range list" where
  "buildIPv4Exclusions pool prefix start end =
     (if poolExclusions pool = [] \<or> \<not> Is4 (pfx_addr prefix) then []
      else sort_key (\<lambda>r. (unat (start4 r), unat (end4 r)))
             (List.map_filter
                (exclusion_range4 prefix (addrToUint32 start) (addrToUint32 end))
                (poolExclusions pool)))"

definition exclusion_range6 :: "prefix \<Rightarrow> int \<Rightarrow> int \<Rightarrow> ip_range \<Rightarrow> ipv6Range option" where
  "exclusion_range6 prefix startBound endBound ex =
     (case (ParseAddr (exStart ex), ParseAddr (exEnd ex)) of
        (Some sAddr, Some eAddr) \<Rightarrow>
          if Is4 sAddr \<or> Is4 eAddr then None
          else if \<not> Contains prefix sAddr \<or> \<not> Contains prefix eAddr then None
          else let sVal = AddrToBig sAddr; eVal = AddrToBig eAddr in
            if eVal < startBound \<or> sVal > endBound then None
            else Some \<lparr>start6 = (if sVal < startBound then startBound else sVal),
                       end6 = (if eVal > endBound then endBound else eVal)\<rparr>
      | _ \<Rightarrow> None)"

definition buildIPv6Exclusions ::
  "address_pool \<Rightarrow> prefix \<Rightarrow> addr \<Rightarrow> addr \<Rightarrow> ipv6Range list" where
  "buildIPv6Exclusions pool prefix start end =
     (if poolExclusions pool = [] \<or> Is4 (pfx_addr prefix) then []
      else sort_key (\<lambda>r. (start6 r, end6 r))
             (List.map_filter
                (exclusion_range6 prefix (AddrToBig start) (AddrToBig end))
                (poolExclusions pool)))"

definition capacityIPv4 :: "addr \<Rightarrow> addr \<Rightarrow> int" where
  "capacityIPv4 start end =
     (let start32 = uint (addrToUint32 start); end32 = uint (addrToUint32 end) in
      if end32 < start32 then 0 else end32 - start32 + 1)"

section \<open>The sequential scan\<close>

abbreviation ip_of :: "u32 \<Rightarrow> string" where "ip_of v \<equiv> addr_string (uint32ToAddr v)"

lemma ip_of_inj [simp]: "ip_of v = ip_of w \<longleftrightarrow> v = w"
  by (simp add: uint32ToAddr_def)

lemma unat_u32_Suc: "c \<noteq> -1 \<Longrightarrow> unat (c + 1) = Suc (unat c)" for c :: u32
  using unatSuc [of c] by (metis add.commute add_eq_0_iff)

lemma u32_below_max: "c \<le> e \<Longrightarrow> e \<noteq> -1 \<Longrightarrow> c \<noteq> -1" for c e :: u32
  by (metis word_n1_ge antisym)

lemma scan_loop_find:
  assumes "e \<noteq> -1" and "unat c \<le> Suc (unat e)"
  shows "scan_loop c e used cooldown ex =
    Some (map_option (\<lambda>n. ip_of (of_nat n))
      (find (\<lambda>n. \<not> candidate_blocked used cooldown ex (of_nat n)) [unat c..<Suc (unat e)]))"
  using assms(2)
proof (induction "Suc (unat e) - unat c" arbitrary: c)
  case 0
  then have "\<not> c \<le> e" by (simp add: word_le_nat_alt)
  with 0 show ?case by (subst scan_loop.simps) simp
next
  case (Suc k)
  then have le: "c \<le> e" by (simp add: word_le_nat_alt)
  then have nxt: "unat (c + 1) = Suc (unat c)"
    using unat_u32_Suc [OF u32_below_max [OF _ assms(1)]] by blast
  have range: "[unat c..<Suc (unat e)] = unat c # [Suc (unat c)..<Suc (unat e)]"
    using le by (simp add: upt_conv_Cons word_le_nat_alt del: upt_Suc)
  have "k = Suc (unat e) - unat (c + 1)" using Suc.hyps(2) nxt by simp
  then have IH: "scan_loop (c + 1) e used cooldown ex =
    Some (map_option (\<lambda>n. ip_of (of_nat n))
      (find (\<lambda>n. \<not> candidate_blocked used cooldown ex (of_nat n)) [Suc (unat c)..<Suc (unat e)]))"
    using Suc.hyps(1) [of "c + 1"] le nxt by (simp add: word_le_nat_alt del: upt_Suc)
  show ?case unfolding range using le by (subst scan_loop.simps) (simp add: IH del: upt_Suc)
qed

lemma scan_loop_sound:
  assumes "scan_loop c e used cooldown ex = Some r"
  shows "case r of Some ip \<Rightarrow> \<exists>v \<le> e. ip = ip_of v \<and> \<not> candidate_blocked used cooldown ex v
    | None \<Rightarrow> e \<noteq> -1"
proof (rule scan_loop.raw_induct [OF _ assms])
  fix scan :: "u32 \<Rightarrow> u32 \<Rightarrow> string set \<Rightarrow> string set \<Rightarrow> ipv4Range list \<Rightarrow> string option option"
    and c e :: u32 and used cooldown ex r
  assume IH: "\<And>c e used cooldown ex r. scan c e used cooldown ex = Some r \<Longrightarrow>
      (case r of Some ip \<Rightarrow> \<exists>v \<le> e. ip = ip_of v \<and> \<not> candidate_blocked used cooldown ex v
       | None \<Rightarrow> e \<noteq> -1)"
    and step: "(if c \<le> e
      then if candidate_blocked used cooldown ex c then scan (c + 1) e used cooldown ex
           else Some (Some (ip_of c))
      else Some None) = Some r"
  show "case r of Some ip \<Rightarrow> \<exists>v \<le> e. ip = ip_of v \<and> \<not> candidate_blocked used cooldown ex v
    | None \<Rightarrow> e \<noteq> -1"
    using IH [of "c + 1" e used cooldown ex r] step by (cases "c \<le> e") (auto split: if_splits)
qed

text \<open>A scan to the last address of the space goes on at 0.0.0.0.\<close>

lemma scan_loop_wraps:
  assumes "\<And>v. c \<le> v \<Longrightarrow> candidate_blocked used cooldown ex v"
  shows "scan_loop c (-1) used cooldown ex = scan_loop 0 (-1) used cooldown ex"
  using assms
proof (induction "2 ^ 32 - unat c" arbitrary: c rule: less_induct)
  case less
  have step: "scan_loop c (-1) used cooldown ex = scan_loop (c + 1) (-1) used cooldown ex"
    using less.prems by (subst scan_loop.simps) simp
  show ?case
  proof (cases "c = -1")
    case True
    then show ?thesis using step by simp
  next
    case False
    have "c \<le> c + 1" using unat_u32_Suc [OF False] by (simp add: word_le_nat_alt)
    moreover have "2 ^ 32 - unat (c + 1) < 2 ^ 32 - unat c"
      using unat_u32_Suc [OF False] unat_u32_bound [of c] by simp
    ultimately show ?thesis
      using step less.hyps [of "c + 1"] less.prems by (metis order_trans)
  qed
qed

lemma scan_loop_diverges:
  assumes "\<And>v. candidate_blocked used cooldown ex v"
  shows "scan_loop c (-1) used cooldown ex = None"
  using scan_loop_sound [of c "-1" used cooldown ex] assms
  by (cases "scan_loop c (-1) used cooldown ex") (fastforce split: option.splits)+

text \<open>The first free address of a range: what every allocation mode looks for.\<close>

definition first_free :: "string set \<Rightarrow> string set \<Rightarrow> ipv4Range list \<Rightarrow> u32 \<Rightarrow> u32 \<Rightarrow> u32 option" where
  "first_free used cooldown ex s e =
     map_option of_nat (find (\<lambda>n. \<not> candidate_blocked used cooldown ex (of_nat n)) [unat s..<Suc (unat e)])"

lemma scanIPv4Range_eq:
  assumes "e \<noteq> -1"
  shows "scanIPv4Range s e used cooldown ex = Some (map_option ip_of (first_free used cooldown ex s e))"
proof (cases "e < s")
  case True
  then show ?thesis by (simp add: scanIPv4Range_def first_free_def word_less_nat_alt)
next
  case False
  then have "unat s \<le> Suc (unat e)" by (simp add: word_less_nat_alt)
  then show ?thesis
    using False scan_loop_find [OF assms]
    by (simp add: scanIPv4Range_def first_free_def option.map_comp comp_def del: upt_Suc)
qed

lemma first_free_Some:
  assumes "first_free used cooldown ex s e = Some v"
  shows "s \<le> v \<and> v \<le> e \<and> \<not> candidate_blocked used cooldown ex v \<and>
    (\<forall>w. s \<le> w \<and> w < v \<longrightarrow> candidate_blocked used cooldown ex w)"
proof -
  from assms obtain n where n: "v = of_nat n"
    and f: "find (\<lambda>n. \<not> candidate_blocked used cooldown ex (of_nat n)) [unat s..<Suc (unat e)] = Some n"
    by (auto simp: first_free_def simp del: upt_Suc)
  from f obtain i where i: "i < length [unat s..<Suc (unat e)]" "n = [unat s..<Suc (unat e)] ! i"
    and free: "\<not> candidate_blocked used cooldown ex (of_nat n)"
    and before: "\<forall>j < i. candidate_blocked used cooldown ex (of_nat ([unat s..<Suc (unat e)] ! j))"
    by (auto simp: find_Some_iff simp del: upt_Suc)
  have n_val: "n = unat s + i" "n \<le> unat e" using i by (auto simp del: upt_Suc)
  then have un: "unat v = n"
    using unat_u32_bound [of e] unfolding n by (intro unat_of_nat_u32) linarith
  have "candidate_blocked used cooldown ex w" if w: "s \<le> w" "w < v" for w
  proof -
    have j: "unat w - unat s < i" using w un n_val by (auto simp: word_le_nat_alt word_less_nat_alt)
    then have "[unat s..<Suc (unat e)] ! (unat w - unat s) = unat w"
      using w i by (simp add: word_le_nat_alt del: upt_Suc)
    then show ?thesis using before j by (metis of_nat_unat_id)
  qed
  then show ?thesis using un n_val n free by (auto simp: word_le_nat_alt)
qed

lemma first_free_None:
  "first_free used cooldown ex s e = None \<longleftrightarrow>
   (\<forall>v. s \<le> v \<and> v \<le> e \<longrightarrow> candidate_blocked used cooldown ex v)"
proof
  assume "first_free used cooldown ex s e = None"
  then have none: "\<And>n. unat s \<le> n \<Longrightarrow> n < Suc (unat e) \<Longrightarrow> candidate_blocked used cooldown ex (of_nat n)"
    by (auto simp: first_free_def find_None_iff simp del: upt_Suc)
  show "\<forall>v. s \<le> v \<and> v \<le> e \<longrightarrow> candidate_blocked used cooldown ex v"
    by (metis none of_nat_unat_id le_imp_less_Suc word_le_nat_alt)
next
  assume "\<forall>v. s \<le> v \<and> v \<le> e \<longrightarrow> candidate_blocked used cooldown ex v"
  then show "first_free used cooldown ex s e = None"
    by (metis first_free_Some option.exhaust)
qed

lemma first_free_split:
  assumes "s \<le> m" and "m < e"
  shows "first_free used cooldown ex s e =
    (case first_free used cooldown ex s m of Some v \<Rightarrow> Some v | None \<Rightarrow> first_free used cooldown ex (m + 1) e)"
proof -
  have "m \<noteq> -1" using assms(2) by (metis word_n1_ge not_less)
  then have m: "unat (m + 1) = Suc (unat m)" by (rule unat_u32_Suc)
  have "[unat s..<Suc (unat e)] = [unat s..<Suc (unat m)] @ [Suc (unat m)..<Suc (unat e)]"
    using assms by (metis upt_add_eq_append le_SucI le_add_diff_inverse less_imp_le_nat word_le_nat_alt
        word_less_nat_alt Suc_le_mono)
  moreover have "find P (xs @ ys) = (case find P xs of Some v \<Rightarrow> Some v | None \<Rightarrow> find P ys)"
    for P :: "nat \<Rightarrow> bool" and xs ys
    by (induction xs) auto
  ultimately show ?thesis
    by (auto simp: first_free_def m simp del: upt_Suc split: option.splits)
qed

section \<open>The reserve window\<close>

text \<open>How many addresses of a range of \<open>n\<close> are kept back.\<close>

definition reserved_count :: "nat \<Rightarrow> int \<Rightarrow> nat" where
  "reserved_count n p = (if p > 0 then nat (int n * p div 100) else 0)"

definition range_size :: "u32 \<Rightarrow> u32 \<Rightarrow> nat" where
  "range_size s e = Suc (unat e - unat s)"

lemma reserved_count_less: "p < 100 \<Longrightarrow> 0 < n \<Longrightarrow> reserved_count n p < n"
proof (cases "p > 0")
  case True
  assume "p < 100" "0 < n"
  then have "int n * p < int n * 100" by simp
  then have "int n * p div 100 < int n" by linarith
  then show ?thesis using True \<open>0 < n\<close> by (simp add: reserved_count_def nat_less_iff)
qed (simp add: reserved_count_def)

lemma quot_nonneg: "0 \<le> a \<Longrightarrow> 0 < b \<Longrightarrow> quot a b = a div b"
  by (cases "a = 0") (simp_all add: quot_def)

lemma uint_diff_u32: "s \<le> e \<Longrightarrow> uint (e - s) = int (unat e - unat s)" for s e :: u32
  by (metis uint_nat unat_sub)

lemma applyReserveWindow_eq:
  "applyReserveWindow s e p =
    (if e < s \<or> p \<ge> 100 then None
     else Some (of_nat (unat s + (range_size s e - reserved_count (range_size s e) p) - 1)))"
proof (cases "e < s \<or> p \<ge> 100")
  case True
  then show ?thesis
    by (cases "e < s") (auto simp: applyReserveWindow_def Let_def)
next
  case False
  let ?n = "range_size s e" and ?r = "reserved_count (range_size s e) p"
  from False have le: "s \<le> e" and p: "p < 100" by auto
  have span: "uint (e - s) + 1 = int ?n" using uint_diff_u32 [OF le] by (simp add: range_size_def)
  have lt: "?r < ?n" using reserved_count_less [OF p] by (simp add: range_size_def)
  have alloc: "(if p > 0 then int ?n - quot (int ?n * p) 100 else int ?n) = int (?n - ?r)"
    using lt by (simp add: reserved_count_def quot_nonneg of_nat_diff)
  have small: "unat s + (?n - ?r) - 1 \<le> unat e"
    using le lt by (simp add: range_size_def word_le_nat_alt)
  have sum: "s + of_int (int (?n - ?r) - 1) = of_nat (unat s + (?n - ?r) - 1)"
    using lt by (simp add: of_nat_diff)
  have "unat (of_nat (unat s + (?n - ?r) - 1) :: u32) \<le> unat e"
    using small unat_u32_bound [of e] unat_of_nat_u32 by simp
  then have fin: "window_end s e (int (?n - ?r)) = of_nat (unat s + (?n - ?r) - 1)"
    unfolding window_end_def Let_def sum by (simp only: word_less_nat_alt not_less [symmetric] if_False)
  have al: "int ?n - quot (int ?n * p) 100 = int (?n - ?r)" if "p > 0" using alloc that by simp
  have np: "?n - ?r = ?n" if "\<not> p > 0" using that by (simp add: reserved_count_def)
  have q: "quot (int ?n * p) 100 < int ?n" if "p > 0" using al [OF that] lt by linarith
  have n0: "0 < ?n" using lt by simp
  show ?thesis
  proof (cases "p > 0")
    case True
    then show ?thesis using False p q n0 fin
      by (simp add: applyReserveWindow_def Let_def span al del: of_nat_add of_nat_diff)
  next
    case f: False
    then show ?thesis using False n0 fin
      by (simp add: applyReserveWindow_def Let_def span np del: of_nat_add of_nat_diff)
  qed
qed

lemma applyReserveWindow_Some:
  assumes "applyReserveWindow s e p = Some a"
  shows "s \<le> a \<and> a \<le> e \<and> range_size s a = range_size s e - reserved_count (range_size s e) p"
proof -
  let ?n = "range_size s e" and ?r = "reserved_count (range_size s e) p"
  from assms have le: "s \<le> e" and p: "p < 100" and a: "a = of_nat (unat s + (?n - ?r) - 1)"
    by (auto simp: applyReserveWindow_eq split: if_splits)
  have lt: "?r < ?n" using reserved_count_less [OF p] by (simp add: range_size_def)
  then have "unat s + (?n - ?r) - 1 \<le> unat e" using le by (simp add: range_size_def word_le_nat_alt)
  then have "unat a = unat s + (?n - ?r) - 1" using unat_u32_bound [of e] by (simp add: a unat_of_nat)
  then show ?thesis using lt le by (auto simp: word_le_nat_alt range_size_def)
qed

section \<open>Round robin\<close>

lemma incrementIPv4_range: "s \<le> a \<Longrightarrow> s \<le> incrementIPv4 v s a \<and> incrementIPv4 v s a \<le> a"
proof -
  assume sa: "s \<le> a"
  have "s \<le> v + 1 \<and> v + 1 \<le> a" if "s \<le> v" "v < a"
  proof -
    have "v \<noteq> -1" using that(2) by (metis word_n1_ge not_less)
    then show ?thesis using unat_u32_Suc [of v] that by (simp add: word_le_nat_alt word_less_nat_alt)
  qed
  then show ?thesis using sa by (auto simp: incrementIPv4_def not_less)
qed

lemma incrementIPv4_offset:
  assumes "s \<le> v" and "v \<le> a"
  shows "unat (incrementIPv4 v s a) - unat s = (unat v - unat s + 1) mod range_size s a"
proof (cases "v = a")
  case True
  then show ?thesis using assms by (simp add: incrementIPv4_def range_size_def)
next
  case False
  then have "v \<noteq> -1" using assms(2) by (metis word_n1_ge antisym)
  then show ?thesis
    using False assms unat_u32_Suc [of v]
    by (auto simp: incrementIPv4_def range_size_def word_le_nat_alt word_less_nat_alt Suc_diff_le
        word_unat_eq_iff intro!: mod_less [symmetric])
qed

lemma rr_loop_Some:
  "rr_loop k v s a used cooldown ex = Some w \<Longrightarrow> s \<le> a \<Longrightarrow>
   s \<le> w \<and> w \<le> a \<and> \<not> candidate_blocked used cooldown ex w"
  by (induction k arbitrary: v) (auto simp: Let_def incrementIPv4_range split: if_splits)

lemma rr_loop_None_step:
  assumes "rr_loop k v s a used cooldown ex = None" and "s \<le> v" and "v \<le> a"
    and "1 \<le> j" and "j \<le> k" and "s \<le> w" and "w \<le> a"
    and "unat w - unat s = (unat v - unat s + j) mod range_size s a"
  shows "candidate_blocked used cooldown ex w"
  using assms
proof (induction k arbitrary: v j)
  case (Suc k)
  let ?v = "incrementIPv4 v s a"
  have off: "unat ?v - unat s = (unat v - unat s + 1) mod range_size s a"
    using Suc.prems by (intro incrementIPv4_offset)
  have rng: "s \<le> ?v" "?v \<le> a" using incrementIPv4_range Suc.prems order_trans by blast+
  from Suc.prems(1) have blocked: "candidate_blocked used cooldown ex ?v"
    and loop: "rr_loop k ?v s a used cooldown ex = None"
    by (auto simp: Let_def split: if_splits)
  show ?case
  proof (cases "j = 1")
    case True
    then have "unat w = unat ?v"
      using off Suc.prems(6,8) rng(1) by (simp add: word_le_nat_alt)
    then show ?thesis using blocked by (simp add: word_unat_eq_iff [symmetric])
  next
    case False
    then obtain i where i: "j = Suc i" "1 \<le> i" using Suc.prems(4) by (cases j) auto
    then have "(unat ?v - unat s + i) mod range_size s a = (unat v - unat s + j) mod range_size s a"
      unfolding off by (simp add: mod_add_left_eq)
    then show ?thesis
      using Suc.IH [OF loop rng, of i] Suc.prems i by simp
  qed
qed simp

lemma rr_loop_None:
  assumes "rr_loop (range_size s a) v s a used cooldown ex = None"
    and "s \<le> v" "v \<le> a" "s \<le> w" "w \<le> a"
  shows "candidate_blocked used cooldown ex w"
proof -
  define ov ow n where d: "ov = unat v - unat s" "ow = unat w - unat s" "n = range_size s a"
  have b: "ov < n" "ow < n" using assms unfolding d by (auto simp: range_size_def word_le_nat_alt)
  define j where "j = (if ow > ov then ow - ov else ow + n - ov)"
  have "1 \<le> j" "j \<le> n" "(ov + j) mod n = ow" using b by (auto simp: j_def)
  then show ?thesis using rr_loop_None_step [OF assms(1-3), of j w] assms(4,5) unfolding d by simp
qed

section \<open>The contract of an allocation mode\<close>

fun drain where
  "drain alloc 0 st s e used cooldown p ex = Some []"
| "drain alloc (Suc n) st s e used cooldown p ex =
     (case alloc st s e used cooldown p ex of
        None \<Rightarrow> None
      | Some (None, st') \<Rightarrow> Some []
      | Some (Some ip, st') \<Rightarrow>
          map_option ((#) ip) (drain alloc n st' s e (insert ip used) cooldown p ex))"

definition free_ips :: "string set \<Rightarrow> string set \<Rightarrow> ipv4Range list \<Rightarrow> u32 \<Rightarrow> u32 \<Rightarrow> string set" where
  "free_ips used cooldown ex s a = ip_of ` {v. s \<le> v \<and> v \<le> a \<and> \<not> candidate_blocked used cooldown ex v}"

lemma free_ips_finite [simp]: "finite (free_ips used cooldown ex s a)"
  by (simp add: free_ips_def)

lemma free_ips_insert: "free_ips (insert ip used) cooldown ex s a = free_ips used cooldown ex s a - {ip}"
  by (auto simp: free_ips_def candidate_blocked_def)

locale ipv4_allocator =
  fixes alloc :: "'s \<Rightarrow> u32 \<Rightarrow> u32 \<Rightarrow> string set \<Rightarrow> string set \<Rightarrow> int \<Rightarrow> ipv4Range list \<Rightarrow>
    (string option \<times> 's) option"
  assumes closed: "applyReserveWindow s e p = None \<Longrightarrow> alloc st s e used cooldown p ex = Some (None, st)"
    and found: "applyReserveWindow s e p = Some a \<Longrightarrow> a \<noteq> -1 \<Longrightarrow> free_ips used cooldown ex s a \<noteq> {} \<Longrightarrow>
      \<exists>ip st'. alloc st s e used cooldown p ex = Some (Some ip, st') \<and> ip \<in> free_ips used cooldown ex s a"
    and exhausted: "applyReserveWindow s e p = Some a \<Longrightarrow> a \<noteq> -1 \<Longrightarrow> free_ips used cooldown ex s a = {} \<Longrightarrow>
      \<exists>st'. alloc st s e used cooldown p ex = Some (None, st')"
begin

lemma drain_all:
  assumes "applyReserveWindow s e p = Some a" and "a \<noteq> -1"
  shows "\<exists>ips. drain alloc n st s e used cooldown p ex = Some ips \<and> distinct ips \<and>
    set ips \<subseteq> free_ips used cooldown ex s a \<and> length ips = min n (card (free_ips used cooldown ex s a))"
proof (induction n arbitrary: st used)
  case (Suc n)
  let ?F = "free_ips used cooldown ex s a"
  show ?case
  proof (cases "?F = {}")
    case True
    then show ?thesis using exhausted [OF assms True, of st] by auto
  next
    case False
    from found [OF assms False] obtain ip st' where
      al: "alloc st s e used cooldown p ex = Some (Some ip, st')" and ip: "ip \<in> ?F" by blast
    from Suc [of st' "insert ip used"] obtain ips where
      ips: "drain alloc n st' s e (insert ip used) cooldown p ex = Some ips" "distinct ips"
        "set ips \<subseteq> ?F - {ip}" "length ips = min n (card (?F - {ip}))"
      unfolding free_ips_insert by blast
    have "card ?F = Suc (card (?F - {ip}))" by (rule card.remove [OF free_ips_finite ip])
    moreover have "drain alloc (Suc n) st s e used cooldown p ex = Some (ip # ips)"
      using al ips(1) by simp
    moreover have "distinct (ip # ips)" "set (ip # ips) \<subseteq> ?F" using ips(2,3) ip by auto
    ultimately show ?thesis using ips(4) by (metis length_Cons min_Suc_Suc)
  qed
qed simp

end

section \<open>The modes keep the contract\<close>

lemma applyReserveWindow_le: "applyReserveWindow s e p = Some a \<Longrightarrow> s \<le> a"
  by (simp add: applyReserveWindow_Some)

lemma preferred_end_range: "s \<le> a \<Longrightarrow> s \<le> preferred_end s a w \<and> preferred_end s a w \<le> a"
proof -
  assume le: "s \<le> a"
  define n where "n = range_size s a"
  have span: "uint (a - s) + 1 = int n" using uint_diff_u32 [OF le] by (simp add: n_def range_size_def)
  define k where "k = (if quot (int n * w) 100 \<le> 0 then 1 else quot (int n * w) 100)"
  show ?thesis
  proof (cases "w > 0 \<and> w < 100")
    case True
    then have "int n * w div 100 \<le> int n"
      using mult_left_mono [of w 100 "int n"] by linarith
    then have k: "1 \<le> k" "k \<le> int n" using True by (auto simp: k_def quot_nonneg n_def range_size_def)
    then have "s + of_int (k - 1) = of_nat (unat s + nat (k - 1))" by simp
    moreover have "nat (k - 1) < n" using k by (simp add: nat_less_iff)
    then have "unat s + nat (k - 1) \<le> unat a"
      using le unfolding n_def range_size_def word_le_nat_alt by linarith
    ultimately have u: "unat (s + of_int (k - 1)) = unat s + nat (k - 1)"
      using unat_u32_bound [of a] by (metis unat_of_nat_u32 le_less_trans)
    have "preferred_end s a w = (if s + of_int (k - 1) > a then a else s + of_int (k - 1))"
      using True by (simp add: preferred_end_def Let_def span k_def)
    then show ?thesis using le u by (auto simp: word_le_nat_alt word_less_nat_alt)
  qed (use le in \<open>auto simp: preferred_end_def\<close>)
qed

lemma nextAvailableIPv4Priority_eq:
  assumes "\<And>a. applyReserveWindow s e p = Some a \<Longrightarrow> a \<noteq> -1"
  shows "nextAvailableIPv4Priority s e used cooldown p ex w = nextAvailableIPv4Sequential s e used cooldown p ex"
proof (cases "applyReserveWindow s e p")
  case (Some a)
  let ?m = "preferred_end s a w"
  have a: "a \<noteq> -1" using assms Some by blast
  have m: "s \<le> ?m" "?m \<le> a" using preferred_end_range applyReserveWindow_le [OF Some] by blast+
  then have "?m \<noteq> -1" using a u32_below_max by blast
  then show ?thesis
    using Some m first_free_split [OF m(1), of a used cooldown ex]
    by (auto simp: nextAvailableIPv4Priority_def nextAvailableIPv4Sequential_def Let_def
        scanIPv4Range_eq a order_le_less split: option.splits)
qed (simp add: nextAvailableIPv4Priority_def nextAvailableIPv4Sequential_def)

lemma sequential_contract:
  assumes "applyReserveWindow s e p = Some a" and "a \<noteq> -1"
  shows "nextAvailableIPv4Sequential s e used cooldown p ex = Some (map_option ip_of (first_free used cooldown ex s a))"
  using assms by (simp add: nextAvailableIPv4Sequential_def scanIPv4Range_eq)

lemma priority_contract:
  assumes "applyReserveWindow s e p = Some a" and "a \<noteq> -1"
  shows "nextAvailableIPv4Priority s e used cooldown p ex w = Some (map_option ip_of (first_free used cooldown ex s a))"
  using assms by (subst nextAvailableIPv4Priority_eq) (simp_all add: sequential_contract)

lemma first_free_ips:
  "first_free used cooldown ex s a = Some v \<Longrightarrow> ip_of v \<in> free_ips used cooldown ex s a"
  "first_free used cooldown ex s a = None \<longleftrightarrow> free_ips used cooldown ex s a = {}"
  by (auto simp: free_ips_def first_free_None dest: first_free_Some)

lemma round_robin_contract:
  assumes "applyReserveWindow s e p = Some a"
  shows "case nextAvailableIPv4RoundRobin cur pid s e used cooldown p ex of
      (Some ip, cur') \<Rightarrow> ip \<in> free_ips used cooldown ex s a
    | (None, cur') \<Rightarrow> cur' = cur \<and> free_ips used cooldown ex s a = {}"
proof -
  have le: "s \<le> a" using assms by (rule applyReserveWindow_le)
  have win: "nat (uint (a - s) + 1) = range_size s a" "0 < uint (a - s) + 1"
    using uint_diff_u32 [OF le] by (simp_all add: range_size_def)
  let ?c = "roundRobinCursor cur pid s a"
  have c: "s \<le> ?c" "?c \<le> a" using le by (auto simp: roundRobinCursor_def split: option.splits)
  show ?thesis
  proof (cases "rr_loop (range_size s a) ?c s a used cooldown ex")
    case None
    then show ?thesis
      using assms win rr_loop_None [OF None c]
      by (auto simp: nextAvailableIPv4RoundRobin_def Let_def free_ips_def)
  next
    case (Some v)
    then show ?thesis
      using assms win rr_loop_Some [OF Some le]
      by (auto simp: nextAvailableIPv4RoundRobin_def Let_def free_ips_def)
  qed
qed

interpretation mode: ipv4_allocator "next_by_mode pool" for pool
proof
  fix s e p st used cooldown ex
  assume "applyReserveWindow s e p = None"
  then show "next_by_mode pool st s e used cooldown p ex = Some (None, st)"
    by (simp add: next_by_mode_def Let_def nextAvailableIPv4RoundRobin_def
        nextAvailableIPv4Priority_def nextAvailableIPv4Sequential_def)
next
  fix s e p a used cooldown ex st
  assume w: "applyReserveWindow s e p = Some a" "a \<noteq> -1" and ne: "free_ips used cooldown ex s a \<noteq> {}"
  show "\<exists>ip st'. next_by_mode pool st s e used cooldown p ex = Some (Some ip, st') \<and> ip \<in> free_ips used cooldown ex s a"
    using w ne first_free_ips [of used cooldown ex s a] round_robin_contract [OF w(1), where cur = st and pid = "poolID pool" and used = used and cooldown = cooldown and ex = ex]
    by (auto simp: next_by_mode_def Let_def priority_contract [OF w] sequential_contract [OF w]
        split: option.splits prod.splits)
next
  fix s e p a used cooldown ex st
  assume w: "applyReserveWindow s e p = Some a" "a \<noteq> -1" and em: "free_ips used cooldown ex s a = {}"
  then show "\<exists>st'. next_by_mode pool st s e used cooldown p ex = Some (None, st')"
    using first_free_ips(2) [of used cooldown ex s a] round_robin_contract [OF w(1), where cur = st and pid = "poolID pool" and used = used and cooldown = cooldown and ex = ex]
    by (auto simp: next_by_mode_def Let_def priority_contract [OF w] sequential_contract [OF w]
        split: option.splits prod.splits)
qed

section \<open>Exclusions and bounds\<close>

lemma isIPv4Excluded_sorted:
  "sorted (map (\<lambda>r. unat (start4 r)) rs) \<Longrightarrow>
   isIPv4Excluded v rs \<longleftrightarrow> (\<exists>r \<in> set rs. start4 r \<le> v \<and> v \<le> end4 r)"
proof (induction rs)
  case (Cons r rs)
  have "\<not> (\<exists>r' \<in> set (r # rs). start4 r' \<le> v \<and> v \<le> end4 r')" if "v < start4 r"
    using that Cons.prems by (force simp: word_le_nat_alt word_less_nat_alt)
  then show ?case using Cons by auto
qed simp

lemma sorted_starts: "sorted (map (\<lambda>r. unat (start4 r)) (sort_key (\<lambda>r. (unat (start4 r), unat (end4 r))) rs))"
proof -
  let ?ss = "sort_key (\<lambda>r. (unat (start4 r), unat (end4 r))) rs"
  have "sorted (map (\<lambda>r. (unat (start4 r), unat (end4 r))) ?ss)" by (rule sorted_sort_key)
  then have "sorted_wrt (\<lambda>a b. (unat (start4 a), unat (end4 a)) \<le> (unat (start4 b), unat (end4 b))) ?ss"
    by (simp add: sorted_wrt_map)
  then have "sorted_wrt (\<lambda>a b. unat (start4 a) \<le> unat (start4 b)) ?ss"
    by (rule sorted_wrt_mono_rel [rotated]) (auto simp: less_eq_prod_def)
  then show ?thesis by (simp add: sorted_wrt_map)
qed

text \<open>An exclusion entry that the pool's prefix makes valid, and the addresses it covers.\<close>

definition exclusion_covers :: "prefix \<Rightarrow> ip_range \<Rightarrow> u32 \<Rightarrow> bool" where
  "exclusion_covers prefix ex v \<longleftrightarrow>
     (\<exists>a b. ParseAddr (exStart ex) = Some (Addr4 a) \<and> ParseAddr (exEnd ex) = Some (Addr4 b) \<and>
        Contains prefix (Addr4 a) \<and> Contains prefix (Addr4 b) \<and> a \<le> v \<and> v \<le> b)"

lemma addrToUint32_Addr4 [simp]: "addrToUint32 (Addr4 a) = a"
  by (simp add: addrToUint32_def)

lemma Is4_iff: "Is4 a \<longleftrightarrow> (\<exists>w. a = Addr4 w)"
  by (cases a) auto

lemma exclusion_range4_covers:
  assumes "sb \<le> v" and "v \<le> eb"
  shows "(\<exists>r. exclusion_range4 prefix sb eb ex = Some r \<and> start4 r \<le> v \<and> v \<le> end4 r) \<longleftrightarrow>
    exclusion_covers prefix ex v"
  using assms
  by (auto simp: exclusion_range4_def exclusion_covers_def Is4_iff Let_def simp del: Contains.simps
      split: option.splits if_splits)

lemma exclusions_cover:
  assumes "Is4 (pfx_addr prefix)" and "s \<le> v" and "v \<le> e"
  shows "isIPv4Excluded v (buildIPv4Exclusions pool prefix (Addr4 s) (Addr4 e)) \<longleftrightarrow>
    (\<exists>ex \<in> set (poolExclusions pool). exclusion_covers prefix ex v)"
proof -
  have "isIPv4Excluded v (buildIPv4Exclusions pool prefix (Addr4 s) (Addr4 e)) \<longleftrightarrow>
    (\<exists>ex \<in> set (poolExclusions pool). \<exists>r. exclusion_range4 prefix s e ex = Some r \<and> start4 r \<le> v \<and> v \<le> end4 r)"
    using assms(1)
    by (cases "poolExclusions pool = []")
       (simp_all add: buildIPv4Exclusions_def isIPv4Excluded_sorted [OF sorted_starts] Bex_def
          in_map_filter, blast)
  then show ?thesis using exclusion_range4_covers [OF assms(2,3)] by blast
qed

lemma Compare_v4: "Compare (Addr4 a) (Addr4 b) > 0 \<longleftrightarrow> b < a"
  by (auto simp: word_less_def)

lemma pool_bounds_v4:
  assumes "pfx_addr prefix = Addr4 n" and "pfx_bits prefix \<le> 32"
  shows "\<exists>a b. resolvePoolBounds pool prefix = (Addr4 a, Addr4 b) \<and> a \<le> b \<and>
    Contains prefix (Addr4 a) \<and> Contains prefix (Addr4 b)"
proof -
  let ?b = "pfx_bits prefix"
  define lo hi :: u32 where lh: "lo = of_nat (host_lo n ?b)" "hi = of_nat (host_hi n ?b)"
  note hb = host_bounds [OF assms(2), of n]
  have u: "unat lo = host_lo n ?b" "unat hi = host_hi n ?b"
    using hb unfolding lh by (auto intro!: unat_of_nat_u32)
  have d: "DefaultHostRange prefix = Inr (Addr4 lo, Addr4 hi)"
    unfolding lh by (rule DefaultHostRange_v4 [OF assms])
  have dflt: "lo \<le> hi" "Contains prefix (Addr4 lo)" "Contains prefix (Addr4 hi)"
    unfolding Contains_v4 [OF assms] using u hb by (auto simp: word_le_nat_alt)
  have pick: "\<exists>a. (case ParseAddr str of
      Some addr \<Rightarrow> if str \<noteq> [] \<and> Contains prefix addr then addr else Addr4 w | None \<Rightarrow> Addr4 w) = Addr4 a
      \<and> Contains prefix (Addr4 a)" if "Contains prefix (Addr4 w)" for str w
  proof (cases "ParseAddr str")
    case (Some addr)
    have "\<exists>a. addr = Addr4 a" if "Contains prefix addr" using that assms(1) by (cases addr) auto
    then show ?thesis using Some that by (auto simp del: Contains.simps)
  qed (use that in auto)
  obtain a where a: "(case ParseAddr (poolRangeStart pool) of
      Some addr \<Rightarrow> if poolRangeStart pool \<noteq> [] \<and> Contains prefix addr then addr else Addr4 lo
    | None \<Rightarrow> Addr4 lo) = Addr4 a" "Contains prefix (Addr4 a)" using pick [OF dflt(2)] by blast
  obtain b where b: "(case ParseAddr (poolRangeEnd pool) of
      Some addr \<Rightarrow> if poolRangeEnd pool \<noteq> [] \<and> Contains prefix addr then addr else Addr4 hi
    | None \<Rightarrow> Addr4 hi) = Addr4 b" "Contains prefix (Addr4 b)" using pick [OF dflt(3)] by blast
  have "resolvePoolBounds pool prefix = (if b < a then (Addr4 lo, Addr4 hi) else (Addr4 a, Addr4 b))"
    unfolding resolvePoolBounds_def d Let_def sum.case prod.case a(1) b(1) Compare_v4
    using assms(1) by (simp del: Contains.simps)
  then show ?thesis using dflt a(2) b(2) by (auto simp: not_less simp del: Contains.simps)
qed

section \<open>IPv6\<close>

lemma isIPv6Excluded_sorted:
  "sorted (map start6 rs) \<Longrightarrow>
   isIPv6Excluded v rs \<longleftrightarrow> (\<exists>r \<in> set rs. start6 r \<le> v \<and> v \<le> end6 r)"
proof (induction rs)
  case (Cons r rs)
  have "\<not> (\<exists>r' \<in> set (r # rs). start6 r' \<le> v \<and> v \<le> end6 r')" if "v < start6 r"
    using that Cons.prems by force
  then show ?case using Cons by auto
qed simp

lemma BigToAddr_Some: "BigToAddr v = Some a \<Longrightarrow> a = Addr6 (word_of_int v) []"
  by (simp add: BigToAddr_def split: if_splits)

lemma ipv6_attempts_step:
  "ipv6_attempts (Some k # draws) s e used cooldown ex = Some ip \<Longrightarrow>
   ipv6_attempts draws s e used cooldown ex = Some ip \<or>
   (s + k \<le> e \<and> \<not> isIPv6Excluded (s + k) ex \<and> ip \<notin> used \<and> ip \<notin> cooldown \<and>
    ip = addr_string (Addr6 (word_of_int (s + k)) []))"
  by (cases "BigToAddr (s + k)")
     (auto simp: Let_def dest: BigToAddr_Some simp del: addr_string.simps of_int_add split: if_splits)

lemma ipv6_attempts_sound:
  assumes "ipv6_attempts draws s e used cooldown ex = Some ip" and "\<forall>d \<in> set draws. \<forall>k. d = Some k \<longrightarrow> 0 \<le> k \<and> k < u"
  shows "\<exists>v. ip = addr_string (Addr6 (word_of_int v) []) \<and> s \<le> v \<and> v < s + u \<and> v \<le> e \<and>
    \<not> isIPv6Excluded v ex \<and> ip \<notin> used \<and> ip \<notin> cooldown"
  using assms
proof (induction draws s e used cooldown ex rule: ipv6_attempts.induct)
  case (3 k draws s e used cooldown ex)
  from ipv6_attempts_step [OF 3(2)] show ?case
  proof
    assume "ipv6_attempts draws s e used cooldown ex = Some ip"
    then show ?thesis using 3 by simp
  next
    assume "s + k \<le> e \<and> \<not> isIPv6Excluded (s + k) ex \<and> ip \<notin> used \<and> ip \<notin> cooldown \<and>
      ip = addr_string (Addr6 (word_of_int (s + k)) [])"
    then show ?thesis using 3(3) by (intro exI [of _ "s + k"]) (auto simp del: addr_string.simps of_int_add)
  qed
qed simp_all

section \<open>Properties\<close>

text \<open>C9: A pool in any allocation mode hands out every free address once before it reports
  exhaustion.  Asking \<open>n\<close> times, and counting every answer as used from then on, gives
  distinct addresses, all of them in the reserve window, outside the exclusions, not in use
  and not cooling down, and exactly as many as there are, or \<open>n\<close>; the search always ends.
  The window must not end at 255.255.255.255.\<close>

theorem pool_drain:
  assumes "applyReserveWindow s e p = Some a" and "a \<noteq> -1"
  shows "\<exists>ips. drain (next_by_mode pool) n cur s e used cooldown p ex = Some ips \<and> distinct ips \<and>
    set ips \<subseteq> free_ips used cooldown ex s a \<and> length ips = min n (card (free_ips used cooldown ex s a))"
  using assms by (rule mode.drain_all)

theorem pool_drain_witness:
  "\<exists>ips. drain (next_by_mode empty_pool) 5 Map.empty 10 19 {} {} 50 [] = Some ips \<and> distinct ips \<and>
    set ips \<subseteq> free_ips {} {} [] 10 14 \<and> length ips = min 5 (card (free_ips {} {} [] 10 14))"
  by (rule pool_drain) (simp_all add: applyReserveWindow_def window_end_def quot_def)

text \<open>The priority mode is the sequential mode.  Whatever the weight, scanning the
  preferred part of the window first and the rest after it visits the addresses in the
  same order, so the two modes always choose the same address.\<close>

theorem priority_is_sequential:
  assumes "\<And>a. applyReserveWindow s e p = Some a \<Longrightarrow> a \<noteq> -1"
  shows "nextAvailableIPv4Priority s e used cooldown p ex w = nextAvailableIPv4Sequential s e used cooldown p ex"
  using assms by (rule nextAvailableIPv4Priority_eq)

theorem priority_is_sequential_witness:
  "nextAvailableIPv4Priority 10 19 {} {} 0 [] 70 = nextAvailableIPv4Sequential 10 19 {} {} 0 []"
  by (rule priority_is_sequential) (simp add: applyReserveWindow_def window_end_def split: if_splits)

text \<open>A scan that reaches the last address of the space leaves its range.  When every
  address from \<open>s\<close> up to 255.255.255.255 is blocked, the counter wraps: the scan returns
  0.0.0.0 if that is not blocked, and never ends if every address is.\<close>

theorem scan_wraps_past_the_end:
  assumes "\<And>v. s \<le> v \<Longrightarrow> candidate_blocked used cooldown ex v"
  shows "scanIPv4Range s (-1) used cooldown ex =
    (if \<not> candidate_blocked used cooldown ex 0 then Some (Some ''0.0.0.0'')
     else if \<forall>v. candidate_blocked used cooldown ex v then None
     else scan_loop 1 (-1) used cooldown ex)"
proof -
  have "scanIPv4Range s (-1) used cooldown ex = scan_loop 0 (-1) used cooldown ex"
    using scan_loop_wraps [OF assms] by (simp add: scanIPv4Range_def)
  moreover have "ip_of 0 = ''0.0.0.0''" by code_simp
  moreover have "scan_loop 0 (-1) used cooldown ex = scan_loop 1 (-1) used cooldown ex"
    if "candidate_blocked used cooldown ex 0"
    using that by (subst scan_loop.simps) simp
  moreover have "scan_loop 0 (-1) used cooldown ex = Some (Some (ip_of 0))"
    if "\<not> candidate_blocked used cooldown ex 0"
    using that by (subst scan_loop.simps) simp
  ultimately show ?thesis using scan_loop_diverges [of used cooldown ex 0] by simp
qed

theorem scan_wraps_past_the_end_witness:
  "scanIPv4Range (-1) (-1) {''255.255.255.255''} {} [] = Some (Some ''0.0.0.0'')"
proof -
  have ip: "ip_of (-1) = ''255.255.255.255''" by code_simp
  have "candidate_blocked {''255.255.255.255''} {} [] v" if "-1 \<le> v" for v
  proof -
    have "v = -1" using that by (metis word_n1_ge antisym)
    then show ?thesis using ip by (simp add: candidate_blocked_def del: addr_string.simps)
  qed
  moreover have "\<not> candidate_blocked {''255.255.255.255''} {} [] 0"
    by code_simp
  ultimately show ?thesis
    using scan_wraps_past_the_end [of "-1" "{''255.255.255.255''}" "{}" "[]"] by simp
qed

text \<open>C11: The reserve window keeps back the stated share, rounded down, from the upper end
  of the range, and always leaves at least one address below 100 percent; 100 percent and
  more, or a reversed range, leave nothing.\<close>

theorem reserve_window_exact:
  "case applyReserveWindow s e p of
     None \<Rightarrow> e < s \<or> 100 \<le> p
   | Some a \<Rightarrow> s \<le> a \<and> a \<le> e \<and> p < 100 \<and>
       range_size s a + (if p > 0 then nat (int (range_size s e) * p div 100) else 0) = range_size s e"
proof (cases "applyReserveWindow s e p")
  case None
  then show ?thesis by (simp add: applyReserveWindow_eq split: if_splits)
next
  case (Some a)
  then have p: "p < 100" by (simp add: applyReserveWindow_eq split: if_splits)
  have "reserved_count (range_size s e) p < range_size s e"
    using reserved_count_less [OF p] by (simp add: range_size_def)
  then have "range_size s a + reserved_count (range_size s e) p = range_size s e"
    using applyReserveWindow_Some [OF Some] by linarith
  then show ?thesis using applyReserveWindow_Some [OF Some] Some p
    by (simp only: option.case reserved_count_def)
qed

text \<open>Exclusions are exact.  An address between the pool bounds is skipped exactly when a
  configured exclusion whose two ends are addresses of the pool's prefix covers it, although
  the check stops at the first range that starts after the address.\<close>

theorem exclusions_exact:
  assumes "Is4 (pfx_addr prefix)" and "s \<le> v" and "v \<le> e"
  shows "isIPv4Excluded v (buildIPv4Exclusions pool prefix (Addr4 s) (Addr4 e)) \<longleftrightarrow>
    (\<exists>ex \<in> set (poolExclusions pool). exclusion_covers prefix ex v)"
  using assms by (rule exclusions_cover)

theorem exclusions_exact_witness:
  "isIPv4Excluded 0x0A000005
     (buildIPv4Exclusions (empty_pool\<lparr>poolExclusions := [\<lparr>exStart = ''10.0.0.4'', exEnd = ''10.0.0.9''\<rparr>]\<rparr>)
        \<lparr>pfx_addr = Addr4 0x0A000000, pfx_bits = 24\<rparr> (Addr4 0x0A000001) (Addr4 0x0A0000FE))"
proof -
  let ?ex = "\<lparr>exStart = ''10.0.0.4'', exEnd = ''10.0.0.9''\<rparr>"
    and ?p = "\<lparr>pfx_addr = Addr4 0x0A000000, pfx_bits = 24\<rparr>"
  have "ParseAddr ''10.0.0.4'' = Some (Addr4 0x0A000004) \<and> ParseAddr ''10.0.0.9'' = Some (Addr4 0x0A000009)
    \<and> Contains ?p (Addr4 0x0A000004) \<and> Contains ?p (Addr4 0x0A000009)" by code_simp
  then have "exclusion_covers ?p ?ex 0x0A000005"
    unfolding exclusion_covers_def by (intro exI [of _ "0x0A000004"] exI [of _ "0x0A000009"]) (simp del: Contains.simps)
  then show ?thesis
    using exclusions_exact [of ?p "0x0A000001" "0x0A000005" "0x0A0000FE" "empty_pool\<lparr>poolExclusions := [?ex]\<rparr>"]
    by (simp del: Contains.simps)
qed

text \<open>The bounds a pool resolves to.  For an IPv4 prefix they are always IPv4 addresses of
  the prefix in order, whatever text the configured range start and end hold.\<close>

theorem pool_bounds_in_prefix:
  assumes "pfx_addr prefix = Addr4 n" and "pfx_bits prefix \<le> 32"
  shows "\<exists>a b. resolvePoolBounds pool prefix = (Addr4 a, Addr4 b) \<and> a \<le> b \<and>
    Contains prefix (Addr4 a) \<and> Contains prefix (Addr4 b)"
  using assms by (rule pool_bounds_v4)

theorem pool_bounds_in_prefix_witness:
  "\<exists>a b. resolvePoolBounds (empty_pool\<lparr>poolRangeStart := ''banana''\<rparr>) \<lparr>pfx_addr = Addr4 0x0A000000, pfx_bits = 24\<rparr>
      = (Addr4 a, Addr4 b) \<and> a \<le> b \<and>
    Contains \<lparr>pfx_addr = Addr4 0x0A000000, pfx_bits = 24\<rparr> (Addr4 a) \<and>
    Contains \<lparr>pfx_addr = Addr4 0x0A000000, pfx_bits = 24\<rparr> (Addr4 b)"
  by (rule pool_bounds_in_prefix [of _ "0x0A000000"]) simp_all

text \<open>What the randomised IPv6 search returns, when the random source keeps its contract
  of drawing below the given bound: an address of the pool range outside the reserved upper
  part, outside every exclusion, neither in use nor cooling down.  A reserve of 100 percent
  or more is not a full reserve there, as it is for IPv4: it reserves nothing.\<close>

theorem ipv6_choice_sound:
  assumes "\<And>u. \<forall>d \<in> set (draws u). \<forall>k. d = Some k \<longrightarrow> 0 \<le> k \<and> k < u"
    and "nextAvailableIPv6 draws start end used cooldown p ex = Some ip"
  shows "\<exists>v. ip = addr_string (Addr6 (word_of_int v) []) \<and> AddrToBig start \<le> v \<and> v \<le> AddrToBig end \<and>
    (let n = AddrToBig end - AddrToBig start + 1 in
      v < AddrToBig start + (if 0 < p \<and> p < 100 then n - n * p div 100 else n)) \<and>
    \<not> isIPv6Excluded v ex \<and> ip \<notin> used \<and> ip \<notin> cooldown"
proof -
  let ?n = "AddrToBig end - AddrToBig start + 1"
  from assms(2) obtain u where u: "ipv6_usable ?n p = Some u"
    and att: "ipv6_attempts (take 2048 (draws u)) (AddrToBig start) (AddrToBig end) used cooldown ex = Some ip"
    by (auto simp: nextAvailableIPv6_def Let_def split: if_splits option.splits)
  have "u = (if 0 < p \<and> p < 100 then ?n - ?n * p div 100 else ?n)"
    using u by (auto simp: ipv6_usable_def Let_def split: if_splits)
  then show ?thesis
    using ipv6_attempts_sound [OF att, of u] assms(1) [of u] in_set_takeD unfolding Let_def by fast
qed

theorem ipv6_choice_sound_witness:
  "nextAvailableIPv6 (\<lambda>u. [Some (u - 1)]) (Addr6 0x100 []) (Addr6 0x1FF []) {} {} 50 [] = Some ''::17f'' \<and>
   (\<exists>v. ''::17f'' = addr_string (Addr6 (word_of_int v) []) \<and> v < 0x180)"
proof -
  have run: "nextAvailableIPv6 (\<lambda>u. [Some (u - 1)]) (Addr6 0x100 []) (Addr6 0x1FF []) {} {} 50 [] = Some ''::17f''"
    by code_simp
  have nodraw: "nextAvailableIPv6 (\<lambda>u. if 0 < u then [Some (u - 1)] else []) (Addr6 0x100 []) (Addr6 0x1FF []) {} {} 50 [] = Some ''::17f''"
    by code_simp
  obtain v where "''::17f'' = addr_string (Addr6 (word_of_int v) [])" "v < 0x180"
    using ipv6_choice_sound [OF _ nodraw] by (auto simp: AddrToBig_def simp del: addr_string.simps)
  then show ?thesis using run by blast
qed

end
