(* ===== verification/Lease_Repo.thy ===== *)
theory Lease_Repo
  imports Models
begin

text \<open>
  The lease repository, \<^verbatim>\<open>internal/lease/repository.go\<close>, in the configuration without
  the optional L1/L2 cache, Redis active store and tenant router: every method is one SQL
  statement on the tables \<^verbatim>\<open>leases_v4\<close> and \<^verbatim>\<open>lease_history_v4\<close> of
  \<^verbatim>\<open>migrations/0001_schema_no_tenant.sql\<close>.

  A table is the list of its rows; a query without an order returns rows in table order.
  VARCHAR columns compare case-insensitively under the database's default collation
  (\<open>sql_eq\<close>), VARBINARY columns byte by byte.  The schema's keys are part of the model: a
  statement that would break the primary key or \<^verbatim>\<open>uniq_lease_active\<close> on (hardware
  address, state) fails and changes nothing.  \<^verbatim>\<open>leases_v4\<close> has no tenant column, so a
  row that is read back has an empty \<^verbatim>\<open>TenantID\<close>.  Other database failures and the
  one-second resolution of DATETIME are not modelled.
\<close>

section \<open>Definitions\<close>

datatype repo_error = ErrNotFound | ErrDuplicateKey

definition sql_eq :: "string \<Rightarrow> string \<Rightarrow> bool" where
  "sql_eq a b \<longleftrightarrow> to_lower a = to_lower b"

record archived_lease =
  archLease :: lease
  archivedAt :: gotime

record lease_db =
  leases_v4 :: "lease list"
  lease_history_v4 :: "archived_lease list"

text \<open>The columns that \<^verbatim>\<open>INSERT\<close> writes: all but the tenant.\<close>

definition stored_row :: "lease \<Rightarrow> lease" where
  "stored_row l = l\<lparr>leaseTenantID := []\<rparr>"

definition GetActiveLease :: "lease_db \<Rightarrow> string \<Rightarrow> repo_error + lease" where
  "GetActiveLease db identifier =
     (case find (\<lambda>r. (sql_eq (leaseHardwareAddr r) identifier \<or> sql_eq (leaseClientID r) identifier) \<and>
                      sql_eq (leaseState r) ''ACTIVE'') (leases_v4 db) of
        None \<Rightarrow> Inl ErrNotFound
      | Some r \<Rightarrow> Inr r)"

definition GetLeaseByID :: "lease_db \<Rightarrow> string \<Rightarrow> repo_error + lease" where
  "GetLeaseByID db lid =
     (case find (\<lambda>r. sql_eq (leaseID r) lid) (leases_v4 db) of
        None \<Rightarrow> Inl ErrNotFound
      | Some r \<Rightarrow> Inr r)"

text \<open>The two keys of the table: no row shares its id, or its hardware address and state,
  with another.\<close>

definition key_clash :: "lease \<Rightarrow> lease \<Rightarrow> bool" where
  "key_clash a b \<longleftrightarrow> sql_eq (leaseID a) (leaseID b) \<or>
     (sql_eq (leaseHardwareAddr a) (leaseHardwareAddr b) \<and> sql_eq (leaseState a) (leaseState b))"

definition CreateLease :: "lease_db \<Rightarrow> lease \<Rightarrow> repo_error + lease_db" where
  "CreateLease db l =
     (if \<exists>r \<in> set (leases_v4 db). key_clash r l then Inl ErrDuplicateKey
      else Inr (db\<lparr>leases_v4 := leases_v4 db @ [stored_row l]\<rparr>))"

text \<open>The columns \<^verbatim>\<open>UPDATE\<close> sets; hardware address, client id, user id and security
  state are not among them.\<close>

definition update_row :: "lease \<Rightarrow> lease \<Rightarrow> lease" where
  "update_row l r =
     r\<lparr>leasePoolID := leasePoolID l,
       leaseIPAddress := leaseIPAddress l,
       leaseExpiresAt := leaseExpiresAt l,
       leaseState := leaseState l,
       leaseCooldownUntil := leaseCooldownUntil l,
       leaseMobilityAnchorID := leaseMobilityAnchorID l,
       leaseLastAccessPointID := leaseLastAccessPointID l,
       leaseLastControllerID := leaseLastControllerID l,
       leaseLastGeoZone := leaseLastGeoZone l,
       leaseMobilityLocationHint := leaseMobilityLocationHint l,
       leaseMDMManaged := leaseMDMManaged l,
       leaseMDMSource := leaseMDMSource l,
       leaseMDMTags := leaseMDMTags l,
       leaseMDMObservedAt := leaseMDMObservedAt l,
       leaseSessionContinuity := leaseSessionContinuity l,
       leaseConflictHistory := leaseConflictHistory l,
       leaseUpdatedAt := leaseUpdatedAt l\<rparr>"

definition update_where_id :: "lease \<Rightarrow> lease list \<Rightarrow> lease list" where
  "update_where_id l rows = map (\<lambda>r. if sql_eq (leaseID r) (leaseID l) then update_row l r else r) rows"

fun keys_ok :: "lease list \<Rightarrow> bool" where
  "keys_ok [] = True"
| "keys_ok (r # rs) = ((\<forall>r' \<in> set rs. \<not> key_clash r r') \<and> keys_ok rs)"

definition UpdateLease :: "lease_db \<Rightarrow> lease \<Rightarrow> repo_error + lease_db" where
  "UpdateLease db l =
     (let rows = update_where_id l (leases_v4 db) in
      if keys_ok rows then Inr (db\<lparr>leases_v4 := rows\<rparr>) else Inl ErrDuplicateKey)"

definition ListLeasesByState :: "lease_db \<Rightarrow> string \<Rightarrow> string \<Rightarrow> int \<Rightarrow> lease list" where
  "ListLeasesByState db pid state limit =
     (let limit = (if limit \<le> 0 \<or> limit > 100 then 10 else limit) in
      take (nat limit) (sort_key leaseUpdatedAt
        (filter (\<lambda>r. sql_eq (leasePoolID r) pid \<and> sql_eq (leaseState r) state) (leases_v4 db))))"

definition CountActiveLeases :: "lease_db \<Rightarrow> int" where
  "CountActiveLeases db = int (length (filter (\<lambda>r. sql_eq (leaseState r) ''ACTIVE'') (leases_v4 db)))"

definition CountActiveLeasesByIdentifier :: "lease_db \<Rightarrow> string \<Rightarrow> int" where
  "CountActiveLeasesByIdentifier db identifier =
     int (length (filter (\<lambda>r. sql_eq (leaseState r) ''ACTIVE'' \<and>
       (sql_eq (leaseHardwareAddr r) identifier \<or> sql_eq (leaseClientID r) identifier)) (leases_v4 db)))"

definition CountActiveLeasesByUser :: "lease_db \<Rightarrow> string \<Rightarrow> int" where
  "CountActiveLeasesByUser db user =
     int (length (filter (\<lambda>r. sql_eq (leaseState r) ''ACTIVE'' \<and> sql_eq (leaseUserID r) user) (leases_v4 db)))"

definition UpdateSecurityStateByIdentifier :: "lease_db \<Rightarrow> string \<Rightarrow> string \<Rightarrow> gotime \<Rightarrow> lease_db" where
  "UpdateSecurityStateByIdentifier db identifier state updatedAt =
     db\<lparr>leases_v4 := map (\<lambda>r. if sql_eq (leaseHardwareAddr r) identifier \<or> sql_eq (leaseClientID r) identifier
         then r\<lparr>leaseSecurityState := state, leaseUpdatedAt := updatedAt\<rparr> else r) (leases_v4 db)\<rparr>"

definition UpdateSecurityStateByID :: "lease_db \<Rightarrow> string \<Rightarrow> string \<Rightarrow> gotime \<Rightarrow> lease_db" where
  "UpdateSecurityStateByID db lid state updatedAt =
     db\<lparr>leases_v4 := map (\<lambda>r. if sql_eq (leaseID r) lid
         then r\<lparr>leaseSecurityState := state, leaseUpdatedAt := updatedAt\<rparr> else r) (leases_v4 db)\<rparr>"

definition ListActiveIPs :: "lease_db \<Rightarrow> string \<Rightarrow> string list" where
  "ListActiveIPs db pid =
     map leaseIPAddress (filter (\<lambda>r. sql_eq (leasePoolID r) pid \<and> sql_eq (leaseState r) ''ACTIVE'') (leases_v4 db))"

definition ListCooldownIPs :: "lease_db \<Rightarrow> string \<Rightarrow> gotime \<Rightarrow> string list" where
  "ListCooldownIPs db pid reference =
     map leaseIPAddress (filter (\<lambda>r. sql_eq (leasePoolID r) pid \<and>
       ((case leaseCooldownUntil r of Some t \<Rightarrow> t > reference | None \<Rightarrow> False) \<or> sql_eq (leaseState r) ''QUARANTINED''))
       (leases_v4 db))"

definition reclaimable_states :: "string list" where
  "reclaimable_states = [''ACTIVE'', ''DECLINED'', ''COOLDOWN'', ''QUARANTINED'']"

definition ListExpiredLeases :: "lease_db \<Rightarrow> gotime \<Rightarrow> int \<Rightarrow> lease list" where
  "ListExpiredLeases db before limit =
     (let limit = (if limit \<le> 0 \<or> limit > 500 then 100 else limit) in
      take (nat limit) (sort_key leaseExpiresAt
        (filter (\<lambda>r. leaseExpiresAt r \<le> before \<and> list_ex (sql_eq (leaseState r)) reclaimable_states)
          (leases_v4 db))))"

text \<open>\<^verbatim>\<open>ArchiveLeases\<close>: one row per lease id; a second archive of the same lease only
  updates state, security state and the two dates.\<close>

definition emptyDefault :: "string \<Rightarrow> string \<Rightarrow> string" where
  "emptyDefault v fallback = (let v = trim_space v in if v = [] then fallback else v)"

text \<open>\<^verbatim>\<open>nullIfEmpty\<close> trims; a NULL column reads back as the empty string.\<close>

definition nullIfEmpty :: "string \<Rightarrow> string" where
  "nullIfEmpty v = trim_space v"

definition archive_row :: "gotime \<Rightarrow> lease \<Rightarrow> archived_lease" where
  "archive_row stamp item =
     \<lparr>archLease = item
        \<lparr>leaseTenantID := (let t = trim_space (leaseTenantID item) in if t = [] then ''global'' else t),
         leaseClientID := nullIfEmpty (leaseClientID item),
         leaseUserID := nullIfEmpty (leaseUserID item),
         leaseDeviceType := nullIfEmpty (leaseDeviceType item),
         leaseMDMSource := nullIfEmpty (leaseMDMSource item),
         leaseSecurityState := emptyDefault (leaseSecurityState item) ''OK''\<rparr>,
      archivedAt = stamp\<rparr>"

fun archive_upsert :: "archived_lease \<Rightarrow> archived_lease list \<Rightarrow> archived_lease list" where
  "archive_upsert a [] = [a]"
| "archive_upsert a (h # hs) =
     (if sql_eq (leaseID (archLease h)) (leaseID (archLease a))
      then \<lparr>archLease = (archLease h)\<lparr>leaseState := leaseState (archLease a),
              leaseSecurityState := leaseSecurityState (archLease a),
              leaseUpdatedAt := leaseUpdatedAt (archLease a)\<rparr>,
            archivedAt = archivedAt a\<rparr> # hs
      else h # archive_upsert a hs)"

definition ArchiveLeases :: "gotime \<Rightarrow> lease_db \<Rightarrow> lease list \<Rightarrow> gotime \<Rightarrow> lease_db" where
  "ArchiveLeases now db leases stamp =
     (let stamp = (if IsZeroTime stamp then now else stamp) in
      db\<lparr>lease_history_v4 := foldl (\<lambda>hs item. archive_upsert (archive_row stamp item) hs) (lease_history_v4 db) leases\<rparr>)"

definition PurgeLeaseHistory :: "lease_db \<Rightarrow> gotime \<Rightarrow> int \<Rightarrow> lease_db" where
  "PurgeLeaseHistory db before limit =
     (let limit = (if limit \<le> 0 \<or> limit > 5000 then 1000 else limit);
          doomed = take (nat limit) (sort_key archivedAt (filter (\<lambda>h. archivedAt h < before) (lease_history_v4 db))) in
      db\<lparr>lease_history_v4 := filter (\<lambda>h. h \<notin> set doomed) (lease_history_v4 db)\<rparr>)"

section \<open>The keys are an invariant\<close>

lemma sql_eq_refl [simp]: "sql_eq a a"
  by (simp add: sql_eq_def)

lemma sql_eq_sym: "sql_eq a b \<longleftrightarrow> sql_eq b a"
  by (auto simp: sql_eq_def)

lemma sql_eq_trans: "sql_eq a b \<Longrightarrow> sql_eq b c \<Longrightarrow> sql_eq a c"
  by (simp add: sql_eq_def)

lemma key_clash_sym: "key_clash a b \<longleftrightarrow> key_clash b a"
  by (auto simp: key_clash_def sql_eq_sym)

lemma keys_ok_append: "keys_ok (xs @ ys) \<longleftrightarrow>
    keys_ok xs \<and> keys_ok ys \<and> (\<forall>x \<in> set xs. \<forall>y \<in> set ys. \<not> key_clash x y)"
  by (induction xs) auto

lemma keys_ok_distinct_ids:
  assumes "keys_ok rows" and "r \<in> set rows" and "r' \<in> set rows" and "sql_eq (leaseID r) (leaseID r')"
  shows "r = r'"
  using assms by (induction rows) (auto simp: key_clash_def sql_eq_sym)

lemma keys_ok_map:
  assumes "keys_ok rows" and "\<And>r. leaseID (f r) = leaseID r" and "\<And>r. leaseHardwareAddr (f r) = leaseHardwareAddr r"
    and "\<And>r. leaseState (f r) = leaseState r"
  shows "keys_ok (map f rows)"
  using assms by (induction rows) (auto simp: key_clash_def)

lemma CreateLease_keys: "keys_ok (leases_v4 db) \<Longrightarrow> CreateLease db l = Inr db' \<Longrightarrow> keys_ok (leases_v4 db')"
  by (auto simp: CreateLease_def keys_ok_append key_clash_def stored_row_def split: if_splits)

lemma UpdateLease_keys: "UpdateLease db l = Inr db' \<Longrightarrow> keys_ok (leases_v4 db')"
  by (auto simp: UpdateLease_def Let_def split: if_splits)

lemma UpdateSecurityState_keys:
  "keys_ok (leases_v4 db) \<Longrightarrow> keys_ok (leases_v4 (UpdateSecurityStateByIdentifier db i s t))"
  "keys_ok (leases_v4 db) \<Longrightarrow> keys_ok (leases_v4 (UpdateSecurityStateByID db i s t))"
  by (auto simp: UpdateSecurityStateByIdentifier_def UpdateSecurityStateByID_def intro!: keys_ok_map)

lemma archive_frame [frame, simp]:
  "leases_v4 (ArchiveLeases now db ls stamp) = leases_v4 db" "leases_v4 (PurgeLeaseHistory db b n) = leases_v4 db"
  by (simp_all add: ArchiveLeases_def PurgeLeaseHistory_def Let_def)

lemma GetActiveLease_sound:
  "GetActiveLease db i = Inr r \<Longrightarrow> r \<in> set (leases_v4 db) \<and> sql_eq (leaseState r) ''ACTIVE'' \<and>
     (sql_eq (leaseHardwareAddr r) i \<or> sql_eq (leaseClientID r) i)"
  by (auto simp: GetActiveLease_def find_Some_iff split: option.splits)

lemma GetActiveLease_None:
  "GetActiveLease db i = Inl e \<longleftrightarrow> e = ErrNotFound \<and>
     (\<forall>r \<in> set (leases_v4 db). sql_eq (leaseState r) ''ACTIVE'' \<longrightarrow>
        \<not> sql_eq (leaseHardwareAddr r) i \<and> \<not> sql_eq (leaseClientID r) i)"
proof (cases "GetActiveLease db i")
  case (Inl e')
  then show ?thesis by (auto simp: GetActiveLease_def find_None_iff split: option.splits)
next
  case (Inr r)
  from GetActiveLease_sound [OF this] Inr show ?thesis by auto
qed

lemma GetLeaseByID_sound:
  "GetLeaseByID db i = Inr r \<Longrightarrow> r \<in> set (leases_v4 db) \<and> sql_eq (leaseID r) i"
  by (auto simp: GetLeaseByID_def find_Some_iff split: option.splits)

text \<open>An update of a row that exists, in a table with intact keys, writes that row and no
  other; it fails exactly when another row of the same hardware address already has the new
  state.\<close>

lemma update_where_id_set:
  assumes "keys_ok rows" and "r \<in> set rows" and "leaseID l = leaseID r"
  shows "set (update_where_id l rows) = insert (update_row l r) (set rows - {r})"
proof -
  let ?f = "\<lambda>x. if sql_eq (leaseID x) (leaseID l) then update_row l x else x"
  have "?f x = x" if "x \<in> set rows - {r}" for x
    using that keys_ok_distinct_ids [OF assms(1) _ assms(2), of x] assms(3) by auto
  then have "?f ` (set rows - {r}) = id ` (set rows - {r})" by (intro image_cong) simp_all
  then have rest: "?f ` (set rows - {r}) = set rows - {r}" by (simp only: image_id id_apply)
  have "?f ` set rows = ?f ` insert r (set rows - {r})" using assms(2) by (simp only: insert_Diff)
  also have "\<dots> = insert (?f r) (set rows - {r})" unfolding image_insert rest ..
  also have "?f r = update_row l r" using assms(3) by simp
  finally show ?thesis by (simp only: update_where_id_def set_map)
qed

lemma update_row_id [simp]: "leaseID (update_row l r) = leaseID r"
  "leaseHardwareAddr (update_row l r) = leaseHardwareAddr r" "leaseClientID (update_row l r) = leaseClientID r"
  "leaseState (update_row l r) = leaseState l" "leasePoolID (update_row l r) = leasePoolID l"
  "leaseIPAddress (update_row l r) = leaseIPAddress l" "leaseCooldownUntil (update_row l r) = leaseCooldownUntil l"
  "leaseUserID (update_row l r) = leaseUserID r" "leaseSecurityState (update_row l r) = leaseSecurityState r"
  "leaseExpiresAt (update_row l r) = leaseExpiresAt l"
  by (simp_all add: update_row_def)

lemma update_keys_ok:
  assumes ok: "keys_ok rows" and r: "r \<in> set rows" and id: "leaseID l = leaseID r"
  shows "keys_ok (update_where_id l rows) \<longleftrightarrow>
    (\<forall>r' \<in> set rows. r' \<noteq> r \<longrightarrow>
       \<not> (sql_eq (leaseHardwareAddr r') (leaseHardwareAddr r) \<and> sql_eq (leaseState r') (leaseState l)))"
  using ok r
proof (induction rows)
  case (Cons x xs)
  have same: "sql_eq (leaseID y) (leaseID l) \<longleftrightarrow> y = r" if "y \<in> set (x # xs)" for y
    using keys_ok_distinct_ids [OF Cons.prems(1) that Cons.prems(2)] id by auto
  have rest: "update_where_id l xs = (if r \<in> set xs then update_where_id l xs else xs)"
    using same by (auto simp: update_where_id_def intro!: map_idI)
  show ?case
  proof (cases "x = r")
    case True
    then have notin: "r \<notin> set xs" using Cons.prems(1) by (auto simp: key_clash_def)
    then have up: "update_where_id l (x # xs) = update_row l r # xs"
      using True rest id by (simp add: update_where_id_def)
    show ?thesis unfolding up using True notin Cons.prems(1) id
      by (auto simp: key_clash_def sql_eq_def)
  next
    case False
    then have r': "r \<in> set xs" using Cons.prems(2) by simp
    have up: "update_where_id l (x # xs) = x # update_where_id l xs"
      using False same [of x] by (simp add: update_where_id_def)
    have "set (update_where_id l xs) = insert (update_row l r) (set xs - {r})"
      using Cons.prems(1) r' id by (intro update_where_id_set) auto
    moreover have "\<not> sql_eq (leaseID x) (leaseID r)" using same [of x] False id by simp
    ultimately have "(\<forall>y \<in> set (update_where_id l xs). \<not> key_clash x y) \<longleftrightarrow>
        \<not> (sql_eq (leaseHardwareAddr x) (leaseHardwareAddr r) \<and> sql_eq (leaseState x) (leaseState l))"
      using Cons.prems(1) by (simp add: key_clash_def)
    then show ?thesis unfolding up using Cons.IH [OF _ r'] Cons.prems(1) False by simp
  qed
qed simp

lemma UpdateLease_iff:
  assumes "keys_ok (leases_v4 db)" and "r \<in> set (leases_v4 db)" and "leaseID l = leaseID r"
  shows "(\<exists>db'. UpdateLease db l = Inr db') \<longleftrightarrow>
    (\<forall>r' \<in> set (leases_v4 db). r' \<noteq> r \<longrightarrow>
       \<not> (sql_eq (leaseHardwareAddr r') (leaseHardwareAddr r) \<and> sql_eq (leaseState r') (leaseState l)))"
  using update_keys_ok [OF assms] by (simp add: UpdateLease_def Let_def)

lemma UpdateLease_rows:
  assumes "keys_ok (leases_v4 db)" and "r \<in> set (leases_v4 db)" and "leaseID l = leaseID r"
    and "UpdateLease db l = Inr db'"
  shows "set (leases_v4 db') = insert (update_row l r) (set (leases_v4 db) - {r})"
proof -
  have "leases_v4 db' = update_where_id l (leases_v4 db)"
    using assms(4) by (cases "keys_ok (update_where_id l (leases_v4 db))") (auto simp: UpdateLease_def Let_def)
  then show ?thesis using update_where_id_set [OF assms(1-3)] by simp
qed

end
