(* ===== verification/Lease_Env.thy ===== *)
theory Lease_Env
  imports Lease_Range Lease_Repo Float64
begin

text \<open>
  The state of the lease service and the services it calls: the \<^verbatim>\<open>Service\<close> struct of
  \<^verbatim>\<open>internal/lease/service.go\<close> and \<^verbatim>\<open>internal/lease/scope.go\<close>.

  \<open>svc_env\<close> holds what the service is built with: configuration, and the collaborators
  behind Go interfaces (pool reader, replication journal, sync gate, quota, prober, Redis,
  random numbers) as functions; a nil collaborator is \<open>None\<close>.  \<open>svc_state\<close> holds what its
  methods change: the database, the in-memory maps, the Redis store (an abstract type with
  the four operations the code uses), the writes handed to goroutines and not yet run, and
  the calls issued to the notification, audit and pool services.  The clock is an argument
  of every method, read once per call.
\<close>

section \<open>Scopes and errors\<close>

record access_scope =
  ScopeID :: string
  ScopeTenantID :: "string option"

definition EffectiveTenant :: "access_scope \<Rightarrow> string" where
  "EffectiveTenant s = (case ScopeTenantID s of Some t \<Rightarrow> trim_space t | None \<Rightarrow> trim_space (ScopeID s))"

definition TenantOrDefault :: "access_scope \<Rightarrow> string" where
  "TenantOrDefault s = trim_space (EffectiveTenant s)"

definition normalizeOptional :: "string option \<Rightarrow> string option" where
  "normalizeOptional v = (case v of None \<Rightarrow> None
     | Some s \<Rightarrow> let t = trim_space s in if t = [] then None else Some t)"

definition NewResourceScope :: "string \<Rightarrow> string \<Rightarrow> access_scope" where
  "NewResourceScope scopeID tenantID =
     \<lparr>ScopeID = trim_space scopeID,
      ScopeTenantID = (let t = trim_space tenantID in if t \<noteq> [] then normalizeOptional (Some t) else None)\<rparr>"

datatype svc_error =
  ErrPoolRequired | ErrPoolReaderMissing | ErrNoAvailableIP | ErrUnsupportedCIDR
| ErrNoAvailablePrefix | ErrInvalidSecurityState | ErrIdentifierLeaseLimit | ErrUserLeaseLimit
| ErrPoolProtection | ErrClientIsolated | ErrTenantRequired | ErrResourceScopeRequired
| ErrPrimaryRequired string string string
| ErrRepo repo_error
| ErrPoolNotFound
| ErrSyncAckGate string string
| ErrFsm string
| ErrPanic string
| ErrOther string

definition TenantIDOrErr :: "access_scope \<Rightarrow> svc_error + string" where
  "TenantIDOrErr s = (let tenant = TenantOrDefault s in
     if tenant = [] then Inl ErrResourceScopeRequired else Inr tenant)"

definition tenantFromScope :: "access_scope \<Rightarrow> svc_error + string" where
  "tenantFromScope s = (let tenantID = trim_space (TenantOrDefault s) in
     if tenantID = [] then Inl ErrTenantRequired else Inr tenantID)"

section \<open>Configuration and collaborators\<close>

record lease_profile_config =
  cfgDefaultDuration :: duration
  cfgMinDuration :: duration
  cfgMaxDuration :: duration
  cfgNotificationLead :: duration
  cfgRenewalPercent :: rat
  cfgRebindingPercent :: rat
  cfgPermanent :: bool
  cfgSleepyCapable :: bool
  cfgSleepyOfflineWindow :: duration
  cfgSleepyHoldDuration :: duration
  cfgMobilityGracePeriod :: duration

record exhaustion_config =
  MaxLeasesPerMAC :: int
  MaxLeasesPerUser :: int
  PoolWarnPercent :: int
  PoolProtectPercent :: int
  TemporaryDuration :: duration
  PermanentAfter :: int

record conflict_pool_config =
  cpEnabled :: bool
  cpARPTimeout :: duration
  cpARPRetries :: int
  cpICMPRetries :: int

record conflict_config =
  ccEnabled :: bool
  ccProbeTimeout :: duration
  ccHoldDuration :: duration
  ccMaxAttempts :: int
  ccReclaimScanLimit :: int
  ccARPTimeout :: duration
  ccARPRetries :: int
  ccICMPRetries :: int
  ccCacheTTL :: duration
  ccConflictTTL :: duration
  ccPools :: "string \<rightharpoonup> conflict_pool_config"

record pool_reader =
  GetPool :: "string \<Rightarrow> svc_error + address_pool"
  FindBinding :: "string \<Rightarrow> string \<Rightarrow> svc_error + static_binding"
  ListBindingsByPool :: "string \<Rightarrow> svc_error + static_binding list"

text \<open>A nil interface that the code calls is a panic, \<open>ErrPanic\<close>.  \<open>envLock\<close> answers an attempt
  to take a lock, given the keys this call already holds.

  A probe answers for an address and the number of the attempt: alive, and whether the
  probe itself failed.\<close>

record conflict_prober =
  ProbeARP :: "addr \<Rightarrow> nat \<Rightarrow> bool \<times> bool"
  ProbeICMP :: "addr \<Rightarrow> nat \<Rightarrow> bool \<times> bool"

record 'r redis_ops =
  redisSetNX :: "string \<Rightarrow> bytes \<Rightarrow> duration \<Rightarrow> 'r \<Rightarrow> (string + bool) \<times> 'r"
  redisSet :: "string \<Rightarrow> bytes \<Rightarrow> 'r \<Rightarrow> string option \<times> 'r"
  redisSetBit :: "string \<Rightarrow> int \<Rightarrow> int \<Rightarrow> 'r \<Rightarrow> string option \<times> 'r"
  redisBitPos :: "string \<Rightarrow> int \<Rightarrow> int \<Rightarrow> 'r \<Rightarrow> string + int"

record 'r svc_env =
  envRole :: "(string \<times> string) option"
  envDefaults :: lease_profile_config
  envExhaustion :: exhaustion_config
  envConflict :: conflict_config
  envPoolReader :: "pool_reader option"
  envQuota :: "(string \<Rightarrow> svc_error option) option"
  envReplication :: "(lease \<Rightarrow> svc_error option) option"
  envSyncAck :: "(lease \<Rightarrow> string option) option"
  envSyncAckPolicy :: string
  envProber :: "conflict_prober option"
  envNotifier :: bool
  envAudit :: bool
  envRedis :: "'r redis_ops option"
  envLock :: "string list \<Rightarrow> string \<Rightarrow> svc_error option"
  envBitmapFirst :: bool
  envNewID :: "nat \<Rightarrow> string"
  envDraws :: "int \<Rightarrow> int option list"

section \<open>State\<close>

record isolation_entry =
  isoPermanent :: bool
  isoExpiresAt :: gotime
  isoCount :: int
  isoReason :: string

record lease_notification =
  noteSendAfter :: gotime
  noteLead :: duration

record notification_job =
  jobLeaseID :: string
  jobTenantID :: string
  jobPoolID :: string
  jobSendAfter :: gotime
  jobLead :: duration
  jobKind :: string
  jobMetadata :: "(string \<times> string) list"

record conflict_audit =
  caLeaseID :: string
  caPoolID :: string
  caTenantID :: string
  caIPAddress :: string
  caSignal :: string
  caReason :: string
  caIdentifier :: string
  caClientID :: string
  caCount :: int

datatype pending_write = PendingUpdate lease | PendingCreate lease address_pool

record 'r svc_state =
  stDB :: lease_db
  stCursor :: cursors
  stIsolation :: "string \<rightharpoonup> isolation_entry"
  stPoolLevels :: "string \<rightharpoonup> string"
  stRedis :: 'r
  stPending :: "pending_write list"
  stJobs :: "notification_job list"
  stAudits :: "conflict_audit list"
  stSeen :: "(string \<times> string \<times> gotime) list"
  stNextID :: nat

record mobility_metadata =
  mmAnchorID :: string
  mmAccessPointID :: string
  mmControllerID :: string
  mmGeoZone :: string
  mmLocationHint :: string
  mmSessionContinuity :: "(string \<times> json) list"

record compliance_metadata =
  cmValid :: bool
  cmManaged :: bool
  cmSource :: string
  cmTags :: "string list"
  cmObservedAt :: gotime

record allocation_metadata =
  metaUserID :: string
  metaMobility :: mobility_metadata
  metaCompliance :: compliance_metadata

definition empty_metadata :: allocation_metadata where
  "empty_metadata =
     \<lparr>metaUserID = [],
      metaMobility = \<lparr>mmAnchorID = [], mmAccessPointID = [], mmControllerID = [], mmGeoZone = [],
        mmLocationHint = [], mmSessionContinuity = []\<rparr>,
      metaCompliance = \<lparr>cmValid = False, cmManaged = False, cmSource = [], cmTags = [],
        cmObservedAt = zero_time\<rparr>\<rparr>"

record lease_result =
  resLease :: lease
  resReused :: bool
  resProfile :: lease_profile
  resRenewalTime :: duration
  resRebindingTime :: duration
  resPool :: address_pool
  resNotification :: "lease_notification option"

type_synonym ('a, 'r) outcome = "(svc_error + 'a) \<times> 'r svc_state"

definition leaseStateActive :: string where "leaseStateActive = ''ACTIVE''"
definition leaseStateDeclined :: string where "leaseStateDeclined = ''DECLINED''"
definition leaseStateReleased :: string where "leaseStateReleased = ''RELEASED''"
definition leaseStateCooldown :: string where "leaseStateCooldown = ''COOLDOWN''"
definition leaseStateQuarantined :: string where "leaseStateQuarantined = ''QUARANTINED''"

lemmas lease_state_defs =
  leaseStateActive_def leaseStateDeclined_def leaseStateReleased_def leaseStateCooldown_def
  leaseStateQuarantined_def

definition RolePrimary :: string where "RolePrimary = ''primary''"
definition RoleUnknown :: string where "RoleUnknown = ''unknown''"

text \<open>A minimal service: one database and one pool reader, everything optional switched off.
  It is the starting point of the concrete runs.\<close>

definition plain_env :: "pool_reader \<Rightarrow> 'r svc_env" where
  "plain_env reader =
     \<lparr>envRole = None,
      envDefaults = \<lparr>cfgDefaultDuration = hour, cfgMinDuration = 0, cfgMaxDuration = 0,
        cfgNotificationLead = 0, cfgRenewalPercent = 0, cfgRebindingPercent = 0,
        cfgPermanent = False, cfgSleepyCapable = False, cfgSleepyOfflineWindow = 0,
        cfgSleepyHoldDuration = 0, cfgMobilityGracePeriod = 0\<rparr>,
      envExhaustion = \<lparr>MaxLeasesPerMAC = 0, MaxLeasesPerUser = 0, PoolWarnPercent = 0,
        PoolProtectPercent = 0, TemporaryDuration = 0, PermanentAfter = 0\<rparr>,
      envConflict = \<lparr>ccEnabled = False, ccProbeTimeout = 0, ccHoldDuration = 0, ccMaxAttempts = 0,
        ccReclaimScanLimit = 0, ccARPTimeout = 0, ccARPRetries = 0, ccICMPRetries = 0,
        ccCacheTTL = 0, ccConflictTTL = 0, ccPools = Map.empty\<rparr>,
      envPoolReader = Some reader, envQuota = None, envReplication = None, envSyncAck = None,
      envSyncAckPolicy = ''strict'', envProber = None, envNotifier = False, envAudit = False,
      envRedis = None, envLock = (\<lambda>_ _. None), envBitmapFirst = False,
      envNewID = (\<lambda>n. ''lease-'' @ dec n), envDraws = (\<lambda>_. [])\<rparr>"

definition initial_state :: "'r \<Rightarrow> lease list \<Rightarrow> 'r svc_state" where
  "initial_state r rows =
     \<lparr>stDB = \<lparr>leases_v4 = rows, lease_history_v4 = []\<rparr>, stCursor = Map.empty,
      stIsolation = Map.empty, stPoolLevels = Map.empty, stRedis = r, stPending = [],
      stJobs = [], stAudits = [], stSeen = [], stNextID = 0\<rparr>"

end
