(* ===== verification/Lease_Policy.thy ===== *)
theory Lease_Policy
  imports Lease_Env
begin

text \<open>
  The parts of the lease service that decide without touching the table: the effective lease
  profile, isolation of misbehaving clients (\<^verbatim>\<open>internal/lease/isolation.go\<close>), lease limits,
  pool thresholds, the metadata copied onto a lease, conflict bookkeeping and the
  write guards (\<^verbatim>\<open>internal/lease/service.go\<close>).  Percentages are \<^verbatim>\<open>float64\<close>.
\<close>

section \<open>Definitions\<close>

subsection \<open>Lease profile\<close>

definition durationPercent :: "duration \<Rightarrow> rat \<Rightarrow> duration" where
  "durationPercent base pct =
     (if base \<le> 0 \<or> pct \<le> 0 then 0
      else trunc (fmul (float_of_int base) (fdiv pct 100)))"

definition fill_durations :: "lease_profile_config \<Rightarrow> lease_profile \<Rightarrow> lease_profile" where
  "fill_durations d p =
     (let dflt = (if profDefaultDuration p = 0 then cfgDefaultDuration d else profDefaultDuration p);
          mn = (if profMinDuration p = 0 then cfgMinDuration d else profMinDuration p);
          mx = (if profMaxDuration p = 0 then cfgMaxDuration d else profMaxDuration p);
          lead = (if profNotificationLead p = 0 then cfgNotificationLead d else profNotificationLead p);
          inf = (if profInfinite p \<or> cfgPermanent d then True else profInfinite p);
          dflt = (if dflt \<le> 0 \<and> \<not> inf then hour else dflt);
          dflt = (if mn > 0 \<and> dflt < mn then mn else dflt);
          dflt = (if mx > 0 \<and> dflt > mx then mx else dflt) in
      p\<lparr>profDefaultDuration := dflt, profMinDuration := mn, profMaxDuration := mx,
        profNotificationLead := lead, profInfinite := inf\<rparr>)"

definition fill_timers :: "lease_profile_config \<Rightarrow> lease_profile \<Rightarrow> lease_profile" where
  "fill_timers d p =
     (let dflt = profDefaultDuration p;
          t1 = (if profRenewalTime p = 0 then
                  if cfgRenewalPercent d > 0 then durationPercent dflt (cfgRenewalPercent d)
                  else if dflt > 0 then quot dflt 2 else profRenewalTime p
                else profRenewalTime p);
          t2 = (if profRebindingTime p = 0 then
                  if cfgRebindingPercent d > 0 then durationPercent dflt (cfgRebindingPercent d)
                  else if dflt > 0 then trunc (fmul (float_of_int dflt) (7 / 8)) else profRebindingTime p
                else profRebindingTime p);
          t1 = (if t2 > 0 \<and> t1 > t2 then quot t2 2 else t1) in
      p\<lparr>profRenewalTime := t1, profRebindingTime := t2\<rparr>)"

definition fill_sleepy :: "lease_profile_config \<Rightarrow> lease_profile \<Rightarrow> lease_profile" where
  "fill_sleepy d p =
     (let sleepy = (profSleepyCapable p \<or> cfgSleepyCapable d) in
      p\<lparr>profSleepyCapable := (if sleepy \<and> \<not> profSleepyCapable p then cfgSleepyCapable d else profSleepyCapable p),
        profSleepyOfflineWindow := (if sleepy \<and> profSleepyOfflineWindow p = 0
          then cfgSleepyOfflineWindow d else profSleepyOfflineWindow p),
        profSleepyHoldDuration := (if sleepy \<and> profSleepyHoldDuration p = 0
          then cfgSleepyHoldDuration d else profSleepyHoldDuration p),
        profMobilityGracePeriod := (if profMobilityGracePeriod p = 0
          then cfgMobilityGracePeriod d else profMobilityGracePeriod p)\<rparr>)"

definition normalizeProfile :: "lease_profile_config \<Rightarrow> lease_profile \<Rightarrow> lease_profile" where
  "normalizeProfile defaults profile =
     (let p = fill_sleepy defaults (fill_timers defaults (fill_durations defaults profile)) in
      if profInfinite p then p\<lparr>profRenewalTime := 0, profRebindingTime := 0\<rparr> else p)"

definition infinite_span :: duration where
  "infinite_span = 24 * hour * 365 * 100"

definition applyLeaseTiming :: "gotime \<Rightarrow> lease \<Rightarrow> lease_profile \<Rightarrow> lease" where
  "applyLeaseTiming now l profile =
     (let l = l\<lparr>leaseUpdatedAt := now\<rparr> in
      if profInfinite profile then l\<lparr>leaseExpiresAt := now + infinite_span\<rparr>
      else l\<lparr>leaseExpiresAt := now + profDefaultDuration profile\<rparr>)"

subsection \<open>Metadata\<close>

definition applyMobilityMetadata :: "lease \<Rightarrow> allocation_metadata \<Rightarrow> lease" where
  "applyMobilityMetadata l meta =
     (let mob = metaMobility meta;
          l = (if mmAnchorID mob \<noteq> [] then l\<lparr>leaseMobilityAnchorID := mmAnchorID mob\<rparr> else l);
          l = (if mmAccessPointID mob \<noteq> [] then l\<lparr>leaseLastAccessPointID := mmAccessPointID mob\<rparr> else l);
          l = (if mmControllerID mob \<noteq> [] then l\<lparr>leaseLastControllerID := mmControllerID mob\<rparr> else l);
          l = (if mmGeoZone mob \<noteq> [] then l\<lparr>leaseLastGeoZone := mmGeoZone mob\<rparr> else l);
          l = (if mmLocationHint mob \<noteq> [] then l\<lparr>leaseMobilityLocationHint := mmLocationHint mob\<rparr> else l) in
      if mmSessionContinuity mob \<noteq> []
      then l\<lparr>leaseSessionContinuity := RawCanonical (JObj (mmSessionContinuity mob))\<rparr> else l)"

definition applyComplianceMetadata :: "lease \<Rightarrow> allocation_metadata \<Rightarrow> lease" where
  "applyComplianceMetadata l meta =
     (let comp = metaCompliance meta in
      if \<not> cmValid comp then l
      else l\<lparr>leaseMDMManaged := cmManaged comp,
             leaseMDMSource := cmSource comp,
             leaseMDMTags := (if cmTags comp \<noteq> [] then RawCanonical (JArr (map JStr (cmTags comp))) else RawEmpty),
             leaseMDMObservedAt := (if \<not> IsZeroTime (cmObservedAt comp) then Some (cmObservedAt comp) else None)\<rparr>)"

definition computeNotification :: "gotime \<Rightarrow> lease \<Rightarrow> lease_profile \<Rightarrow> lease_notification option" where
  "computeNotification now l profile =
     (if profNotificationLead profile \<le> 0 then None
      else let notifyAt = leaseExpiresAt l - profNotificationLead profile;
               notifyAt = (if notifyAt < now then now else notifyAt) in
        Some \<lparr>noteSendAfter = notifyAt, noteLead = profNotificationLead profile\<rparr>)"

definition enqueueNotificationJob ::
  "'r svc_env \<Rightarrow> notification_job \<Rightarrow> 'r svc_state \<Rightarrow> 'r svc_state" where
  "enqueueNotificationJob env job st =
     (if \<not> envNotifier env \<or> IsZeroTime (jobSendAfter job) then st
      else st\<lparr>stJobs := stJobs st @ [job]\<rparr>)"

definition enqueue_address_job ::
  "'r svc_env \<Rightarrow> lease \<Rightarrow> lease_notification option \<Rightarrow> 'r svc_state \<Rightarrow> 'r svc_state" where
  "enqueue_address_job env l note st =
     (case note of
        None \<Rightarrow> st
      | Some n \<Rightarrow> enqueueNotificationJob env
          \<lparr>jobLeaseID = leaseID l, jobTenantID = leaseTenantID l, jobPoolID = leasePoolID l,
           jobSendAfter = noteSendAfter n, jobLead = noteLead n, jobKind = ''address'',
           jobMetadata = [(''ip'', leaseIPAddress l)]\<rparr> st)"

subsection \<open>Isolation\<close>

definition normal_identifier :: "string \<Rightarrow> string" where
  "normal_identifier identifier = trim_space (to_lower identifier)"

definition isolationKey :: "string \<Rightarrow> string \<Rightarrow> string" where
  "isolationKey tenantID identifier = tenantID @ ''|'' @ identifier"

definition checkIsolation ::
  "gotime \<Rightarrow> string \<Rightarrow> string \<Rightarrow> 'r svc_state \<Rightarrow> svc_error option \<times> 'r svc_state" where
  "checkIsolation now tenantID identifier st =
     (let identifier = normal_identifier identifier; key = isolationKey tenantID identifier in
      if identifier = [] then (None, st)
      else case stIsolation st key of
        None \<Rightarrow> (None, st)
      | Some entry \<Rightarrow>
          if \<not> isoPermanent entry \<and> \<not> IsZeroTime (isoExpiresAt entry) \<and> now > isoExpiresAt entry
          then (None, st\<lparr>stIsolation := (stIsolation st)(key := None)\<rparr>)
          else (Some ErrClientIsolated, st))"

definition applyIsolationPolicy ::
  "gotime \<Rightarrow> 'r svc_env \<Rightarrow> string \<Rightarrow> string \<Rightarrow> string \<Rightarrow> 'r svc_state \<Rightarrow> 'r svc_state" where
  "applyIsolationPolicy now env tenantID identifier reason st =
     (let identifier = normal_identifier identifier; ex = envExhaustion env in
      if identifier = [] then st
      else if TemporaryDuration ex \<le> 0 \<and> PermanentAfter ex \<le> 0 then st
      else
        let key = isolationKey tenantID identifier;
            count = (case stIsolation st key of Some e \<Rightarrow> isoCount e | None \<Rightarrow> 0) + 1;
            permanent = (PermanentAfter ex > 0 \<and> count \<ge> PermanentAfter ex);
            dur = (if TemporaryDuration ex \<le> 0 then 5 * minute else TemporaryDuration ex);
            entry = \<lparr>isoPermanent = permanent, isoExpiresAt = (if permanent then zero_time else now + dur),
                     isoCount = count, isoReason = reason\<rparr> in
        st\<lparr>stIsolation := (stIsolation st)(key \<mapsto> entry)\<rparr>)"

definition enforceLeaseLimits ::
  "gotime \<Rightarrow> 'r svc_env \<Rightarrow> string \<Rightarrow> string \<Rightarrow> allocation_metadata \<Rightarrow> 'r svc_state \<Rightarrow>
   svc_error option \<times> 'r svc_state" where
  "enforceLeaseLimits now env tenantID identifier meta st =
     (let identifier = normal_identifier identifier; ex = envExhaustion env in
      if identifier = [] then (None, st)
      else if MaxLeasesPerMAC ex > 0 \<and> CountActiveLeasesByIdentifier (stDB st) identifier \<ge> MaxLeasesPerMAC ex
      then (Some ErrIdentifierLeaseLimit, applyIsolationPolicy now env tenantID identifier ''mac_limit'' st)
      else if metaUserID meta \<noteq> [] \<and> MaxLeasesPerUser ex > 0 \<and>
              CountActiveLeasesByUser (stDB st) (metaUserID meta) \<ge> MaxLeasesPerUser ex
      then (Some ErrUserLeaseLimit, applyIsolationPolicy now env tenantID identifier ''user_limit'' st)
      else (None, st))"

subsection \<open>Pool thresholds\<close>

definition poolLevelNormal :: string where "poolLevelNormal = ''normal''"
definition poolLevelWarn :: string where "poolLevelWarn = ''warn''"
definition poolLevelProtect :: string where "poolLevelProtect = ''protect''"

definition updatePoolLevel :: "string \<Rightarrow> string \<Rightarrow> 'r svc_state \<Rightarrow> 'r svc_state" where
  "updatePoolLevel pid level st =
     (if pid = [] then st
      else if (case stPoolLevels st pid of Some l \<Rightarrow> l | None \<Rightarrow> []) = level then st
      else st\<lparr>stPoolLevels := (stPoolLevels st)(pid \<mapsto> level)\<rparr>)"

definition utilization :: "int \<Rightarrow> int \<Rightarrow> rat" where
  "utilization consumed capacity = fmul (fdiv (float_of_int consumed) (float_of_int capacity)) 100"

definition pool_level :: "exhaustion_config \<Rightarrow> int \<Rightarrow> int \<Rightarrow> string" where
  "pool_level ex consumed capacity =
     (let percent = utilization consumed capacity in
      if PoolProtectPercent ex > 0 \<and> percent \<ge> float_of_int (PoolProtectPercent ex) then poolLevelProtect
      else if PoolWarnPercent ex > 0 \<and> percent \<ge> float_of_int (PoolWarnPercent ex) then poolLevelWarn
      else poolLevelNormal)"

definition evaluatePoolThresholds ::
  "'r svc_env \<Rightarrow> address_pool \<Rightarrow> int \<Rightarrow> int \<Rightarrow> addr \<Rightarrow> addr \<Rightarrow> 'r svc_state \<Rightarrow>
   svc_error option \<times> 'r svc_state" where
  "evaluatePoolThresholds env pool activeCount cooldownCount start end st =
     (if \<not> IsValid start \<or> \<not> IsValid end \<or> \<not> Is4 start \<or> \<not> Is4 end then (None, st)
      else
        let capacity = capacityIPv4 start end in
        if capacity \<le> 0 then (None, st)
        else
          let level = pool_level (envExhaustion env) (activeCount + cooldownCount) capacity;
              st = updatePoolLevel (poolID pool) level st in
          (if level = poolLevelProtect then Some ErrPoolProtection else None, st))"

subsection \<open>Write guards\<close>

definition ensurePrimaryWrite :: "'r svc_env \<Rightarrow> string \<Rightarrow> svc_error option" where
  "ensurePrimaryWrite env op =
     (case envRole env of
        None \<Rightarrow> None
      | Some (role, state) \<Rightarrow>
          if role = RolePrimary \<or> role = RoleUnknown then None
          else Some (ErrPrimaryRequired (trim_space op) role state))"

definition confirmReplication :: "'r svc_env \<Rightarrow> lease \<Rightarrow> svc_error option" where
  "confirmReplication env l = (case envReplication env of None \<Rightarrow> None | Some confirm \<Rightarrow> confirm l)"

definition classifySyncAckError :: "string \<Rightarrow> string" where
  "classifySyncAckError err =
     (let msg = to_lower (trim_space err) in
      if msg = [] then ''unknown''
      else if str_contains msg ''timeout'' \<or> str_contains msg ''deadline'' then ''ack_timeout''
      else if str_contains msg ''refused'' then ''ack_conn_refused''
      else if str_contains msg ''reject'' then ''ack_rejected''
      else if str_contains msg ''mismatch'' \<or> str_contains msg ''invalid'' \<or> str_contains msg ''decode''
      then ''ack_protocol_error''
      else ''ack_io_error'')"

definition confirmSyncAck :: "'r svc_env \<Rightarrow> lease \<Rightarrow> svc_error option" where
  "confirmSyncAck env l =
     (case envSyncAck env of
        None \<Rightarrow> None
      | Some await \<Rightarrow>
          let policy = to_lower (trim_space (envSyncAckPolicy env));
              policy = (if policy = [] then ''strict'' else policy) in
          (case await l of
             None \<Rightarrow> None
           | Some err \<Rightarrow>
               if policy = ''degraded'' then None
               else Some (ErrSyncAckGate (classifySyncAckError err) err)))"

subsection \<open>Conflicts\<close>

definition conflictSignalDHCPDecline :: string where "conflictSignalDHCPDecline = ''dhcp-decline''"
definition conflictSignalAdminDecline :: string where "conflictSignalAdminDecline = ''admin-decline''"
definition conflictSignalProbe :: string where "conflictSignalProbe = ''icmp-probe''"

definition decodeConflictHistory :: "lease \<Rightarrow> conflict_entry list" where
  "decodeConflictHistory l =
     (case leaseConflictHistory l of ConflictEntries es \<Rightarrow> es | _ \<Rightarrow> [])"

definition appendConflict :: "gotime \<Rightarrow> lease \<Rightarrow> string \<Rightarrow> string \<Rightarrow> lease \<times> int" where
  "appendConflict now l signal reason =
     (let history = decodeConflictHistory l @ [\<lparr>ceTimestamp = now, ceSignal = signal, ceReason = reason\<rparr>];
          history = (if length history > 20 then drop (length history - 20) history else history) in
      (l\<lparr>leaseConflictHistory := ConflictEntries history\<rparr>, int (length history)))"

definition recordConflictAudit ::
  "'r svc_env \<Rightarrow> lease \<Rightarrow> string \<Rightarrow> string \<Rightarrow> int \<Rightarrow> 'r svc_state \<Rightarrow> 'r svc_state" where
  "recordConflictAudit env l signal reason count st =
     (if \<not> envAudit env then st
      else st\<lparr>stAudits := stAudits st @
        [\<lparr>caLeaseID = leaseID l, caPoolID = leasePoolID l, caTenantID = leaseTenantID l,
          caIPAddress = leaseIPAddress l, caSignal = signal, caReason = reason,
          caIdentifier = leaseHardwareAddr l, caClientID = leaseClientID l, caCount = count\<rparr>]\<rparr>)"

definition shouldQuarantine :: "'r svc_env \<Rightarrow> int \<Rightarrow> bool" where
  "shouldQuarantine env conflicts \<longleftrightarrow>
     (let threshold = PermanentAfter (envExhaustion env) in threshold > 0 \<and> conflicts \<ge> threshold)"

definition cooldownDuration :: "'r svc_env \<Rightarrow> duration" where
  "cooldownDuration env =
     (if PoolProtectPercent (envExhaustion env) > 0 then 5 * minute else 5 * minute)"

definition applyCooldownState ::
  "gotime \<Rightarrow> 'r svc_env \<Rightarrow> lease \<Rightarrow> int \<Rightarrow> 'r svc_state \<Rightarrow> lease \<times> 'r svc_state" where
  "applyCooldownState now env l conflictCount st =
     (if conflictCount > 0 then
        let st = (if shouldQuarantine env conflictCount
                  then applyIsolationPolicy now env (leaseTenantID l) (leaseHardwareAddr l) ''conflict_exhaustion'' st
                  else st) in
        (l\<lparr>leaseState := leaseStateCooldown, leaseExpiresAt := now + cooldownDuration env,
           leaseSecurityState := ''quarantined''\<rparr>, st)
      else (l, st))"

definition conflictEnabled :: "'r svc_env \<Rightarrow> bool" where
  "conflictEnabled env = ccEnabled (envConflict env)"

definition conflictAttemptBudget :: "'r svc_env \<Rightarrow> int" where
  "conflictAttemptBudget env =
     (if ccMaxAttempts (envConflict env) > 0 then ccMaxAttempts (envConflict env) else 3)"

definition conflictProbeTimeout :: "'r svc_env \<Rightarrow> duration" where
  "conflictProbeTimeout env =
     (if ccProbeTimeout (envConflict env) > 0 then ccProbeTimeout (envConflict env) else 500 * millisecond)"

definition conflictHoldDuration :: "'r svc_env \<Rightarrow> duration" where
  "conflictHoldDuration env =
     (if ccHoldDuration (envConflict env) > 0 then ccHoldDuration (envConflict env) else 10 * second)"

definition conflictScanLimit :: "'r svc_env \<Rightarrow> int" where
  "conflictScanLimit env =
     (if ccReclaimScanLimit (envConflict env) > 0 then ccReclaimScanLimit (envConflict env) else 64)"

definition isProbeConflict :: "lease \<Rightarrow> bool" where
  "isProbeConflict l \<longleftrightarrow> list_ex (\<lambda>e. ceSignal e = conflictSignalProbe) (rev (decodeConflictHistory l))"

definition normalizeSecurityState :: "string \<Rightarrow> svc_error + string" where
  "normalizeSecurityState state =
     (let value = to_upper (trim_space state) in
      if value = [] then Inr SecurityStateOK
      else if value \<in> {SecurityStateOK, SecurityStateSuspect, SecurityStateBlocked} then Inr value
      else Inl ErrInvalidSecurityState)"

section \<open>The effective profile\<close>

lemma trunc_fl64_le:
  assumes "0 \<le> x" and "x \<le> of_int k" and "k \<le> 2 ^ 53"
  shows "0 \<le> trunc (fl64 x)" "trunc (fl64 x) \<le> k"
proof -
  have "0 \<le> k" using assms(1,2) by (metis of_int_0_le_iff order_trans)
  then have "fl64 x \<le> of_int k" using fl64_mono [OF assms(1,2)] fl64_of_int [of k] assms(3) by simp
  moreover have "0 \<le> fl64 x" using assms(1) by (rule fl64_nonneg)
  ultimately show "0 \<le> trunc (fl64 x)" "trunc (fl64 x) \<le> k"
    by (simp_all add: trunc_def floor_le_iff)
qed

lemma durationPercent_bounds:
  assumes "base \<le> 2 ^ 53" and "pct \<le> 100" and "0 \<le> base"
  shows "0 \<le> durationPercent base pct \<and> durationPercent base pct \<le> base"
proof (cases "base \<le> 0 \<or> pct \<le> 0")
  case False
  have "pct / 100 \<le> of_int 1" "0 \<le> pct / 100" using assms(2) False by simp_all
  then have "fdiv pct 100 \<le> 1" "0 \<le> fdiv pct 100"
    using fl64_mono [of "pct / 100" "of_int 1"] fl64_of_int [of 1] fl64_nonneg [of "pct / 100"]
    by (simp_all add: fdiv_def)
  then have "of_int base * fdiv pct 100 \<le> of_int base * 1" "0 \<le> of_int base * fdiv pct 100"
    using False mult_left_mono [of "fdiv pct 100" 1 "of_int base"] by (simp_all del: mult_cancel_left1)
  then show ?thesis
    using False trunc_fl64_le [of "of_int base * fdiv pct 100" base] assms(1)
    by (simp add: durationPercent_def fmul_def float_of_int_exact)
qed (use assms in \<open>auto simp: durationPercent_def\<close>)

lemma fill_durations_positive:
  "\<not> profInfinite (fill_durations d p) \<Longrightarrow> 0 < profDefaultDuration (fill_durations d p)"
  by (auto simp: fill_durations_def Let_def hour_def second_def)

lemma fill_durations_window:
  "let q = fill_durations d p in
     0 < profMinDuration q \<longrightarrow> profMinDuration q \<le> profMaxDuration q \<longrightarrow>
     profMinDuration q \<le> profDefaultDuration q \<and> profDefaultDuration q \<le> profMaxDuration q"
  by (auto simp: fill_durations_def Let_def)

lemma fill_durations_timers [simp]:
  "profRenewalTime (fill_durations d p) = profRenewalTime p"
  "profRebindingTime (fill_durations d p) = profRebindingTime p"
  by (auto simp: fill_durations_def Let_def)

lemma fill_timers_frame [simp]:
  "profDefaultDuration (fill_timers d p) = profDefaultDuration p" "profInfinite (fill_timers d p) = profInfinite p"
  "profMinDuration (fill_timers d p) = profMinDuration p" "profMaxDuration (fill_timers d p) = profMaxDuration p"
  by (auto simp: fill_timers_def Let_def)

lemma fill_sleepy_frame [simp]:
  "profDefaultDuration (fill_sleepy d p) = profDefaultDuration p" "profInfinite (fill_sleepy d p) = profInfinite p"
  "profMinDuration (fill_sleepy d p) = profMinDuration p" "profMaxDuration (fill_sleepy d p) = profMaxDuration p"
  "profRenewalTime (fill_sleepy d p) = profRenewalTime p" "profRebindingTime (fill_sleepy d p) = profRebindingTime p"
  by (auto simp: fill_sleepy_def Let_def)

lemma quot_half: "0 \<le> a \<Longrightarrow> 0 \<le> quot a 2 \<and> quot a 2 \<le> a"
  by (auto simp: quot_nonneg)

lemma seven_eighths:
  assumes "0 \<le> D" and "D \<le> 2 ^ 53"
  shows "0 \<le> trunc (fmul (float_of_int D) (7 / 8)) \<and> trunc (fmul (float_of_int D) (7 / 8)) \<le> D"
proof -
  have "of_int D * (7 / 8) \<le> (of_int D :: rat)" "0 \<le> of_int D * (7 / 8 :: rat)" using assms(1) by simp_all
  then show ?thesis
    using trunc_fl64_le [of "of_int D * (7 / 8)" D] assms by (simp add: fmul_def float_of_int_exact)
qed

lemma fill_timers_bounds:
  assumes D: "0 \<le> profDefaultDuration p" "profDefaultDuration p \<le> 2 ^ 53"
    and pct: "cfgRenewalPercent d \<le> 100" "cfgRebindingPercent d \<le> 100"
    and unset: "profRenewalTime p = 0" "profRebindingTime p = 0"
  shows "let q = fill_timers d p in
    0 \<le> profRenewalTime q \<and> profRenewalTime q \<le> profDefaultDuration p \<and>
    0 \<le> profRebindingTime q \<and> profRebindingTime q \<le> profDefaultDuration p \<and>
    (0 < profRebindingTime q \<longrightarrow> profRenewalTime q \<le> profRebindingTime q)"
proof -
  define D where "D = profDefaultDuration p"
  define T1 where "T1 = (if cfgRenewalPercent d > 0 then durationPercent D (cfgRenewalPercent d)
    else if D > 0 then quot D 2 else 0)"
  define T2 where "T2 = (if cfgRebindingPercent d > 0 then durationPercent D (cfgRebindingPercent d)
    else if D > 0 then trunc (fmul (float_of_int D) (7 / 8)) else 0)"
  have b: "0 \<le> T1" "T1 \<le> D" "0 \<le> T2" "T2 \<le> D"
    using durationPercent_bounds D pct quot_half [of D] seven_eighths [of D]
    unfolding T1_def T2_def D_def by auto
  have q: "profRenewalTime (fill_timers d p) = (if T2 > 0 \<and> T1 > T2 then quot T2 2 else T1)"
    "profRebindingTime (fill_timers d p) = T2"
    using unset unfolding T1_def T2_def D_def fill_timers_def Let_def by auto
  show ?thesis unfolding Let_def q using b quot_half [OF b(3)] unfolding D_def by auto
qed

section \<open>Isolation\<close>

lemma checkIsolation_clears:
  "checkIsolation now t i st = (None, st1) \<Longrightarrow> normal_identifier i \<noteq> [] \<Longrightarrow>
   stIsolation st1 (isolationKey t (normal_identifier i)) = None"
  by (auto simp: checkIsolation_def Let_def split: option.splits if_splits)

lemma applyIsolationPolicy_entry:
  assumes "normal_identifier i \<noteq> []" and "0 < TemporaryDuration (envExhaustion env) \<or> 0 < PermanentAfter (envExhaustion env)"
  shows "\<exists>e. stIsolation (applyIsolationPolicy now env t i r st) (isolationKey t (normal_identifier i)) = Some e \<and>
    isoCount e = (case stIsolation st (isolationKey t (normal_identifier i)) of Some e \<Rightarrow> isoCount e | None \<Rightarrow> 0) + 1 \<and>
    (isoPermanent e \<longleftrightarrow> 0 < PermanentAfter (envExhaustion env) \<and> PermanentAfter (envExhaustion env) \<le> isoCount e) \<and>
    isoExpiresAt e = (if isoPermanent e then zero_time
      else now + (if TemporaryDuration (envExhaustion env) \<le> 0 then 5 * minute else TemporaryDuration (envExhaustion env)))"
  using assms by (auto simp: applyIsolationPolicy_def Let_def)

lemma normal_identifier_idem [simp]: "normal_identifier (normal_identifier i) = normal_identifier i"
  by (simp add: normal_identifier_def to_lower_trim)

section \<open>Thresholds\<close>

lemma utilization_mono:
  assumes "0 \<le> a" and "a \<le> b" and "0 < cap"
  shows "utilization a cap \<le> utilization b cap"
proof -
  have "float_of_int a \<le> float_of_int b" "0 \<le> float_of_int a" "0 \<le> float_of_int cap"
    using assms by (auto simp: float_of_int_def fl64_mono fl64_nonneg)
  then have "fdiv (float_of_int a) (float_of_int cap) \<le> fdiv (float_of_int b) (float_of_int cap)"
    "0 \<le> fdiv (float_of_int a) (float_of_int cap)"
    unfolding fdiv_def by (auto intro!: fl64_mono divide_right_mono fl64_nonneg)
  then show ?thesis unfolding utilization_def fmul_def by (auto intro!: fl64_mono)
qed

lemma utilization_full:
  assumes "0 < cap" and "cap \<le> 2 ^ 53" and "cap \<le> c"
  shows "100 \<le> utilization c cap"
proof -
  have "utilization cap cap = 100"
    using assms fl64_of_int [of 1] fl64_of_int [of 100]
    by (simp add: utilization_def float_of_int_exact fdiv_def fmul_def)
  then show ?thesis using utilization_mono [of cap c cap] assms by simp
qed

lemma utilization_zero [simp]: "utilization 0 cap = 0"
  by (simp add: utilization_def fmul_def fdiv_def float_of_int_def fl64_def)

section \<open>Conflicts\<close>

lemma appendConflict_bounds:
  "appendConflict now l s r = (l', n) \<Longrightarrow> 1 \<le> n \<and> n \<le> 20 \<and> int (length (decodeConflictHistory l')) = n"
  by (auto simp: appendConflict_def Let_def decodeConflictHistory_def)

section \<open>Properties\<close>


definition sample_defaults :: lease_profile_config where
  "sample_defaults = envDefaults (plain_env \<lparr>GetPool = \<lambda>_. Inl ErrPoolNotFound, FindBinding = \<lambda>_ _. Inl ErrPoolNotFound,
     ListBindingsByPool = \<lambda>_. Inr []\<rparr> :: unit svc_env)"


text \<open>How long a client stays isolated.  After \<^verbatim>\<open>applyIsolationPolicy\<close> the client is
  refused at every later check up to and including the expiry instant, for ever when the
  violation made the isolation permanent, and is let in again, with its record deleted, at
  the first check after it.\<close>

theorem isolation_window:
  fixes env :: "'r svc_env"
  defines "dur \<equiv> (if TemporaryDuration (envExhaustion env) \<le> 0 then 5 * minute else TemporaryDuration (envExhaustion env))"
  assumes "normal_identifier i \<noteq> []"
    and "0 < TemporaryDuration (envExhaustion env) \<or> 0 < PermanentAfter (envExhaustion env)"
    and "0 \<le> now"
  shows "\<exists>e. stIsolation (applyIsolationPolicy now env t i r st) (isolationKey t (normal_identifier i)) = Some e \<and>
    (checkIsolation later t i (applyIsolationPolicy now env t i r st) =
      (if isoPermanent e \<or> later \<le> now + dur then (Some ErrClientIsolated, applyIsolationPolicy now env t i r st)
       else (None, (applyIsolationPolicy now env t i r st)
         \<lparr>stIsolation := (stIsolation (applyIsolationPolicy now env t i r st))(isolationKey t (normal_identifier i) := None)\<rparr>)))"
proof -
  from applyIsolationPolicy_entry [OF assms(2,3), of now t r st] obtain e where
    e: "stIsolation (applyIsolationPolicy now env t i r st) (isolationKey t (normal_identifier i)) = Some e"
    and exp: "isoExpiresAt e = (if isoPermanent e then zero_time else now + dur)"
    unfolding dur_def by blast
  have "0 < dur" by (simp add: dur_def minute_def second_def)
  then have "\<not> IsZeroTime (now + dur)"
    using assms(4) by (simp add: IsZeroTime_def zero_time_def second_def)
  then show ?thesis using e exp assms(2) by (intro exI [of _ e]) (simp add: checkIsolation_def Let_def)
qed

definition sample_env :: "unit svc_env" where
  "sample_env = (plain_env \<lparr>GetPool = \<lambda>_. Inl ErrPoolNotFound, FindBinding = \<lambda>_ _. Inl ErrPoolNotFound,
     ListBindingsByPool = \<lambda>_. Inr []\<rparr>)
     \<lparr>envExhaustion := \<lparr>MaxLeasesPerMAC = 1, MaxLeasesPerUser = 0, PoolWarnPercent = 80, PoolProtectPercent = 95,
        TemporaryDuration = 60 * second, PermanentAfter = 3\<rparr>\<rparr>"

lemma sample_identifier: "normal_identifier ''aa'' = ''aa''"
  by code_simp

theorem isolation_window_witness:
  "\<exists>e. stIsolation (applyIsolationPolicy 0 sample_env ''t'' ''aa'' ''x'' (initial_state () []))
      (isolationKey ''t'' (normal_identifier ''aa'')) = Some e"
  using isolation_window [where env = sample_env and i = "''aa''" and now = 0 and t = "''t''" and r = "''x''"
      and st = "initial_state () []" and later = 0]
  by (auto simp: sample_identifier sample_env_def second_def)

text \<open>A lease-limit violation never becomes permanent.  A client that passes
  \<^verbatim>\<open>checkIsolation\<close> has no isolation record left, so the violation recorded by the lease
  limits right after it is always the first one: with a threshold of two or more the
  isolation is temporary every time, however often the client offends.\<close>

theorem limit_violation_stays_temporary:
  assumes "checkIsolation now t i st = (None, st1)"
    and "enforceLeaseLimits now env t i meta st1 = (Some err, st2)"
    and "2 \<le> PermanentAfter (envExhaustion env)"
  shows "\<exists>e. stIsolation st2 (isolationKey t (normal_identifier i)) = Some e \<and> isoCount e = 1 \<and> \<not> isoPermanent e"
proof -
  from assms(2) obtain r where i: "normal_identifier i \<noteq> []"
    and st2: "st2 = applyIsolationPolicy now env t (normal_identifier i) r st1"
    by (auto simp: enforceLeaseLimits_def Let_def split: if_splits)
  have gone: "stIsolation st1 (isolationKey t (normal_identifier i)) = None"
    using checkIsolation_clears [OF assms(1) i] .
  from applyIsolationPolicy_entry [of "normal_identifier i" env now t r st1] i assms(3) gone
  show ?thesis unfolding st2 by auto
qed

theorem limit_violation_stays_temporary_witness:
  "\<exists>e. stIsolation (snd (enforceLeaseLimits 0 sample_env ''t'' ''aa'' empty_metadata (initial_state ()
         [empty_lease\<lparr>leaseID := ''1'', leaseHardwareAddr := ''aa'', leaseState := ''ACTIVE''\<rparr>])))
     (isolationKey ''t'' (normal_identifier ''aa'')) = Some e \<and> isoCount e = 1 \<and> \<not> isoPermanent e"
proof -
  let ?row = "empty_lease\<lparr>leaseID := ''1'', leaseHardwareAddr := ''aa'', leaseState := ''ACTIVE''\<rparr>"
  let ?st = "initial_state () [?row]"
  have "checkIsolation 0 ''t'' ''aa'' ?st = (None, ?st)"
    by (simp add: checkIsolation_def initial_state_def Let_def)
  moreover have "fst (enforceLeaseLimits 0 sample_env ''t'' ''aa'' empty_metadata ?st) = Some ErrIdentifierLeaseLimit"
    by (simp add: enforceLeaseLimits_def Let_def sample_identifier sample_env_def initial_state_def
        CountActiveLeasesByIdentifier_def)
  moreover have "2 \<le> PermanentAfter (envExhaustion sample_env)" by (simp add: sample_env_def)
  ultimately show ?thesis
    using limit_violation_stays_temporary [of 0 "''t''" "''aa''" ?st ?st sample_env empty_metadata]
    by (cases "enforceLeaseLimits 0 sample_env ''t'' ''aa'' empty_metadata ?st") simp
qed

text \<open>Pool protection despite floating point.  With a protection threshold between 1 and
  100 percent a pool with no free address left is always protected, an empty one never, and
  protection never ends by handing out more addresses.\<close>

theorem pool_protection:
  assumes "0 < cap" and "cap \<le> 2 ^ 32" and "0 < PoolProtectPercent ex" and "PoolProtectPercent ex \<le> 100"
  shows "(cap \<le> c \<longrightarrow> pool_level ex c cap = poolLevelProtect) \<and>
    pool_level ex 0 cap \<noteq> poolLevelProtect \<and>
    (0 \<le> c \<and> c \<le> c' \<and> pool_level ex c cap = poolLevelProtect \<longrightarrow> pool_level ex c' cap = poolLevelProtect)"
proof -
  have p: "float_of_int (PoolProtectPercent ex) = of_int (PoolProtectPercent ex)"
    using assms by (simp add: float_of_int_exact)
  have names: "poolLevelWarn \<noteq> poolLevelProtect" "poolLevelNormal \<noteq> poolLevelProtect"
    by (simp_all add: poolLevelWarn_def poolLevelProtect_def poolLevelNormal_def)
  have level: "pool_level ex k cap = poolLevelProtect \<longleftrightarrow> of_int (PoolProtectPercent ex) \<le> utilization k cap" for k
    using assms(3) names by (simp add: pool_level_def Let_def p)
  have hundred: "of_int (PoolProtectPercent ex) \<le> (100::rat)" using assms(4) by simp
  show ?thesis unfolding level
    using utilization_full [of cap c] utilization_mono [of c c' cap] assms hundred by auto
qed

theorem pool_protection_witness:
  "pool_level (envExhaustion sample_env) 254 254 = poolLevelProtect \<and>
   pool_level (envExhaustion sample_env) 0 254 \<noteq> poolLevelProtect"
  using pool_protection [of 254 "envExhaustion sample_env" 254 254] by (simp add: sample_env_def)

text \<open>The conflict count saturates.  However many conflicts a lease has seen, the count
  that decides about quarantine is between 1 and 20, because the history is cut to its last
  20 entries before it is counted; a quarantine threshold above 20 is never reached.\<close>

theorem conflict_count_saturates:
  assumes "appendConflict now l signal reason = (l', n)"
  shows "1 \<le> n \<and> n \<le> 20 \<and> int (length (decodeConflictHistory l')) = n \<and>
    (20 < PermanentAfter (envExhaustion env) \<longrightarrow> \<not> shouldQuarantine env n)"
  using appendConflict_bounds [OF assms] by (auto simp: shouldQuarantine_def Let_def)

theorem conflict_count_saturates_witness:
  "1 \<le> snd (appendConflict 0 empty_lease ''icmp-probe'' []) \<and> snd (appendConflict 0 empty_lease ''icmp-probe'' []) \<le> 20"
  using conflict_count_saturates [of 0 empty_lease "''icmp-probe''" "[]"] by (metis prod.collapse)

end
