(* ===== verification/Lease_Pick.thy ===== *)
theory Lease_Pick
  imports Lease_Policy
begin

text \<open>
  Choosing an address: \<^verbatim>\<open>pickIPAddress\<close> of \<^verbatim>\<open>internal/lease/service.go\<close>, the address
  conflict detection of \<^verbatim>\<open>internal/lease/acd.go\<close> (without the optional result cache) and
  the Redis bitmap of \<^verbatim>\<open>internal/lease/bitmap.go\<close>.  \<open>None\<close> is a search that does not
  return.
\<close>

section \<open>Conflict detection\<close>

record acd_config =
  acdEnabled :: bool
  acdARPTimeout :: duration
  acdARPRetries :: int
  acdICMPRetries :: int
  acdCacheTTL :: duration
  acdConflictTTL :: duration

record acd_result =
  acdConflict :: bool
  acdMethod :: string
  acdCheckedAt :: gotime

definition acdPoolConfig :: "'r svc_env \<Rightarrow> string \<Rightarrow> conflict_pool_config option" where
  "acdPoolConfig env pid = ccPools (envConflict env) (trim_space pid)"

definition acdEffectiveConfig :: "'r svc_env \<Rightarrow> string \<Rightarrow> acd_config" where
  "acdEffectiveConfig env pid =
     (let c = envConflict env; pos = (\<lambda>v d. if v > 0 then v else d);
          eff = \<lparr>acdEnabled = ccEnabled c,
                 acdARPTimeout = pos (ccARPTimeout c) (conflictProbeTimeout env),
                 acdARPRetries = pos (ccARPRetries c) 2,
                 acdICMPRetries = pos (ccICMPRetries c) 2,
                 acdCacheTTL = pos (ccCacheTTL c) (30 * second),
                 acdConflictTTL = pos (ccConflictTTL c) (2 * minute)\<rparr> in
      case acdPoolConfig env pid of
        None \<Rightarrow> eff
      | Some ov \<Rightarrow>
          eff\<lparr>acdEnabled := cpEnabled ov,
              acdARPTimeout := pos (cpARPTimeout ov) (acdARPTimeout eff),
              acdARPRetries := pos (cpARPRetries ov) (acdARPRetries eff),
              acdICMPRetries := pos (cpICMPRetries ov) (acdICMPRetries eff)\<rparr>)"

text \<open>\<^verbatim>\<open>netip.Addr.IsPrivate\<close> on IPv4.\<close>

definition IsPrivate4 :: "u32 \<Rightarrow> bool" where
  "IsPrivate4 w \<longleftrightarrow> drop_bit 24 w = 10 \<or> drop_bit 20 w = 0xAC1 \<or> drop_bit 16 w = 0xC0A8"

definition acdProbeAddress :: "gotime \<Rightarrow> 'r svc_env \<Rightarrow> string \<Rightarrow> string \<Rightarrow> acd_result" where
  "acdProbeAddress now env pid ip =
     (let clear = \<lparr>acdConflict = False, acdMethod = [], acdCheckedAt = now\<rparr>;
          cfg = acdEffectiveConfig env pid in
      case ParseAddr (trim_space ip) of
        Some (Addr4 w) \<Rightarrow>
          if \<not> IsPrivate4 w then clear
          else (case envProber env of
              None \<Rightarrow> clear
            | Some prober \<Rightarrow>
                if \<not> acdEnabled cfg then clear
                else if list_ex (\<lambda>i. fst (ProbeARP prober (Addr4 w) i)) [0..<nat (acdARPRetries cfg)]
                then \<lparr>acdConflict = True, acdMethod = ''arp'', acdCheckedAt = now\<rparr>
                else if list_ex (\<lambda>i. fst (ProbeICMP prober (Addr4 w) i)) [0..<nat (acdICMPRetries cfg)]
                then \<lparr>acdConflict = True, acdMethod = ''icmp'', acdCheckedAt = now\<rparr>
                else clear\<lparr>acdMethod := ''none''\<rparr>)
      | _ \<Rightarrow> clear)"

definition acdCheckCandidate :: "gotime \<Rightarrow> 'r svc_env \<Rightarrow> string \<Rightarrow> string \<Rightarrow> bool" where
  "acdCheckCandidate now env pid ip =
     (if \<not> acdEnabled (acdEffectiveConfig env pid) \<or> envProber env = None then True
      else \<not> acdConflict (acdProbeAddress now env pid ip))"

section \<open>The Redis bitmap\<close>

definition bitmapEnabled :: "'r svc_env \<Rightarrow> bool" where
  "bitmapEnabled env \<longleftrightarrow> envRedis env \<noteq> None"

definition bitmapKey :: "string \<Rightarrow> string" where
  "bitmapKey pid = ''dhcpv4:bitmap:pool:'' @ trim_space pid"

definition bitmapLockKey :: "string \<Rightarrow> string" where
  "bitmapLockKey pid = ''dhcpv4:lock:pool:'' @ trim_space pid"

definition bitmapInitKey :: "string \<Rightarrow> string" where
  "bitmapInitKey pid = ''dhcpv4:bitmap:init:'' @ trim_space pid"

text \<open>The lock manager exists when Redis does; the result is an error or the keys held now.\<close>

definition acquirePoolLock :: "'r svc_env \<Rightarrow> string list \<Rightarrow> string \<Rightarrow> svc_error + string list" where
  "acquirePoolLock env held pid =
     (if envRedis env = None \<or> trim_space pid = [] then Inr held
      else case envLock env held (bitmapLockKey pid) of
        Some e \<Rightarrow> Inl e
      | None \<Rightarrow> Inr (bitmapLockKey pid # held))"

text \<open>The initial bitmap: one bit per address, most significant bit first, the bits after
  the last address clear.\<close>

definition full_bitmap :: "nat \<Rightarrow> bytes" where
  "full_bitmap count =
     (let bytesLen = (count + 7) div 8; payload = replicate bytesLen 0xFF in
      if count mod 8 \<noteq> 0 then payload[bytesLen - 1 := push_bit (8 - count mod 8) 0xFF] else payload)"

definition bitmap_count :: "addr \<Rightarrow> addr \<Rightarrow> nat" where
  "bitmap_count start end = unat (addrToUint32 end - addrToUint32 start) + 1"

definition ensurePoolBitmapInitialized ::
  "'r svc_env \<Rightarrow> address_pool \<Rightarrow> addr \<Rightarrow> addr \<Rightarrow> 'r svc_state \<Rightarrow> string option \<times> 'r svc_state" where
  "ensurePoolBitmapInitialized env pool start end st =
     (case envRedis env of
        None \<Rightarrow> (None, st)
      | Some redis \<Rightarrow>
          if \<not> IsValid start \<or> \<not> IsValid end then (None, st)
          else (case redisSetNX redis (bitmapInitKey (poolID pool)) (bytes_of_string ''1'') (24 * hour) (stRedis st) of
              (Inl err, r) \<Rightarrow> (Some err, st\<lparr>stRedis := r\<rparr>)
            | (Inr ok, r) \<Rightarrow>
                if \<not> ok then (None, st\<lparr>stRedis := r\<rparr>)
                else let (err, r) = redisSet redis (bitmapKey (poolID pool)) (full_bitmap (bitmap_count start end)) r in
                  (err, st\<lparr>stRedis := r\<rparr>)))"

definition bitmapSetAvailability ::
  "'r svc_env \<Rightarrow> string \<Rightarrow> u32 \<Rightarrow> bool \<Rightarrow> 'r svc_state \<Rightarrow> string option \<times> 'r svc_state" where
  "bitmapSetAvailability env pid idx available st =
     (case envRedis env of
        None \<Rightarrow> (None, st)
      | Some redis \<Rightarrow>
          let (err, r) = redisSetBit redis (bitmapKey pid) (uint idx) (if available then 1 else 0) (stRedis st) in
          (err, st\<lparr>stRedis := r\<rparr>))"

definition bitmapSetByIP ::
  "'r svc_env \<Rightarrow> address_pool \<Rightarrow> string \<Rightarrow> bool \<Rightarrow> 'r svc_state \<Rightarrow> 'r svc_state" where
  "bitmapSetByIP env pool ip available st =
     (if \<not> bitmapEnabled env then st
      else case ParsePrefix (poolCIDR pool) of
        None \<Rightarrow> st
      | Some prefix \<Rightarrow>
          if \<not> Is4 (pfx_addr prefix) then st
          else let (start, end) = resolvePoolBounds pool prefix in
            if \<not> IsValid start \<or> \<not> IsValid end then st
            else (case ParseAddr (trim_space ip) of
                Some (Addr4 v) \<Rightarrow>
                  if v < addrToUint32 start \<or> v > addrToUint32 end then st
                  else snd (bitmapSetAvailability env (poolID pool) (v - addrToUint32 start) available st)
              | _ \<Rightarrow> st))"

partial_function (option) bitmap_loop ::
  "'r svc_env \<Rightarrow> 'r redis_ops \<Rightarrow> string \<Rightarrow> u32 \<Rightarrow> int \<Rightarrow> string set \<Rightarrow> string set \<Rightarrow> ipv4Range list \<Rightarrow>
   int \<Rightarrow> 'r svc_state \<Rightarrow> (string option \<times> 'r svc_state) option" where
  "bitmap_loop env redis pid start32 maxOffset used cooldown exclusions offset st =
     (if offset > maxOffset then Some (None, st)
      else case redisBitPos redis (bitmapKey pid) 1 offset (stRedis st) of
        Inl _ \<Rightarrow> Some (None, st)
      | Inr pos \<Rightarrow>
          if pos < 0 \<or> pos > maxOffset then Some (None, st)
          else
            let candidate32 = start32 + of_int pos in
            if addr_string (uint32ToAddr candidate32) \<in> used \<or> addr_string (uint32ToAddr candidate32) \<in> cooldown
               \<or> isExcluded (uint32ToAddr candidate32) exclusions []
            then bitmap_loop env redis pid start32 maxOffset used cooldown exclusions (pos + 1)
                   (snd (bitmapSetAvailability env pid (of_int pos) False st))
            else (case bitmapSetAvailability env pid (of_int pos) False st of
                (Some err, st') \<Rightarrow> Some (None, st')
              | (None, st') \<Rightarrow> Some (Some (addr_string (uint32ToAddr candidate32)), st')))"

declare bitmap_loop.simps [code]

definition bitmapFindAvailableIPv4 ::
  "'r svc_env \<Rightarrow> address_pool \<Rightarrow> addr \<Rightarrow> addr \<Rightarrow> string set \<Rightarrow> string set \<Rightarrow> int \<Rightarrow> ipv4Range list \<Rightarrow>
   'r svc_state \<Rightarrow> (string option \<times> 'r svc_state) option" where
  "bitmapFindAvailableIPv4 env pool start end used cooldown reservePercent exclusions st =
     (case envRedis env of
        None \<Rightarrow> Some (None, st)
      | Some redis \<Rightarrow>
          if \<not> IsValid start \<or> \<not> IsValid end then Some (None, st)
          else (case ensurePoolBitmapInitialized env pool start end st of
              (Some err, st) \<Rightarrow> Some (None, st)
            | (None, st) \<Rightarrow>
                let start32 = addrToUint32 start; end32 = addrToUint32 end in
                (case applyReserveWindow start32 end32 reservePercent of
                   None \<Rightarrow> Some (None, st)
                 | Some allocEnd \<Rightarrow>
                     bitmap_loop env redis (poolID pool) start32 (uint (allocEnd - start32))
                       used cooldown exclusions 0 st)))"

definition mark_used :: "u32 \<Rightarrow> u32 \<Rightarrow> string \<Rightarrow> bytes \<Rightarrow> bytes" where
  "mark_used start32 end32 ip payload =
     (case ParseAddr (trim_space ip) of
        Some (Addr4 value) \<Rightarrow>
          if value < start32 \<or> value > end32 then payload
          else let idx = unat (value - start32) in
            payload[idx div 8 := payload ! (idx div 8) AND NOT (push_bit (7 - idx mod 8) 1)]
      | _ \<Rightarrow> payload)"

definition SyncPoolBitmapFromMySQL ::
  "gotime \<Rightarrow> 'r svc_env \<Rightarrow> address_pool \<Rightarrow> 'r svc_state \<Rightarrow> (int, 'r) outcome" where
  "SyncPoolBitmapFromMySQL now env pool st =
     (case envRedis env of
        None \<Rightarrow> (Inr 0, st)
      | Some redis \<Rightarrow>
          (case ParsePrefix (poolCIDR pool) of
             None \<Rightarrow> (Inr 0, st)
           | Some prefix \<Rightarrow>
               if \<not> Is4 (pfx_addr prefix) then (Inr 0, st)
               else let (start, end) = resolvePoolBounds pool prefix in
                 if \<not> IsValid start \<or> \<not> IsValid end then (Inr 0, st)
                 else
                   let activeIPs = ListActiveIPs (stDB st) (poolID pool);
                       cooldownIPs = ListCooldownIPs (stDB st) (poolID pool) now;
                       payload = foldl (\<lambda>pl ip. mark_used (addrToUint32 start) (addrToUint32 end) ip pl)
                         (full_bitmap (bitmap_count start end)) (activeIPs @ cooldownIPs);
                       (err, r) = redisSet redis (bitmapKey (poolID pool)) payload (stRedis st);
                       st = st\<lparr>stRedis := r\<rparr> in
                   (case err of
                      Some e \<Rightarrow> (Inl (ErrOther e), st)
                    | None \<Rightarrow> (Inr (int (length activeIPs) + int (length cooldownIPs)), st))))"

section \<open>Choosing an address\<close>

definition allocatable :: "prefix \<Rightarrow> addr \<Rightarrow> addr \<Rightarrow> ipv4Range list \<Rightarrow> ipv6Range list \<Rightarrow> addr \<Rightarrow> bool" where
  "allocatable prefix rangeStart rangeEnd ipv4Ex ipv6Ex addr \<longleftrightarrow>
     Contains prefix addr \<and> isUsableHost prefix addr \<and> withinBounds addr rangeStart rangeEnd \<and>
     \<not> isExcluded addr ipv4Ex ipv6Ex"

fun reserved_ips :: "static_binding option \<Rightarrow> static_binding list \<Rightarrow> string set" where
  "reserved_ips binding [] = {}"
| "reserved_ips binding (b # bs) =
     (if (case binding of Some own \<Rightarrow> bindID b = bindID own | None \<Rightarrow> False) then reserved_ips binding bs
      else if bindIPAddress b = [] then reserved_ips binding bs
      else insert (bindIPAddress b) (reserved_ips binding bs))"

text \<open>The search loop: at most eight times the attempt budget of candidates, each checked on
  the network before it is handed out.\<close>

fun search_loop ::
  "nat \<Rightarrow> gotime \<Rightarrow> 'r svc_env \<Rightarrow> address_pool \<Rightarrow> u32 \<Rightarrow> u32 \<Rightarrow> string set \<Rightarrow> string set \<Rightarrow>
   ipv4Range list \<Rightarrow> 'r svc_state \<Rightarrow> (string, 'r) outcome option" where
  "search_loop 0 now env pool start32 end32 used cooldown ex st = Some (Inl ErrNoAvailableIP, st)"
| "search_loop (Suc n) now env pool start32 end32 used cooldown ex st =
     (case next_by_mode pool (stCursor st) start32 end32 used cooldown (poolReservePercent pool) ex of
        None \<Rightarrow> None
      | Some (None, cur) \<Rightarrow> Some (Inl ErrNoAvailableIP, st\<lparr>stCursor := cur\<rparr>)
      | Some (Some candidate, cur) \<Rightarrow>
          if candidate = [] then Some (Inl ErrNoAvailableIP, st\<lparr>stCursor := cur\<rparr>)
          else if acdCheckCandidate now env (poolID pool) candidate
          then Some (Inr candidate, st\<lparr>stCursor := cur\<rparr>)
          else search_loop n now env pool start32 end32 (insert candidate used) (insert candidate cooldown) ex
                 (st\<lparr>stCursor := cur\<rparr>))"

text \<open>The IPv4 part after the preferred address: the bitmap first, when Redis is there, then
  the pool's mode over the whole range.  In bitmap-first mode the set of used addresses is
  read from the database only now, and it replaces the set that held the reserved ones.\<close>

definition search_after_bitmap ::
  "gotime \<Rightarrow> 'r svc_env \<Rightarrow> address_pool \<Rightarrow> addr \<Rightarrow> addr \<Rightarrow> bool \<Rightarrow> string set \<Rightarrow> string set \<Rightarrow>
   ipv4Range list \<Rightarrow> 'r svc_state \<Rightarrow> (string, 'r) outcome option" where
  "search_after_bitmap now env pool rangeStart rangeEnd useBitmapFirst used cooldown ex st =
     (let used = (if useBitmapFirst then set (ListActiveIPs (stDB st) (poolID pool)) else used);
          (err, st) = (if useBitmapFirst
             then evaluatePoolThresholds env pool (int (card used)) (int (card cooldown)) rangeStart rangeEnd st
             else (None, st)) in
      case err of
        Some e \<Rightarrow> Some (Inl e, st)
      | None \<Rightarrow> search_loop (nat (conflictAttemptBudget env * 8)) now env pool
          (addrToUint32 rangeStart) (addrToUint32 rangeEnd) used cooldown ex st)"

definition search_ipv4 ::
  "gotime \<Rightarrow> 'r svc_env \<Rightarrow> address_pool \<Rightarrow> addr \<Rightarrow> addr \<Rightarrow> bool \<Rightarrow> string set \<Rightarrow> string set \<Rightarrow>
   ipv4Range list \<Rightarrow> 'r svc_state \<Rightarrow> (string, 'r) outcome option" where
  "search_ipv4 now env pool rangeStart rangeEnd useBitmapFirst used cooldown ex st =
     (case bitmapFindAvailableIPv4 env pool rangeStart rangeEnd used cooldown (poolReservePercent pool) ex st of
        None \<Rightarrow> None
      | Some (Some candidate, st) \<Rightarrow>
          if acdCheckCandidate now env (poolID pool) candidate then Some (Inr candidate, st)
          else search_after_bitmap now env pool rangeStart rangeEnd useBitmapFirst used cooldown ex st
      | Some (None, st) \<Rightarrow>
          search_after_bitmap now env pool rangeStart rangeEnd useBitmapFirst used cooldown ex st)"

text \<open>A fixed address (a static binding, or the address the client asked for): whether it can
  be had.  \<open>NotAllocatable\<close> is an address the pool does not offer at all.\<close>

datatype fixed_choice = NotAllocatable | CoolingDown | Taken | Conflicting | Granted string

definition try_fixed ::
  "gotime \<Rightarrow> 'r svc_env \<Rightarrow> address_pool \<Rightarrow> prefix \<Rightarrow> addr \<Rightarrow> addr \<Rightarrow> ipv4Range list \<Rightarrow> ipv6Range list \<Rightarrow>
   string set \<Rightarrow> string set \<Rightarrow> string \<Rightarrow> fixed_choice" where
  "try_fixed now env pool prefix rangeStart rangeEnd ex4 ex6 used cooldown ip =
     (case ParseAddr ip of
        None \<Rightarrow> NotAllocatable
      | Some addr \<Rightarrow>
          if \<not> allocatable prefix rangeStart rangeEnd ex4 ex6 addr then NotAllocatable
          else let candidate = addr_string addr in
            if candidate \<in> cooldown then CoolingDown
            else if candidate \<in> used then Taken
            else if acdCheckCandidate now env (poolID pool) candidate then Granted candidate
            else Conflicting)"

definition fixed_blocked :: "fixed_choice \<Rightarrow> string \<Rightarrow> string set \<Rightarrow> string set" where
  "fixed_blocked choice ip used =
     (if choice = Conflicting then (case ParseAddr ip of Some a \<Rightarrow> insert (addr_string a) used | None \<Rightarrow> used)
      else used)"

definition pick_search ::
  "gotime \<Rightarrow> 'r svc_env \<Rightarrow> address_pool \<Rightarrow> prefix \<Rightarrow> addr \<Rightarrow> addr \<Rightarrow> ipv4Range list \<Rightarrow> ipv6Range list \<Rightarrow>
   bool \<Rightarrow> string set \<Rightarrow> string set \<Rightarrow> 'r svc_state \<Rightarrow> (string, 'r) outcome option" where
  "pick_search now env pool prefix rangeStart rangeEnd ex4 ex6 useBitmapFirst used cooldown st =
     (case evaluatePoolThresholds env pool (int (card used)) (int (card cooldown)) rangeStart rangeEnd st of
        (Some e, st) \<Rightarrow> Some (Inl e, st)
      | (None, st) \<Rightarrow>
          if Is4 (pfx_addr prefix)
          then search_ipv4 now env pool rangeStart rangeEnd useBitmapFirst used cooldown ex4 st
          else (case nextAvailableIPv6 (envDraws env) rangeStart rangeEnd used cooldown
                       (poolReservePercent pool) ex6 of
              Some ip \<Rightarrow> Some (Inr ip, st)
            | None \<Rightarrow> Some (Inl ErrNoAvailableIP, st)))"

text \<open>The order of preference: the client's static binding, which is final either way; the
  address it asked for; a search.\<close>

definition pick_preferring ::
  "gotime \<Rightarrow> 'r svc_env \<Rightarrow> address_pool \<Rightarrow> prefix \<Rightarrow> addr \<Rightarrow> addr \<Rightarrow> ipv4Range list \<Rightarrow> ipv6Range list \<Rightarrow>
   bool \<Rightarrow> string set \<Rightarrow> string set \<Rightarrow> string \<Rightarrow> string \<Rightarrow> 'r svc_state \<Rightarrow> (string, 'r) outcome option" where
  "pick_preferring now env pool prefix rangeStart rangeEnd ex4 ex6 useBitmapFirst used cooldown boundIP preferred st =
     (let attempt = (\<lambda>ip. if ip \<noteq> []
            then try_fixed now env pool prefix rangeStart rangeEnd ex4 ex6 used cooldown ip
            else NotAllocatable) in
      case attempt boundIP of
        Granted candidate \<Rightarrow> Some (Inr candidate, st)
      | NotAllocatable \<Rightarrow>
          (case attempt preferred of
             Granted candidate \<Rightarrow> Some (Inr candidate, st)
           | wish \<Rightarrow> pick_search now env pool prefix rangeStart rangeEnd ex4 ex6 useBitmapFirst
                       (fixed_blocked wish preferred used) cooldown st)
      | _ \<Rightarrow> Some (Inl ErrNoAvailableIP, st))"

definition pickIPAddress ::
  "gotime \<Rightarrow> 'r svc_env \<Rightarrow> access_scope \<Rightarrow> address_pool \<Rightarrow> string \<Rightarrow> static_binding option \<Rightarrow>
   static_binding list \<Rightarrow> 'r svc_state \<Rightarrow> (string, 'r) outcome option" where
  "pickIPAddress now env scope pool preferred binding reserved st =
     (if envPoolReader env = None then Some (Inl ErrPoolReaderMissing, st)
      else case TenantIDOrErr scope of
        Inl e \<Rightarrow> Some (Inl e, st)
      | Inr _ \<Rightarrow>
      case ParsePrefix (poolCIDR pool) of
        None \<Rightarrow> Some (Inl ErrUnsupportedCIDR, st)
      | Some prefix \<Rightarrow>
          let useBitmapFirst = (bitmapEnabled env \<and> envBitmapFirst env \<and> Is4 (pfx_addr prefix));
              usedSet = (if useBitmapFirst then {} else set (ListActiveIPs (stDB st) (poolID pool)));
              cooldownSet = set (ListCooldownIPs (stDB st) (poolID pool) now);
              usedSet = usedSet \<union> reserved_ips binding reserved;
              (rangeStart, rangeEnd) = resolvePoolBounds pool prefix;
              ex4 = (if Is4 (pfx_addr prefix) then buildIPv4Exclusions pool prefix rangeStart rangeEnd else []);
              ex6 = (if Is4 (pfx_addr prefix) then [] else buildIPv6Exclusions pool prefix rangeStart rangeEnd);
              boundIP = (case binding of Some b \<Rightarrow> bindIPAddress b | None \<Rightarrow> []) in
          pick_preferring now env pool prefix rangeStart rangeEnd ex4 ex6 useBitmapFirst usedSet cooldownSet
            boundIP preferred st)"

section \<open>The search\<close>

lemma ParsePrefix_bits: "ParsePrefix s = Some p \<Longrightarrow> pfx_bits p \<le> BitLen (pfx_addr p)"
  by (auto simp: ParsePrefix_def Let_def split: if_splits option.splits addr.splits list.splits)

lemma free_ips_blocked: "ip \<in> free_ips used cooldown ex s a \<Longrightarrow> ip \<notin> used \<and> ip \<notin> cooldown"
  by (auto simp: free_ips_def candidate_blocked_def)

lemma free_ips_antimono: "free_ips (insert c used) (insert c cooldown) ex s a \<subseteq> free_ips used cooldown ex s a"
  by (auto simp: free_ips_def candidate_blocked_def)

lemma search_loop_sound:
  assumes win: "\<And>a. applyReserveWindow s e (poolReservePercent pool) = Some a \<Longrightarrow> a \<noteq> -1"
  shows "case search_loop n now env pool s e used cooldown ex st of
      None \<Rightarrow> False
    | Some (Inl err, st') \<Rightarrow> err = ErrNoAvailableIP \<and> stDB st' = stDB st
    | Some (Inr ip, st') \<Rightarrow> stDB st' = stDB st \<and> acdCheckCandidate now env (poolID pool) ip \<and>
        (\<exists>a. applyReserveWindow s e (poolReservePercent pool) = Some a \<and> ip \<in> free_ips used cooldown ex s a)"
proof (induction n arbitrary: used cooldown st)
  case (Suc n)
  show ?case
  proof (cases "applyReserveWindow s e (poolReservePercent pool)")
    case None
    then show ?thesis by (simp add: mode.closed)
  next
    case (Some a)
    note w = Some win [OF Some]
    show ?thesis
    proof (cases "free_ips used cooldown ex s a = {}")
      case True
      then show ?thesis using mode.exhausted [OF w True, of pool "stCursor st"] by auto
    next
      case False
      then obtain c cur where c: "next_by_mode pool (stCursor st) s e used cooldown (poolReservePercent pool) ex
          = Some (Some c, cur)" "c \<in> free_ips used cooldown ex s a"
        using mode.found [OF w False, of pool "stCursor st"] by blast
      then have "c \<noteq> []" by (auto simp: free_ips_def uint32ToAddr_def)
      then show ?thesis
        using c Some Suc [of "st\<lparr>stCursor := cur\<rparr>" "insert c used" "insert c cooldown"]
          free_ips_antimono [of c used cooldown ex s a]
        by (auto split: option.splits sum.splits)
    qed
  qed
qed simp

lemma search_ipv4_plain:
  assumes "envRedis env = None"
  shows "search_ipv4 now env pool rs re False used cooldown ex st =
    search_loop (nat (conflictAttemptBudget env * 8)) now env pool (addrToUint32 rs) (addrToUint32 re) used cooldown ex st"
  using assms by (simp add: search_ipv4_def bitmapFindAvailableIPv4_def search_after_bitmap_def)

lemma evaluatePoolThresholds_frame [frame]:
  "evaluatePoolThresholds env pool x y rs re st = (err, st') \<Longrightarrow> stDB st' = stDB st"
  by (auto simp: evaluatePoolThresholds_def updatePoolLevel_def Let_def split: if_splits)

lemma evaluatePoolThresholds_errors:
  "fst (evaluatePoolThresholds env pool x y rs re st) \<in> {None, Some ErrPoolProtection}"
  by (simp add: evaluatePoolThresholds_def Let_def)

lemma try_fixed_Granted:
  "try_fixed now env pool prefix rs re ex4 ex6 used cooldown ip = Granted c \<Longrightarrow>
   \<exists>addr. ParseAddr ip = Some addr \<and> c = addr_string addr \<and> allocatable prefix rs re ex4 ex6 addr \<and>
     c \<notin> used \<and> c \<notin> cooldown \<and> acdCheckCandidate now env (poolID pool) c"
  by (auto simp: try_fixed_def Let_def split: option.splits if_splits)

text \<open>What makes an address a correct answer for an IPv4 pool.\<close>

definition offerable :: "address_pool \<Rightarrow> prefix \<Rightarrow> string set \<Rightarrow> string set \<Rightarrow> string \<Rightarrow> bool" where
  "offerable pool prefix used cooldown ip \<longleftrightarrow>
     (\<exists>v a b. ip = v4_string v \<and> resolvePoolBounds pool prefix = (Addr4 a, Addr4 b) \<and> a \<le> v \<and> v \<le> b \<and>
        Contains prefix (Addr4 v) \<and> \<not> (\<exists>ex \<in> set (poolExclusions pool). exclusion_covers prefix ex v) \<and>
        ip \<notin> used \<and> ip \<notin> cooldown)"

lemma withinBounds_v4: "withinBounds (Addr4 v) (Addr4 a) (Addr4 b) \<longleftrightarrow> a \<le> v \<and> v \<le> b"
  by (auto simp: withinBounds_def word_le_def word_less_def)

lemma Contains_v4_only: "pfx_addr prefix = Addr4 n \<Longrightarrow> Contains prefix addr \<Longrightarrow> \<exists>v. addr = Addr4 v"
  by (cases addr) auto

lemma Contains_v4_between:
  assumes "pfx_addr prefix = Addr4 n" and "pfx_bits prefix \<le> 32"
    and "Contains prefix (Addr4 a)" and "Contains prefix (Addr4 b)" and "a \<le> v" and "v \<le> b"
  shows "Contains prefix (Addr4 v)"
  using assms(3-6) unfolding Contains_v4 [OF assms(1,2)] by (auto simp: word_le_nat_alt)

lemma allocatable_offerable:
  assumes pfx: "pfx_addr prefix = Addr4 n" and ab: "resolvePoolBounds pool prefix = (Addr4 a, Addr4 b)"
    and al: "allocatable prefix (Addr4 a) (Addr4 b) (buildIPv4Exclusions pool prefix (Addr4 a) (Addr4 b)) [] addr"
    and free: "addr_string addr \<notin> used" "addr_string addr \<notin> cooldown"
  shows "offerable pool prefix used cooldown (addr_string addr)"
proof -
  from al obtain v where v: "addr = Addr4 v" using Contains_v4_only [OF pfx] by (auto simp: allocatable_def)
  have "a \<le> v" "v \<le> b" using al by (auto simp: v allocatable_def withinBounds_v4)
  moreover have "\<not> isIPv4Excluded v (buildIPv4Exclusions pool prefix (Addr4 a) (Addr4 b))" "Contains prefix (Addr4 v)"
    using al by (auto simp: v allocatable_def isExcluded_def simp del: Contains.simps)
  ultimately show ?thesis
    using exclusions_cover [of prefix a v b pool] pfx free ab
    by (auto simp: offerable_def v simp del: Contains.simps)
qed

lemma free_ips_offerable:
  assumes pfx: "pfx_addr prefix = Addr4 n" "pfx_bits prefix \<le> 32"
    and ab: "resolvePoolBounds pool prefix = (Addr4 a, Addr4 b)" "Contains prefix (Addr4 a)" "Contains prefix (Addr4 b)"
    and w: "w \<le> b" and ip: "ip \<in> free_ips used cooldown (buildIPv4Exclusions pool prefix (Addr4 a) (Addr4 b)) a w"
  shows "offerable pool prefix used cooldown ip"
proof -
  from ip obtain v where v: "ip = v4_string v" "a \<le> v" "v \<le> w"
    "\<not> candidate_blocked used cooldown (buildIPv4Exclusions pool prefix (Addr4 a) (Addr4 b)) v"
    by (auto simp: free_ips_def uint32ToAddr_def)
  then have vb: "v \<le> b" using w by simp
  then have "Contains prefix (Addr4 v)" using Contains_v4_between [OF pfx ab(2,3)] v(2) by simp
  then show ?thesis
    using exclusions_cover [of prefix a v b pool] pfx v vb ab(1)
    by (auto simp: offerable_def candidate_blocked_def uint32ToAddr_def simp del: Contains.simps)
qed

lemma offerable_mono: "offerable pool prefix used cooldown ip \<Longrightarrow> used' \<subseteq> used \<Longrightarrow> offerable pool prefix used' cooldown ip"
  unfolding offerable_def by blast

lemma fixed_blocked_super: "used \<subseteq> fixed_blocked choice ip used"
  by (auto simp: fixed_blocked_def split: option.splits)

lemma pick_search_sound:
  assumes redis: "envRedis env = None" and pfx: "pfx_addr prefix = Addr4 n" "pfx_bits prefix \<le> 32"
    and top: "\<not> Contains prefix (Addr4 (-1))"
    and ab: "resolvePoolBounds pool prefix = (Addr4 a, Addr4 b)" "Contains prefix (Addr4 a)" "Contains prefix (Addr4 b)"
  shows "case pick_search now env pool prefix (Addr4 a) (Addr4 b)
        (buildIPv4Exclusions pool prefix (Addr4 a) (Addr4 b)) [] False used cooldown st of
      None \<Rightarrow> False
    | Some (Inl err, st') \<Rightarrow> err \<in> {ErrNoAvailableIP, ErrPoolProtection} \<and> stDB st' = stDB st
    | Some (Inr ip, st') \<Rightarrow> stDB st' = stDB st \<and> acdCheckCandidate now env (poolID pool) ip \<and>
        offerable pool prefix used cooldown ip"
proof -
  obtain err st1 where ev: "evaluatePoolThresholds env pool (int (card used)) (int (card cooldown)) (Addr4 a) (Addr4 b) st
      = (err, st1)" by force
  have db: "stDB st1 = stDB st" by (rule evaluatePoolThresholds_frame [OF ev])
  have errs: "err \<in> {None, Some ErrPoolProtection}"
    using evaluatePoolThresholds_errors [of env pool "int (card used)" "int (card cooldown)" "Addr4 a" "Addr4 b" st]
    unfolding ev by simp
  have bmax: "b \<noteq> -1" using ab(3) top by auto
  have win: "w \<noteq> -1" if "applyReserveWindow a b (poolReservePercent pool) = Some w" for w
    using applyReserveWindow_Some [OF that] bmax u32_below_max by blast
  show ?thesis
  proof (cases err)
    case None
    let ?r = "search_loop (nat (conflictAttemptBudget env * 8)) now env pool a b used cooldown
        (buildIPv4Exclusions pool prefix (Addr4 a) (Addr4 b)) st1"
    have ps: "pick_search now env pool prefix (Addr4 a) (Addr4 b)
        (buildIPv4Exclusions pool prefix (Addr4 a) (Addr4 b)) [] False used cooldown st = ?r"
      using ev None pfx redis by (simp add: pick_search_def search_ipv4_plain)
    have "offerable pool prefix used cooldown ip" if "applyReserveWindow a b (poolReservePercent pool) = Some w"
      "ip \<in> free_ips used cooldown (buildIPv4Exclusions pool prefix (Addr4 a) (Addr4 b)) a w" for w ip
      using free_ips_offerable [OF pfx ab _ that(2)] applyReserveWindow_Some [OF that(1)] by blast
    moreover have "case ?r of
        None \<Rightarrow> False
      | Some (Inl err, st') \<Rightarrow> err = ErrNoAvailableIP \<and> stDB st' = stDB st1
      | Some (Inr ip, st') \<Rightarrow> stDB st' = stDB st1 \<and> acdCheckCandidate now env (poolID pool) ip \<and>
          (\<exists>w. applyReserveWindow a b (poolReservePercent pool) = Some w \<and>
             ip \<in> free_ips used cooldown (buildIPv4Exclusions pool prefix (Addr4 a) (Addr4 b)) a w)"
      by (rule search_loop_sound) (rule win)
    ultimately show ?thesis unfolding ps db by (auto split: option.splits sum.splits)
  next
    case (Some e)
    then show ?thesis using ev errs db by (simp add: pick_search_def)
  qed
qed

lemma pick_preferring_sound:
  assumes redis: "envRedis env = None" and pfx: "pfx_addr prefix = Addr4 n" "pfx_bits prefix \<le> 32"
    and top: "\<not> Contains prefix (Addr4 (-1))"
    and ab: "resolvePoolBounds pool prefix = (Addr4 a, Addr4 b)" "Contains prefix (Addr4 a)" "Contains prefix (Addr4 b)"
  shows "case pick_preferring now env pool prefix (Addr4 a) (Addr4 b)
        (buildIPv4Exclusions pool prefix (Addr4 a) (Addr4 b)) [] False used cooldown boundIP preferred st of
      None \<Rightarrow> False
    | Some (Inl err, st') \<Rightarrow> err \<in> {ErrNoAvailableIP, ErrPoolProtection} \<and> stDB st' = stDB st
    | Some (Inr ip, st') \<Rightarrow> stDB st' = stDB st \<and> acdCheckCandidate now env (poolID pool) ip \<and>
        offerable pool prefix used cooldown ip"
proof -
  define ex where "ex = buildIPv4Exclusions pool prefix (Addr4 a) (Addr4 b)"
  define attempt where "attempt ip = (if ip \<noteq> []
    then try_fixed now env pool prefix (Addr4 a) (Addr4 b) ex [] used cooldown ip else NotAllocatable)" for ip
  have granted: "acdCheckCandidate now env (poolID pool) c \<and> offerable pool prefix used cooldown c"
    if "attempt ip = Granted c" for c ip
  proof -
    from that have "try_fixed now env pool prefix (Addr4 a) (Addr4 b) ex [] used cooldown ip = Granted c"
      unfolding attempt_def by (simp split: if_splits)
    from try_fixed_Granted [OF this] show ?thesis
      unfolding ex_def using allocatable_offerable [OF pfx(1) ab(1)] by auto
  qed
  let ?s = "\<lambda>wish. pick_search now env pool prefix (Addr4 a) (Addr4 b) ex [] False (fixed_blocked wish preferred used) cooldown st"
  have search: "case ?s wish of
      None \<Rightarrow> False
    | Some (Inl err, st') \<Rightarrow> err \<in> {ErrNoAvailableIP, ErrPoolProtection} \<and> stDB st' = stDB st
    | Some (Inr ip, st') \<Rightarrow> stDB st' = stDB st \<and> acdCheckCandidate now env (poolID pool) ip \<and>
        offerable pool prefix used cooldown ip" for wish
    using pick_search_sound [OF redis pfx top ab, where now = now and used = "fixed_blocked wish preferred used"
        and cooldown = cooldown and st = st]
      offerable_mono [OF _ fixed_blocked_super]
    unfolding ex_def by (fastforce split: option.splits sum.splits)
  have eq: "pick_preferring now env pool prefix (Addr4 a) (Addr4 b) ex [] False used cooldown boundIP preferred st =
    (case attempt boundIP of Granted c \<Rightarrow> Some (Inr c, st)
     | NotAllocatable \<Rightarrow> (case attempt preferred of Granted c \<Rightarrow> Some (Inr c, st) | wish \<Rightarrow> ?s wish)
     | _ \<Rightarrow> Some (Inl ErrNoAvailableIP, st))"
    unfolding pick_preferring_def Let_def attempt_def ..
  show ?thesis
    unfolding ex_def [symmetric] eq
    using granted [of boundIP] granted [of preferred] search
    by (cases "attempt boundIP"; cases "attempt preferred") simp_all
qed

lemma pick_outcome:
  assumes "envRedis env = None" and "ParsePrefix (poolCIDR pool) = Some prefix"
    and "Is4 (pfx_addr prefix)" and "\<not> Contains prefix (Addr4 (-1))"
  shows "case pickIPAddress now env scope pool preferred binding reserved st of
      None \<Rightarrow> False
    | Some (Inl err, st') \<Rightarrow> stDB st' = stDB st \<and>
        err \<in> {ErrPoolReaderMissing, ErrResourceScopeRequired, ErrNoAvailableIP, ErrPoolProtection}
    | Some (Inr ip, st') \<Rightarrow> stDB st' = stDB st \<and> acdCheckCandidate now env (poolID pool) ip \<and>
        offerable pool prefix
          (set (ListActiveIPs (stDB st) (poolID pool)) \<union> reserved_ips binding reserved)
          (set (ListCooldownIPs (stDB st) (poolID pool) now)) ip"
proof -
  obtain n where n: "pfx_addr prefix = Addr4 n" using assms(3) by (auto simp: Is4_iff)
  have bits: "pfx_bits prefix \<le> 32" using ParsePrefix_bits [OF assms(2)] n by simp
  obtain a b where ab: "resolvePoolBounds pool prefix = (Addr4 a, Addr4 b)"
      "Contains prefix (Addr4 a)" "Contains prefix (Addr4 b)"
    using pool_bounds_v4 [OF n bits] by blast
  let ?p = "pick_preferring now env pool prefix (Addr4 a) (Addr4 b)
      (buildIPv4Exclusions pool prefix (Addr4 a) (Addr4 b)) [] False
      (set (ListActiveIPs (stDB st) (poolID pool)) \<union> reserved_ips binding reserved)
      (set (ListCooldownIPs (stDB st) (poolID pool) now))
      (case binding of Some b \<Rightarrow> bindIPAddress b | None \<Rightarrow> []) preferred st"
  have pick: "pickIPAddress now env scope pool preferred binding reserved st =
    (if envPoolReader env = None then Some (Inl ErrPoolReaderMissing, st)
     else case TenantIDOrErr scope of Inl e \<Rightarrow> Some (Inl e, st) | Inr _ \<Rightarrow> ?p)"
    using assms n ab
    by (cases "TenantIDOrErr scope") (simp_all add: pickIPAddress_def bitmapEnabled_def Let_def)
  have scope_err: "e = ErrResourceScopeRequired" if "TenantIDOrErr scope = Inl e" for e
    using that by (auto simp: TenantIDOrErr_def Let_def split: if_splits)
  have sound: "case ?p of
      None \<Rightarrow> False
    | Some (Inl err, st') \<Rightarrow> err \<in> {ErrNoAvailableIP, ErrPoolProtection} \<and> stDB st' = stDB st
    | Some (Inr ip, st') \<Rightarrow> stDB st' = stDB st \<and> acdCheckCandidate now env (poolID pool) ip \<and>
        offerable pool prefix (set (ListActiveIPs (stDB st) (poolID pool)) \<union> reserved_ips binding reserved)
          (set (ListCooldownIPs (stDB st) (poolID pool) now)) ip"
    by (rule pick_preferring_sound [OF assms(1) n bits assms(4) ab])
  show ?thesis
    unfolding pick using scope_err sound
    by (cases "envPoolReader env"; cases "TenantIDOrErr scope") (auto split: option.splits sum.splits)
qed

section \<open>Properties\<close>

text \<open>C3: What \<^verbatim>\<open>pickIPAddress\<close> may answer for an IPv4 pool without the Redis bitmap.  It
  always returns.  An address it returns lies in the pool's prefix and between the pool
  bounds, is covered by no valid exclusion, is held by no active lease of the pool, is not
  cooling down, is not reserved for another client, and passed the conflict probe; an error
  is exhaustion or pool protection, or was found before the search.  The database is only
  read.  (The prefix must not contain 255.255.255.255.)\<close>

theorem pick_sound:
  assumes "envRedis env = None" and "ParsePrefix (poolCIDR pool) = Some prefix"
    and "Is4 (pfx_addr prefix)" and "\<not> Contains prefix (Addr4 (-1))"
  shows "case pickIPAddress now env scope pool preferred binding reserved st of
      None \<Rightarrow> False
    | Some (Inl err, st') \<Rightarrow> stDB st' = stDB st \<and>
        err \<in> {ErrPoolReaderMissing, ErrResourceScopeRequired, ErrNoAvailableIP, ErrPoolProtection}
    | Some (Inr ip, st') \<Rightarrow> stDB st' = stDB st \<and> acdCheckCandidate now env (poolID pool) ip \<and>
        offerable pool prefix
          (set (ListActiveIPs (stDB st) (poolID pool)) \<union> reserved_ips binding reserved)
          (set (ListCooldownIPs (stDB st) (poolID pool) now)) ip"
  by (rule pick_outcome [OF assms])

definition sample_pool :: address_pool where
  "sample_pool = empty_pool\<lparr>poolID := ''p1'', poolCIDR := ''10.0.0.0/29''\<rparr>"

definition sample_reader :: pool_reader where
  "sample_reader = \<lparr>GetPool = (\<lambda>pid. if sql_eq pid ''p1'' then Inr sample_pool else Inl ErrPoolNotFound), FindBinding = \<lambda>_ _. Inl ErrPoolNotFound,
     ListBindingsByPool = \<lambda>_. Inr []\<rparr>"

definition sample_scope :: access_scope where
  "sample_scope = \<lparr>ScopeID = ''t1'', ScopeTenantID = Some ''t1''\<rparr>"

definition sample_lease :: lease where
  "sample_lease = empty_lease\<lparr>leaseID := ''l1'', leasePoolID := ''p1'', leaseIPAddress := ''10.0.0.1'',
     leaseHardwareAddr := ''aa'', leaseClientID := ''aa'', leaseState := ''ACTIVE''\<rparr>"

definition sample_state :: "unit svc_state" where
  "sample_state = initial_state () [sample_lease]"

definition sample_prefix :: prefix where
  "sample_prefix = \<lparr>pfx_addr = Addr4 0x0A000000, pfx_bits = 29\<rparr>"

lemma sample_prefix_facts:
  "ParsePrefix (poolCIDR sample_pool) = Some sample_prefix \<and> Is4 (pfx_addr sample_prefix) \<and>
   \<not> Contains sample_prefix (Addr4 (-1))"
  by code_simp

theorem pick_sound_witness:
  "\<exists>ip st'. pickIPAddress 0 (plain_env sample_reader) sample_scope sample_pool [] None [] sample_state = Some (Inr ip, st') \<and>
     offerable sample_pool sample_prefix {''10.0.0.1''} {} ip"
proof -
  let ?r = "pickIPAddress 0 (plain_env sample_reader) sample_scope sample_pool [] None [] sample_state"
  have run: "map_option fst ?r = Some (Inr ''10.0.0.2'')"
    by code_simp
  have sets: "set (ListActiveIPs (stDB sample_state) (poolID sample_pool)) \<union> reserved_ips None [] = {''10.0.0.1''}"
    "set (ListCooldownIPs (stDB sample_state) (poolID sample_pool) 0) = {}"
    by code_simp+
  from run obtain st' where "?r = Some (Inr ''10.0.0.2'', st')" by (cases ?r) auto
  moreover have "envRedis (plain_env sample_reader :: unit svc_env) = None" by (simp add: plain_env_def)
  ultimately show ?thesis
    using pick_sound [where env = "plain_env sample_reader" and pool = sample_pool and prefix = sample_prefix and now = 0
        and scope = sample_scope and preferred = "[]" and binding = None and reserved = "[]" and st = sample_state]
      sample_prefix_facts sets by auto
qed

end
