(* ===== verification/Lease_Fsm.thy ===== *)
theory Lease_Fsm
  imports Prelude
begin

text \<open>
  The lease state machines: \<^verbatim>\<open>internal/dhcpv4/leasefsm/fsm.go\<close> and
  \<^verbatim>\<open>internal/dhcpv6/leasefsm/leasefsm.go\<close>.  A Go \<^verbatim>\<open>State\<close> is a string, the
  transition table a map from states to sets of states; both packages look a state up in
  the table and refuse with an error text of their own (\<open>None\<close> is the nil error).

  The locale \<open>transition_table\<close> is what the lease service relies on: the validator accepts
  exactly the known self-loops and the edges of a table that is closed on its domain.  It is
  interpreted on both packages.
\<close>

section \<open>The DHCPv4 machine\<close>

definition StateInit :: string where "StateInit = ''Init''"
definition StateOffered :: string where "StateOffered = ''Offered''"
definition StateBound :: string where "StateBound = ''Bound''"
definition StateRenewing :: string where "StateRenewing = ''Renewing''"
definition StateRebinding :: string where "StateRebinding = ''Rebinding''"
definition StateExpired :: string where "StateExpired = ''Expired''"
definition StateReleased :: string where "StateReleased = ''Released''"

lemmas fsm_state_defs =
  StateInit_def StateOffered_def StateBound_def StateRenewing_def StateRebinding_def
  StateExpired_def StateReleased_def

definition allowedTransitions :: "string \<rightharpoonup> string set" where
  "allowedTransitions =
     [StateInit \<mapsto> {StateOffered},
      StateOffered \<mapsto> {StateBound, StateExpired},
      StateBound \<mapsto> {StateRenewing, StateRebinding, StateExpired, StateReleased},
      StateRenewing \<mapsto> {StateBound, StateRebinding, StateExpired, StateReleased},
      StateRebinding \<mapsto> {StateBound, StateExpired, StateReleased},
      StateExpired \<mapsto> {StateInit, StateReleased},
      StateReleased \<mapsto> {StateInit}]"

definition IsKnownState :: "string \<Rightarrow> bool" where
  "IsKnownState state \<longleftrightarrow> allowedTransitions state \<noteq> None"

definition ValidateTransition :: "string \<Rightarrow> string \<Rightarrow> string option" where
  "ValidateTransition from to =
     (if \<not> IsKnownState from then Some (''leasefsm: unknown from-state '' @ quoted from)
      else if \<not> IsKnownState to then Some (''leasefsm: unknown to-state '' @ quoted to)
      else if from = to then None
      else case allowedTransitions from of
        None \<Rightarrow> Some (''leasefsm: invalid transition '' @ quoted from @ '' -> '' @ quoted to)
      | Some next \<Rightarrow>
          if to \<notin> next
          then Some (''leasefsm: invalid transition '' @ quoted from @ '' -> '' @ quoted to)
          else None)"

definition Next :: "string \<Rightarrow> string \<Rightarrow> string + string" where
  "Next from to = (case ValidateTransition from to of Some err \<Rightarrow> Inl err | None \<Rightarrow> Inr to)"

section \<open>The DHCPv6 machine\<close>

definition LeaseStateInit :: string where "LeaseStateInit = ''Init''"
definition LeaseStateOffered :: string where "LeaseStateOffered = ''Offered''"
definition LeaseStateBound :: string where "LeaseStateBound = ''Bound''"
definition LeaseStateRenewing :: string where "LeaseStateRenewing = ''Renewing''"
definition LeaseStateRebinding :: string where "LeaseStateRebinding = ''Rebinding''"
definition LeaseStateExpired :: string where "LeaseStateExpired = ''Expired''"
definition LeaseStateReleased :: string where "LeaseStateReleased = ''Released''"

lemmas fsm6_state_defs =
  LeaseStateInit_def LeaseStateOffered_def LeaseStateBound_def LeaseStateRenewing_def
  LeaseStateRebinding_def LeaseStateExpired_def LeaseStateReleased_def

definition allowedTransitions6 :: "string \<rightharpoonup> string set" where
  "allowedTransitions6 =
     [LeaseStateInit \<mapsto> {LeaseStateOffered},
      LeaseStateOffered \<mapsto> {LeaseStateBound, LeaseStateExpired},
      LeaseStateBound \<mapsto> {LeaseStateRenewing, LeaseStateRebinding, LeaseStateExpired, LeaseStateReleased},
      LeaseStateRenewing \<mapsto> {LeaseStateBound, LeaseStateRebinding, LeaseStateExpired, LeaseStateReleased},
      LeaseStateRebinding \<mapsto> {LeaseStateBound, LeaseStateExpired, LeaseStateReleased},
      LeaseStateExpired \<mapsto> {LeaseStateInit, LeaseStateReleased},
      LeaseStateReleased \<mapsto> {LeaseStateInit}]"

definition IsKnownState6 :: "string \<Rightarrow> bool" where
  "IsKnownState6 state \<longleftrightarrow> allowedTransitions6 state \<noteq> None"

definition ValidateTransition6 :: "string \<Rightarrow> string \<Rightarrow> string option" where
  "ValidateTransition6 from to =
     (if \<not> IsKnownState6 from then Some (''dhcpv6 leasefsm: unknown from-state '' @ quoted from)
      else if \<not> IsKnownState6 to then Some (''dhcpv6 leasefsm: unknown to-state '' @ quoted to)
      else if from = to then None
      else case allowedTransitions6 from of
        None \<Rightarrow> Some (''dhcpv6 leasefsm: invalid transition '' @ quoted from @ '' -> '' @ quoted to)
      | Some next \<Rightarrow>
          if to \<notin> next
          then Some (''dhcpv6 leasefsm: invalid transition '' @ quoted from @ '' -> '' @ quoted to)
          else None)"

definition Next6 :: "string \<Rightarrow> string \<Rightarrow> string + string" where
  "Next6 from to = (case ValidateTransition6 from to of Some err \<Rightarrow> Inl err | None \<Rightarrow> Inr to)"

section \<open>Runs of a validated machine\<close>

text \<open>A client drives a machine by asking for one state after the other; the first refused
  transition ends the run.\<close>

fun fsm_run :: "(string \<Rightarrow> string \<Rightarrow> string + string) \<Rightarrow> string \<Rightarrow> string list \<Rightarrow> string + string" where
  "fsm_run step s [] = Inr s"
| "fsm_run step s (t # ts) = (case step s t of Inl e \<Rightarrow> Inl e | Inr s' \<Rightarrow> fsm_run step s' ts)"

locale transition_table =
  fixes table :: "string \<rightharpoonup> string set"
    and step :: "string \<Rightarrow> string \<Rightarrow> string + string"
  assumes step_ok: "step s t = Inr u \<longleftrightarrow>
      u = t \<and> t \<in> dom table \<and> (\<exists>next. table s = Some next \<and> (s = t \<or> t \<in> next))"
    and table_closed: "table s = Some next \<Longrightarrow> next \<subseteq> dom table"
begin

lemma step_refused: "(\<exists>e. step s t = Inl e) \<longleftrightarrow>
    \<not> (t \<in> dom table \<and> (\<exists>next. table s = Some next \<and> (s = t \<or> t \<in> next)))"
  using step_ok [of s t] by (cases "step s t") auto

lemma run_known: "fsm_run step s ts = Inr u \<Longrightarrow> s \<in> dom table \<Longrightarrow> u \<in> dom table"
  by (induction ts arbitrary: s) (auto simp: sum_bind_Inr step_ok)

text \<open>A set of states that every edge leaves only through \<open>gate\<close> is left only through it.\<close>

lemma run_gate:
  assumes edges: "\<And>s next. s \<in> S \<Longrightarrow> table s = Some next \<Longrightarrow> next \<subseteq> insert gate S"
  shows "fsm_run step s ts = Inr u \<Longrightarrow> s \<in> S \<Longrightarrow> u \<notin> S \<Longrightarrow> gate \<in> set ts"
proof (induction ts arbitrary: s)
  case (Cons t ts)
  from Cons.prems(1) have run: "step s t = Inr t" "fsm_run step t ts = Inr u"
    by (auto simp: sum_bind_Inr step_ok)
  then have "t \<in> insert gate S"
    using edges [OF Cons.prems(2)] Cons.prems(2) by (auto simp: step_ok)
  then show ?case using Cons.IH [OF run(2)] Cons.prems(3) by auto
qed simp

end

lemma allowedTransitions_dom:
  "dom allowedTransitions = {StateInit, StateOffered, StateBound, StateRenewing, StateRebinding,
     StateExpired, StateReleased}"
  by (auto simp: allowedTransitions_def)

lemma Next_ok: "Next s t = Inr u \<longleftrightarrow>
    u = t \<and> t \<in> dom allowedTransitions \<and>
    (\<exists>next. allowedTransitions s = Some next \<and> (s = t \<or> t \<in> next))"
  by (auto simp: Next_def ValidateTransition_def IsKnownState_def split: option.splits if_splits)

lemma allowedTransitions_closed:
  "allowedTransitions s = Some next \<Longrightarrow> next \<subseteq> dom allowedTransitions"
  unfolding allowedTransitions_dom
  by (auto simp: allowedTransitions_def split: if_splits)

interpretation fsm4: transition_table allowedTransitions Next
  by unfold_locales (rule Next_ok, rule allowedTransitions_closed)

lemma same_table: "allowedTransitions6 = allowedTransitions"
  by (simp add: allowedTransitions6_def allowedTransitions_def fsm6_state_defs fsm_state_defs)

lemma Next6_ok: "Next6 s t = Inr u \<longleftrightarrow>
    u = t \<and> t \<in> dom allowedTransitions6 \<and>
    (\<exists>next. allowedTransitions6 s = Some next \<and> (s = t \<or> t \<in> next))"
  by (auto simp: Next6_def ValidateTransition6_def IsKnownState6_def split: option.splits if_splits)

interpretation fsm6: transition_table allowedTransitions6 Next6
  by unfold_locales (rule Next6_ok, simp add: same_table allowedTransitions_closed)

lemma Next_accepts: "ValidateTransition s t = None \<longleftrightarrow> Next s t = Inr t"
  by (simp add: Next_def split: option.splits)

text \<open>The order of a lease's life.  Whatever sequence of states a client asks the DHCPv4
  machine for, a run that starts unassigned (Init, Expired or Released) and ends in any other
  state has passed through an offer, and a run that ends known has only ever visited known
  states; in particular a released or expired lease is never bound again without a new
  offer.\<close>

theorem fsm_offer_first:
  assumes "fsm_run Next s ts = Inr u" and "s \<in> {StateInit, StateExpired, StateReleased}"
    and "u \<notin> {StateInit, StateExpired, StateReleased}"
  shows "StateOffered \<in> set ts \<and> IsKnownState u"
proof -
  have "StateOffered \<in> set ts"
    by (rule fsm4.run_gate [OF _ assms])
       (auto simp: allowedTransitions_def fsm_state_defs split: if_splits)
  moreover have "s \<in> dom allowedTransitions" using assms(2) by (auto simp: allowedTransitions_dom)
  ultimately show ?thesis using fsm4.run_known [OF assms(1)] by (auto simp: IsKnownState_def)
qed

theorem fsm_offer_first_witness:
  "StateOffered \<in> set [StateInit, StateOffered, StateBound, StateRenewing] \<and> IsKnownState StateRenewing"
  by (rule fsm_offer_first [of StateReleased])
     (simp_all add: Next_def ValidateTransition_def IsKnownState_def allowedTransitions_def fsm_state_defs)

lemma Next6_eq: "Next6 s t = Inr u \<longleftrightarrow> Next s t = Inr u"
  by (simp add: Next_ok Next6_ok same_table)

text \<open>The two machines are one: they accept the same transitions and their runs agree on
  every sequence of requested states, whatever their error texts.\<close>

theorem fsm_v4_v6_agree: "fsm_run Next6 s ts = Inr u \<longleftrightarrow> fsm_run Next s ts = Inr u"
  by (induction ts arbitrary: s) (simp_all add: sum_bind_Inr Next6_eq)

end
