(* ===== verification/Lease_Service.thy ===== *)
theory Lease_Service
  imports Lease_Pick Lease_Fsm
begin

text \<open>
  The operations of the lease service that change the lease table:
  \<^verbatim>\<open>AllocateOrReuseWithMetadata\<close>, conflict prevention and reclaim, release, decline and
  cooldown (\<^verbatim>\<open>internal/lease/service.go\<close>), the writes and the goroutines that do them
  (\<^verbatim>\<open>persist_async.go\<close>), the DHCPv4 state kept in \<^verbatim>\<open>session_continuity\<close>
  (\<^verbatim>\<open>dhcpv4_fsm.go\<close>) and the reclaim worker (\<^verbatim>\<open>reclaimer.go\<close>).  The allocation
  loop runs at most \<^verbatim>\<open>maxAttempts\<close> times and is recursion on the attempts left; \<open>None\<close> is
  a call that does not return, which only the address search can cause.
\<close>

section \<open>Collaborators\<close>

definition shouldAsyncPersistLease :: "'r svc_env \<Rightarrow> bool" where
  "shouldAsyncPersistLease env \<longleftrightarrow> bitmapEnabled env \<and> envReplication env = None"

definition after_write :: "'r svc_env \<Rightarrow> lease \<Rightarrow> svc_error option" where
  "after_write env l =
     (case confirmReplication env l of Some e \<Rightarrow> Some e | None \<Rightarrow> confirmSyncAck env l)"

definition persistLeaseUpdate ::
  "'r svc_env \<Rightarrow> lease \<Rightarrow> 'r svc_state \<Rightarrow> svc_error option \<times> 'r svc_state" where
  "persistLeaseUpdate env l st =
     (if \<not> shouldAsyncPersistLease env
      then (case UpdateLease (stDB st) l of
              Inl e \<Rightarrow> (Some (ErrRepo e), st)
            | Inr db \<Rightarrow> (after_write env l, st\<lparr>stDB := db\<rparr>))
      else (None, st\<lparr>stPending := stPending st @ [PendingUpdate l]\<rparr>))"

definition persistLeaseCreate ::
  "'r svc_env \<Rightarrow> lease \<Rightarrow> address_pool \<Rightarrow> 'r svc_state \<Rightarrow> svc_error option \<times> 'r svc_state" where
  "persistLeaseCreate env l pool st =
     (if \<not> shouldAsyncPersistLease env
      then (case CreateLease (stDB st) l of
              Inl e \<Rightarrow> (Some (ErrRepo e), st)
            | Inr db \<Rightarrow> (after_write env l, st\<lparr>stDB := db\<rparr>))
      else (None, st\<lparr>stPending := stPending st @ [PendingCreate l pool]\<rparr>))"

text \<open>A goroutine that got its turn: any pending write may run next, and its error is only
  logged.\<close>

fun run_pending :: "'r svc_env \<Rightarrow> pending_write \<Rightarrow> 'r svc_state \<Rightarrow> 'r svc_state" where
  "run_pending env (PendingUpdate l) st =
     (case UpdateLease (stDB st) l of Inl _ \<Rightarrow> st | Inr db \<Rightarrow> st\<lparr>stDB := db\<rparr>)"
| "run_pending env (PendingCreate l pool) st =
     (case CreateLease (stDB st) l of
        Inl _ \<Rightarrow> bitmapSetByIP env pool (leaseIPAddress l) True st
      | Inr db \<Rightarrow> st\<lparr>stDB := db\<rparr>)"

definition recordBindingSeen ::
  "gotime \<Rightarrow> 'r svc_env \<Rightarrow> string \<Rightarrow> string \<Rightarrow> 'r svc_state \<Rightarrow> 'r svc_state" where
  "recordBindingSeen now env identifier ip st =
     (if envPoolReader env = None \<or> (trim_space identifier = [] \<and> trim_space ip = []) then st
      else st\<lparr>stSeen := stSeen st @ [(identifier, ip, now)]\<rparr>)"

definition ensurePool :: "'r svc_env \<Rightarrow> access_scope \<Rightarrow> string \<Rightarrow> svc_error + address_pool" where
  "ensurePool env scope pid =
     (case envPoolReader env of
        None \<Rightarrow> Inl ErrPoolReaderMissing
      | Some reader \<Rightarrow>
          (case TenantIDOrErr scope of Inl e \<Rightarrow> Inl e | Inr _ \<Rightarrow> GetPool reader pid))"

definition lookupBinding ::
  "'r svc_env \<Rightarrow> string \<Rightarrow> string \<Rightarrow> svc_error + (static_binding option \<times> bool)" where
  "lookupBinding env identifier requestedIP =
     (case envPoolReader env of
        None \<Rightarrow> Inr (None, False)
      | Some reader \<Rightarrow>
          if trim_space identifier = [] \<and> trim_space requestedIP = [] then Inr (None, False)
          else (case FindBinding reader identifier requestedIP of
              Inl ErrPoolNotFound \<Rightarrow> Inr (None, False)
            | Inl e \<Rightarrow> Inl e
            | Inr b \<Rightarrow> Inr (Some b,
                if bindIdentifier b \<noteq> [] then equal_fold (bindIdentifier b) identifier else False)))"

definition bindingsForPool :: "'r svc_env \<Rightarrow> string \<Rightarrow> svc_error + static_binding list" where
  "bindingsForPool env pid =
     (case envPoolReader env of
        None \<Rightarrow> Inr []
      | Some reader \<Rightarrow>
          if pid = [] then Inr []
          else (case ListBindingsByPool reader pid of
              Inl ErrPoolNotFound \<Rightarrow> Inr []
            | Inl e \<Rightarrow> Inl e
            | Inr bs \<Rightarrow> Inr bs))"

section \<open>Conflict prevention\<close>

text \<open>\<open>Inr True\<close> asks the caller to try again.\<close>

definition enforceConflictPrevention ::
  "gotime \<Rightarrow> 'r svc_env \<Rightarrow> lease \<Rightarrow> 'r svc_state \<Rightarrow> (bool, 'r) outcome" where
  "enforceConflictPrevention now env l st =
     (if \<not> conflictEnabled env then (Inr False, st)
      else case ParseAddr (trim_space (leaseIPAddress l)) of
        Some (Addr4 w) \<Rightarrow>
          (case envProber env of
             None \<Rightarrow> (Inl (ErrPanic ''nil conflict prober''), st)
           | Some prober \<Rightarrow>
               let (alive, failed) = ProbeICMP prober (Addr4 w) 0 in
               if failed \<or> \<not> alive then (Inr False, st)
               else
                 let l = l\<lparr>leaseUpdatedAt := now, leaseExpiresAt := now\<rparr>;
                     (l, count) = appendConflict now l conflictSignalProbe ''icmp echo response'';
                     st = recordConflictAudit env l conflictSignalProbe ''icmp echo response'' count st;
                     (l, st) = applyCooldownState now env l count st;
                     hold = conflictHoldDuration env;
                     l = (if hold > 0 \<and> leaseState l = leaseStateCooldown
                          then l\<lparr>leaseCooldownUntil := Some (now + hold)\<rparr> else l) in
                 (case UpdateLease (stDB st) l of
                    Inl e \<Rightarrow> (Inl (ErrRepo e), st)
                  | Inr db \<Rightarrow>
                      let st = st\<lparr>stDB := db\<rparr> in
                      (case confirmReplication env l of
                         Some e \<Rightarrow> (Inl e, st)
                       | None \<Rightarrow> (Inr True, st))))
      | _ \<Rightarrow> (Inr False, st))"

definition reclaimed_lease ::
  "gotime \<Rightarrow> string \<Rightarrow> lease_profile \<Rightarrow> allocation_metadata \<Rightarrow> lease \<Rightarrow> lease" where
  "reclaimed_lease now identifier profile meta candidate =
     (let r = candidate\<lparr>leaseHardwareAddr := identifier, leaseClientID := identifier,
            leaseUserID := metaUserID meta, leaseState := leaseStateActive,
            leaseSecurityState := SecurityStateOK, leaseConflictHistory := ConflictNone\<rparr>;
          r = applyLeaseTiming now (applyComplianceMetadata (applyMobilityMetadata r meta) meta) profile in
      r\<lparr>leaseExpiresAt := now, leaseUpdatedAt := now\<rparr>)"

definition tryReclaimConflictLease ::
  "gotime \<Rightarrow> 'r svc_env \<Rightarrow> string \<Rightarrow> lease_profile \<Rightarrow> address_pool \<Rightarrow> allocation_metadata \<Rightarrow>
   'r svc_state \<Rightarrow> (lease_result option, 'r) outcome" where
  "tryReclaimConflictLease now env identifier profile pool meta st =
     (case find (\<lambda>c. \<not> isProbeConflict c)
              (ListLeasesByState (stDB st) (poolID pool) leaseStateCooldown (conflictScanLimit env)) of
        None \<Rightarrow> (Inr None, st)
      | Some candidate \<Rightarrow>
          let reclaimed = reclaimed_lease now identifier profile meta candidate in
          (case UpdateLease (stDB st) reclaimed of
             Inl e \<Rightarrow> (Inl (ErrRepo e), st)
           | Inr db \<Rightarrow>
               let st = st\<lparr>stDB := db\<rparr> in
               (case confirmReplication env reclaimed of
                  Some e \<Rightarrow> (Inl e, st)
                | None \<Rightarrow>
                    let note = computeNotification now reclaimed profile in
                    (Inr (Some \<lparr>resLease = reclaimed, resReused = True, resProfile = profile,
                        resRenewalTime = profRenewalTime profile,
                        resRebindingTime = profRebindingTime profile, resPool = pool,
                        resNotification = note\<rparr>),
                     enqueue_address_job env reclaimed note st))))"

section \<open>Allocation\<close>

text \<open>The last steps of both branches: conflict prevention, then the notification.\<close>

definition finish_allocation ::
  "gotime \<Rightarrow> 'r svc_env \<Rightarrow> lease_profile \<Rightarrow> address_pool \<Rightarrow> bool \<Rightarrow> lease \<Rightarrow> 'r svc_state \<Rightarrow>
   (lease_result option, 'r) outcome" where
  "finish_allocation now env profile pool reused l st =
     (case enforceConflictPrevention now env l st of
        (Inl e, st) \<Rightarrow> (Inl e, st)
      | (Inr True, st) \<Rightarrow> (Inr None, st)
      | (Inr False, st) \<Rightarrow>
          let note = computeNotification now l profile in
          (Inr (Some \<lparr>resLease = l, resReused = reused, resProfile = profile,
              resRenewalTime = profRenewalTime profile, resRebindingTime = profRebindingTime profile,
              resPool = pool, resNotification = note\<rparr>),
           enqueue_address_job env l note st))"

definition reuse_lease ::
  "gotime \<Rightarrow> 'r svc_env \<Rightarrow> access_scope \<Rightarrow> string \<Rightarrow> lease_profile \<Rightarrow> allocation_metadata \<Rightarrow> lease \<Rightarrow>
   'r svc_state \<Rightarrow> (lease_result option, 'r) outcome" where
  "reuse_lease now env scope identifier profile meta existing st =
     (case ensurePool env scope (leasePoolID existing) of
        Inl e \<Rightarrow> (Inl e, st)
      | Inr pool \<Rightarrow>
          let l = (if metaUserID meta \<noteq> [] \<and> leaseUserID existing \<noteq> metaUserID meta
                   then existing\<lparr>leaseUserID := metaUserID meta\<rparr> else existing);
              l = applyLeaseTiming now (applyComplianceMetadata (applyMobilityMetadata l meta) meta) profile;
              st = bitmapSetByIP env pool (leaseIPAddress l) False st in
          (case persistLeaseUpdate env l st of
             (Some e, st) \<Rightarrow> (Inl e, st)
           | (None, st) \<Rightarrow>
               finish_allocation now env profile pool True l
                 (recordBindingSeen now env identifier (leaseIPAddress l) st)))"

definition new_lease ::
  "gotime \<Rightarrow> string \<Rightarrow> string \<Rightarrow> string \<Rightarrow> string \<Rightarrow> string \<Rightarrow> lease_profile \<Rightarrow> allocation_metadata \<Rightarrow> lease" where
  "new_lease now newID tenantID pid ip identifier profile meta =
     (let l = empty_lease\<lparr>leaseID := newID, leaseTenantID := tenantID, leasePoolID := pid,
            leaseIPAddress := ip, leaseHardwareAddr := identifier, leaseClientID := identifier,
            leaseUserID := metaUserID meta, leaseExpiresAt := now, leaseState := leaseStateActive,
            leaseSecurityState := SecurityStateOK, leaseCreatedAt := now, leaseUpdatedAt := now\<rparr> in
      applyLeaseTiming now (applyComplianceMetadata (applyMobilityMetadata l meta) meta) profile)"

definition create_lease ::
  "gotime \<Rightarrow> 'r svc_env \<Rightarrow> string \<Rightarrow> string \<Rightarrow> lease_profile \<Rightarrow> allocation_metadata \<Rightarrow> address_pool \<Rightarrow>
   string \<Rightarrow> string \<Rightarrow> 'r svc_state \<Rightarrow> (lease_result option, 'r) outcome" where
  "create_lease now env tenantID identifier profile meta pool pid selectedIP st =
     (let l = new_lease now (envNewID env (stNextID st)) tenantID pid selectedIP identifier profile meta;
          st = bitmapSetByIP env pool (leaseIPAddress l) False (st\<lparr>stNextID := Suc (stNextID st)\<rparr>) in
      case persistLeaseCreate env l pool st of
        (Some e, st) \<Rightarrow> (Inl e, st)
      | (None, st) \<Rightarrow>
          finish_allocation now env profile pool False l
            (recordBindingSeen now env identifier (leaseIPAddress l) st))"

text \<open>One attempt without an active lease.  The answer is a result, \<open>None\<close> to try again with
  the pool and address of this attempt, or an error.\<close>

definition allocate_new ::
  "gotime \<Rightarrow> 'r svc_env \<Rightarrow> access_scope \<Rightarrow> string \<Rightarrow> string \<Rightarrow> lease_profile \<Rightarrow> allocation_metadata \<Rightarrow>
   string list \<Rightarrow> string \<Rightarrow> string \<Rightarrow> 'r svc_state \<Rightarrow>
   (lease_result option \<times> string list \<times> string \<times> string, 'r) outcome option" where
  "allocate_new now env scope tenantID identifier profile meta held pid ip st =
     (case enforceLeaseLimits now env tenantID identifier meta st of
        (Some e, st) \<Rightarrow> Some (Inl e, st)
      | (None, st) \<Rightarrow>
      case (case envQuota env of None \<Rightarrow> None | Some q \<Rightarrow> q tenantID) of
        Some e \<Rightarrow> Some (Inl e, st)
      | None \<Rightarrow>
      case lookupBinding env identifier ip of
        Inl e \<Rightarrow> Some (Inl e, st)
      | Inr (binding, bindingMatch) \<Rightarrow>
          let own = (if bindingMatch then binding else None);
              pid = (case own of Some b \<Rightarrow> bindPoolID b | None \<Rightarrow> pid);
              ip = (case own of Some b \<Rightarrow> if bindIPAddress b \<noteq> [] then bindIPAddress b else ip | None \<Rightarrow> ip) in
          if pid = [] then Some (Inl ErrPoolRequired, st)
          else case ensurePool env scope pid of
            Inl e \<Rightarrow> Some (Inl e, st)
          | Inr pool \<Rightarrow>
          case acquirePoolLock env held (poolID pool) of
            Inl e \<Rightarrow> Some (Inl e, st)
          | Inr held \<Rightarrow>
          case bindingsForPool env (poolID pool) of
            Inl e \<Rightarrow> Some (Inl e, st)
          | Inr reserved \<Rightarrow>
          case pickIPAddress now env scope pool ip own reserved st of
            None \<Rightarrow> None
          | Some (Inl e, st) \<Rightarrow>
              if e = ErrNoAvailableIP \<and> conflictEnabled env
              then (case tryReclaimConflictLease now env identifier profile pool meta st of
                  (Inl e', st) \<Rightarrow> Some (Inl e', st)
                | (Inr (Some res), st) \<Rightarrow> Some (Inr (Some res, held, pid, ip), st)
                | (Inr None, st) \<Rightarrow> Some (Inl e, st))
              else Some (Inl e, st)
          | Some (Inr selectedIP, st) \<Rightarrow>
              (case create_lease now env tenantID identifier profile meta pool pid selectedIP st of
                 (Inl e, st) \<Rightarrow> Some (Inl e, st)
               | (Inr res, st) \<Rightarrow> Some (Inr (res, held, pid, ip), st)))"

fun allocate_loop ::
  "nat \<Rightarrow> gotime \<Rightarrow> 'r svc_env \<Rightarrow> access_scope \<Rightarrow> string \<Rightarrow> string \<Rightarrow> lease_profile \<Rightarrow> allocation_metadata \<Rightarrow>
   string list \<Rightarrow> string \<Rightarrow> string \<Rightarrow> 'r svc_state \<Rightarrow> (lease_result, 'r) outcome option" where
  "allocate_loop 0 now env scope tenantID identifier profile meta held pid ip st =
     Some (Inl ErrNoAvailableIP, st)"
| "allocate_loop (Suc n) now env scope tenantID identifier profile meta held pid ip st =
     (case GetActiveLease (stDB st) identifier of
        Inr existing \<Rightarrow>
          (case reuse_lease now env scope identifier profile meta existing st of
             (Inl e, st) \<Rightarrow> Some (Inl e, st)
           | (Inr (Some res), st) \<Rightarrow> Some (Inr res, st)
           | (Inr None, st) \<Rightarrow> allocate_loop n now env scope tenantID identifier profile meta held pid ip st)
      | Inl ErrNotFound \<Rightarrow>
          (case allocate_new now env scope tenantID identifier profile meta held pid ip st of
             None \<Rightarrow> None
           | Some (Inl e, st) \<Rightarrow> Some (Inl e, st)
           | Some (Inr (Some res, _), st) \<Rightarrow> Some (Inr res, st)
           | Some (Inr (None, held, pid, ip), st) \<Rightarrow>
               allocate_loop n now env scope tenantID identifier profile meta held pid ip st)
      | Inl e \<Rightarrow> Some (Inl (ErrRepo e), st))"

definition AllocateOrReuseWithMetadata ::
  "gotime \<Rightarrow> 'r svc_env \<Rightarrow> access_scope \<Rightarrow> string \<Rightarrow> lease_profile \<Rightarrow> string \<Rightarrow> string \<Rightarrow> allocation_metadata \<Rightarrow>
   'r svc_state \<Rightarrow> (lease_result, 'r) outcome option" where
  "AllocateOrReuseWithMetadata now env scope identifier profile pid ip meta st =
     (case tenantFromScope scope of
        Inl e \<Rightarrow> Some (Inl e, st)
      | Inr tenantID \<Rightarrow>
      case ensurePrimaryWrite env ''lease.allocate_or_reuse'' of
        Some e \<Rightarrow> Some (Inl e, st)
      | None \<Rightarrow>
      case checkIsolation now tenantID identifier st of
        (Some e, st) \<Rightarrow> Some (Inl e, st)
      | (None, st) \<Rightarrow>
          allocate_loop (nat (conflictAttemptBudget env)) now env scope tenantID identifier
            (normalizeProfile (envDefaults env) profile) meta [] pid ip st)"

definition AllocateOrReuse ::
  "gotime \<Rightarrow> 'r svc_env \<Rightarrow> access_scope \<Rightarrow> string \<Rightarrow> lease_profile \<Rightarrow> string \<Rightarrow> string \<Rightarrow>
   'r svc_state \<Rightarrow> (lease_result, 'r) outcome option" where
  "AllocateOrReuse now env scope identifier profile pid ip st =
     AllocateOrReuseWithMetadata now env scope identifier profile pid ip empty_metadata st"

section \<open>Release, decline, cooldown\<close>

definition guarded :: "'r svc_env \<Rightarrow> access_scope \<Rightarrow> string \<Rightarrow> svc_error option" where
  "guarded env scope op =
     (case tenantFromScope scope of Inl e \<Rightarrow> Some e | Inr _ \<Rightarrow> ensurePrimaryWrite env op)"

definition HasValidLease :: "gotime \<Rightarrow> string \<Rightarrow> string \<Rightarrow> 'r svc_state \<Rightarrow> svc_error + bool" where
  "HasValidLease now tenantID mac st =
     (let identifier = trim_space mac in
      if identifier = [] then Inr False
      else if trim_space tenantID = [] then Inr False
      else case GetActiveLease (stDB st) identifier of
        Inl ErrNotFound \<Rightarrow> Inr False
      | Inl e \<Rightarrow> Inl (ErrRepo e)
      | Inr l \<Rightarrow> Inr (leaseExpiresAt l > now))"

definition MarkDeclined ::
  "gotime \<Rightarrow> 'r svc_env \<Rightarrow> access_scope \<Rightarrow> string \<Rightarrow> string \<Rightarrow> 'r svc_state \<Rightarrow> (unit, 'r) outcome" where
  "MarkDeclined now env scope identifier reason st =
     (case guarded env scope ''lease.mark_declined'' of
        Some e \<Rightarrow> (Inl e, st)
      | None \<Rightarrow>
      case GetActiveLease (stDB st) identifier of
        Inl ErrNotFound \<Rightarrow> (Inr (), st)
      | Inl e \<Rightarrow> (Inl (ErrRepo e), st)
      | Inr l \<Rightarrow>
          let (l, count) = appendConflict now (l\<lparr>leaseUpdatedAt := now\<rparr>) conflictSignalDHCPDecline reason;
              st = recordConflictAudit env l conflictSignalDHCPDecline reason count st;
              (l, st) = applyCooldownState now env l count st in
          (case UpdateLease (stDB st) l of
             Inl e \<Rightarrow> (Inl (ErrRepo e), st)
           | Inr db \<Rightarrow> (Inr (), st\<lparr>stDB := db\<rparr>)))"

definition ReleaseLease ::
  "gotime \<Rightarrow> 'r svc_env \<Rightarrow> access_scope \<Rightarrow> string \<Rightarrow> 'r svc_state \<Rightarrow> (lease \<times> bool, 'r) outcome" where
  "ReleaseLease now env scope lid st =
     (case guarded env scope ''lease.release'' of
        Some e \<Rightarrow> (Inl e, st)
      | None \<Rightarrow>
      case GetLeaseByID (stDB st) lid of
        Inl e \<Rightarrow> (Inl (ErrRepo e), st)
      | Inr l \<Rightarrow>
          if leaseState l = leaseStateReleased then (Inr (l, False), st)
          else
            let l = l\<lparr>leaseState := leaseStateReleased, leaseExpiresAt := now, leaseUpdatedAt := now,
                      leaseCooldownUntil := None\<rparr> in
            (case UpdateLease (stDB st) l of
               Inl e \<Rightarrow> (Inl (ErrRepo e), st)
             | Inr db \<Rightarrow>
                 let st = st\<lparr>stDB := db\<rparr> in
                 (Inr (l, True),
                  case ensurePool env scope (leasePoolID l) of
                    Inl _ \<Rightarrow> st
                  | Inr pool \<Rightarrow> bitmapSetByIP env pool (leaseIPAddress l) True st)))"

definition DeclineLease ::
  "gotime \<Rightarrow> 'r svc_env \<Rightarrow> access_scope \<Rightarrow> string \<Rightarrow> 'r svc_state \<Rightarrow> (lease \<times> bool, 'r) outcome" where
  "DeclineLease now env scope lid st =
     (case guarded env scope ''lease.decline'' of
        Some e \<Rightarrow> (Inl e, st)
      | None \<Rightarrow>
      case GetLeaseByID (stDB st) lid of
        Inl e \<Rightarrow> (Inl (ErrRepo e), st)
      | Inr l \<Rightarrow>
          let (l, count) = appendConflict now (l\<lparr>leaseExpiresAt := now, leaseUpdatedAt := now\<rparr>)
                             conflictSignalAdminDecline [];
              st = recordConflictAudit env l conflictSignalAdminDecline [] count st;
              (l, st) = applyCooldownState now env l count st in
          (case UpdateLease (stDB st) l of
             Inl e \<Rightarrow> (Inl (ErrRepo e), st)
           | Inr db \<Rightarrow> (Inr (l, True), st\<lparr>stDB := db\<rparr>)))"

definition ClearCooldown ::
  "gotime \<Rightarrow> 'r svc_env \<Rightarrow> access_scope \<Rightarrow> string \<Rightarrow> 'r svc_state \<Rightarrow> (lease \<times> bool, 'r) outcome" where
  "ClearCooldown now env scope lid st =
     (case guarded env scope ''lease.clear_cooldown'' of
        Some e \<Rightarrow> (Inl e, st)
      | None \<Rightarrow>
      case GetLeaseByID (stDB st) lid of
        Inl e \<Rightarrow> (Inl (ErrRepo e), st)
      | Inr l \<Rightarrow>
          if leaseState l \<noteq> leaseStateCooldown \<and> leaseState l \<noteq> leaseStateQuarantined \<and> leaseCooldownUntil l = None
          then (Inr (l, False), st)
          else
            let l = l\<lparr>leaseState := leaseStateReleased, leaseCooldownUntil := None, leaseUpdatedAt := now,
                      leaseExpiresAt := now\<rparr> in
            (case UpdateLease (stDB st) l of
               Inl e \<Rightarrow> (Inl (ErrRepo e), st)
             | Inr db \<Rightarrow> (Inr (l, True), st\<lparr>stDB := db\<rparr>)))"

definition UpdateSecurityState ::
  "gotime \<Rightarrow> access_scope \<Rightarrow> string \<Rightarrow> string \<Rightarrow> 'r svc_state \<Rightarrow> (unit, 'r) outcome" where
  "UpdateSecurityState now scope identifier state st =
     (case tenantFromScope scope of
        Inl e \<Rightarrow> (Inl e, st)
      | Inr _ \<Rightarrow>
          if identifier = [] then (Inl (ErrOther ''lease: tenant and identifier required''), st)
          else (case normalizeSecurityState state of
              Inl e \<Rightarrow> (Inl e, st)
            | Inr normalized \<Rightarrow>
                (Inr (), st\<lparr>stDB := UpdateSecurityStateByIdentifier (stDB st) identifier normalized now\<rparr>)))"

definition UpdateLeaseSecurityState ::
  "gotime \<Rightarrow> access_scope \<Rightarrow> string \<Rightarrow> string \<Rightarrow> 'r svc_state \<Rightarrow> (lease \<times> string \<times> bool, 'r) outcome" where
  "UpdateLeaseSecurityState now scope lid state st =
     (case tenantFromScope scope of
        Inl e \<Rightarrow> (Inl e, st)
      | Inr _ \<Rightarrow>
          if lid = [] then (Inl (ErrOther ''lease: tenant and lease id required''), st)
          else (case normalizeSecurityState state of
              Inl e \<Rightarrow> (Inl e, st)
            | Inr normalized \<Rightarrow>
                (case GetLeaseByID (stDB st) lid of
                   Inl e \<Rightarrow> (Inl (ErrRepo e), st)
                 | Inr l \<Rightarrow>
                     let previous = leaseSecurityState l in
                     if previous = normalized then (Inr (l, previous, False), st)
                     else (Inr (l\<lparr>leaseSecurityState := normalized, leaseUpdatedAt := now\<rparr>, previous, True),
                           st\<lparr>stDB := UpdateSecurityStateByID (stDB st) lid normalized now\<rparr>))))"

end
