(* ===== verification/Lease_State.thy ===== *)
theory Lease_State
  imports Lease_Service
begin

text \<open>
  The DHCPv4 state of a lease (\<^verbatim>\<open>internal/lease/dhcpv4_fsm.go\<close>), kept as the key
  \<^verbatim>\<open>dhcpv4LeaseState\<close> of the JSON column \<^verbatim>\<open>session_continuity\<close>, and the worker that
  reclaims expired leases (\<^verbatim>\<open>internal/lease/reclaimer.go\<close>).  A column that holds the
  JSON value null is not modelled: the code would write to a nil map.
\<close>

section \<open>The stored state\<close>

definition dhcpv4LeaseFSMStateKey :: string where
  "dhcpv4LeaseFSMStateKey = ''dhcpv4LeaseState''"

definition dhcpv4LeaseContinuityMap :: "raw_json \<Rightarrow> (string \<times> json) list" where
  "dhcpv4LeaseContinuityMap payload =
     (case payload of
        RawCanonical (JObj fs) \<Rightarrow> fs
      | RawOther (Some (JObj fs)) \<Rightarrow> fs
      | _ \<Rightarrow> [])"

definition stored_fsm_text :: "(string \<times> json) list \<Rightarrow> string" where
  "stored_fsm_text fs =
     (case map_of fs dhcpv4LeaseFSMStateKey of Some (JStr s) \<Rightarrow> trim_space s | _ \<Rightarrow> [])"

definition dhcpv4DeriveFallbackState :: "gotime \<Rightarrow> lease \<Rightarrow> string" where
  "dhcpv4DeriveFallbackState now l =
     (if equal_fold (trim_space (leaseState l)) leaseStateReleased then StateReleased
      else if \<not> IsZeroTime (leaseExpiresAt l) \<and> leaseExpiresAt l < now then StateExpired
      else StateBound)"

definition dhcpv4LeaseFSMStateFromLease :: "gotime \<Rightarrow> lease \<Rightarrow> string" where
  "dhcpv4LeaseFSMStateFromLease now l =
     (let state = stored_fsm_text (dhcpv4LeaseContinuityMap (leaseSessionContinuity l)) in
      if IsKnownState state then state else dhcpv4DeriveFallbackState now l)"

text \<open>\<open>Inr (l', changed)\<close>: the record after the transition and whether it has to be written.\<close>

definition dhcpv4TransitionLeaseState :: "gotime \<Rightarrow> lease \<Rightarrow> string \<Rightarrow> svc_error + (lease \<times> bool)" where
  "dhcpv4TransitionLeaseState now l target =
     (if \<not> IsKnownState target
      then Inl (ErrFsm (''dhcpv4 lease fsm: unknown target state '' @ quoted target))
      else
        let current = dhcpv4LeaseFSMStateFromLease now l;
            current = (if target = StateOffered \<and> current \<noteq> StateInit then StateInit else current) in
        (case ValidateTransition current target of
           Some err \<Rightarrow> Inl (ErrFsm err)
         | None \<Rightarrow>
             if current = target \<and> (equal_fold (leaseState l) leaseStateReleased \<longleftrightarrow> target = StateReleased)
             then Inr (l, False)
             else
               let continuity = obj_put dhcpv4LeaseFSMStateKey (JStr target)
                     (dhcpv4LeaseContinuityMap (leaseSessionContinuity l));
                   l' = l\<lparr>leaseSessionContinuity := RawCanonical (JObj continuity), leaseUpdatedAt := now\<rparr> in
               Inr (if target = StateReleased
                    then l'\<lparr>leaseState := leaseStateReleased, leaseExpiresAt := now, leaseCooldownUntil := None\<rparr>
                    else if equal_fold (leaseState l) leaseStateReleased
                    then l'\<lparr>leaseState := leaseStateActive\<rparr>
                    else l', True)))"

definition dhcpv4EnsureValidStateRecord :: "gotime \<Rightarrow> lease \<Rightarrow> lease \<times> bool" where
  "dhcpv4EnsureValidStateRecord now l =
     (let continuity = dhcpv4LeaseContinuityMap (leaseSessionContinuity l);
          continuity = (if \<not> IsKnownState (stored_fsm_text continuity)
             then obj_put dhcpv4LeaseFSMStateKey (JStr (dhcpv4DeriveFallbackState now l)) continuity
             else continuity);
          payload = RawCanonical (JObj continuity) in
      if leaseSessionContinuity l = payload then (l, False)
      else (l\<lparr>leaseSessionContinuity := payload, leaseUpdatedAt := now\<rparr>, True))"

definition store_transition ::
  "gotime \<Rightarrow> lease \<Rightarrow> string \<Rightarrow> 'r svc_state \<Rightarrow> (lease \<times> bool, 'r) outcome" where
  "store_transition now l target st =
     (case dhcpv4TransitionLeaseState now l target of
        Inl e \<Rightarrow> (Inl e, st)
      | Inr (l, updated) \<Rightarrow>
          if \<not> updated then (Inr (l, False), st)
          else (case UpdateLease (stDB st) l of
              Inl e \<Rightarrow> (Inl (ErrRepo e), st)
            | Inr db \<Rightarrow> (Inr (l, True), st\<lparr>stDB := db\<rparr>)))"

definition UpdateDHCPv4LeaseFSMByLeaseID ::
  "gotime \<Rightarrow> 'r svc_env \<Rightarrow> access_scope \<Rightarrow> string \<Rightarrow> string \<Rightarrow> 'r svc_state \<Rightarrow> (unit, 'r) outcome" where
  "UpdateDHCPv4LeaseFSMByLeaseID now env scope lid target st =
     (case guarded env scope ''lease.fsm.update_by_lease_id'' of
        Some e \<Rightarrow> (Inl e, st)
      | None \<Rightarrow>
      case GetLeaseByID (stDB st) (trim_space lid) of
        Inl e \<Rightarrow> (Inl (ErrRepo e), st)
      | Inr l \<Rightarrow>
          (case store_transition now l target st of
             (Inl e, st) \<Rightarrow> (Inl e, st)
           | (Inr _, st) \<Rightarrow> (Inr (), st)))"

definition UpdateDHCPv4LeaseFSMByIdentifier ::
  "gotime \<Rightarrow> 'r svc_env \<Rightarrow> access_scope \<Rightarrow> string \<Rightarrow> string \<Rightarrow> 'r svc_state \<Rightarrow> (unit, 'r) outcome" where
  "UpdateDHCPv4LeaseFSMByIdentifier now env scope identifier target st =
     (case guarded env scope ''lease.fsm.update_by_identifier'' of
        Some e \<Rightarrow> (Inl e, st)
      | None \<Rightarrow>
      case GetActiveLease (stDB st) (trim_space identifier) of
        Inl ErrNotFound \<Rightarrow> (Inr (), st)
      | Inl e \<Rightarrow> (Inl (ErrRepo e), st)
      | Inr l \<Rightarrow>
          (case store_transition now l target st of
             (Inl e, st) \<Rightarrow> (Inl e, st)
           | (Inr _, st) \<Rightarrow> (Inr (), st)))"

definition ReleaseByIdentifier ::
  "gotime \<Rightarrow> 'r svc_env \<Rightarrow> access_scope \<Rightarrow> string \<Rightarrow> 'r svc_state \<Rightarrow> (lease option \<times> bool, 'r) outcome" where
  "ReleaseByIdentifier now env scope identifier st =
     (case guarded env scope ''lease.release_by_identifier'' of
        Some e \<Rightarrow> (Inl e, st)
      | None \<Rightarrow>
      case GetActiveLease (stDB st) (trim_space identifier) of
        Inl ErrNotFound \<Rightarrow> (Inr (None, False), st)
      | Inl e \<Rightarrow> (Inl (ErrRepo e), st)
      | Inr l \<Rightarrow>
          (case store_transition now l StateReleased st of
             (Inl e, st) \<Rightarrow> (Inl e, st)
           | (Inr (l, changed), st) \<Rightarrow>
               if \<not> changed then (Inr (Some l, False), st)
               else (Inr (Some l, True),
                     case ensurePool env scope (leasePoolID l) of
                       Inl _ \<Rightarrow> st
                     | Inr pool \<Rightarrow> bitmapSetByIP env pool (leaseIPAddress l) True st)))"

section \<open>The reclaim worker\<close>

record reclaimer_options =
  recInterval :: duration
  recGracePeriod :: duration
  recBatchSize :: int
  recHistoryRetentionDays :: int
  recHistoryPurgeBatchSize :: int
  recLegacyActiveCleanupBatchSize :: int

definition NewReclaimer :: "reclaimer_options \<Rightarrow> reclaimer_options" where
  "NewReclaimer opts =
     opts\<lparr>recInterval := (if recInterval opts \<le> 0 then minute else recInterval opts),
          recGracePeriod := (if recGracePeriod opts \<le> 0 then 5 * minute else recGracePeriod opts),
          recBatchSize := (if recBatchSize opts \<le> 0 \<or> recBatchSize opts > 500 then 100 else recBatchSize opts),
          recHistoryRetentionDays := (if recHistoryRetentionDays opts \<le> 0 then 90 else recHistoryRetentionDays opts),
          recHistoryPurgeBatchSize := (if recHistoryPurgeBatchSize opts \<le> 0 \<or> recHistoryPurgeBatchSize opts > 5000
            then 1000 else recHistoryPurgeBatchSize opts),
          recLegacyActiveCleanupBatchSize := (if recLegacyActiveCleanupBatchSize opts \<le> 0 \<or>
              recLegacyActiveCleanupBatchSize opts > 5000
            then 1000 else recLegacyActiveCleanupBatchSize opts)\<rparr>"

text \<open>One expired lease; a failing update is logged and the lease stays as it is.\<close>

definition reclaim_one :: "gotime \<Rightarrow> lease_db \<Rightarrow> lease \<Rightarrow> lease_db" where
  "reclaim_one now db l =
     (case UpdateLease db (l\<lparr>leaseState := leaseStateReleased, leaseUpdatedAt := now,
             leaseExpiresAt := now, leaseCooldownUntil := None\<rparr>) of
        Inl _ \<Rightarrow> db
      | Inr db \<Rightarrow> db)"

definition reclaimBatch :: "gotime \<Rightarrow> reclaimer_options \<Rightarrow> lease_db \<Rightarrow> lease_db" where
  "reclaimBatch now opts db =
     (let cutoff = now - recGracePeriod opts;
          expired = ListExpiredLeases db cutoff (recBatchSize opts);
          db = (if expired \<noteq> [] then ArchiveLeases now db expired now else db);
          db = foldl (reclaim_one now) db expired in
      if recHistoryRetentionDays opts > 0
      then PurgeLeaseHistory db (now - recHistoryRetentionDays opts * (24 * hour)) (recHistoryPurgeBatchSize opts)
      else db)"

end
