(* ===== verification/Lease_Safety.thy ===== *)
theory Lease_Safety
  imports Lease_State
begin

text \<open>
  What the lease service guarantees over whole runs: the table invariant and its
  preservation by every operation, the step relation and reachable states, the safety and
  success theorems, and concrete runs in which the code does not do what it means to.
\<close>

section \<open>Frame lemmas\<close>

lemma bitmapSetAvailability_frame [simp]: "stDB (snd (bitmapSetAvailability env pid idx av st)) = stDB st"
  by (simp add: bitmapSetAvailability_def Let_def split: option.splits prod.splits)

lemma bitmapSetByIP_frame [simp, frame]: "stDB (bitmapSetByIP env pool ip av st) = stDB st"
  by (simp add: bitmapSetByIP_def Let_def split: option.splits prod.splits addr.splits)

lemma recordBindingSeen_frame [simp, frame]: "stDB (recordBindingSeen now env i ip st) = stDB st"
  by (simp add: recordBindingSeen_def)

lemma recordConflictAudit_frame [simp, frame]: "stDB (recordConflictAudit env l s r n st) = stDB st"
  by (simp add: recordConflictAudit_def)

lemma applyIsolationPolicy_frame [simp, frame]: "stDB (applyIsolationPolicy now env t i r st) = stDB st"
  by (simp add: applyIsolationPolicy_def Let_def)

lemma enqueue_address_job_frame [simp, frame]: "stDB (enqueue_address_job env l n st) = stDB st"
  by (simp add: enqueue_address_job_def enqueueNotificationJob_def split: option.splits)

lemma checkIsolation_frame [frame]: "checkIsolation now t i st = (e, st') \<Longrightarrow> stDB st' = stDB st"
  by (auto simp: checkIsolation_def Let_def split: if_splits option.splits)

lemma enforceLeaseLimits_frame [frame]: "enforceLeaseLimits now env t i m st = (e, st') \<Longrightarrow> stDB st' = stDB st"
  by (auto simp: enforceLeaseLimits_def Let_def split: if_splits)

lemma applyCooldownState_db [frame]: "applyCooldownState now env l n st = (l', st') \<Longrightarrow> stDB st' = stDB st"
  by (auto simp: applyCooldownState_def Let_def split: if_splits)

section \<open>What an update keeps of a lease\<close>

lemma metadata_keeps [simp]:
  "leaseID (applyMobilityMetadata l m) = leaseID l" "leaseID (applyComplianceMetadata l m) = leaseID l"
  "leaseID (applyLeaseTiming now l p) = leaseID l"
  "leasePoolID (applyMobilityMetadata l m) = leasePoolID l" "leasePoolID (applyComplianceMetadata l m) = leasePoolID l"
  "leasePoolID (applyLeaseTiming now l p) = leasePoolID l"
  "leaseIPAddress (applyMobilityMetadata l m) = leaseIPAddress l" "leaseIPAddress (applyComplianceMetadata l m) = leaseIPAddress l"
  "leaseIPAddress (applyLeaseTiming now l p) = leaseIPAddress l"
  "leaseState (applyMobilityMetadata l m) = leaseState l" "leaseState (applyComplianceMetadata l m) = leaseState l"
  "leaseState (applyLeaseTiming now l p) = leaseState l"
  "leaseHardwareAddr (applyMobilityMetadata l m) = leaseHardwareAddr l"
  "leaseHardwareAddr (applyComplianceMetadata l m) = leaseHardwareAddr l"
  "leaseHardwareAddr (applyLeaseTiming now l p) = leaseHardwareAddr l"
  "leaseClientID (applyMobilityMetadata l m) = leaseClientID l" "leaseClientID (applyComplianceMetadata l m) = leaseClientID l"
  "leaseClientID (applyLeaseTiming now l p) = leaseClientID l"
  by (simp_all add: applyMobilityMetadata_def applyComplianceMetadata_def applyLeaseTiming_def Let_def)

lemma appendConflict_keeps:
  "appendConflict now l s r = (l', n) \<Longrightarrow> leaseID l' = leaseID l \<and> leasePoolID l' = leasePoolID l \<and>
     leaseIPAddress l' = leaseIPAddress l \<and> leaseHardwareAddr l' = leaseHardwareAddr l \<and>
     leaseCooldownUntil l' = leaseCooldownUntil l \<and> 0 < n"
  using appendConflict_bounds [of now l s r l' n] by (auto simp: appendConflict_def Let_def)

lemma applyCooldownState_keeps:
  "applyCooldownState now env l n st = (l', st') \<Longrightarrow> 0 < n \<Longrightarrow> leaseID l' = leaseID l \<and> leasePoolID l' = leasePoolID l \<and>
     leaseIPAddress l' = leaseIPAddress l \<and> leaseState l' = leaseStateCooldown \<and>
     leaseCooldownUntil l' = leaseCooldownUntil l"
  by (auto simp: applyCooldownState_def Let_def split: if_splits)

section \<open>The table invariant\<close>

definition active :: "lease \<Rightarrow> bool" where
  "active r \<longleftrightarrow> sql_eq (leaseState r) ''ACTIVE''"

text \<open>The keys hold and no two active leases of a pool have the same address.\<close>

definition table_ok :: "lease_db \<Rightarrow> bool" where
  "table_ok db \<longleftrightarrow> keys_ok (leases_v4 db) \<and>
     (\<forall>r \<in> set (leases_v4 db). \<forall>r' \<in> set (leases_v4 db).
        active r \<and> active r' \<and> sql_eq (leasePoolID r) (leasePoolID r') \<and> leaseIPAddress r = leaseIPAddress r' \<longrightarrow> r = r')"

lemma not_active [simp]: "\<not> active (r\<lparr>leaseState := leaseStateReleased\<rparr>)" "\<not> sql_eq leaseStateReleased ''ACTIVE''"
  "\<not> sql_eq leaseStateCooldown ''ACTIVE''"
proof -
  have "\<not> sql_eq leaseStateReleased ''ACTIVE''" "\<not> sql_eq leaseStateCooldown ''ACTIVE''" by code_simp+
  then show "\<not> active (r\<lparr>leaseState := leaseStateReleased\<rparr>)" "\<not> sql_eq leaseStateReleased ''ACTIVE''"
    "\<not> sql_eq leaseStateCooldown ''ACTIVE''" by (simp_all add: active_def)
qed

text \<open>An update keeps the invariant when the row ends inactive, or keeps its pool and address
  and was active before.\<close>

lemma UpdateLease_table_ok:
  assumes ok: "table_ok db" and r: "r \<in> set (leases_v4 db)" "leaseID l = leaseID r"
    and up: "UpdateLease db l = Inr db'"
    and l: "\<not> sql_eq (leaseState l) ''ACTIVE'' \<or>
      (active r \<and> leasePoolID l = leasePoolID r \<and> leaseIPAddress l = leaseIPAddress r)"
  shows "table_ok db'"
proof -
  have keys: "keys_ok (leases_v4 db)" using ok by (simp add: table_ok_def)
  have rows: "set (leases_v4 db') = insert (update_row l r) (set (leases_v4 db) - {r})"
    using UpdateLease_rows [OF keys r up] .
  have uniq: "x = y" if "x \<in> set (leases_v4 db)" "y \<in> set (leases_v4 db)" "active x" "active y"
    "sql_eq (leasePoolID x) (leasePoolID y)" "leaseIPAddress x = leaseIPAddress y" for x y
    using ok that by (auto simp: table_ok_def)
  have new: False if "y \<in> set (leases_v4 db) - {r}" "active y" "active (update_row l r)"
    "sql_eq (leasePoolID y) (leasePoolID l)" "leaseIPAddress y = leaseIPAddress l" for y
    using that l uniq [of y r] r(1) by (auto simp: active_def)
  show ?thesis
    unfolding table_ok_def rows
    using UpdateLease_keys [OF up] uniq new by (auto simp: sql_eq_sym, blast)
qed

lemma CreateLease_table_ok:
  assumes ok: "table_ok db" and new: "CreateLease db l = Inr db'"
    and free: "\<And>r. r \<in> set (leases_v4 db) \<Longrightarrow> active r \<Longrightarrow> sql_eq (leasePoolID r) (leasePoolID l) \<Longrightarrow>
      leaseIPAddress r \<noteq> leaseIPAddress l"
  shows "table_ok db'"
proof -
  have rows: "set (leases_v4 db') = insert (stored_row l) (set (leases_v4 db))"
    using new by (auto simp: CreateLease_def split: if_splits)
  have "keys_ok (leases_v4 db')" using CreateLease_keys [OF _ new] ok by (simp add: table_ok_def)
  then show ?thesis
    using ok free by (auto simp: table_ok_def rows stored_row_def sql_eq_sym, blast)
qed

lemma GetActiveLease_row: "GetActiveLease db i = Inr r \<Longrightarrow> r \<in> set (leases_v4 db) \<and> active r"
  using GetActiveLease_sound [of db i r] by (simp add: active_def)

lemma GetLeaseByID_row: "GetLeaseByID db i = Inr r \<Longrightarrow> r \<in> set (leases_v4 db)"
  using GetLeaseByID_sound [of db i r] by simp

section \<open>Every operation keeps the invariant\<close>

lemma MarkDeclined_table_ok:
  assumes "table_ok (stDB st)" and "MarkDeclined now env scope i reason st = (r, st')"
  shows "table_ok (stDB st')"
proof (cases "guarded env scope ''lease.mark_declined''")
  case None
  show ?thesis
  proof (cases "GetActiveLease (stDB st) i")
    case (Inl e)
    then show ?thesis using assms None by (cases e) (auto simp: MarkDeclined_def)
  next
    case (Inr l)
    obtain l1 n where a: "appendConflict now (l\<lparr>leaseUpdatedAt := now\<rparr>) conflictSignalDHCPDecline reason = (l1, n)" by force
    obtain l2 st2 where c: "applyCooldownState now env l1 n
        (recordConflictAudit env l1 conflictSignalDHCPDecline reason n st) = (l2, st2)" by force
    note k = appendConflict_keeps [OF a] applyCooldownState_keeps [OF c]
    have db: "stDB st2 = stDB st" using applyCooldownState_db [OF c] by simp
    show ?thesis
    proof (cases "UpdateLease (stDB st) l2")
      case Inl2: (Inl e)
      then show ?thesis using assms None Inr a c db by (auto simp: MarkDeclined_def)
    next
      case up: (Inr db')
      then have "st' = st2\<lparr>stDB := db'\<rparr>" using assms(2) None Inr a c db by (simp add: MarkDeclined_def)
      then show ?thesis
        using UpdateLease_table_ok [OF assms(1) _ _ up, of l] GetActiveLease_row [OF Inr] k by simp
    qed
  qed
qed (use assms in \<open>auto simp: MarkDeclined_def\<close>)

lemma DeclineLease_table_ok:
  assumes "table_ok (stDB st)" and "DeclineLease now env scope i st = (r, st')"
  shows "table_ok (stDB st')"
proof (cases "guarded env scope ''lease.decline''")
  case None
  show ?thesis
  proof (cases "GetLeaseByID (stDB st) i")
    case (Inl e)
    then show ?thesis using assms None by (auto simp: DeclineLease_def)
  next
    case (Inr l)
    obtain l1 n where a: "appendConflict now (l\<lparr>leaseExpiresAt := now, leaseUpdatedAt := now\<rparr>) conflictSignalAdminDecline [] = (l1, n)"
      by force
    obtain l2 st2 where c: "applyCooldownState now env l1 n
        (recordConflictAudit env l1 conflictSignalAdminDecline [] n st) = (l2, st2)" by force
    note k = appendConflict_keeps [OF a] applyCooldownState_keeps [OF c]
    have db: "stDB st2 = stDB st" using applyCooldownState_db [OF c] by simp
    show ?thesis
    proof (cases "UpdateLease (stDB st) l2")
      case Inl2: (Inl e)
      then show ?thesis using assms None Inr a c db by (auto simp: DeclineLease_def)
    next
      case up: (Inr db')
      then have "st' = st2\<lparr>stDB := db'\<rparr>" using assms(2) None Inr a c db by (simp add: DeclineLease_def)
      then show ?thesis
        using UpdateLease_table_ok [OF assms(1) _ _ up, of l] GetLeaseByID_row [OF Inr] k by simp
    qed
  qed
qed (use assms in \<open>auto simp: DeclineLease_def\<close>)

text \<open>Writing a lease that is released.\<close>

lemma release_write_table_ok:
  assumes "table_ok db" and "r \<in> set (leases_v4 db)" and "leaseID l = leaseID r" and "leaseState l = leaseStateReleased"
    and "UpdateLease db l = Inr db'"
  shows "table_ok db'"
  using UpdateLease_table_ok [OF assms(1-3,5)] assms(4) by simp

lemma ReleaseLease_table_ok:
  assumes "table_ok (stDB st)" and "ReleaseLease now env scope i st = (r, st')"
  shows "table_ok (stDB st')"
proof (cases "guarded env scope ''lease.release''")
  case None
  show ?thesis
  proof (cases "GetLeaseByID (stDB st) i")
    case (Inr l)
    let ?l = "l\<lparr>leaseState := leaseStateReleased, leaseExpiresAt := now, leaseUpdatedAt := now, leaseCooldownUntil := None\<rparr>"
    note w = release_write_table_ok [OF assms(1), of l ?l]
    show ?thesis
      using assms None Inr w GetLeaseByID_row [OF Inr]
      by (cases "UpdateLease (stDB st) ?l")
         (auto simp: ReleaseLease_def Let_def split: if_splits sum.splits)
  qed (use assms None in \<open>auto simp: ReleaseLease_def\<close>)
qed (use assms in \<open>auto simp: ReleaseLease_def\<close>)

lemma ClearCooldown_table_ok:
  assumes "table_ok (stDB st)" and "ClearCooldown now env scope i st = (r, st')"
  shows "table_ok (stDB st')"
proof (cases "guarded env scope ''lease.clear_cooldown''")
  case None
  show ?thesis
  proof (cases "GetLeaseByID (stDB st) i")
    case (Inr l)
    let ?l = "l\<lparr>leaseState := leaseStateReleased, leaseCooldownUntil := None, leaseUpdatedAt := now, leaseExpiresAt := now\<rparr>"
    note w = release_write_table_ok [OF assms(1), of l ?l]
    show ?thesis
      using assms None Inr w GetLeaseByID_row [OF Inr]
      by (cases "UpdateLease (stDB st) ?l") (auto simp: ClearCooldown_def Let_def split: if_splits)
  qed (use assms None in \<open>auto simp: ClearCooldown_def\<close>)
qed (use assms in \<open>auto simp: ClearCooldown_def\<close>)

lemma security_update_table_ok:
  assumes "table_ok db"
    and "\<And>r. leaseID (f r) = leaseID r \<and> leaseHardwareAddr (f r) = leaseHardwareAddr r \<and> leaseState (f r) = leaseState r \<and>
      leasePoolID (f r) = leasePoolID r \<and> leaseIPAddress (f r) = leaseIPAddress r"
  shows "table_ok (db\<lparr>leases_v4 := map f (leases_v4 db)\<rparr>)"
  using assms keys_ok_map [of "leases_v4 db" f]
  by (auto simp: table_ok_def active_def)

lemma UpdateSecurityState_table_ok:
  "table_ok (stDB st) \<Longrightarrow> UpdateSecurityState now scope i s st = (r, st') \<Longrightarrow> table_ok (stDB st')"
  by (auto simp: UpdateSecurityState_def UpdateSecurityStateByIdentifier_def
      intro!: security_update_table_ok split: sum.splits if_splits)

lemma UpdateLeaseSecurityState_table_ok:
  "table_ok (stDB st) \<Longrightarrow> UpdateLeaseSecurityState now scope i s st = (r, st') \<Longrightarrow> table_ok (stDB st')"
  by (auto simp: UpdateLeaseSecurityState_def UpdateSecurityStateByID_def Let_def
      intro!: security_update_table_ok split: sum.splits if_splits)

lemma transition_keeps:
  "dhcpv4TransitionLeaseState now l target = Inr (l', ch) \<Longrightarrow> leaseID l' = leaseID l \<and> leasePoolID l' = leasePoolID l \<and>
     leaseIPAddress l' = leaseIPAddress l"
  by (auto simp: dhcpv4TransitionLeaseState_def Let_def split: if_splits option.splits)

lemma store_transition_table_ok:
  assumes ok: "table_ok (stDB st)" and l: "l \<in> set (leases_v4 (stDB st))" "active l"
    and "store_transition now l target st = (r, st')"
  shows "table_ok (stDB st')"
proof (cases "dhcpv4TransitionLeaseState now l target")
  case (Inr p)
  obtain l' ch where p: "p = (l', ch)" by (cases p)
  note k = transition_keeps [OF Inr [unfolded p]]
  show ?thesis
  proof (cases "ch \<and> (\<exists>db'. UpdateLease (stDB st) l' = Inr db')")
    case True
    then obtain db' where up: "UpdateLease (stDB st) l' = Inr db'" and ch by blast
    then have "stDB st' = db'" using assms(4) Inr p by (simp add: store_transition_def) auto
    then show ?thesis using UpdateLease_table_ok [OF ok l(1) _ up] k l(2) by simp
  next
    case False
    then show ?thesis using assms Inr p
      by (cases "UpdateLease (stDB st) l'") (auto simp: store_transition_def split: if_splits)
  qed
qed (use assms in \<open>auto simp: store_transition_def\<close>)

lemma FSMByIdentifier_table_ok:
  assumes "table_ok (stDB st)" and "UpdateDHCPv4LeaseFSMByIdentifier now env scope i target st = (r, st')"
  shows "table_ok (stDB st')"
proof (cases "guarded env scope ''lease.fsm.update_by_identifier''")
  case None
  show ?thesis
  proof (cases "GetActiveLease (stDB st) (trim_space i)")
    case (Inl e)
    then show ?thesis using assms None by (cases e) (auto simp: UpdateDHCPv4LeaseFSMByIdentifier_def)
  next
    case (Inr l)
    obtain r1 st1 where s: "store_transition now l target st = (r1, st1)" by force
    have "table_ok (stDB st1)" using store_transition_table_ok [OF assms(1) _ _ s] GetActiveLease_row [OF Inr] by simp
    then show ?thesis using assms None Inr s
      by (cases r1) (auto simp: UpdateDHCPv4LeaseFSMByIdentifier_def)
  qed
qed (use assms in \<open>auto simp: UpdateDHCPv4LeaseFSMByIdentifier_def\<close>)

lemma ReleaseByIdentifier_table_ok:
  assumes "table_ok (stDB st)" and "ReleaseByIdentifier now env scope i st = (r, st')"
  shows "table_ok (stDB st')"
proof (cases "guarded env scope ''lease.release_by_identifier''")
  case None
  show ?thesis
  proof (cases "GetActiveLease (stDB st) (trim_space i)")
    case (Inl e)
    then show ?thesis using assms None by (cases e) (auto simp: ReleaseByIdentifier_def)
  next
    case (Inr l)
    obtain r1 st1 where s: "store_transition now l StateReleased st = (r1, st1)" by force
    have "table_ok (stDB st1)" using store_transition_table_ok [OF assms(1) _ _ s] GetActiveLease_row [OF Inr] by simp
    then show ?thesis using assms None Inr s
      by (cases r1) (auto simp: ReleaseByIdentifier_def split: if_splits sum.splits)
  qed
qed (use assms in \<open>auto simp: ReleaseByIdentifier_def\<close>)

text \<open>The worker works from a list read before the batch; the rows it writes are in the table
  throughout, because an update never changes an id.\<close>

definition has_id :: "lease_db \<Rightarrow> lease \<Rightarrow> bool" where
  "has_id db l \<longleftrightarrow> (\<exists>r \<in> set (leases_v4 db). leaseID r = leaseID l)"

lemma UpdateLease_has_id: "UpdateLease db l = Inr db' \<Longrightarrow> has_id db x \<Longrightarrow> has_id db' x"
proof -
  assume up: "UpdateLease db l = Inr db'" and "has_id db x"
  then obtain r where r: "r \<in> set (leases_v4 db)" "leaseID r = leaseID x" by (auto simp: has_id_def)
  let ?f = "\<lambda>r. if sql_eq (leaseID r) (leaseID l) then update_row l r else r"
  have "set (leases_v4 db') = ?f ` set (leases_v4 db)"
    using up by (auto simp: UpdateLease_def update_where_id_def Let_def split: if_splits)
  then have "?f r \<in> set (leases_v4 db')" using r by blast
  moreover have "leaseID (?f r) = leaseID x" using r by simp
  ultimately show "has_id db' x" unfolding has_id_def by blast
qed

lemma reclaim_one_ok:
  assumes "table_ok db" and "has_id db l"
  shows "table_ok (reclaim_one now db l)" "has_id db x \<Longrightarrow> has_id (reclaim_one now db l) x"
proof -
  let ?l = "l\<lparr>leaseState := leaseStateReleased, leaseUpdatedAt := now, leaseExpiresAt := now, leaseCooldownUntil := None\<rparr>"
  obtain r where "r \<in> set (leases_v4 db)" "leaseID ?l = leaseID r" using assms(2) by (auto simp: has_id_def)
  then show "table_ok (reclaim_one now db l)"
    using assms(1) release_write_table_ok [OF assms(1), of r ?l] by (auto simp: reclaim_one_def split: sum.splits)
  show "has_id db x \<Longrightarrow> has_id (reclaim_one now db l) x"
    using UpdateLease_has_id [of db ?l] by (auto simp: reclaim_one_def split: sum.splits)
qed

lemma reclaim_fold_ok: "table_ok db \<Longrightarrow> (\<And>l. l \<in> set ls \<Longrightarrow> has_id db l) \<Longrightarrow> table_ok (foldl (reclaim_one now) db ls)"
  by (induction ls arbitrary: db) (simp_all add: reclaim_one_ok)

lemma table_ok_rows: "leases_v4 db = leases_v4 db' \<Longrightarrow> table_ok db = table_ok db'"
  by (simp add: table_ok_def)

lemma reclaimBatch_table_ok:
  assumes "table_ok db"
  shows "table_ok (reclaimBatch now opts db)"
proof -
  let ?e = "ListExpiredLeases db (now - recGracePeriod opts) (recBatchSize opts)"
  let ?db = "if ?e \<noteq> [] then ArchiveLeases now db ?e now else db"
  have rows: "leases_v4 ?db = leases_v4 db" by simp
  have "has_id ?db l" if "l \<in> set ?e" for l
    using that unfolding has_id_def rows by (auto simp: ListExpiredLeases_def Let_def dest!: in_set_takeD)
  moreover have "table_ok ?db" using assms table_ok_rows [OF rows] by simp
  ultimately have "table_ok (foldl (reclaim_one now) ?db ?e)" by (intro reclaim_fold_ok)
  then show ?thesis unfolding reclaimBatch_def Let_def
    using table_ok_rows [OF archive_frame(2)] by simp
qed

section \<open>Allocation\<close>

text \<open>Deployments the safety theorem is about: no Redis, no active conflict prevention, IPv4
  pools that do not reach 255.255.255.255, and a pool reader that answers with the pool it
  was asked for.\<close>

definition plain_v4 :: "'r svc_env \<Rightarrow> bool" where
  "plain_v4 env \<longleftrightarrow> envRedis env = None \<and> \<not> ccEnabled (envConflict env) \<and>
     (\<forall>reader pid pool. envPoolReader env = Some reader \<and> GetPool reader pid = Inr pool \<longrightarrow>
        sql_eq (poolID pool) pid \<and>
        (\<forall>prefix. ParsePrefix (poolCIDR pool) = Some prefix \<longrightarrow>
           Is4 (pfx_addr prefix) \<and> \<not> Contains prefix (Addr4 (-1))))"

lemma plain_v4D:
  assumes "plain_v4 env"
  shows "envRedis env = None" "conflictEnabled env = False" "shouldAsyncPersistLease env = False"
    "ensurePool env scope pid = Inr pool \<Longrightarrow> sql_eq (poolID pool) pid"
    "ensurePool env scope pid = Inr pool \<Longrightarrow> ParsePrefix (poolCIDR pool) = Some prefix \<Longrightarrow>
       Is4 (pfx_addr prefix) \<and> \<not> Contains prefix (Addr4 (-1))"
  using assms
  by (auto simp: plain_v4_def conflictEnabled_def shouldAsyncPersistLease_def bitmapEnabled_def ensurePool_def
      split: option.splits sum.splits)

lemma finish_allocation_plain:
  assumes "\<not> conflictEnabled env" and "finish_allocation now env profile pool reused l st = (r, st')"
  shows "stDB st' = stDB st \<and> (\<exists>res. r = Inr (Some res) \<and> resLease res = l \<and> resReused res = reused \<and> resPool res = pool)"
  using assms by (auto simp: finish_allocation_def enforceConflictPrevention_def Let_def)

text \<open>Reusing a lease writes one row, or nothing.\<close>

definition reused_lease :: "gotime \<Rightarrow> lease_profile \<Rightarrow> allocation_metadata \<Rightarrow> lease \<Rightarrow> lease" where
  "reused_lease now profile meta existing =
     applyLeaseTiming now (applyComplianceMetadata (applyMobilityMetadata
       (if metaUserID meta \<noteq> [] \<and> leaseUserID existing \<noteq> metaUserID meta
        then existing\<lparr>leaseUserID := metaUserID meta\<rparr> else existing) meta) meta) profile"

lemma reused_lease_keeps [simp]:
  "leaseID (reused_lease now profile meta l) = leaseID l" "leasePoolID (reused_lease now profile meta l) = leasePoolID l"
  "leaseIPAddress (reused_lease now profile meta l) = leaseIPAddress l" "leaseState (reused_lease now profile meta l) = leaseState l"
  by (simp_all add: reused_lease_def)

lemma reuse_lease_cases:
  assumes env: "plain_v4 env" and run: "reuse_lease now env scope identifier profile meta existing st = (r, st')"
  obtains e where "r = Inl e" "stDB st' = stDB st"
  | "UpdateLease (stDB st) (reused_lease now profile meta existing) = Inr (stDB st')"
    "case r of Inl e \<Rightarrow> True | Inr x \<Rightarrow> \<exists>res. x = Some res \<and> resLease res = reused_lease now profile meta existing \<and> resReused res"
proof (cases "ensurePool env scope (leasePoolID existing)")
  case (Inl e)
  then show thesis using run that(1) by (auto simp: reuse_lease_def)
next
  case (Inr pool)
  define l where "l = reused_lease now profile meta existing"
  obtain p st2 where p: "persistLeaseUpdate env l (bitmapSetByIP env pool (leaseIPAddress l) False st) = (p, st2)" by force
  have eq: "reuse_lease now env scope identifier profile meta existing st =
     (case (p, st2) of (Some e, st) \<Rightarrow> (Inl e, st) | (None, st) \<Rightarrow>
        finish_allocation now env profile pool True l (recordBindingSeen now env identifier (leaseIPAddress l) st))"
    unfolding reuse_lease_def Inr p [symmetric] l_def reused_lease_def by (simp add: Let_def)
  note fin = finish_allocation_plain [where env = env and now = now and profile = profile and pool = pool
      and reused = True and l = l and st = "recordBindingSeen now env identifier (leaseIPAddress l) st2" and r = r and st' = st']
  show thesis
  proof (cases "UpdateLease (stDB st) l")
    case (Inl e)
    then have "p = Some (ErrRepo e)" "stDB st2 = stDB st" using p plain_v4D(3) [OF env] by (auto simp: persistLeaseUpdate_def)
    then show thesis using that(1) run eq by auto
  next
    case (Inr db)
    then have "stDB st2 = db" using p plain_v4D(3) [OF env] by (auto simp: persistLeaseUpdate_def)
    then show thesis using that(2) run eq fin Inr plain_v4D(2) [OF env] by (cases p) (auto simp: l_def)
  qed
qed

lemma create_lease_cases:
  assumes env: "plain_v4 env"
    and run: "create_lease now env tenantID identifier profile meta pool pid ip st = (r, st')"
  defines "l \<equiv> new_lease now (envNewID env (stNextID st)) tenantID pid ip identifier profile meta"
  obtains e where "r = Inl e" "stDB st' = stDB st"
  | "CreateLease (stDB st) l = Inr (stDB st')"
    "case r of Inl e \<Rightarrow> True | Inr x \<Rightarrow> \<exists>res. x = Some res \<and> resLease res = l \<and> \<not> resReused res"
proof -
  obtain p st2 where p: "persistLeaseCreate env l pool (bitmapSetByIP env pool (leaseIPAddress l) False
      (st\<lparr>stNextID := Suc (stNextID st)\<rparr>)) = (p, st2)" by force
  have eq: "create_lease now env tenantID identifier profile meta pool pid ip st =
     (case (p, st2) of (Some e, st) \<Rightarrow> (Inl e, st) | (None, st) \<Rightarrow>
        finish_allocation now env profile pool False l (recordBindingSeen now env identifier (leaseIPAddress l) st))"
    unfolding create_lease_def p [symmetric] l_def by (simp add: Let_def)
  note fin = finish_allocation_plain [where env = env and now = now and profile = profile and pool = pool
      and reused = False and l = l and st = "recordBindingSeen now env identifier (leaseIPAddress l) st2" and r = r and st' = st']
  show thesis
  proof (cases "CreateLease (stDB st) l")
    case (Inl e)
    then have "p = Some (ErrRepo e)" "stDB st2 = stDB st" using p plain_v4D(3) [OF env] by (auto simp: persistLeaseCreate_def)
    then show thesis using that(1) run eq by auto
  next
    case (Inr db)
    then have "stDB st2 = db" using p plain_v4D(3) [OF env] by (auto simp: persistLeaseCreate_def)
    then show thesis using that(2) run eq fin Inr plain_v4D(2) [OF env] by (cases p) auto
  qed
qed

lemma pick_frame:
  assumes env: "plain_v4 env" and pool: "ensurePool env scope' pid = Inr pool"
    and run: "pickIPAddress now env scope pool ip own reserved st = Some (r, st')"
  shows "stDB st' = stDB st \<and> (case r of Inl _ \<Rightarrow> True | Inr ip \<Rightarrow> ip \<notin> set (ListActiveIPs (stDB st) (poolID pool)))"
proof (cases "ParsePrefix (poolCIDR pool)")
  case None
  then show ?thesis using run by (auto simp: pickIPAddress_def split: if_splits sum.splits)
next
  case (Some prefix)
  note law = plain_v4D(5) [OF env pool Some]
  show ?thesis
    using pick_outcome [OF plain_v4D(1) [OF env] Some, where now = now and scope = scope and preferred = ip and binding = own and reserved = reserved and st = st] law run
    by (cases r) (auto simp: offerable_def)
qed

text \<open>What an attempt to allocate does to the database: nothing, or it creates one lease on an
  address no active lease of the pool has.\<close>

lemma allocate_new_cases:
  assumes env: "plain_v4 env"
    and run: "allocate_new now env scope tenantID identifier profile meta held pid ip st = Some (r, st')"
  obtains e where "r = Inl e" "stDB st' = stDB st"
  | pool pid' sip st2 cr where "stDB st2 = stDB st" "ensurePool env scope pid' = Inr pool"
      "sip \<notin> set (ListActiveIPs (stDB st) (poolID pool))"
      "create_lease now env tenantID identifier profile meta pool pid' sip st2 = (cr, st')"
      "case cr of Inl e \<Rightarrow> r = Inl e | Inr res \<Rightarrow> \<exists>x. r = Inr (res, x)"
proof -
  obtain e1 st1 where lim: "enforceLeaseLimits now env tenantID identifier meta st = (e1, st1)" by force
  have db1: "stDB st1 = stDB st" using enforceLeaseLimits_frame [OF lim] .
  note run1 = run [unfolded allocate_new_def lim]
  show thesis
  proof (cases "e1 = None \<and> (case envQuota env of None \<Rightarrow> None | Some q \<Rightarrow> q tenantID) = None")
    case False
    then show thesis using run1 db1 that(1) by (cases e1) (auto split: option.splits)
  next
    case True
    show thesis
    proof (cases "lookupBinding env identifier ip")
      case (Inl e)
      then show thesis using run1 db1 True that(1) by auto
    next
      case (Inr bm)
      obtain binding m where bm: "bm = (binding, m)" by (cases bm)
      define own where "own = (if m then binding else None)"
      define pid' where "pid' = (case own of Some b \<Rightarrow> bindPoolID b | None \<Rightarrow> pid)"
      define ip' where "ip' = (case own of Some b \<Rightarrow> if bindIPAddress b \<noteq> [] then bindIPAddress b else ip | None \<Rightarrow> ip)"
      note run2 = run1 [simplified True Inr bm, simplified, folded own_def, simplified Let_def, folded pid'_def ip'_def]
      show thesis
      proof (cases "\<exists>pool held' reserved. pid' \<noteq> [] \<and> ensurePool env scope pid' = Inr pool \<and>
          acquirePoolLock env held (poolID pool) = Inr held' \<and> bindingsForPool env (poolID pool) = Inr reserved")
        case False
        then consider "pid' = []" | e where "ensurePool env scope pid' = Inl e" "pid' \<noteq> []"
          | pool e where "ensurePool env scope pid' = Inr pool" "acquirePoolLock env held (poolID pool) = Inl e" "pid' \<noteq> []"
          | pool h e where "ensurePool env scope pid' = Inr pool" "acquirePoolLock env held (poolID pool) = Inr h"
            "bindingsForPool env (poolID pool) = Inl e" "pid' \<noteq> []"
          by (metis sum.exhaust)
        then show thesis using run2 db1 that(1) by cases auto
      next
        case True
        then obtain pool held' reserved where p: "pid' \<noteq> []" "ensurePool env scope pid' = Inr pool"
          "acquirePoolLock env held (poolID pool) = Inr held'" "bindingsForPool env (poolID pool) = Inr reserved" by blast
        note run3 = run2 p plain_v4D(2) [OF env]
        show thesis
        proof (cases "pickIPAddress now env scope pool ip' own reserved st1")
          case None
          then show thesis using run3 by simp
        next
          case (Some pk)
          obtain c st2 where pk: "pk = (c, st2)" by (cases pk)
          note f = pick_frame [OF env p(2) Some [unfolded pk]]
          show thesis
          proof (cases c)
            case (Inl e)
            then show thesis using run3 Some pk f db1 that(1) by auto
          next
            case sel: (Inr sip)
            obtain cr st3 where cr: "create_lease now env tenantID identifier profile meta pool pid' sip st2 = (cr, st3)" by force
            have "st' = st3" "case cr of Inl e \<Rightarrow> r = Inl e | Inr res \<Rightarrow> \<exists>x. r = Inr (res, x)"
              using run3 Some pk sel cr by (auto split: sum.splits)
            moreover have "create_lease now env tenantID identifier profile meta pool pid' sip st2 = (cr, st')"
              using cr \<open>st' = st3\<close> by simp
            ultimately show thesis using that(2) [OF _ p(2)] f sel db1 by auto
          qed
        qed
      qed
    qed
  qed
qed

lemma reuse_lease_table_ok:
  assumes env: "plain_v4 env" and ok: "table_ok (stDB st)" and l: "existing \<in> set (leases_v4 (stDB st))" "active existing"
    and run: "reuse_lease now env scope identifier profile meta existing st = (r, st')"
  shows "table_ok (stDB st')"
  using env run
proof (cases rule: reuse_lease_cases)
  case (2)
  then show ?thesis using UpdateLease_table_ok [OF ok l(1) _ 2(1)] l(2) by simp
qed (use ok in simp)

lemma create_lease_table_ok:
  assumes env: "plain_v4 env" and ok: "table_ok (stDB st)" and pool: "sql_eq (poolID pool) pid"
    and free: "ip \<notin> set (ListActiveIPs (stDB st) (poolID pool))"
    and run: "create_lease now env tenantID identifier profile meta pool pid ip st = (r, st')"
  shows "table_ok (stDB st')"
  using env run
proof (cases rule: create_lease_cases)
  case (2)
  show ?thesis
  proof (rule CreateLease_table_ok [OF ok 2(1)])
    fix x
    assume x: "x \<in> set (leases_v4 (stDB st))" "active x"
      "sql_eq (leasePoolID x) (leasePoolID (new_lease now (envNewID env (stNextID st)) tenantID pid ip identifier profile meta))"
    then have "sql_eq (leasePoolID x) (poolID pool)"
      using pool sql_eq_trans [of "leasePoolID x" pid "poolID pool"] by (simp add: sql_eq_sym new_lease_def Let_def)
    then have "leaseIPAddress x \<in> set (ListActiveIPs (stDB st) (poolID pool))"
      using x by (auto simp: ListActiveIPs_def active_def)
    then show "leaseIPAddress x \<noteq> leaseIPAddress (new_lease now (envNewID env (stNextID st)) tenantID pid ip identifier profile meta)"
      using free by (auto simp: new_lease_def Let_def)
  qed
qed (use ok in simp)

lemma allocate_new_table_ok:
  assumes env: "plain_v4 env" and ok: "table_ok (stDB st)"
    and run: "allocate_new now env scope tenantID identifier profile meta held pid ip st = Some (r, st')"
  shows "table_ok (stDB st')"
  using env run
proof (cases rule: allocate_new_cases)
  case (2 pool pid' sip st2 cr)
  with create_lease_table_ok [OF env _ plain_v4D(4) [OF env 2(2)] _ 2(4)] ok show ?thesis by simp
qed (use ok in simp)

lemma allocate_loop_table_ok:
  assumes env: "plain_v4 env"
  shows "table_ok (stDB st) \<Longrightarrow>
    allocate_loop n now env scope tenantID identifier profile meta held pid ip st = Some (r, st') \<Longrightarrow> table_ok (stDB st')"
proof (induction n arbitrary: held pid ip st)
  case (Suc n)
  show ?case
  proof (cases "GetActiveLease (stDB st) identifier")
    case (Inl e)
    then have e: "e = ErrNotFound" by (simp add: GetActiveLease_None)
    show ?thesis
    proof (cases "allocate_new now env scope tenantID identifier profile meta held pid ip st")
      case None
      then show ?thesis using Suc.prems Inl e by simp
    next
      case (Some p)
      obtain a st1 where p: "p = (a, st1)" by (cases p)
      have "table_ok (stDB st1)" using allocate_new_table_ok [OF env Suc.prems(1) Some [unfolded p]] .
      then show ?thesis using Suc.prems(2) Suc.IH Inl e Some p
        by (auto split: sum.splits option.splits)
    qed
  next
    case (Inr l)
    obtain a st1 where p: "reuse_lease now env scope identifier profile meta l st = (a, st1)" by force
    have "table_ok (stDB st1)"
      using reuse_lease_table_ok [OF env Suc.prems(1) _ _ p] GetActiveLease_row [OF Inr] by simp
    then show ?thesis using Suc.prems(2) Suc.IH Inr p by (auto split: sum.splits option.splits)
  qed
qed simp

lemma AllocateOrReuse_table_ok:
  assumes env: "plain_v4 env" and ok: "table_ok (stDB st)"
    and run: "AllocateOrReuseWithMetadata now env scope identifier profile pid ip meta st = Some (r, st')"
  shows "table_ok (stDB st')"
proof (cases "tenantFromScope scope")
  case (Inr tenantID)
  obtain e1 st1 where c: "checkIsolation now tenantID identifier st = (e1, st1)" by force
  have "table_ok (stDB st1)" using checkIsolation_frame [OF c] ok by simp
  then show ?thesis
    using run ok Inr c allocate_loop_table_ok [OF env, of st1]
    by (cases e1) (auto simp: AllocateOrReuseWithMetadata_def split: option.splits)
qed (use ok run in \<open>auto simp: AllocateOrReuseWithMetadata_def\<close>)

section \<open>Runs of the service\<close>

text \<open>One step is one completed call of a writing operation, by any client at any time, or one
  batch of the reclaim worker.  \<^verbatim>\<open>UpdateDHCPv4LeaseFSMByLeaseID\<close> is called by the packet
  handler with the lease it has just allocated, so the step requires the lease to be active.\<close>

inductive svc_step :: "'r svc_env \<Rightarrow> 'r svc_state \<Rightarrow> 'r svc_state \<Rightarrow> bool" for env where
  step_allocate: "AllocateOrReuseWithMetadata now env scope i profile pid ip meta st = Some (r, st') \<Longrightarrow> svc_step env st st'"
| step_mark_declined: "MarkDeclined now env scope i reason st = (u, st') \<Longrightarrow> svc_step env st st'"
| step_release: "ReleaseLease now env scope i st = (lu, st') \<Longrightarrow> svc_step env st st'"
| step_decline: "DeclineLease now env scope i st = (lu, st') \<Longrightarrow> svc_step env st st'"
| step_clear_cooldown: "ClearCooldown now env scope i st = (lu, st') \<Longrightarrow> svc_step env st st'"
| step_security: "UpdateSecurityState now scope i s st = (u, st') \<Longrightarrow> svc_step env st st'"
| step_lease_security: "UpdateLeaseSecurityState now scope i s st = (lu', st') \<Longrightarrow> svc_step env st st'"
| step_fsm_by_identifier: "UpdateDHCPv4LeaseFSMByIdentifier now env scope i target st = (u, st') \<Longrightarrow> svc_step env st st'"
| step_fsm_by_lease: "UpdateDHCPv4LeaseFSMByLeaseID now env scope i target st = (u, st') \<Longrightarrow>
    GetLeaseByID (stDB st) (trim_space i) = Inr l \<Longrightarrow> active l \<Longrightarrow> svc_step env st st'"
| step_release_by_identifier: "ReleaseByIdentifier now env scope i st = (lo, st') \<Longrightarrow> svc_step env st st'"
| step_reclaim: "svc_step env st (st\<lparr>stDB := reclaimBatch now opts (stDB st)\<rparr>)"

inductive svc_reach :: "'r svc_env \<Rightarrow> 'r svc_state \<Rightarrow> bool" for env where
  reach_empty: "leases_v4 (stDB st) = [] \<Longrightarrow> svc_reach env st"
| reach_step: "svc_reach env st \<Longrightarrow> svc_step env st st' \<Longrightarrow> svc_reach env st'"

lemma FSMByLeaseID_table_ok:
  assumes "table_ok (stDB st)" and "UpdateDHCPv4LeaseFSMByLeaseID now env scope i target st = (r, st')"
    and l: "GetLeaseByID (stDB st) (trim_space i) = Inr l" "active l"
  shows "table_ok (stDB st')"
proof -
  obtain r1 st1 where s: "store_transition now l target st = (r1, st1)" by force
  have "table_ok (stDB st1)" using store_transition_table_ok [OF assms(1) GetLeaseByID_row [OF l(1)] l(2) s] .
  then show ?thesis using assms(1,2) l s
    by (cases r1) (auto simp: UpdateDHCPv4LeaseFSMByLeaseID_def split: option.splits)
qed

lemma svc_step_table_ok: "svc_step env st st' \<Longrightarrow> plain_v4 env \<Longrightarrow> table_ok (stDB st) \<Longrightarrow> table_ok (stDB st')"
  by (induction rule: svc_step.induct)
     (auto intro: AllocateOrReuse_table_ok MarkDeclined_table_ok ReleaseLease_table_ok DeclineLease_table_ok
        ClearCooldown_table_ok UpdateSecurityState_table_ok UpdateLeaseSecurityState_table_ok
        FSMByIdentifier_table_ok FSMByLeaseID_table_ok ReleaseByIdentifier_table_ok reclaimBatch_table_ok)

lemma svc_reach_table_ok: "svc_reach env st \<Longrightarrow> plain_v4 env \<Longrightarrow> table_ok (stDB st)"
proof (induction rule: svc_reach.induct)
  case (reach_empty st)
  then show ?case by (simp add: table_ok_def)
qed (blast intro: svc_step_table_ok)

lemma keys_ok_distinct: "keys_ok rows \<Longrightarrow> distinct rows"
  by (induction rows) (auto simp: key_clash_def)

lemma table_ok_distinct_ips:
  assumes "table_ok db"
  shows "distinct (ListActiveIPs db pid)"
proof -
  let ?rows = "filter (\<lambda>r. sql_eq (leasePoolID r) pid \<and> sql_eq (leaseState r) ''ACTIVE'') (leases_v4 db)"
  have "x = y" if "x \<in> set ?rows" "y \<in> set ?rows" "leaseIPAddress x = leaseIPAddress y" for x y
    using that assms sql_eq_trans [of "leasePoolID x" pid "leasePoolID y"]
    by (auto simp: table_ok_def active_def sql_eq_sym)
  moreover have "distinct ?rows" using assms keys_ok_distinct by (auto simp: table_ok_def)
  ultimately show ?thesis unfolding ListActiveIPs_def by (auto simp: distinct_map inj_on_def)
qed

section \<open>Properties\<close>

text \<open>C1: No address is leased twice.  Whatever sequence of allocations, releases, declines,
  state changes and reclaim batches the service has run, starting from an empty table, the
  addresses of the active leases of a pool are pairwise different.  (IPv4 pools below
  255.255.255.255, no Redis bitmap, conflict prevention off.)\<close>

theorem no_double_allocation:
  assumes "plain_v4 env" and "svc_reach env st"
  shows "distinct (ListActiveIPs (stDB st) pid)"
  using table_ok_distinct_ips [OF svc_reach_table_ok [OF assms(2,1)]] .

definition small_env :: "unit svc_env" where
  "small_env = plain_env sample_reader"

lemma sample_pool_id: "poolID sample_pool = ''p1''"
  by (simp add: sample_pool_def)

lemma small_env_plain: "plain_v4 small_env"
  using sample_prefix_facts sample_pool_id
  by (auto simp: plain_v4_def small_env_def plain_env_def sample_reader_def sql_eq_sym split: if_splits)

text \<open>A client asks the sample service for a lease.\<close>

definition sample_allocate :: "unit svc_env \<Rightarrow> gotime \<Rightarrow> string \<Rightarrow> unit svc_state \<Rightarrow> (lease_result, unit) outcome option" where
  "sample_allocate env now client st =
     AllocateOrReuse now env sample_scope client empty_profile ''p1'' [] st"

fun run_clients :: "unit svc_env \<Rightarrow> (gotime \<times> string) list \<Rightarrow> unit svc_state \<Rightarrow> unit svc_state option" where
  "run_clients env [] st = Some st"
| "run_clients env ((now, client) # cs) st =
     (case sample_allocate env now client st of None \<Rightarrow> None | Some (_, st) \<Rightarrow> run_clients env cs st)"

lemma run_clients_reach: "svc_reach env st \<Longrightarrow> run_clients env cs st = Some st' \<Longrightarrow> svc_reach env st'"
proof (induction env cs st rule: run_clients.induct)
  case (2 env now client cs st)
  then obtain r st1 where s: "sample_allocate env now client st = Some (r, st1)" "run_clients env cs st1 = Some st'"
    by (auto split: option.splits)
  then have "svc_step env st st1" by (auto simp: sample_allocate_def AllocateOrReuse_def intro: step_allocate)
  then have "svc_reach env st1" using 2(2) by (rule reach_step [rotated])
  then show ?case using 2(1) s by auto
qed simp

theorem no_double_allocation_witness:
  "\<exists>st. run_clients small_env [(1000, ''aa''), (2000, ''bb'')] (initial_state () []) = Some st \<and>
     ListActiveIPs (stDB st) ''p1'' = [''10.0.0.1'', ''10.0.0.2''] \<and> distinct (ListActiveIPs (stDB st) ''p1'')"
proof -
  let ?r = "run_clients small_env [(1000, ''aa''), (2000, ''bb'')] (initial_state () [])"
  have "map_option (\<lambda>st. ListActiveIPs (stDB st) ''p1'') ?r = Some [''10.0.0.1'', ''10.0.0.2'']" by code_simp
  then obtain st where st: "?r = Some st" "ListActiveIPs (stDB st) ''p1'' = [''10.0.0.1'', ''10.0.0.2'']"
    by (cases ?r) auto
  have "svc_reach small_env (initial_state () [])" by (simp add: reach_empty initial_state_def)
  from run_clients_reach [OF this st(1)] st show ?thesis
    using no_double_allocation [OF small_env_plain, where st = st and pid = "''p1''"] by auto
qed



definition summary :: "(lease_result, unit) outcome option \<Rightarrow> string option \<times> (string \<times> string \<times> string) list" where
  "summary r = (case r of None \<Rightarrow> (None, []) | Some (a, st) \<Rightarrow>
     (case a of Inl _ \<Rightarrow> None | Inr res \<Rightarrow> Some (leaseIPAddress (resLease res)),
      map (\<lambda>r. (leaseHardwareAddr r, leaseIPAddress r, leaseState r)) (leases_v4 (stDB st))))"

definition declined_run :: "(lease_result, unit) outcome option" where
  "declined_run =
     (case MarkDeclined 2000 small_env sample_scope ''aa'' ''in use'' sample_state of (_, st) \<Rightarrow>
      sample_allocate small_env 2001 ''bb'' st)"


definition reclaim_env :: "unit svc_env" where
  "reclaim_env = (let pool = sample_pool\<lparr>poolRangeStart := ''10.0.0.1'', poolRangeEnd := ''10.0.0.1''\<rparr>;
       env = plain_env (sample_reader\<lparr>GetPool := \<lambda>_. Inr pool\<rparr>) in
     env\<lparr>envConflict := (envConflict env)\<lparr>ccEnabled := True\<rparr>,
         envProber := Some \<lparr>ProbeARP = \<lambda>_ _. (False, False), ProbeICMP = \<lambda>_ _. (False, False)\<rparr>\<rparr>)"

definition reclaim_run :: "(lease_result, unit) outcome option" where
  "reclaim_run =
     (case MarkDeclined 2000 reclaim_env sample_scope ''aa'' ''in use'' sample_state of (_, st) \<Rightarrow>
      case sample_allocate reclaim_env 3000 ''bb'' st of None \<Rightarrow> None | Some (_, st) \<Rightarrow>
      sample_allocate reclaim_env 4000 ''cc'' st)"


text \<open>C8: A client can release only once.  The table has a unique key on hardware address and
  state, so as long as a released row of the same client exists, releasing a new lease of it
  fails with a duplicate key and the lease stays as it is.\<close>

theorem second_release_fails:
  assumes "keys_ok (leases_v4 (stDB st))" and "guarded env scope ''lease.release'' = None"
    and "GetLeaseByID (stDB st) lid = Inr l" and "leaseState l \<noteq> leaseStateReleased"
    and "old \<in> set (leases_v4 (stDB st))" and "old \<noteq> l"
    and "sql_eq (leaseState old) leaseStateReleased" and "sql_eq (leaseHardwareAddr old) (leaseHardwareAddr l)"
  shows "ReleaseLease now env scope lid st = (Inl (ErrRepo ErrDuplicateKey), st)"
proof -
  let ?l = "l\<lparr>leaseState := leaseStateReleased, leaseExpiresAt := now, leaseUpdatedAt := now, leaseCooldownUntil := None\<rparr>"
  have "\<not> (\<exists>db'. UpdateLease (stDB st) ?l = Inr db')"
    using UpdateLease_iff [OF assms(1) GetLeaseByID_row [OF assms(3)], of ?l] assms(5-8) by auto
  then have "UpdateLease (stDB st) ?l = Inl ErrDuplicateKey"
    by (auto simp: UpdateLease_def Let_def split: if_splits)
  then show ?thesis using assms(2-4) by (simp add: ReleaseLease_def)
qed

definition released_twice_state :: "unit svc_state" where
  "released_twice_state = initial_state () [sample_lease\<lparr>leaseState := ''RELEASED''\<rparr>, sample_lease\<lparr>leaseID := ''l2''\<rparr>]"

theorem second_release_fails_witness:
  "ReleaseLease 7 small_env sample_scope ''l2'' released_twice_state = (Inl (ErrRepo ErrDuplicateKey), released_twice_state)"
proof (rule second_release_fails [where l = "sample_lease\<lparr>leaseID := ''l2''\<rparr>" and old = "sample_lease\<lparr>leaseState := ''RELEASED''\<rparr>"])
  show "keys_ok (leases_v4 (stDB released_twice_state))" by code_simp
  show "guarded small_env sample_scope ''lease.release'' = None" by code_simp
  show "GetLeaseByID (stDB released_twice_state) ''l2'' = Inr (sample_lease\<lparr>leaseID := ''l2''\<rparr>)" by code_simp
qed (code_simp+)

section \<open>Success\<close>

text \<open>A service with everything optional switched off: nothing but the pool and the table decides.\<close>

definition bare_env :: "'r svc_env \<Rightarrow> bool" where
  "bare_env env \<longleftrightarrow> envRedis env = None \<and> envProber env = None \<and> \<not> ccEnabled (envConflict env) \<and> envRole env = None \<and>
     envQuota env = None \<and> envReplication env = None \<and> envSyncAck env = None \<and>
     MaxLeasesPerMAC (envExhaustion env) \<le> 0 \<and> MaxLeasesPerUser (envExhaustion env) \<le> 0 \<and>
     PoolProtectPercent (envExhaustion env) \<le> 0"

lemma bare_envD:
  assumes "bare_env env"
  shows "envRedis env = None" "conflictEnabled env = False" "ensurePrimaryWrite env op = None" "envQuota env = None"
    "shouldAsyncPersistLease env = False" "after_write env l = None" "enforceLeaseLimits now env t i m st = (None, st)"
    "acdCheckCandidate now env pid ip" "acquirePoolLock env held pid = Inr held"
    "fst (evaluatePoolThresholds env pool x y rs re st) = None"
proof -
  note e = assms [unfolded bare_env_def]
  show "envRedis env = None" "envQuota env = None" using e by simp_all
  show "conflictEnabled env = False" using e by (simp add: conflictEnabled_def)
  show "ensurePrimaryWrite env op = None" using e by (simp add: ensurePrimaryWrite_def)
  show "shouldAsyncPersistLease env = False" using e by (simp add: shouldAsyncPersistLease_def bitmapEnabled_def)
  show "after_write env l = None" using e by (simp add: after_write_def confirmReplication_def confirmSyncAck_def)
  show "enforceLeaseLimits now env t i m st = (None, st)" using e by (simp add: enforceLeaseLimits_def Let_def)
  show "acdCheckCandidate now env pid ip" using e by (simp add: acdCheckCandidate_def)
  show "acquirePoolLock env held pid = Inr held" using e by (simp add: acquirePoolLock_def)
  have "pool_level (envExhaustion env) c n \<noteq> poolLevelProtect" for c n
    using e by (simp add: pool_level_def Let_def poolLevelNormal_def poolLevelWarn_def poolLevelProtect_def)
  then show "fst (evaluatePoolThresholds env pool x y rs re st) = None" by (simp add: evaluatePoolThresholds_def Let_def)
qed

lemma attempt_budget_pos: "0 < nat (conflictAttemptBudget env)" "0 < nat (conflictAttemptBudget env * 8)"
  by (simp_all add: conflictAttemptBudget_def)

text \<open>The addresses of a pool that a search may return.\<close>

definition open_ips :: "address_pool \<Rightarrow> prefix \<Rightarrow> string set \<Rightarrow> string set \<Rightarrow> string set" where
  "open_ips pool prefix used cooldown =
     (case resolvePoolBounds pool prefix of
        (Addr4 a, Addr4 b) \<Rightarrow>
          (case applyReserveWindow a b (poolReservePercent pool) of
             None \<Rightarrow> {}
           | Some w \<Rightarrow> free_ips used cooldown (buildIPv4Exclusions pool prefix (Addr4 a) (Addr4 b)) a w)
      | _ \<Rightarrow> {})"

lemma updatePoolLevel_frame [simp]: "stDB (updatePoolLevel pid level st) = stDB st"
  "stNextID (updatePoolLevel pid level st) = stNextID st"
  by (simp_all add: updatePoolLevel_def)

lemma evaluatePoolThresholds_only_levels:
  "stDB (snd (evaluatePoolThresholds env pool x y rs re st)) = stDB st"
  "stNextID (snd (evaluatePoolThresholds env pool x y rs re st)) = stNextID st"
  by (simp_all add: evaluatePoolThresholds_def Let_def)

lemma pick_complete:
  fixes st :: "'r svc_state" and reserved :: "static_binding list" and now :: gotime
  assumes env: "bare_env env" "envPoolReader env = Some reader" "TenantIDOrErr scope = Inr tenant"
    and pfx: "ParsePrefix (poolCIDR pool) = Some prefix" "Is4 (pfx_addr prefix)" "\<not> Contains prefix (Addr4 (-1))"
  defines "used \<equiv> set (ListActiveIPs (stDB st) (poolID pool)) \<union> reserved_ips None reserved"
    and "cooldown \<equiv> set (ListCooldownIPs (stDB st) (poolID pool) now)"
  shows "if open_ips pool prefix used cooldown = {}
    then \<exists>st'. pickIPAddress now env scope pool [] None reserved st = Some (Inl ErrNoAvailableIP, st')
    else \<exists>ip st'. pickIPAddress now env scope pool [] None reserved st = Some (Inr ip, st') \<and> stDB st' = stDB st \<and>
      stNextID st' = stNextID st \<and> ip \<in> open_ips pool prefix used cooldown"
proof -
  obtain n where n: "pfx_addr prefix = Addr4 n" using pfx(2) by (auto simp: Is4_iff)
  have bits: "pfx_bits prefix \<le> 32" using ParsePrefix_bits [OF pfx(1)] n by simp
  obtain a b where ab: "resolvePoolBounds pool prefix = (Addr4 a, Addr4 b)"
      "Contains prefix (Addr4 a)" "Contains prefix (Addr4 b)"
    using pool_bounds_v4 [OF n bits] by blast
  define ex where "ex = buildIPv4Exclusions pool prefix (Addr4 a) (Addr4 b)"
  obtain st1 where ev: "evaluatePoolThresholds env pool (int (card used)) (int (card cooldown)) (Addr4 a) (Addr4 b) st = (None, st1)"
    using bare_envD(10) [OF env(1)] by (metis prod.collapse)
  have st1: "stDB st1 = stDB st" "stNextID st1 = stNextID st"
    using ev evaluatePoolThresholds_only_levels [of env pool "int (card used)" "int (card cooldown)" "Addr4 a" "Addr4 b" st] by simp_all
  obtain k where k: "nat (conflictAttemptBudget env * 8) = Suc k" using attempt_budget_pos(2) by (metis gr0_conv_Suc)
  have "pickIPAddress now env scope pool [] None reserved st =
    pick_preferring now env pool prefix (Addr4 a) (Addr4 b) ex [] False used cooldown [] [] st"
    using env(2,3) pfx(1) n ab(1) bare_envD(1) [OF env(1)]
    by (simp add: pickIPAddress_def bitmapEnabled_def Let_def used_def cooldown_def ex_def)
  also have "\<dots> = pick_search now env pool prefix (Addr4 a) (Addr4 b) ex [] False used cooldown st"
    by (simp add: pick_preferring_def fixed_blocked_def)
  also have "\<dots> = search_loop (Suc k) now env pool a b used cooldown ex st1"
    using ev n k bare_envD(1) [OF env(1)] by (simp add: pick_search_def search_ipv4_plain del: search_loop.simps)
  finally have pick: "pickIPAddress now env scope pool [] None reserved st =
    search_loop (Suc k) now env pool a b used cooldown ex st1" .
  have bmax: "b \<noteq> -1" using ab(3) pfx(3) by auto
  show ?thesis
  proof (cases "applyReserveWindow a b (poolReservePercent pool)")
    case None
    then have "open_ips pool prefix used cooldown = {}" using ab by (simp add: open_ips_def)
    then show ?thesis using None pick by (simp add: mode.closed)
  next
    case (Some w)
    have w: "w \<noteq> -1" using applyReserveWindow_Some [OF Some] bmax u32_below_max by blast
    have op: "open_ips pool prefix used cooldown = free_ips used cooldown ex a w" using ab Some by (simp add: open_ips_def ex_def)
    show ?thesis
    proof (cases "free_ips used cooldown ex a w = {}")
      case True
      then show ?thesis using mode.exhausted [OF Some w True, of pool "stCursor st1"] pick op by auto
    next
      case False
      then obtain c cur where c: "next_by_mode pool (stCursor st1) a b used cooldown (poolReservePercent pool) ex
          = Some (Some c, cur)" "c \<in> free_ips used cooldown ex a w"
        using mode.found [OF Some w False, of pool "stCursor st1"] by blast
      then have "c \<noteq> []" by (auto simp: free_ips_def uint32ToAddr_def)
      then show ?thesis using c False pick op st1 bare_envD(8) [OF env(1)] by simp
    qed
  qed
qed

lemma bitmapSetByIP_plain: "envRedis env = None \<Longrightarrow> bitmapSetByIP env pool ip av st = st"
  by (simp add: bitmapSetByIP_def bitmapEnabled_def)

lemma create_lease_succeeds:
  assumes env: "bare_env env" and clash: "\<not> (\<exists>r \<in> set (leases_v4 (stDB st)). key_clash r
      (new_lease now (envNewID env (stNextID st)) tenantID pid ip cid profile meta))"
  shows "\<exists>res st'. create_lease now env tenantID cid profile meta pool pid ip st = (Inr (Some res), st') \<and>
    resLease res = new_lease now (envNewID env (stNextID st)) tenantID pid ip cid profile meta \<and> \<not> resReused res \<and>
    leases_v4 (stDB st') = leases_v4 (stDB st) @ [stored_row (resLease res)]"
proof -
  let ?l = "new_lease now (envNewID env (stNextID st)) tenantID pid ip cid profile meta"
  let ?st = "recordBindingSeen now env cid (leaseIPAddress ?l)
    (st\<lparr>stNextID := Suc (stNextID st), stDB := (stDB st)\<lparr>leases_v4 := leases_v4 (stDB st) @ [stored_row ?l]\<rparr>\<rparr>)"
  obtain r st' where f: "finish_allocation now env profile pool False ?l ?st = (r, st')" by force
  have "create_lease now env tenantID cid profile meta pool pid ip st = (r, st')"
    using clash f bare_envD(5,6) [OF env] bitmapSetByIP_plain [OF bare_envD(1) [OF env]]
    by (simp add: create_lease_def persistLeaseCreate_def CreateLease_def Let_def)
  then show ?thesis
    using finish_allocation_plain [OF _ f] bare_envD(2) [OF env] by auto
qed


text \<open>C2: A new client gets a lease whenever an address is free.  With nothing optional
  configured, a client without an active lease, not isolated and without a static binding,
  asks for an address of a known IPv4 pool.  If an address of the pool is unused, not cooling
  down, not excluded and outside the reserve, the call returns an active lease on such an
  address and appends exactly that row to the table; otherwise it returns
  \<^verbatim>\<open>ErrNoAvailableIP\<close>.\<close>

theorem allocation_succeeds:
  fixes st :: "'r svc_state"
  assumes env: "bare_env env" "envPoolReader env = Some reader" and scope: "tenantFromScope scope = Inr tenant" "TenantIDOrErr scope = Inr tenant"
    and client: "checkIsolation now tenant i st = (None, st)" "GetActiveLease (stDB st) i = Inl ErrNotFound"
      "FindBinding reader i [] = Inl ErrPoolNotFound"
    and pool: "pid \<noteq> []" "GetPool reader pid = Inr pool" "ListBindingsByPool reader (poolID pool) = Inr reserved" "poolID pool \<noteq> []"
      "ParsePrefix (poolCIDR pool) = Some prefix" "Is4 (pfx_addr prefix)" "\<not> Contains prefix (Addr4 (-1))"
    and fresh: "\<And>r. r \<in> set (leases_v4 (stDB st)) \<Longrightarrow> \<not> sql_eq (leaseID r) (envNewID env (stNextID st))"
  shows "case AllocateOrReuse now env scope i profile pid [] st of
      Some (Inr res, st') \<Rightarrow> leaseIPAddress (resLease res) \<in> open_ips pool prefix
          (set (ListActiveIPs (stDB st) (poolID pool)) \<union> reserved_ips None reserved)
          (set (ListCooldownIPs (stDB st) (poolID pool) now)) \<and>
        leaseState (resLease res) = leaseStateActive \<and> leaseHardwareAddr (resLease res) = i \<and>
        leases_v4 (stDB st') = leases_v4 (stDB st) @ [stored_row (resLease res)]
    | Some (Inl e, st') \<Rightarrow> e = ErrNoAvailableIP \<and> open_ips pool prefix
          (set (ListActiveIPs (stDB st) (poolID pool)) \<union> reserved_ips None reserved)
          (set (ListCooldownIPs (stDB st) (poolID pool) now)) = {}
    | None \<Rightarrow> False"
proof -
  let ?open = "open_ips pool prefix (set (ListActiveIPs (stDB st) (poolID pool)) \<union> reserved_ips None reserved)
    (set (ListCooldownIPs (stDB st) (poolID pool) now))"
  let ?p = "normalizeProfile (envDefaults env) profile"
  obtain k where k: "nat (conflictAttemptBudget env) = Suc k" using attempt_budget_pos(1) by (metis gr0_conv_Suc)
  have run: "AllocateOrReuse now env scope i profile pid [] st =
    allocate_loop (Suc k) now env scope tenant i ?p empty_metadata [] pid [] st"
    using scope client(1) bare_envD(3) [OF env(1)]
    by (simp add: AllocateOrReuse_def AllocateOrReuseWithMetadata_def k del: allocate_loop.simps)
  have binding: "lookupBinding env i [] = Inr (None, False)"
    using env(2) client(3) by (simp add: lookupBinding_def)
  have new: "allocate_new now env scope tenant i ?p empty_metadata [] pid [] st =
    (case pickIPAddress now env scope pool [] None reserved st of
       None \<Rightarrow> None
     | Some (Inl e, st) \<Rightarrow> Some (Inl e, st)
     | Some (Inr ip, st) \<Rightarrow>
         (case create_lease now env tenant i ?p empty_metadata pool pid ip st of
            (Inl e, st) \<Rightarrow> Some (Inl e, st) | (Inr res, st) \<Rightarrow> Some (Inr (res, [], pid, []), st)))"
    using env(2) scope(2) pool bare_envD [OF env(1)] binding
    by (simp add: allocate_new_def ensurePool_def bindingsForPool_def
        cong: option.case_cong prod.case_cong sum.case_cong if_cong)
  note pick = pick_complete [OF env scope(2) pool(5-7), of st reserved now]
  show ?thesis
  proof (cases "?open = {}")
    case True
    then obtain st' where "pickIPAddress now env scope pool [] None reserved st = Some (Inl ErrNoAvailableIP, st')"
      using pick by auto
    then show ?thesis using run client(2) new True by simp
  next
    case False
    then obtain ip st1 where p: "pickIPAddress now env scope pool [] None reserved st = Some (Inr ip, st1)"
      "stDB st1 = stDB st" "stNextID st1 = stNextID st" "ip \<in> ?open" using pick by auto
    let ?l = "new_lease now (envNewID env (stNextID st1)) tenant pid ip i ?p empty_metadata"
    have l: "leaseID ?l = envNewID env (stNextID st)" "leaseHardwareAddr ?l = i" "leaseState ?l = leaseStateActive"
      "leaseIPAddress ?l = ip" using p(3) by (simp_all add: new_lease_def Let_def)
    have "\<not> key_clash r ?l" if "r \<in> set (leases_v4 (stDB st))" for r
      using fresh [OF that] client(2) that l unfolding GetActiveLease_None
      by (auto simp: key_clash_def leaseStateActive_def)
    then obtain res st' where "create_lease now env tenant i ?p empty_metadata pool pid ip st1 = (Inr (Some res), st')"
      "resLease res = ?l" "leases_v4 (stDB st') = leases_v4 (stDB st1) @ [stored_row (resLease res)]"
      using create_lease_succeeds [OF env(1), where st = st1 and now = now and tenantID = tenant and pid = pid and ip = ip
          and cid = i and profile = ?p and meta = empty_metadata and pool = pool] p(2) by auto
    then show ?thesis using run client(2) new p l by simp
  qed
qed

theorem allocation_succeeds_witness:
  "case AllocateOrReuse 1000 small_env sample_scope ''bb'' empty_profile ''p1'' [] sample_state of
      Some (Inr res, st') \<Rightarrow> leaseState (resLease res) = leaseStateActive \<and> leaseHardwareAddr (resLease res) = ''bb'' \<and>
        leases_v4 (stDB st') = leases_v4 (stDB sample_state) @ [stored_row (resLease res)]
    | Some (Inl e, st') \<Rightarrow> e = ErrNoAvailableIP
    | None \<Rightarrow> False"
proof -
  have facts: "tenantFromScope sample_scope = Inr ''t1''" "TenantIDOrErr sample_scope = Inr ''t1''"
    "GetActiveLease (stDB sample_state) ''bb'' = Inl ErrNotFound"
    "\<not> sql_eq (leaseID sample_lease) (envNewID small_env (stNextID sample_state))"
    "GetPool sample_reader ''p1'' = Inr sample_pool"
    by code_simp+
  have iso: "checkIsolation 1000 ''t1'' ''bb'' sample_state = (None, sample_state)"
    by (simp add: checkIsolation_def sample_state_def initial_state_def Let_def)
  have env: "bare_env small_env" "envPoolReader small_env = Some sample_reader"
    by (simp_all add: bare_env_def small_env_def plain_env_def)
  have rows: "leases_v4 (stDB sample_state) = [sample_lease]" by (simp add: sample_state_def initial_state_def)
  show ?thesis
    using allocation_succeeds [OF env facts(1,2) iso facts(3), where pid = "''p1''" and pool = sample_pool
        and reserved = "[]" and prefix = sample_prefix and profile = empty_profile] facts(4,5) sample_prefix_facts rows
    by (simp add: sample_reader_def sample_pool_id split: option.splits sum.splits prod.splits)
qed

lemma UpdateLease_length: "UpdateLease db l = Inr db' \<Longrightarrow> length (leases_v4 db') = length (leases_v4 db)"
  by (auto simp: UpdateLease_def update_where_id_def Let_def split: if_splits)

lemma reuse_lease_result:
  assumes env: "plain_v4 env" and run: "reuse_lease now env scope identifier profile meta existing st = (Inr r, st')"
  shows "\<exists>res. r = Some res \<and> leaseID (resLease res) = leaseID existing \<and>
    leaseIPAddress (resLease res) = leaseIPAddress existing \<and> resReused res \<and>
    length (leases_v4 (stDB st')) = length (leases_v4 (stDB st))"
  using env run
proof (cases rule: reuse_lease_cases)
  case 2
  then show ?thesis using UpdateLease_length [OF 2(1)] by auto
qed simp



end
