(* ===== verification/Relay.thy ===== *)
theory Relay
  imports Netip
begin

text \<open>
  DHCP relays, \<^verbatim>\<open>internal/relay\<close>: the metadata a relayed packet carries
  (\<^verbatim>\<open>metadata.go\<close>), the decoder of option 82 into named attributes
  (\<^verbatim>\<open>option82_parser.go\<close>), the relay authenticator with its shared secrets and replay
  window (\<^verbatim>\<open>authenticator.go\<close>), the pool selector (\<^verbatim>\<open>selector.go\<close>) and the
  partitioner that spreads relays over the servers (\<^verbatim>\<open>partitioner.go\<close>), with the
  configuration structs they read (\<^verbatim>\<open>internal/config/config.go\<close>).

  Attribute maps are HOL maps; a nil map and an empty map answer every lookup alike.  The
  entries of a configuration map that the code iterates over are a list, in the order of
  the iteration.
\<close>

type_synonym u64 = "64 word"
type_synonym attrs = "string \<rightharpoonup> string"

section \<open>Numbers in text\<close>

text \<open>\<^verbatim>\<open>strconv.Atoi\<close> with 64-bit integers.\<close>

definition Atoi :: "string \<Rightarrow> int option" where
  "Atoi s =
     (let neg = (s \<noteq> [] \<and> hd s = CHR ''-'');
          digits = (if s \<noteq> [] \<and> (hd s = CHR ''-'' \<or> hd s = CHR ''+'') then tl s else s) in
      if \<not> all_digits digits then None
      else let v = (if neg then - int (nat_of_digits digits) else int (nat_of_digits digits)) in
        if - (2 ^ 63) \<le> v \<and> v < 2 ^ 63 then Some v else None)"

definition parseVLAN :: "string \<Rightarrow> int" where
  "parseVLAN raw =
     (if trim_space raw = [] then 0
      else case Atoi (trim_space raw) of
        None \<Rightarrow> 0
      | Some v \<Rightarrow> if v < 0 \<or> v > 4094 then 0 else v)"

section \<open>Relay metadata\<close>

record relay_metadata =
  rmTenantID :: string
  rmRelayID :: string
  rmGIAddr :: string
  rmCircuitID :: string
  rmRemoteID :: string
  rmVLANID :: int
  rmVRF :: string
  rmVPNID :: string
  rmMPLSVPN :: string
  rmRegion :: string
  rmDataCenter :: string
  rmUserGroups :: "string list"
  rmAttributes :: attrs

fun firstAttr :: "attrs \<Rightarrow> string list \<Rightarrow> string" where
  "firstAttr m [] = []"
| "firstAttr m (key # keys) =
     (case m key of
        None \<Rightarrow> firstAttr m keys
      | Some v \<Rightarrow> if trim_space v \<noteq> [] then trim_space v else firstAttr m keys)"

definition Attribute :: "relay_metadata \<Rightarrow> string list \<Rightarrow> string" where
  "Attribute meta keys = firstAttr (rmAttributes meta) keys"

text \<open>A nil address is \<open>None\<close>.\<close>

definition ipToString :: "bytes option \<Rightarrow> string" where
  "ipToString ip =
     (case ip of
        None \<Rightarrow> []
      | Some bs \<Rightarrow> (case To4 bs of Some v4 \<Rightarrow> ip_string v4 | None \<Rightarrow> ip_string bs))"

definition BuildMetadata ::
  "string \<Rightarrow> bytes option \<Rightarrow> attrs \<Rightarrow> int \<Rightarrow> string list \<Rightarrow> relay_metadata" where
  "BuildMetadata tenantID giaddr m fallbackVLAN userGroups =
     (let gi = ipToString giaddr;
          circuit = firstAttr m [''circuit-id'', ''agent.circuit-id'', ''port-id'', ''interface-id''];
          remote = firstAttr m [''remote-id'', ''agent.remote-id''];
          vlan = parseVLAN (firstAttr m [''vlan-id'', ''agent.vlan-id'']);
          vpn = firstAttr m [''vpn-id'', ''mpls.vpn-id''];
          vpn = (if vpn = [] then firstAttr m [''subscriber-id''] else vpn) in
      \<lparr>rmTenantID = tenantID,
       rmRelayID = (if remote \<noteq> [] then remote else if circuit \<noteq> [] then circuit else gi),
       rmGIAddr = gi, rmCircuitID = circuit, rmRemoteID = remote,
       rmVLANID = (if vlan \<le> 0 then fallbackVLAN else vlan),
       rmVRF = firstAttr m [''vrf'', ''route-domain'', ''vss-id''],
       rmVPNID = vpn, rmMPLSVPN = vpn,
       rmRegion = firstAttr m [''region'', ''site'', ''location''],
       rmDataCenter = firstAttr m [''datacenter'', ''data-center'', ''dc''],
       rmUserGroups = userGroups, rmAttributes = m\<rparr>)"

section \<open>The option 82 decoder\<close>

record sub_option_mapping =
  mapKey :: string
  mapFormat :: string
  mapAliases :: "string list"

record option82_parser =
  preserveRaw :: bool
  mappings :: "byte \<rightharpoonup> sub_option_mapping"

definition sub_mapping :: "string \<Rightarrow> string \<Rightarrow> string list \<Rightarrow> sub_option_mapping" where
  "sub_mapping k f as = \<lparr>mapKey = k, mapFormat = f, mapAliases = as\<rparr>"

definition defaultSubOptionMappings :: "byte \<rightharpoonup> sub_option_mapping" where
  "defaultSubOptionMappings =
     [1 \<mapsto> sub_mapping ''circuit-id'' ''string'' [''agent.circuit-id'', ''port-id''],
      2 \<mapsto> sub_mapping ''remote-id'' ''string'' [''agent.remote-id'', ''location''],
      5 \<mapsto> sub_mapping ''link-selection'' ''ipv4'' [''giaddr.link''],
      6 \<mapsto> sub_mapping ''subscriber-id'' ''string'' [''user-id'', ''subscriber''],
      9 \<mapsto> sub_mapping ''vendor.raw'' ''hex'' [],
      151 \<mapsto> sub_mapping ''vpn-id'' ''vss'' [''mpls.vpn-id''],
      152 \<mapsto> sub_mapping ''vss-bootstrap'' ''string'' []]"

definition normalizeAliases :: "string list \<Rightarrow> string list" where
  "normalizeAliases src = filter (\<lambda>a. a \<noteq> []) (map trim_space src)"

text \<open>\<^verbatim>\<open>spec\<close>: a sub-option code in text with its key, format and aliases.\<close>

definition add_mapping ::
  "(byte \<rightharpoonup> sub_option_mapping) \<Rightarrow> string \<times> sub_option_mapping \<Rightarrow> (byte \<rightharpoonup> sub_option_mapping)" where
  "add_mapping ms e =
     (case Atoi (trim_space (fst e)) of
        None \<Rightarrow> ms
      | Some code \<Rightarrow>
          if code < 0 \<or> code > 255 then ms
          else ms(of_int code \<mapsto> sub_mapping (trim_space (mapKey (snd e))) (to_lower (trim_space (mapFormat (snd e))))
                    (normalizeAliases (mapAliases (snd e)))))"

definition NewOption82Parser :: "bool \<Rightarrow> (string \<times> sub_option_mapping) list \<Rightarrow> option82_parser" where
  "NewOption82Parser preserve specs =
     \<lparr>preserveRaw = preserve, mappings = foldl add_mapping defaultSubOptionMappings specs\<rparr>"

definition NewDefaultOption82Parser :: option82_parser where
  "NewDefaultOption82Parser = NewOption82Parser False []"

definition sanitizeASCII :: "bytes \<Rightarrow> string" where
  "sanitizeASCII data = string_of_bytes (filter (\<lambda>c. 32 \<le> c \<and> c \<le> 126) data)"

definition hex_string :: "bytes \<Rightarrow> string" where
  "hex_string bs = concat (map hex_byte bs)"

definition decodeVSS :: "bytes \<Rightarrow> string" where
  "decodeVSS raw =
     (case raw of
        [] \<Rightarrow> []
      | vssType # payload \<Rightarrow>
          if vssType = 1 then sanitizeASCII payload
          else if vssType = 2
          then (if length payload \<ge> 4 then dec (unat (get32 payload)) else hex_string payload)
          else hex_string payload)"

text \<open>Numbers are read into 64 bits: longer values keep their last eight bytes.\<close>

definition be_u64 :: "bytes \<Rightarrow> u64" where
  "be_u64 bs = foldl (\<lambda>v b. push_bit 8 v OR ucast b) 0 bs"

definition decodeValue :: "bytes \<Rightarrow> string \<Rightarrow> string" where
  "decodeValue raw fmt =
     (if fmt \<in> {[], ''ascii'', ''string''} then sanitizeASCII raw
      else if fmt = ''hex'' then hex_string raw
      else if fmt = ''ipv4'' then (if length raw \<ge> 4 then ip_string (take 4 raw) else hex_string raw)
      else if fmt \<in> {''int'', ''uint'', ''number''} then (if raw = [] then [] else dec (unat (be_u64 raw)))
      else if fmt \<in> {''vss'', ''vpn''} then decodeVSS raw
      else sanitizeASCII raw)"

definition put_absent :: "string \<Rightarrow> string \<Rightarrow> attrs \<Rightarrow> attrs" where
  "put_absent k v m = (if m k = None then m(k \<mapsto> v) else m)"

fun put_aliases :: "string list \<Rightarrow> string \<Rightarrow> attrs \<Rightarrow> attrs" where
  "put_aliases [] v m = m"
| "put_aliases (a # as) v m = put_aliases as v (if a = [] then m else put_absent a v m)"

definition applyMapping :: "option82_parser \<Rightarrow> attrs \<Rightarrow> byte \<Rightarrow> bytes \<Rightarrow> attrs" where
  "applyMapping p dest code raw =
     (if raw = [] then dest
      else case mappings p code of
        None \<Rightarrow> put_absent (''subopt_'' @ dec (unat code)) (hex_string raw) dest
      | Some mp \<Rightarrow>
          if trim_space (mapKey mp) = [] then put_absent (''subopt_'' @ dec (unat code)) (hex_string raw) dest
          else let val = decodeValue raw (mapFormat mp) in
            if val = [] then dest else put_aliases (mapAliases mp) val (dest(mapKey mp \<mapsto> val)))"

text \<open>The loop stops at a lone last byte without an error, and keeps what it has read when a
  sub-option is cut short.\<close>

function decode_loop :: "option82_parser \<Rightarrow> bytes \<Rightarrow> attrs \<Rightarrow> attrs \<times> string option" where
  "decode_loop p data m =
     (case data of
        code # len # rest \<Rightarrow>
          if unat len > length rest then (m, Some (''option82: truncated sub-option '' @ dec (unat code)))
          else decode_loop p (drop (unat len) rest) (applyMapping p m code (take (unat len) rest))
      | _ \<Rightarrow> (m, None))"
  by pat_completeness auto
termination
  by (relation "measure (\<lambda>(p, data, m). length data)") auto

declare decode_loop.simps [simp del]

definition Decode :: "option82_parser \<Rightarrow> bytes \<Rightarrow> attrs \<times> string option" where
  "Decode p data =
     (if data = [] then (Map.empty, None)
      else let (m, err) = decode_loop p data Map.empty in
        (if preserveRaw p then m(''option82.raw'' \<mapsto> hex_string data) else m, err))"

section \<open>VLAN ranges\<close>

text \<open>A token of a VLAN list: one number, or two numbers joined by a dash.\<close>

fun cut_at_dash :: "string \<Rightarrow> (string \<times> string) option" where
  "cut_at_dash [] = None"
| "cut_at_dash (c # s) =
     (if c = CHR ''-'' then Some ([], s)
      else case cut_at_dash s of None \<Rightarrow> None | Some (a, b) \<Rightarrow> Some (c # a, b))"

definition vlan_token :: "string \<Rightarrow> (int \<times> int) option" where
  "vlan_token token =
     (let token = trim_space token in
      if token = [] then None
      else case cut_at_dash token of
        Some (a, b) \<Rightarrow>
          (case (Atoi (trim_space a), Atoi (trim_space b)) of
             (Some start, Some end) \<Rightarrow> if end < start then None else Some (start, end)
           | _ \<Rightarrow> None)
      | None \<Rightarrow> (case Atoi token of Some v \<Rightarrow> Some (v, v) | None \<Rightarrow> None))"

definition parseVLANRanges :: "string list \<Rightarrow> (int \<times> int) list" where
  "parseVLANRanges raw = List.map_filter vlan_token raw"

definition inVLANRanges :: "int \<Rightarrow> (int \<times> int) list \<Rightarrow> bool" where
  "inVLANRanges vlan ranges \<longleftrightarrow> vlan > 0 \<and> list_ex (\<lambda>(a, b). a \<le> vlan \<and> vlan \<le> b) ranges"

section \<open>The authenticator\<close>

record relay_agent =
  raRelayID :: string
  raGIAddr :: string
  raRemoteID :: string
  raCircuitID :: string
  raVLANRanges :: "string list option"
  raVPNID :: string
  raRegion :: string

record relay_auth_config =
  authRequired :: bool
  authReplayWindow :: duration
  authAllowedAgents :: "relay_agent list"
  authSharedSecrets :: "(string \<times> string) list"

datatype relay_error = ErrRelayNotAllowed | ErrRelaySecretMismatch

record authenticator =
  authCfg :: relay_auth_config
  authAgents :: "(relay_agent \<times> (int \<times> int) list) list"

type_synonym seen_psk = "string \<rightharpoonup> gotime"

definition NewAuthenticator :: "relay_auth_config \<Rightarrow> authenticator option" where
  "NewAuthenticator cfg =
     (if \<not> authRequired cfg \<and> authAllowedAgents cfg = [] \<and> authSharedSecrets cfg = [] then None
      else Some \<lparr>authCfg = cfg,
        authAgents = map (\<lambda>a. (a, case raVLANRanges a of None \<Rightarrow> [] | Some r \<Rightarrow> parseVLANRanges r))
          (authAllowedAgents cfg)\<rparr>)"

definition mismatch :: "string \<Rightarrow> string \<Rightarrow> bool" where
  "mismatch want have \<longleftrightarrow> trim_space want \<noteq> [] \<and> \<not> equal_fold want have"

definition agent_matches :: "relay_agent \<times> (int \<times> int) list \<Rightarrow> relay_metadata \<Rightarrow> bool" where
  "agent_matches ar meta =
     (let a = fst ar in
      if mismatch (raRelayID a) (rmRelayID meta) then False
      else if mismatch (raGIAddr a) (rmGIAddr meta) then False
      else if mismatch (raRemoteID a) (rmRemoteID meta) then False
      else if mismatch (raCircuitID a) (rmCircuitID meta) then False
      else if raVLANRanges a \<noteq> None \<and> rmVLANID meta > 0 \<and> \<not> inVLANRanges (rmVLANID meta) (snd ar) then False
      else if mismatch (raVPNID a) (rmVPNID meta) then False
      else if mismatch (raRegion a) (rmRegion meta) then False
      else True)"

definition trunc_second :: "gotime \<Rightarrow> gotime" where
  "trunc_second t = t - t mod second"

definition verifySecret ::
  "gotime \<Rightarrow> authenticator \<Rightarrow> relay_metadata \<Rightarrow> seen_psk \<Rightarrow> relay_error option \<times> seen_psk" where
  "verifySecret now a meta seen =
     (let secrets = map_of (authSharedSecrets (authCfg a));
          secret = (case secrets (rmRelayID meta) of Some s \<Rightarrow> s | None \<Rightarrow> []) in
      if trim_space secret = [] then (None, seen)
      else
        let token = Attribute meta [''auth-token'', ''auth'', ''signature''] in
        if token = [] \<or> token \<noteq> secret then (Some ErrRelaySecretMismatch, seen)
        else if authReplayWindow (authCfg a) > 0 then
          (let now = trunc_second now; key = rmRelayID meta @ token in
           case seen key of
             Some ts \<Rightarrow>
               if now - ts < authReplayWindow (authCfg a) then (Some ErrRelaySecretMismatch, seen)
               else (None, seen(key \<mapsto> now))
           | None \<Rightarrow> (None, seen(key \<mapsto> now)))
        else (None, seen))"

definition Authorize ::
  "gotime \<Rightarrow> authenticator option \<Rightarrow> relay_metadata \<Rightarrow> seen_psk \<Rightarrow> relay_error option \<times> seen_psk" where
  "Authorize now auth meta seen =
     (case auth of
        None \<Rightarrow> (None, seen)
      | Some a \<Rightarrow>
          (case verifySecret now a meta seen of
             (Some e, seen) \<Rightarrow> (Some e, seen)
           | (None, seen) \<Rightarrow>
               if authAgents a = [] then (if authRequired (authCfg a) then Some ErrRelayNotAllowed else None, seen)
               else (if list_ex (\<lambda>ar. agent_matches ar meta) (authAgents a) then None else Some ErrRelayNotAllowed, seen)))"

section \<open>The pool selector\<close>

record relay_giaddr_rule =
  grTenantID :: string
  grGIAddr :: string
  grPoolID :: string

record relay_match_criteria =
  rcTenantID :: string
  rcRelayID :: string
  rcGIAddr :: string
  rcCircuitID :: string
  rcRemoteID :: string
  rcVLANID :: int
  rcVRF :: string
  rcVPNID :: string
  rcRegion :: string
  rcDataCenter :: string
  rcMPLSVPN :: string
  rcUserGroup :: string

record relay_proxy_config =
  rpEnabled :: bool
  rpDefaultPool :: string
  rpGiaddrRules :: "relay_giaddr_rule list"
  rpRules :: "(string \<times> relay_match_criteria) list"
  rpRegionFallbacks :: "(string \<times> string list) list"
  rpVRFRules :: "(string \<times> string) list"
  rpMPLSVPNRules :: "(string \<times> string) list"
  rpMultiVLANPools :: "(string \<times> string list) list"

record selector =
  selCfg :: relay_proxy_config
  selVlanPools :: "int \<Rightarrow> string"
  selRegionFallbacks :: "string \<rightharpoonup> string list"

text \<open>A missing map entry reads as the empty string; later entries overwrite earlier ones.\<close>

fun put_vlans :: "string \<Rightarrow> string list \<Rightarrow> (int \<Rightarrow> string) \<Rightarrow> int \<Rightarrow> string" where
  "put_vlans pool [] m = m"
| "put_vlans pool (t # ts) m =
     put_vlans pool ts (case vlan_token t of
        None \<Rightarrow> m
      | Some (a, b) \<Rightarrow> (\<lambda>v. if a \<le> v \<and> v \<le> b then pool else m v))"

definition buildVLANPool :: "(string \<times> string list) list \<Rightarrow> int \<Rightarrow> string" where
  "buildVLANPool entries = foldl (\<lambda>m (pool, vlans). put_vlans pool vlans m) (\<lambda>_. []) entries"

definition normalizeRegionFallbacks :: "(string \<times> string list) list \<Rightarrow> string \<rightharpoonup> string list" where
  "normalizeRegionFallbacks src =
     foldl (\<lambda>m (key, pools). let key = trim_space key in if key = [] then m else m(to_lower key \<mapsto> pools)) Map.empty src"

definition NewSelector :: "relay_proxy_config \<Rightarrow> selector" where
  "NewSelector cfg =
     \<lparr>selCfg = cfg, selVlanPools = buildVLANPool (rpMultiVLANPools cfg),
      selRegionFallbacks = normalizeRegionFallbacks (rpRegionFallbacks cfg)\<rparr>"

fun giaddr_rules :: "relay_metadata \<Rightarrow> relay_giaddr_rule list \<Rightarrow> string" where
  "giaddr_rules meta [] = []"
| "giaddr_rules meta (r # rs) =
     (if trim_space (grGIAddr r) = [] \<or> trim_space (grPoolID r) = [] then giaddr_rules meta rs
      else if \<not> equal_fold (grGIAddr r) (rmGIAddr meta) then giaddr_rules meta rs
      else if mismatch (grTenantID r) (rmTenantID meta) then giaddr_rules meta rs
      else grPoolID r)"

definition matchGiaddr :: "selector \<Rightarrow> relay_metadata \<Rightarrow> string" where
  "matchGiaddr s meta = (if rmGIAddr meta = [] then [] else giaddr_rules meta (rpGiaddrRules (selCfg s)))"

text \<open>The first rule \<open>(id, pool)\<close> with a pool whose id equals the given one.\<close>

fun id_rules :: "string \<Rightarrow> (string \<times> string) list \<Rightarrow> string" where
  "id_rules i [] = []"
| "id_rules i ((k, pool) # rs) =
     (if trim_space pool = [] then id_rules i rs else if equal_fold k i then pool else id_rules i rs)"

fun firstNonEmpty :: "string list \<Rightarrow> string" where
  "firstNonEmpty [] = []"
| "firstNonEmpty (v # vs) = (if trim_space v \<noteq> [] then v else firstNonEmpty vs)"

definition matchCrossDomain :: "selector \<Rightarrow> relay_metadata \<Rightarrow> string" where
  "matchCrossDomain s meta =
     (let vrf = (if rmVRF meta \<noteq> [] then id_rules (rmVRF meta) (rpVRFRules (selCfg s)) else []);
          vpnID = firstNonEmpty [rmVPNID meta, rmMPLSVPN meta];
          vpn = (if vpnID \<noteq> [] then id_rules vpnID (rpMPLSVPNRules (selCfg s)) else []) in
      if vrf \<noteq> [] then vrf
      else if vpn \<noteq> [] then vpn
      else if rmVLANID meta > 0 then selVlanPools s (rmVLANID meta)
      else [])"

definition containsIgnoreCase :: "string list \<Rightarrow> string \<Rightarrow> bool" where
  "containsIgnoreCase values want \<longleftrightarrow> trim_space want \<noteq> [] \<and> list_ex (\<lambda>v. equal_fold v want) values"

definition matchesCriteria :: "relay_metadata \<Rightarrow> relay_match_criteria \<Rightarrow> bool" where
  "matchesCriteria meta c =
     (if mismatch (rcTenantID c) (rmTenantID meta) then False
      else if mismatch (rcRelayID c) (rmRelayID meta) then False
      else if mismatch (rcGIAddr c) (rmGIAddr meta) then False
      else if mismatch (rcCircuitID c) (rmCircuitID meta) then False
      else if mismatch (rcRemoteID c) (rmRemoteID meta) then False
      else if rcVLANID c > 0 \<and> rmVLANID meta \<noteq> rcVLANID c then False
      else if mismatch (rcVRF c) (rmVRF meta) then False
      else if trim_space (rcVPNID c) \<noteq> [] \<and> \<not> equal_fold (rcVPNID c) (rmVPNID meta) \<and>
              \<not> equal_fold (rcVPNID c) (rmMPLSVPN meta) then False
      else if mismatch (rcRegion c) (rmRegion meta) then False
      else if mismatch (rcDataCenter c) (rmDataCenter meta) then False
      else if mismatch (rcMPLSVPN c) (rmMPLSVPN meta) then False
      else if trim_space (rcUserGroup c) \<noteq> [] \<and> \<not> containsIgnoreCase (rmUserGroups meta) (rcUserGroup c) then False
      else True)"

fun matchRules :: "relay_metadata \<Rightarrow> (string \<times> relay_match_criteria) list \<Rightarrow> string" where
  "matchRules meta [] = []"
| "matchRules meta ((pool, c) # rs) =
     (if trim_space pool = [] then matchRules meta rs
      else if matchesCriteria meta c then pool else matchRules meta rs)"

definition lookupRegion :: "selector \<Rightarrow> string \<Rightarrow> string" where
  "lookupRegion s key =
     (if trim_space key = [] then []
      else case selRegionFallbacks s (to_lower (trim_space key)) of
        Some (pool # _) \<Rightarrow> pool
      | _ \<Rightarrow> [])"

definition regionFallback :: "selector \<Rightarrow> relay_metadata \<Rightarrow> string" where
  "regionFallback s meta =
     (let p = lookupRegion s (rmRegion meta) in if p \<noteq> [] then p else lookupRegion s (rmDataCenter meta))"

definition Resolve :: "selector \<Rightarrow> relay_metadata \<Rightarrow> string option" where
  "Resolve s meta =
     (if \<not> rpEnabled (selCfg s) then None
      else let p = matchGiaddr s meta in if p \<noteq> [] then Some p
      else let p = matchCrossDomain s meta in if p \<noteq> [] then Some p
      else let p = matchRules meta (rpRules (selCfg s)) in if p \<noteq> [] then Some p
      else let p = regionFallback s meta in if p \<noteq> [] then Some p
      else if rpDefaultPool (selCfg s) \<noteq> [] then Some (rpDefaultPool (selCfg s))
      else None)"

section \<open>The partitioner\<close>

record relay_server =
  rsID :: string
  rsWeight :: int

record partitioner =
  partNodeID :: string
  partRing :: "string list"
  partHashKeys :: "string list"

definition buildServerRing :: "relay_server list \<Rightarrow> string list" where
  "buildServerRing servers =
     concat (map (\<lambda>s. replicate (nat (if rsWeight s \<le> 0 then 1 else rsWeight s)) (trim_space (rsID s))) servers)"

definition NewPartitioner :: "relay_server list \<Rightarrow> string list \<Rightarrow> string \<Rightarrow> partitioner option" where
  "NewPartitioner servers hashKeys nodeID =
     (if servers = [] \<or> trim_space nodeID = [] then None
      else let ring = buildServerRing servers in
        if ring = [] then None
        else Some \<lparr>partNodeID = nodeID, partRing = ring,
               partHashKeys = (if hashKeys = [] then [''relayId'', ''giaddr''] else hashKeys)\<rparr>)"

fun hash_parts :: "relay_metadata \<Rightarrow> string list \<Rightarrow> string list" where
  "hash_parts meta [] = []"
| "hash_parts meta (k # ks) =
     (let key = to_lower (trim_space k); rest = hash_parts meta ks in
      if key = ''relayid'' then rmRelayID meta # rest
      else if key = ''giaddr'' then rmGIAddr meta # rest
      else if key = ''circuitid'' then rmCircuitID meta # rest
      else if key = ''remoteid'' then rmRemoteID meta # rest
      else rest)"

definition hashInput :: "partitioner \<Rightarrow> relay_metadata \<Rightarrow> string" where
  "hashInput p meta =
     (let parts = hash_parts meta (partHashKeys p) in
      if parts = [] then rmRelayID meta else join_with ''|'' parts)"

text \<open>FNV-1a, 64 bits.\<close>

definition fnvHash :: "string \<Rightarrow> u64" where
  "fnvHash data = foldl (\<lambda>h b. (h XOR ucast b) * 1099511628211) 14695981039346656037 (bytes_of_string data)"

definition ShouldHandle :: "partitioner option \<Rightarrow> relay_metadata \<Rightarrow> bool" where
  "ShouldHandle part meta =
     (case part of
        None \<Rightarrow> True
      | Some p \<Rightarrow>
          if partRing p = [] then True
          else let key = hashInput p meta in
            if key = [] then True
            else partRing p ! (unat (fnvHash key) mod length (partRing p)) = partNodeID p)"

section \<open>Framing of option 82\<close>

definition encode_sub :: "byte \<times> bytes \<Rightarrow> bytes" where
  "encode_sub s = fst s # of_nat (length (snd s)) # snd s"

definition encode_subs :: "(byte \<times> bytes) list \<Rightarrow> bytes" where
  "encode_subs subs = concat (map encode_sub subs)"

definition apply_subs :: "option82_parser \<Rightarrow> (byte \<times> bytes) list \<Rightarrow> attrs \<Rightarrow> attrs" where
  "apply_subs p subs m = foldl (\<lambda>m s. applyMapping p m (fst s) (snd s)) m subs"

lemma decode_loop_subs:
  assumes "list_all (\<lambda>s. length (snd s) \<le> 255) subs"
  shows "decode_loop p (encode_subs subs @ rest) m = decode_loop p rest (apply_subs p subs m)"
  using assms
proof (induction subs arbitrary: m)
  case (Cons s subs)
  obtain c v where s: "s = (c, v)" by (cases s)
  have len: "unat (of_nat (length v) :: byte) = length v" using Cons.prems s by (simp add: unat_of_nat)
  have "encode_subs (s # subs) @ rest = c # of_nat (length v) # v @ (encode_subs subs @ rest)"
    by (simp add: encode_subs_def encode_sub_def s)
  then have "decode_loop p (encode_subs (s # subs) @ rest) m =
      decode_loop p (encode_subs subs @ rest) (applyMapping p m c v)"
    by (simp add: decode_loop.simps [of p "_ # _"] len)
  then show ?case using Cons.IH [of "applyMapping p m c v"] Cons.prems s by (simp add: apply_subs_def)
qed (simp add: encode_subs_def apply_subs_def)

section \<open>Properties\<close>

text \<open>Decoding option 82 recovers the sub-options.  For any sub-options of at most 255
  bytes, followed by nothing, by a single stray byte, or by a sub-option whose length points
  past the end, \<^verbatim>\<open>Decode\<close> applies the configured mapping to each complete sub-option in
  order; only the cut-off sub-option is reported as an error, and what was read before it is
  kept.\<close>

theorem decode_framing:
  assumes "list_all (\<lambda>s. length (snd s) \<le> 255) subs" and "subs \<noteq> []" and "\<not> preserveRaw p"
  shows "Decode p (encode_subs subs) = (apply_subs p subs Map.empty, None) \<and>
    Decode p (encode_subs subs @ [b]) = (apply_subs p subs Map.empty, None) \<and>
    (length tl0 < unat n \<longrightarrow>
       Decode p (encode_subs subs @ b # n # tl0) =
         (apply_subs p subs Map.empty, Some (''option82: truncated sub-option '' @ dec (unat b))))"
proof -
  have ne: "encode_subs subs \<noteq> []" using assms(2) by (cases subs) (simp_all add: encode_subs_def encode_sub_def)
  note d = decode_loop_subs [OF assms(1), of p _ Map.empty]
  show ?thesis
    using ne assms(3) d [of "[]"] d [of "[b]"] d [of "b # n # tl0"]
    by (simp add: Decode_def decode_loop.simps [of p "[]"] decode_loop.simps [of p "[_]"]
        decode_loop.simps [of p "_ # _ # _"])
qed

theorem decode_framing_witness:
  "Decode NewDefaultOption82Parser [1, 2, 112, 49, 2, 9, 65] = (apply_subs NewDefaultOption82Parser [(1, [112, 49])] Map.empty,
     Some ''option82: truncated sub-option 2'') \<and>
   apply_subs NewDefaultOption82Parser [(1, [112, 49])] Map.empty ''port-id'' = Some ''p1''"
proof -
  have e: "encode_subs [(1, [112, 49])] = [1, 2, 112, 49 :: byte]" by (simp add: encode_subs_def encode_sub_def)
  have "\<not> preserveRaw NewDefaultOption82Parser"
    by (simp add: NewDefaultOption82Parser_def NewOption82Parser_def)
  moreover have "''option82: truncated sub-option '' @ dec (unat (2 :: byte)) = ''option82: truncated sub-option 2''"
    by code_simp
  moreover have "apply_subs NewDefaultOption82Parser [(1, [112, 49])] Map.empty ''port-id'' = Some ''p1''" by code_simp
  ultimately show ?thesis
    using decode_framing [of "[(1, [112, 49])]" NewDefaultOption82Parser 2 "[65]" 9] by (simp add: e)
qed

section \<open>The partition\<close>

lemma ring_ids: "set (buildServerRing servers) = (\<lambda>s. trim_space (rsID s)) ` set servers"
proof -
  have "0 < nat (if rsWeight s \<le> 0 then 1 else rsWeight s)" for s :: "'a relay_server_scheme" by simp
  then show ?thesis by (auto simp: buildServerRing_def)
qed

definition partition_key :: "string list \<Rightarrow> relay_metadata \<Rightarrow> string" where
  "partition_key hashKeys meta =
     hashInput \<lparr>partNodeID = [], partRing = [], partHashKeys = (if hashKeys = [] then [''relayId'', ''giaddr''] else hashKeys)\<rparr> meta"

definition partition_owner :: "relay_server list \<Rightarrow> string list \<Rightarrow> relay_metadata \<Rightarrow> string" where
  "partition_owner servers hashKeys meta =
     (let ring = buildServerRing servers in ring ! (unat (fnvHash (partition_key hashKeys meta)) mod length ring))"

lemma ShouldHandle_owner:
  assumes "servers \<noteq> []" and "partition_key hashKeys meta \<noteq> []" and "trim_space node \<noteq> []"
  shows "ShouldHandle (NewPartitioner servers hashKeys node) meta \<longleftrightarrow> node = partition_owner servers hashKeys meta"
proof -
  have "buildServerRing servers \<noteq> []" using ring_ids [of servers] assms(1) by auto
  then show ?thesis
    using assms by (auto simp: NewPartitioner_def ShouldHandle_def partition_owner_def partition_key_def hashInput_def Let_def)
qed

lemma partition_owner_in_ring:
  assumes "servers \<noteq> []"
  shows "partition_owner servers hashKeys meta \<in> (\<lambda>s. trim_space (rsID s)) ` set servers"
proof -
  have "buildServerRing servers \<noteq> []" using ring_ids [of servers] assms by auto
  then have "partition_owner servers hashKeys meta \<in> set (buildServerRing servers)"
    by (simp add: partition_owner_def Let_def)
  then show ?thesis using ring_ids by blast
qed

text \<open>C18: Every relayed packet has exactly one owner.  Servers that share the server list and
  the hash keys, each with a non-blank id written as in the list without surrounding blanks,
  agree on who handles a packet: for a packet with a non-empty hash key exactly one of the
  listed ids accepts it.\<close>

theorem partition_exactly_one:
  assumes "servers \<noteq> []" and "list_all (\<lambda>s. trim_space (rsID s) \<noteq> []) servers" and "partition_key hashKeys meta \<noteq> []"
  shows "\<exists>!node. node \<in> (\<lambda>s. trim_space (rsID s)) ` set servers \<and> ShouldHandle (NewPartitioner servers hashKeys node) meta"
proof -
  have "ShouldHandle (NewPartitioner servers hashKeys node) meta \<longleftrightarrow> node = partition_owner servers hashKeys meta"
    if "node \<in> (\<lambda>s. trim_space (rsID s)) ` set servers" for node
  proof -
    from that obtain s where "s \<in> set servers" "node = trim_space (rsID s)" by blast
    then have "trim_space node \<noteq> []" using assms(2) trim_space_idem by (simp add: list_all_iff)
    then show ?thesis by (rule ShouldHandle_owner [OF assms(1,3)])
  qed
  then show ?thesis using partition_owner_in_ring [OF assms(1)]
    by (intro ex1I [of _ "partition_owner servers hashKeys meta"]) (metis, metis)
qed

definition sample_meta :: relay_metadata where
  "sample_meta = BuildMetadata ''t1'' (Some [10, 0, 0, 1]) [''remote-id'' \<mapsto> ''sw1''] 0 []"

definition sample_servers :: "relay_server list" where
  "sample_servers = [\<lparr>rsID = '' a'', rsWeight = 2\<rparr>, \<lparr>rsID = ''b'', rsWeight = 0\<rparr>]"

theorem partition_exactly_one_witness:
  "\<exists>!node. node \<in> {''a'', ''b''} \<and> ShouldHandle (NewPartitioner sample_servers [] node) sample_meta"
proof -
  have "list_all (\<lambda>s. trim_space (rsID s) \<noteq> []) sample_servers" "partition_key [] sample_meta \<noteq> []" by code_simp+
  moreover have "(\<lambda>s. trim_space (rsID s)) ` set sample_servers = {''a'', ''b''}"
    by (simp add: sample_servers_def trim_space_def trim_left_def trim_right_def is_space_def)
  ultimately show ?thesis
    using partition_exactly_one [of sample_servers "[]" sample_meta] by (simp add: sample_servers_def del: insert_iff)
qed

section \<open>Authentication\<close>

text \<open>C19: A shared secret works once per replay window.  When a relay with a shared secret has
  been authorised and a replay window is configured, every further packet of that relay with
  the same token within the window is refused, whatever else it contains: the REQUEST that
  answers the OFFER is refused like a replay.\<close>

theorem replay_window_blocks_followup:
  assumes "Authorize now (Some a) meta seen = (None, seen')"
    and "map_of (authSharedSecrets (authCfg a)) (rmRelayID meta) = Some secret" and "trim_space secret \<noteq> []"
    and "rmRelayID meta' = rmRelayID meta"
    and "trunc_second now' - trunc_second now < authReplayWindow (authCfg a)"
    and "trunc_second now \<le> trunc_second now'"
  shows "fst (Authorize now' (Some a) meta' seen') = Some ErrRelaySecretMismatch"
proof -
  let ?tok = "\<lambda>m. Attribute m [''auth-token'', ''auth'', ''signature'']"
  have ok: "verifySecret now a meta seen = (None, seen')"
    using assms(1) by (auto simp: Authorize_def split: option.splits prod.splits if_splits)
  then have tok: "?tok meta = secret" and store: "seen' (rmRelayID meta @ secret) = Some (trunc_second now)"
    using assms(2,3,5,6)
    by (auto simp: verifySecret_def Let_def split: if_splits option.splits)
  have "fst (verifySecret now' a meta' seen') = Some ErrRelaySecretMismatch"
    using assms store by (simp add: verifySecret_def Let_def)
  then show ?thesis by (cases "verifySecret now' a meta' seen'") (simp add: Authorize_def)
qed

definition sample_auth :: authenticator where
  "sample_auth = \<lparr>authCfg = \<lparr>authRequired = False, authReplayWindow = minute, authAllowedAgents = [],
     authSharedSecrets = [(''sw1'', ''key'')]\<rparr>, authAgents = []\<rparr>"

definition signed_meta :: relay_metadata where
  "signed_meta = BuildMetadata ''t1'' None [''remote-id'' \<mapsto> ''sw1'', ''auth'' \<mapsto> ''key''] 0 []"

theorem replay_window_blocks_followup_witness:
  "fst (Authorize (2 * second) (Some sample_auth) signed_meta
     (snd (Authorize second (Some sample_auth) signed_meta Map.empty))) = Some ErrRelaySecretMismatch"
proof (rule replay_window_blocks_followup [where now = second and meta = signed_meta and seen = Map.empty and secret = "''key''"])
  have "fst (Authorize second (Some sample_auth) signed_meta Map.empty) = None" by code_simp
  then show "Authorize second (Some sample_auth) signed_meta Map.empty =
    (None, snd (Authorize second (Some sample_auth) signed_meta Map.empty))" by (metis prod.collapse)
  show "map_of (authSharedSecrets (authCfg sample_auth)) (rmRelayID signed_meta) = Some ''key''" by code_simp
qed (code_simp+)

section \<open>The selector\<close>

definition configured_pools :: "relay_proxy_config \<Rightarrow> string set" where
  "configured_pools cfg =
     grPoolID ` set (rpGiaddrRules cfg) \<union> snd ` set (rpVRFRules cfg) \<union> snd ` set (rpMPLSVPNRules cfg) \<union>
     fst ` set (rpMultiVLANPools cfg) \<union> fst ` set (rpRules cfg) \<union> \<Union> (set ` snd ` set (rpRegionFallbacks cfg)) \<union>
     {rpDefaultPool cfg}"

lemma giaddr_rules_pool: "giaddr_rules meta rs \<noteq> [] \<Longrightarrow> giaddr_rules meta rs \<in> grPoolID ` set rs"
  by (induction rs) auto

lemma id_rules_pool: "id_rules i rs \<noteq> [] \<Longrightarrow> id_rules i rs \<in> snd ` set rs"
  by (induction i rs rule: id_rules.induct) (auto split: if_splits)

lemma matchRules_pool: "matchRules meta rs \<noteq> [] \<Longrightarrow> matchRules meta rs \<in> fst ` set rs"
  by (induction meta rs rule: matchRules.induct) (auto split: if_splits)

lemma put_vlans_pool: "put_vlans pool ts m v = pool \<or> put_vlans pool ts m v = m v"
proof (induction pool ts m rule: put_vlans.induct)
  case (2 pool t ts m)
  then show ?case by (cases "vlan_token t") (auto split: if_splits)
qed simp

lemma buildVLANPool_pool: "buildVLANPool es v \<noteq> [] \<Longrightarrow> buildVLANPool es v \<in> fst ` set es"
proof (induction es rule: rev_induct)
  case (snoc e es)
  obtain pool ts where e: "e = (pool, ts)" by (cases e)
  then have "buildVLANPool (es @ [e]) v = put_vlans pool ts (buildVLANPool es) v" by (simp add: buildVLANPool_def)
  then show ?case using snoc put_vlans_pool [of pool ts "buildVLANPool es" v] e by auto
qed (simp add: buildVLANPool_def)

lemma normalizeRegionFallbacks_pools:
  "normalizeRegionFallbacks src k = Some ps \<Longrightarrow> ps \<in> snd ` set src"
proof (induction src rule: rev_induct)
  case (snoc e es)
  obtain key pools where e: "e = (key, pools)" by (cases e)
  then have "normalizeRegionFallbacks (es @ [e]) = (let key = trim_space key in
      if key = [] then normalizeRegionFallbacks es else (normalizeRegionFallbacks es)(to_lower key \<mapsto> pools))"
    by (simp add: normalizeRegionFallbacks_def Let_def)
  then show ?case using snoc e by (auto simp: Let_def split: if_splits)
qed (simp add: normalizeRegionFallbacks_def)

lemma lookupRegion_pool:
  "lookupRegion (NewSelector cfg) key \<noteq> [] \<Longrightarrow>
   lookupRegion (NewSelector cfg) key \<in> \<Union> (set ` snd ` set (rpRegionFallbacks cfg))"
proof -
  assume ne: "lookupRegion (NewSelector cfg) key \<noteq> []"
  then obtain pool ps where r: "normalizeRegionFallbacks (rpRegionFallbacks cfg) (to_lower (trim_space key)) = Some (pool # ps)"
    and l: "lookupRegion (NewSelector cfg) key = pool"
    by (auto simp: lookupRegion_def NewSelector_def split: if_splits option.splits list.splits)
  from normalizeRegionFallbacks_pools [OF r] have "pool # ps \<in> snd ` set (rpRegionFallbacks cfg)" .
  then show ?thesis unfolding l by force
qed

text \<open>The selector invents no pool.  A pool it returns is not blank and is named by a rule
  of the configuration or is the default pool.\<close>

theorem resolve_configured:
  assumes "Resolve (NewSelector cfg) meta = Some p"
  shows "p \<noteq> [] \<and> p \<in> configured_pools cfg"
proof -
  have cross: "matchCrossDomain (NewSelector cfg) meta \<in> configured_pools cfg" if "matchCrossDomain (NewSelector cfg) meta \<noteq> []"
    using that id_rules_pool [of "rmVRF meta" "rpVRFRules cfg"] id_rules_pool [of _ "rpMPLSVPNRules cfg"]
      buildVLANPool_pool [of "rpMultiVLANPools cfg" "rmVLANID meta"]
    by (auto simp: matchCrossDomain_def Let_def NewSelector_def configured_pools_def split: if_splits)
  have region: "regionFallback (NewSelector cfg) meta \<in> configured_pools cfg" if "regionFallback (NewSelector cfg) meta \<noteq> []"
    using that lookupRegion_pool [of cfg "rmRegion meta"] lookupRegion_pool [of cfg "rmDataCenter meta"]
    by (auto simp: regionFallback_def Let_def configured_pools_def split: if_splits)
  have gi: "matchGiaddr (NewSelector cfg) meta \<in> configured_pools cfg" if "matchGiaddr (NewSelector cfg) meta \<noteq> []"
    using that giaddr_rules_pool [of meta "rpGiaddrRules cfg"]
    by (auto simp: matchGiaddr_def NewSelector_def configured_pools_def split: if_splits)
  have rules: "matchRules meta (rpRules cfg) \<in> configured_pools cfg" if "matchRules meta (rpRules cfg) \<noteq> []"
    using matchRules_pool [OF that] by (simp add: configured_pools_def)
  have cfg: "selCfg (NewSelector cfg) = cfg" by (simp add: NewSelector_def)
  show ?thesis
    using assms cross region gi rules
    by (auto simp: Resolve_def Let_def cfg configured_pools_def [of cfg] split: if_splits)
qed

definition sample_relay_config :: relay_proxy_config where
  "sample_relay_config = \<lparr>rpEnabled = True, rpDefaultPool = ''dflt'', rpGiaddrRules = [], rpRules = [],
     rpRegionFallbacks = [], rpVRFRules = [], rpMPLSVPNRules = [], rpMultiVLANPools = [(''vlan'', [''10-20''])]\<rparr>"

theorem resolve_configured_witness:
  "Resolve (NewSelector sample_relay_config) (sample_meta\<lparr>rmVLANID := 15\<rparr>) = Some ''vlan'' \<and>
   ''vlan'' \<in> configured_pools sample_relay_config"
proof -
  have "Resolve (NewSelector sample_relay_config) (sample_meta\<lparr>rmVLANID := 15\<rparr>) = Some ''vlan''" by code_simp
  then show ?thesis using resolve_configured [of sample_relay_config] by blast
qed

end
