(* ===== verification/Dhcpv6_Message.thy ===== *)
theory Dhcpv6_Message
  imports Relay "HOL-Library.Multiset"
begin

text \<open>
  The DHCPv6 wire format: \<^verbatim>\<open>internal/dhcpv6/message.go\<close> (messages, relay encapsulation,
  options, the packet handed to the handler, domain names) and the encoders of
  \<^verbatim>\<open>internal/dhcpv6/server.go\<close>.

  An option table is a Go map from codes to the values seen with that code, in order.  The
  model keeps it as a list of entries with different codes; where the sources range over
  such a map, the order of the iteration is an argument.  A nil slice is \<open>None\<close> where the
  sources tell nil and empty apart.
\<close>

section \<open>Constants\<close>

definition MessageTypeSolicit6 :: byte where "MessageTypeSolicit6 = 1"
definition MessageTypeAdvertise6 :: byte where "MessageTypeAdvertise6 = 2"
definition MessageTypeRequest6 :: byte where "MessageTypeRequest6 = 3"
definition MessageTypeConfirm6 :: byte where "MessageTypeConfirm6 = 4"
definition MessageTypeRenew6 :: byte where "MessageTypeRenew6 = 5"
definition MessageTypeRebind6 :: byte where "MessageTypeRebind6 = 6"
definition MessageTypeReply6 :: byte where "MessageTypeReply6 = 7"
definition MessageTypeRelease6 :: byte where "MessageTypeRelease6 = 8"
definition MessageTypeDecline6 :: byte where "MessageTypeDecline6 = 9"
definition MessageTypeInformationReq6 :: byte where "MessageTypeInformationReq6 = 11"
definition MessageTypeRelayForward6 :: byte where "MessageTypeRelayForward6 = 12"
definition MessageTypeRelayReply6 :: byte where "MessageTypeRelayReply6 = 13"

lemmas message_type6_defs =
  MessageTypeSolicit6_def MessageTypeAdvertise6_def MessageTypeRequest6_def MessageTypeConfirm6_def
  MessageTypeRenew6_def MessageTypeRebind6_def MessageTypeReply6_def MessageTypeRelease6_def
  MessageTypeDecline6_def MessageTypeInformationReq6_def MessageTypeRelayForward6_def
  MessageTypeRelayReply6_def

definition OptionClientID6 :: u16 where "OptionClientID6 = 1"
definition OptionServerID6 :: u16 where "OptionServerID6 = 2"
definition OptionIANA6 :: u16 where "OptionIANA6 = 3"
definition OptionIATA6 :: u16 where "OptionIATA6 = 4"
definition OptionIAAddr6 :: u16 where "OptionIAAddr6 = 5"
definition OptionPreference6 :: u16 where "OptionPreference6 = 7"
definition OptionRelayMsg6 :: u16 where "OptionRelayMsg6 = 9"
definition OptionUserClass6 :: u16 where "OptionUserClass6 = 15"
definition OptionVendorClass6 :: u16 where "OptionVendorClass6 = 16"
definition OptionInterfaceID6 :: u16 where "OptionInterfaceID6 = 18"
definition OptionDNSRecursiveNameServer6 :: u16 where "OptionDNSRecursiveNameServer6 = 23"
definition OptionDomainSearchList6 :: u16 where "OptionDomainSearchList6 = 24"
definition OptionIAPD6 :: u16 where "OptionIAPD6 = 25"
definition OptionIAPrefix6 :: u16 where "OptionIAPrefix6 = 26"
definition OptionRemoteID6 :: u16 where "OptionRemoteID6 = 37"
definition OptionFQDN6 :: u16 where "OptionFQDN6 = 39"
definition OptionNTPServer6 :: u16 where "OptionNTPServer6 = 56"

lemmas option6_defs =
  OptionClientID6_def OptionServerID6_def OptionIANA6_def OptionIATA6_def OptionIAAddr6_def
  OptionPreference6_def OptionRelayMsg6_def OptionUserClass6_def OptionVendorClass6_def
  OptionInterfaceID6_def OptionDNSRecursiveNameServer6_def OptionDomainSearchList6_def
  OptionIAPD6_def OptionIAPrefix6_def OptionRemoteID6_def OptionFQDN6_def OptionNTPServer6_def

definition errShortMessage :: string where "errShortMessage = ''dhcpv6: packet too short''"
definition errMissingRelayMsg :: string where "errMissingRelayMsg = ''dhcpv6: missing relay-message option''"

section \<open>Option tables\<close>

type_synonym options6 = "(u16 \<times> bytes list) list"

text \<open>\<^verbatim>\<open>opts[code]\<close> and \<^verbatim>\<open>opts[code] = append(opts[code], val)\<close>.\<close>

definition opt_get :: "options6 \<Rightarrow> u16 \<Rightarrow> bytes list" where
  "opt_get opts code = (case map_of opts code of None \<Rightarrow> [] | Some vs \<Rightarrow> vs)"

fun opt_add :: "u16 \<Rightarrow> bytes \<Rightarrow> options6 \<Rightarrow> options6" where
  "opt_add code val [] = [(code, [val])]"
| "opt_add code val ((c, vs) # opts) =
     (if c = code then (c, vs @ [val]) # opts else (c, vs) # opt_add code val opts)"

record relay_hop =
  hopCount :: byte
  hopLinkAddr :: bytes
  hopPeerAddr :: bytes
  hopOptions :: options6

record message6 =
  msgType :: byte
  msgTransactionID :: u32
  msgOptions :: options6
  msgRelayHops :: "relay_hop list"

section \<open>Parsing\<close>

function parse_options6 :: "bytes \<Rightarrow> options6 \<Rightarrow> string + options6" where
  "parse_options6 data opts =
     (if data = [] then Inr opts
      else if length data < 4 then Inl ''dhcpv6: truncated option header''
      else
        let code = get16 data; len = unat (get16 (drop 2 data)); body = drop 4 data in
        if length body < len then Inl ''dhcpv6: truncated option data''
        else parse_options6 (drop len body) (opt_add code (take len body) opts))"
  by pat_completeness auto
termination
  by (relation "measure (\<lambda>(data, opts). length data)") auto

declare parse_options6.simps [simp del]

definition parseOptions6 :: "bytes \<Rightarrow> string + options6" where
  "parseOptions6 data = parse_options6 data []"

lemma opt_get_Nil [simp]: "opt_get [] c = []"
  by (simp add: opt_get_def)

lemma opt_get_Cons: "opt_get ((d, vs) # opts) c = (if c = d then vs else opt_get opts c)"
  by (simp add: opt_get_def)

lemma opt_get_add [simp]:
  "opt_get (opt_add code val opts) c = (if c = code then opt_get opts c @ [val] else opt_get opts c)"
  by (induction code val opts rule: opt_add.induct) (auto simp: opt_get_Cons)

lemma keys_opt_add: "fst ` set (opt_add code val opts) = insert code (fst ` set opts)"
  by (induction code val opts rule: opt_add.induct) auto

lemma distinct_opt_add: "distinct (map fst opts) \<Longrightarrow> distinct (map fst (opt_add code val opts))"
proof (induction code val opts rule: opt_add.induct)
  case (2 code val c vs opts)
  then show ?case using keys_opt_add [of code val opts] by (auto simp: image_iff)
qed simp

text \<open>A value is shorter than the bytes it was read from.\<close>

lemma parse_options6_shorter:
  "parse_options6 data acc = Inr opts \<Longrightarrow> v \<in> set (opt_get opts c) \<Longrightarrow>
   v \<in> set (opt_get acc c) \<or> length v + 4 \<le> length data"
proof (induction data acc rule: parse_options6.induct)
  case (1 data acc)
  let ?body = "drop 4 data" and ?len = "unat (get16 (drop 2 data))"
  show ?case
  proof (cases "data = [] \<or> length data < 4 \<or> length ?body < ?len")
    case True
    then show ?thesis using "1.prems" by (auto simp: parse_options6.simps [of data] Let_def split: if_splits)
  next
    case False
    then have "parse_options6 (drop ?len ?body) (opt_add (get16 data) (take ?len ?body) acc) = Inr opts"
      using "1.prems"(1) by (simp add: parse_options6.simps [of data] Let_def)
    from "1.IH" [OF _ _ refl refl refl _ this "1.prems"(2)] False
    show ?thesis by (auto split: if_splits)
  qed
qed

lemma parseOptions6_shorter:
  "parseOptions6 data = Inr opts \<Longrightarrow> v \<in> set (opt_get opts c) \<Longrightarrow> length v + 4 \<le> length data"
  using parse_options6_shorter [of data "[]" opts v c] by (simp add: parseOptions6_def)

function ParseMessage6 :: "bytes \<Rightarrow> string + message6" and parseRelay6 :: "bytes \<Rightarrow> string + message6" where
  "ParseMessage6 data =
     (if length data < 4 then Inl errShortMessage
      else if data ! 0 = MessageTypeRelayForward6 \<or> data ! 0 = MessageTypeRelayReply6 then parseRelay6 data
      else case parseOptions6 (drop 4 data) of
        Inl e \<Rightarrow> Inl e
      | Inr opts \<Rightarrow> Inr \<lparr>msgType = data ! 0,
          msgTransactionID = push_bit 16 (ucast (data ! 1)) OR push_bit 8 (ucast (data ! 2)) OR ucast (data ! 3),
          msgOptions = opts, msgRelayHops = []\<rparr>)"
| "parseRelay6 data =
     (if length data < 34 then Inl errShortMessage
      else case parseOptions6 (drop 34 data) of
        Inl e \<Rightarrow> Inl e
      | Inr opts \<Rightarrow>
          (case opt_get opts OptionRelayMsg6 of
             [] \<Rightarrow> Inl errMissingRelayMsg
           | relayMsg # _ \<Rightarrow>
               (case ParseMessage6 relayMsg of
                  Inl e \<Rightarrow> Inl e
                | Inr inner \<Rightarrow> Inr (inner\<lparr>msgRelayHops :=
                    \<lparr>hopCount = data ! 1, hopLinkAddr = slice 2 18 data, hopPeerAddr = slice 18 34 data,
                     hopOptions = opts\<rparr> # msgRelayHops inner\<rparr>))))"
  by pat_completeness auto
termination
proof (relation "measure (case_sum (\<lambda>d. 2 * length d + 1) (\<lambda>d. 2 * length d))", goal_cases)
  case (3 data opts relayMsg rest)
  then have "length relayMsg + 4 \<le> length (drop 34 data)"
    by (intro parseOptions6_shorter [of _ opts _ OptionRelayMsg6]) simp_all
  then show ?case by simp
qed simp_all

declare ParseMessage6.simps [simp del] parseRelay6.simps [simp del]

definition Option6 :: "message6 \<Rightarrow> u16 \<Rightarrow> bytes option" where
  "Option6 msg code = (case opt_get (msgOptions msg) code of [] \<Rightarrow> None | v # _ \<Rightarrow> Some v)"

definition AllOptions6 :: "message6 \<Rightarrow> u16 \<Rightarrow> bytes list" where
  "AllOptions6 msg code = opt_get (msgOptions msg) code"

section \<open>The packet of a message\<close>

text \<open>\<^verbatim>\<open>PrefixRequest\<close> of \<^verbatim>\<open>internal/lease/prefix_types.go\<close>.\<close>

record prefix_request =
  prIAPDID :: u32
  prPrefix :: bytes
  prPrefixLength :: byte
  prPreferredLifetime :: u32
  prValidLifetime :: u32

record packet6 =
  pkTransactionID :: u32
  pkDUID :: string
  pkIAID :: u32
  pkIAAddr :: "bytes option"
  pkDNSRecursiveServers :: "bytes list"
  pkDomainSearchList :: "string list"
  pkFQDN :: string
  pkNTPServers :: "bytes list"
  pkLinkAddr :: "bytes option"
  pkPeerAddr :: "bytes option"
  pkVendorClass :: string
  pkUserClass :: string
  pkRelayInfo :: attrs
  pkClientMAC :: bytes
  pkSupportsSLAAC :: bool
  pkPrefixRequests :: "prefix_request list"

text \<open>A DUID in hexadecimal, with the link-layer address of the types LLT and LL.\<close>

definition parseDUID :: "bytes \<Rightarrow> string \<times> bytes" where
  "parseDUID data =
     (let duid = hex_string data in
      if length data < 4 then (duid, [])
      else if get16 data = 1 then (if length data < 10 then (duid, []) else (duid, drop 8 data))
      else if get16 data = 3 then (if length data < 8 then (duid, []) else (duid, drop 4 data))
      else (duid, []))"

definition parseIANA :: "bytes \<Rightarrow> u32 \<times> bytes option" where
  "parseIANA data =
     (if length data < 12 then (0, None)
      else
        let iaid = get32 data in
        case parseOptions6 (drop 12 data) of
          Inl _ \<Rightarrow> (iaid, None)
        | Inr opts \<Rightarrow>
            (case opt_get opts OptionIAAddr6 of
               [] \<Rightarrow> (iaid, None)
             | entry # _ \<Rightarrow> if length entry < 24 then (iaid, None) else (iaid, Some (take 16 entry))))"

definition parseIAPD :: "bytes \<Rightarrow> prefix_request option" where
  "parseIAPD data =
     (if length data < 12 then None
      else
        let req = \<lparr>prIAPDID = get32 data, prPrefix = [], prPrefixLength = 0, prPreferredLifetime = 0,
              prValidLifetime = 0\<rparr> in
        case parseOptions6 (drop 12 data) of
          Inl _ \<Rightarrow> None
        | Inr opts \<Rightarrow>
            (case opt_get opts OptionIAPrefix6 of
               [] \<Rightarrow> Some req
             | entry # _ \<Rightarrow>
                 if length entry < 25 then Some req
                 else Some (req\<lparr>prPreferredLifetime := get32 entry, prValidLifetime := get32 (drop 4 entry),
                   prPrefixLength := entry ! 8, prPrefix := slice 9 25 entry\<rparr>)))"

text \<open>The entries of a list of length-prefixed strings; a cut-off last entry ends the list.\<close>

function counted_strings :: "bytes \<Rightarrow> string list" where
  "counted_strings data =
     (if length data < 2 then []
      else let l = unat (get16 data); body = drop 2 data in
        if length body < l then []
        else sanitizeASCII (take l body) # counted_strings (drop l body))"
  by pat_completeness auto
termination
  by (relation "measure length") auto

declare counted_strings.simps [simp del]

definition parseUserClass :: "bytes \<Rightarrow> string" where
  "parseUserClass data =
     foldl (\<lambda>out s. if out \<noteq> [] then out @ '','' @ s else s) [] (counted_strings data)"

definition parseVendorClass :: "bytes \<Rightarrow> string" where
  "parseVendorClass data =
     (if length data < 4 then []
      else join_with '':'' (dec (unat (get32 data)) # counted_strings (drop 4 data)))"

definition parseRelayRemoteID :: "bytes \<Rightarrow> string \<times> string \<times> string" where
  "parseRelayRemoteID data =
     (let raw = hex_string data in
      if data = [] then ([], [], raw)
      else if length data < 4
      then (if sanitizeASCII data \<noteq> [] then (sanitizeASCII data, [], raw) else (raw, [], raw))
      else
        let enterprise = dec (unat (get32 data)); ident = drop 4 data in
        if sanitizeASCII ident \<noteq> [] then (sanitizeASCII ident, enterprise, raw)
        else if ident \<noteq> [] then (hex_string ident, enterprise, raw)
        else (raw, enterprise, raw))"

text \<open>The attributes of a hop, with different keys.  The other options of the hop are added
  under keys of their own, so the order of the iteration does not matter.\<close>

definition interface_attrs :: "relay_hop \<Rightarrow> (string \<times> string) list" where
  "interface_attrs hop =
     (case opt_get (hopOptions hop) OptionInterfaceID6 of
        [] \<Rightarrow> []
      | v # _ \<Rightarrow>
          let decoded = (if sanitizeASCII v \<noteq> [] then sanitizeASCII v else hex_string v) in
          [(''interface-id'', decoded), (''agent.circuit-id'', decoded), (''interface-id-raw'', hex_string v)])"

definition remote_attrs :: "relay_hop \<Rightarrow> (string \<times> string) list" where
  "remote_attrs hop =
     (case opt_get (hopOptions hop) OptionRemoteID6 of
        [] \<Rightarrow> []
      | v # _ \<Rightarrow>
          (case parseRelayRemoteID v of
             (remoteID, enterprise, raw) \<Rightarrow>
               [(''remote-id'', remoteID), (''agent.remote-id'', remoteID),
                (''remote-id-enterprise'', enterprise), (''remote-id-raw'', raw), (''location'', remoteID)]))"

definition other_attr :: "u16 \<times> bytes list \<Rightarrow> (string \<times> string) option" where
  "other_attr e =
     (case e of (code, vals) \<Rightarrow>
        if code = OptionInterfaceID6 \<or> code = OptionRemoteID6 \<or> code = OptionRelayMsg6 then None
        else (case vals of [] \<Rightarrow> None | v # _ \<Rightarrow> Some (''opt_'' @ dec (unat code), hex_string v)))"

definition relayHopAttributes :: "relay_hop \<Rightarrow> (string \<times> string) list" where
  "relayHopAttributes hop =
     interface_attrs hop @ remote_attrs hop @ List.map_filter other_attr (hopOptions hop)"

definition hop_key :: "nat \<Rightarrow> string \<Rightarrow> string" where
  "hop_key idx key = ''relay-hop.'' @ dec idx @ ''.'' @ key"

definition add_attr :: "nat \<Rightarrow> attrs \<Rightarrow> string \<times> string \<Rightarrow> attrs" where
  "add_attr idx m kv =
     (case kv of (key, value) \<Rightarrow>
        if trim_space value = [] then m
        else put_absent key value (m(hop_key idx key \<mapsto> value)))"

definition add_hop :: "attrs \<Rightarrow> nat \<times> relay_hop \<Rightarrow> attrs" where
  "add_hop m ih =
     (case ih of (idx, hop) \<Rightarrow>
        let link = trim_space (ip_string (hopLinkAddr hop));
            peer = trim_space (ip_string (hopPeerAddr hop));
            m = (if link \<noteq> [] then m(hop_key idx ''link-addr'' \<mapsto> link) else m);
            m = (if peer \<noteq> [] then m(hop_key idx ''peer-addr'' \<mapsto> peer) else m)
        in foldl (add_attr idx) m (relayHopAttributes hop))"

definition relay_attributes :: "relay_hop list \<Rightarrow> attrs" where
  "relay_attributes hops =
     foldl add_hop [''relay-hop-count'' \<mapsto> dec (length hops)] (List.enumerate 0 hops)"

text \<open>Lists of addresses: sixteen bytes each; IPv4-mapped addresses are left out.\<close>

function address_list :: "bytes \<Rightarrow> bytes list" where
  "address_list data =
     (if length data < 16 then []
      else (if To4 (take 16 data) \<noteq> None then id else (#) (take 16 data)) (address_list (drop 16 data)))"
  by pat_completeness auto
termination
  by (relation "measure length") auto

declare address_list.simps [simp del]

definition parseIPv6AddressListOption :: "bytes \<Rightarrow> bytes list" where
  "parseIPv6AddressListOption data = address_list data"

function parseNTPServerOption :: "bytes \<Rightarrow> bytes list" where
  "parseNTPServerOption data =
     (if length data < 4 then []
      else let subCode = get16 data; subLen = unat (get16 (drop 2 data)); body = drop 4 data in
        if length body < subLen then []
        else (if subCode = 1 then address_list (take subLen body) else [])
             @ parseNTPServerOption (drop subLen body))"
  by pat_completeness auto
termination
  by (relation "measure length") auto

declare parseNTPServerOption.simps [simp del]

section \<open>Domain names\<close>

text \<open>The labels of one name, with the bytes after its final zero.\<close>

function decode_labels :: "bytes \<Rightarrow> string list \<Rightarrow> (string \<times> bytes) option" where
  "decode_labels data parts =
     (case data of
        [] \<Rightarrow> None
      | l # rest \<Rightarrow>
          if l = 0 then Some (join_with ''.'' parts, rest)
          else if unat l > 63 \<or> unat l > length rest then None
          else let label = to_lower (sanitizeASCII (take (unat l) rest)) in
            if label = [] then None else decode_labels (drop (unat l) rest) (parts @ [label]))"
  by pat_completeness auto
termination
  by (relation "measure (\<lambda>(data, parts). length data)") auto

declare decode_labels.simps [simp del]

definition decodeDomainName :: "bytes \<Rightarrow> (string \<times> bytes) option" where
  "decodeDomainName data = decode_labels data []"

lemma decode_labels_shorter:
  "decode_labels data parts = Some (name, rest) \<Longrightarrow> length rest < length data"
proof (induction data parts rule: decode_labels.induct)
  case (1 data parts)
  show ?case
  proof (cases data)
    case Nil
    then show ?thesis using "1.prems" by (simp add: decode_labels.simps [of "[]"])
  next
    case (Cons l body)
    show ?thesis
    proof (cases "l = 0")
      case True
      then show ?thesis using "1.prems" Cons by (simp add: decode_labels.simps [of "_ # _"])
    next
      case False
      with "1.prems" Cons have ok: "\<not> (unat l > 63 \<or> unat l > length body)"
        and ne: "to_lower (sanitizeASCII (take (unat l) body)) \<noteq> []"
        and rec: "decode_labels (drop (unat l) body) (parts @ [to_lower (sanitizeASCII (take (unat l) body))]) = Some (name, rest)"
        by (auto simp: decode_labels.simps [of "_ # _"] Let_def split: if_splits)
      from "1.IH" [OF Cons False ok refl ne rec] Cons show ?thesis by simp
    qed
  qed
qed

function parseDomainSearchListOption :: "bytes \<Rightarrow> string list" where
  "parseDomainSearchListOption data =
     (if data = [] then []
      else case decodeDomainName data of
        None \<Rightarrow> []
      | Some (domain, rest) \<Rightarrow>
          (if domain \<noteq> [] then [domain] else []) @ parseDomainSearchListOption rest)"
  by pat_completeness auto
termination
  by (relation "measure length") (auto simp: decodeDomainName_def dest: decode_labels_shorter)

declare parseDomainSearchListOption.simps [simp del]

text \<open>The flags of a client FQDN option are one byte; the parser skips three.\<close>

definition parseFQDNOption :: "bytes \<Rightarrow> string" where
  "parseFQDNOption data =
     (if length data < 3 then []
      else case decodeDomainName (drop 3 data) of Some (domain, _) \<Rightarrow> domain | None \<Rightarrow> [])"

definition packetFromMessage6 :: "message6 \<Rightarrow> packet6" where
  "packetFromMessage6 msg =
     (let duid_mac = (case Option6 msg OptionClientID6 of None \<Rightarrow> ([], []) | Some cid \<Rightarrow> parseDUID cid);
          ia = (case Option6 msg OptionIANA6 of None \<Rightarrow> (0, None) | Some raw \<Rightarrow> parseIANA raw);
          noIANA = (snd ia = None \<and> AllOptions6 msg OptionIANA6 = []);
          slaac = (noIANA \<or> AllOptions6 msg OptionIATA6 \<noteq> [] \<or> msgType msg = MessageTypeInformationReq6);
          text_of = (\<lambda>code f. case Option6 msg code of None \<Rightarrow> [] | Some v \<Rightarrow> f v)
      in
      \<lparr>pkTransactionID = msgTransactionID msg, pkDUID = fst duid_mac, pkIAID = fst ia, pkIAAddr = snd ia,
       pkDNSRecursiveServers = (case Option6 msg OptionDNSRecursiveNameServer6 of
           None \<Rightarrow> [] | Some v \<Rightarrow> parseIPv6AddressListOption v),
       pkDomainSearchList = (case Option6 msg OptionDomainSearchList6 of
           None \<Rightarrow> [] | Some v \<Rightarrow> parseDomainSearchListOption v),
       pkFQDN = text_of OptionFQDN6 parseFQDNOption,
       pkNTPServers = (case Option6 msg OptionNTPServer6 of None \<Rightarrow> [] | Some v \<Rightarrow> parseNTPServerOption v),
       pkLinkAddr = (case msgRelayHops msg of [] \<Rightarrow> None | hop # _ \<Rightarrow> Some (hopLinkAddr hop)),
       pkPeerAddr = (case msgRelayHops msg of [] \<Rightarrow> None | hop # _ \<Rightarrow> Some (hopPeerAddr hop)),
       pkVendorClass = text_of OptionVendorClass6 parseVendorClass,
       pkUserClass = text_of OptionUserClass6 parseUserClass,
       pkRelayInfo = (if msgRelayHops msg = [] then Map.empty else relay_attributes (msgRelayHops msg)),
       pkClientMAC = snd duid_mac, pkSupportsSLAAC = slaac,
       pkPrefixRequests = List.map_filter parseIAPD (AllOptions6 msg OptionIAPD6)\<rparr>)"

section \<open>Encoding\<close>

definition appendOption :: "bytes \<Rightarrow> u16 \<Rightarrow> bytes \<Rightarrow> bytes" where
  "appendOption buf code data = buf @ put16 code @ put16 (of_nat (length data)) @ data"

definition buildBaseMessage :: "byte \<Rightarrow> u32 \<Rightarrow> bytes \<Rightarrow> bytes" where
  "buildBaseMessage mtype txID options =
     [mtype, ucast (drop_bit 16 txID AND 255), ucast (drop_bit 8 txID AND 255), ucast (txID AND 255)] @ options"

text \<open>\<^verbatim>\<open>net.IP.To16\<close>: \<open>None\<close> is nil.\<close>

definition To16 :: "bytes \<Rightarrow> bytes option" where
  "To16 ip =
     (if length ip = 4 then Some (replicate 10 0 @ [255, 255] @ ip)
      else if length ip = 16 then Some ip
      else None)"

definition encodeIAAddr :: "bytes \<Rightarrow> u32 \<Rightarrow> u32 \<Rightarrow> bytes" where
  "encodeIAAddr addr preferred valid =
     (let ip = (case To16 addr of None \<Rightarrow> replicate 16 0 | Some ip \<Rightarrow> ip) in
      appendOption [] OptionIAAddr6 (ip @ put32 preferred @ put32 valid))"

definition encodeIANA :: "u32 \<Rightarrow> u32 \<Rightarrow> u32 \<Rightarrow> bytes \<Rightarrow> u32 \<Rightarrow> u32 \<Rightarrow> bytes" where
  "encodeIANA iaid t1 t2 addr preferred valid =
     put32 iaid @ put32 t1 @ put32 t2 @ encodeIAAddr addr preferred valid"

definition PrefixFrom :: "addr \<Rightarrow> nat \<Rightarrow> prefix" where
  "PrefixFrom a bits = \<lparr>pfx_addr = a, pfx_bits = bits\<rparr>"

fun As16 :: "addr \<Rightarrow> bytes" where
  "As16 AddrZero = replicate 16 0"
| "As16 (Addr4 w) = replicate 10 0 @ [255, 255] @ put32 w"
| "As16 (Addr6 w _) = bytes_of_u128 w"

definition encodeIAPrefix :: "prefix \<Rightarrow> byte \<Rightarrow> u32 \<Rightarrow> u32 \<Rightarrow> string + bytes" where
  "encodeIAPrefix prefix len preferred valid =
     (if \<not> Is6 (pfx_addr prefix) then Inl ''dhcpv6: ia prefix requires IPv6''
      else
        let maskBits = (if unat len \<le> 0 then pfx_bits prefix else unat len);
            maskBits = (if maskBits > 128 then 128 else maskBits);
            addr = pfx_addr (Masked (Masked (PrefixFrom (pfx_addr (Masked prefix)) maskBits))) in
        if \<not> Is6 addr then Inl ''dhcpv6: ia prefix addr invalid''
        else Inr (appendOption [] OptionIAPrefix6
          (put32 preferred @ put32 valid @ [of_nat maskBits] @ As16 addr)))"

text \<open>Whole seconds of a duration, at least one, at most the largest 32-bit number.\<close>

definition clampSeconds :: "duration \<Rightarrow> u32" where
  "clampSeconds d =
     (if d \<le> 0 then 0
      else
        let secs = quot d second; secs = (if secs \<le> 0 then 1 else secs) in
        if secs > 2 ^ 32 - 1 then 2 ^ 32 - 1 else of_int secs)"

definition secondsValue :: "duration \<Rightarrow> duration \<Rightarrow> duration \<Rightarrow> u32" where
  "secondsValue value override fallback =
     (if override > 0 then clampSeconds override
      else if value > 0 then clampSeconds value
      else if fallback > 0 then clampSeconds fallback
      else 0)"

text \<open>\<^verbatim>\<open>PrefixDelegation\<close> of \<^verbatim>\<open>internal/lease/service.go\<close>.\<close>

record prefix_delegation =
  pdIAPDID :: u32
  pdPrefix :: string
  pdPrefixLength :: byte
  pdPreferredLifetime :: duration
  pdValidLifetime :: duration

definition encodeIAPDOption ::
  "prefix_delegation \<Rightarrow> string option \<Rightarrow> u32 \<Rightarrow> u32 \<Rightarrow> u32 \<Rightarrow> u32 \<Rightarrow> string + bytes" where
  "encodeIAPDOption pd poolCIDR t1 t2 defaultPreferred defaultValid =
     (let prefixValue = trim_space (pdPrefix pd);
          prefixValue = (case poolCIDR of
              Some cidr \<Rightarrow> if prefixValue = [] then trim_space cidr else prefixValue
            | None \<Rightarrow> prefixValue) in
      case ParsePrefix prefixValue of
        None \<Rightarrow> Inl ''dhcpv6: invalid delegated prefix''
      | Some prefix \<Rightarrow>
          if \<not> Is6 (pfx_addr prefix) then Inl ''dhcpv6: delegated prefix must be IPv6''
          else
            let pdPreferred = clampSeconds (pdPreferredLifetime pd);
                pdPreferred = (if pdPreferred = 0 then defaultPreferred else pdPreferred);
                pdValid = clampSeconds (pdValidLifetime pd);
                pdValid = (if pdValid = 0 then defaultValid else pdValid);
                pdValid = (if pdValid < pdPreferred then pdPreferred else pdValid) in
            case encodeIAPrefix prefix (pdPrefixLength pd) pdPreferred pdValid of
              Inl e \<Rightarrow> Inl e
            | Inr iaPrefix \<Rightarrow> Inr (put32 (pdIAPDID pd) @ put32 t1 @ put32 t2 @ iaPrefix))"

definition padIPv6 :: "bytes \<Rightarrow> bytes" where
  "padIPv6 ip = (case To16 ip of None \<Rightarrow> replicate 16 0 | Some b \<Rightarrow> b)"

text \<open>The relay chain of a reply, from the innermost hop outwards.  \<open>iter\<close> is the order in
  which the map of the hop's options is visited.\<close>

definition hop_values :: "options6 \<Rightarrow> (u16 \<times> bytes) list" where
  "hop_values opts =
     concat (map (\<lambda>(code, vs). map (Pair code) vs) (filter (\<lambda>e. fst e \<noteq> OptionRelayMsg6) opts))"

definition wrap_hop :: "(options6 \<Rightarrow> options6) \<Rightarrow> relay_hop \<Rightarrow> bytes \<Rightarrow> bytes" where
  "wrap_hop iter hop outer =
     [MessageTypeRelayReply6, hopCount hop] @ padIPv6 (hopLinkAddr hop) @ padIPv6 (hopPeerAddr hop)
     @ foldl (\<lambda>buf (code, v). appendOption buf code v) (appendOption [] OptionRelayMsg6 outer)
         (hop_values (iter (hopOptions hop)))"

definition wrapRelayResponse :: "(options6 \<Rightarrow> options6) \<Rightarrow> relay_hop list \<Rightarrow> bytes \<Rightarrow> bytes" where
  "wrapRelayResponse iter hops payload = foldr (wrap_hop iter) hops payload"

definition encodeIPv6AddressListOption :: "bytes list \<Rightarrow> bytes" where
  "encodeIPv6AddressListOption servers =
     concat (List.map_filter (\<lambda>s. if To16 s = None \<or> To4 s \<noteq> None then None else To16 s) servers)"

definition encodeNTPServerOption :: "bytes list \<Rightarrow> bytes" where
  "encodeNTPServerOption servers =
     concat (map (\<lambda>ip. put16 1 @ put16 16 @ ip)
       (List.map_filter (\<lambda>s. if To16 s = None \<or> To4 s \<noteq> None then None else To16 s) servers))"

text \<open>\<^verbatim>\<open>strings.TrimSuffix(domain, ".")\<close>.\<close>

definition trim_dot :: "string \<Rightarrow> string" where
  "trim_dot s = (if s \<noteq> [] \<and> last s = CHR ''.'' then butlast s else s)"

fun encode_labels :: "string \<Rightarrow> string list \<Rightarrow> string + bytes" where
  "encode_labels domain [] = Inr [0]"
| "encode_labels domain (label # labels) =
     (let part = trim_space label in
      if part = [] then Inl (''dhcpv6: invalid domain label in '' @ quoted domain)
      else if length part > 63 then Inl (''dhcpv6: domain label exceeds 63 bytes in '' @ quoted domain)
      else case encode_labels domain labels of
        Inl e \<Rightarrow> Inl e
      | Inr payload \<Rightarrow> Inr (of_nat (length part) # bytes_of_string (to_lower part) @ payload))"

definition encodeDomainName :: "string \<Rightarrow> string + bytes" where
  "encodeDomainName domain =
     (let trimmed = trim_space (trim_dot domain) in
      if trimmed = [] then Inr [] else encode_labels domain (split_at_char CHR ''.'' trimmed))"

fun encodeDomainSearchListOption :: "string list \<Rightarrow> string + bytes" where
  "encodeDomainSearchListOption [] = Inr []"
| "encodeDomainSearchListOption (domain # domains) =
     (case encodeDomainName domain of
        Inl e \<Rightarrow> Inl e
      | Inr encoded \<Rightarrow>
          (case encodeDomainSearchListOption domains of
             Inl e \<Rightarrow> Inl e
           | Inr payload \<Rightarrow> Inr (encoded @ payload)))"

definition encodeFQDNOption :: "string \<Rightarrow> string + bytes" where
  "encodeFQDNOption fqdn =
     (case encodeDomainName fqdn of
        Inl e \<Rightarrow> Inl e
      | Inr name \<Rightarrow> if name = [] then Inr [] else Inr ([0, 0, 0] @ name))"

section \<open>Options survive the wire\<close>

definition option_bytes :: "u16 \<times> bytes \<Rightarrow> bytes" where
  "option_bytes cv = put16 (fst cv) @ put16 (of_nat (length (snd cv))) @ snd cv"

definition collect :: "(u16 \<times> bytes) list \<Rightarrow> options6 \<Rightarrow> options6" where
  "collect kvs acc = foldl (\<lambda>o' cv. opt_add (fst cv) (snd cv) o') acc kvs"

lemma appendOption_bytes: "appendOption buf c v = buf @ option_bytes (c, v)"
  by (simp add: appendOption_def option_bytes_def)

lemma foldl_appendOption:
  "foldl (\<lambda>buf (c, v). appendOption buf c v) buf kvs = buf @ concat (map option_bytes kvs)"
  by (induction kvs arbitrary: buf) (auto simp: appendOption_bytes)

lemma opt_get_collect:
  "opt_get (collect kvs acc) c = opt_get acc c @ map snd (filter (\<lambda>cv. fst cv = c) kvs)"
  unfolding collect_def by (induction kvs arbitrary: acc) auto

lemma distinct_collect: "distinct (map fst acc) \<Longrightarrow> distinct (map fst (collect kvs acc))"
  unfolding collect_def by (induction kvs arbitrary: acc) (auto intro: distinct_opt_add)

lemma parse_options6_tlv:
  assumes "length v < 65536"
  shows "parse_options6 (option_bytes (c, v) @ rest) acc = parse_options6 rest (opt_add c v acc)"
proof -
  have "get16 (put16 c @ t) = c" "drop 2 (put16 c @ t) = t" "drop 4 (put16 c @ put16 d @ t) = t" for t d
    by simp_all
  moreover have "put16 c @ t \<noteq> []" for t by (simp add: put16_def)
  ultimately show ?thesis using assms
    by (subst parse_options6.simps) (simp add: option_bytes_def unat_of_nat Let_def del: append_is_Nil_conv)
qed

lemma parse_options6_tlvs:
  assumes "list_all (\<lambda>cv. length (snd cv) < 65536) kvs"
  shows "parse_options6 (concat (map option_bytes kvs)) acc = Inr (collect kvs acc)"
  using assms
proof (induction kvs arbitrary: acc)
  case Nil
  then show ?case by (simp add: parse_options6.simps collect_def)
next
  case (Cons cv kvs)
  then show ?case using parse_options6_tlv [of "snd cv" "fst cv"] by (simp add: collect_def)
qed

lemma option_bytes_length: "length (option_bytes cv) = length (snd cv) + 4"
  by (simp add: option_bytes_def)

lemma value_fits:
  "length (concat (map option_bytes kvs)) < n \<Longrightarrow> list_all (\<lambda>cv. length (snd cv) < n) kvs"
  by (induction kvs) (auto simp: option_bytes_length)

lemma parseOptions6_tlvs [wire]:
  assumes "length (concat (map option_bytes kvs)) < 65536"
  shows "parseOptions6 (concat (map option_bytes kvs)) = Inr (collect kvs [])"
  using parse_options6_tlvs [OF value_fits [OF assms]] by (simp add: parseOptions6_def)

section \<open>Relay chains\<close>

text \<open>An order of iteration over a map visits every entry once.\<close>

definition go_order :: "(options6 \<Rightarrow> options6) \<Rightarrow> bool" where
  "go_order iter \<longleftrightarrow> (\<forall>opts. mset (iter opts) = mset opts)"

definition hop_ok :: "relay_hop \<Rightarrow> bool" where
  "hop_ok h \<longleftrightarrow> length (hopLinkAddr h) = 16 \<and> length (hopPeerAddr h) = 16 \<and> distinct (map fst (hopOptions h))"

text \<open>The hop a relay finds in the reply: its own addresses and its own options.\<close>

definition same_hop :: "relay_hop \<Rightarrow> relay_hop \<Rightarrow> bool" where
  "same_hop h h' \<longleftrightarrow>
     hopCount h' = hopCount h \<and> hopLinkAddr h' = hopLinkAddr h \<and> hopPeerAddr h' = hopPeerAddr h \<and>
     (\<forall>c. c \<noteq> OptionRelayMsg6 \<longrightarrow> opt_get (hopOptions h') c = opt_get (hopOptions h) c)"

lemma hop_values_get:
  assumes "distinct (map fst opts)"
  shows "map snd (filter (\<lambda>cv. fst cv = c) (hop_values opts)) = (if c = OptionRelayMsg6 then [] else opt_get opts c)"
  using assms
proof (induction opts)
  case (Cons e opts)
  obtain d vs where e: "e = (d, vs)" by (cases e)
  have none: "opt_get opts d = []" using Cons.prems e
    by (simp add: opt_get_def map_of_eq_None_iff [THEN iffD2])
  have "filter (\<lambda>cv. fst cv = c) (map (Pair d) vs) = (if c = d then map (Pair d) vs else [])"
    by (induction vs) auto
  then have "map snd (filter (\<lambda>cv. fst cv = c) (hop_values (e # opts))) =
      (if d = OptionRelayMsg6 then [] else if c = d then vs else []) @ map snd (filter (\<lambda>cv. fst cv = c) (hop_values opts))"
    by (auto simp: e hop_values_def comp_def)
  then show ?case using Cons none by (auto simp: e opt_get_Cons)
qed (simp add: hop_values_def)

lemma go_order_get:
  assumes "go_order iter" and "distinct (map fst opts)"
  shows "distinct (map fst (iter opts))" and "opt_get (iter opts) c = opt_get opts c"
proof -
  have m: "mset (iter opts) = mset opts" using assms(1) by (simp add: go_order_def)
  then have "mset (map fst (iter opts)) = mset (map fst opts)" by simp
  then show d: "distinct (map fst (iter opts))" using assms(2) by (metis mset_eq_imp_distinct_iff)
  have "map_of (iter opts) = map_of opts"
    using map_of_eqI d assms(2) m by (metis map_of_inject_set set_mset_mset)
  then show "opt_get (iter opts) c = opt_get opts c" by (simp add: opt_get_def)
qed

definition reply_hop :: "(options6 \<Rightarrow> options6) \<Rightarrow> relay_hop \<Rightarrow> bytes \<Rightarrow> relay_hop" where
  "reply_hop iter hop outer =
     hop\<lparr>hopOptions := collect ((OptionRelayMsg6, outer) # hop_values (iter (hopOptions hop))) []\<rparr>"

lemma same_reply_hop:
  assumes "go_order iter" and "hop_ok hop"
  shows "same_hop hop (reply_hop iter hop outer)"
  using assms go_order_get [OF assms(1), of "hopOptions hop"]
  by (simp add: same_hop_def reply_hop_def hop_ok_def opt_get_collect hop_values_get)

lemma relay_msg_reply_hop:
  assumes "go_order iter" and "hop_ok hop"
  shows "opt_get (hopOptions (reply_hop iter hop outer)) OptionRelayMsg6 = [outer]"
  using assms go_order_get [OF assms(1), of "hopOptions hop"]
  by (simp add: reply_hop_def hop_ok_def opt_get_collect hop_values_get)

lemma padIPv6_id: "length ip = 16 \<Longrightarrow> padIPv6 ip = ip"
  by (simp add: padIPv6_def To16_def)

lemma wrap_hop_bytes:
  assumes "hop_ok hop"
  shows "wrap_hop iter hop outer =
    MessageTypeRelayReply6 # hopCount hop # hopLinkAddr hop @ hopPeerAddr hop
     @ concat (map option_bytes ((OptionRelayMsg6, outer) # hop_values (iter (hopOptions hop))))"
  unfolding wrap_hop_def foldl_appendOption using assms by (simp add: hop_ok_def padIPv6_id appendOption_bytes)

lemma parse_wrap_hop:
  assumes it: "go_order iter" and ok: "hop_ok hop" and inner: "ParseMessage6 outer = Inr m"
    and len: "length (wrap_hop iter hop outer) < 65536"
  shows "ParseMessage6 (wrap_hop iter hop outer) = Inr (m\<lparr>msgRelayHops := reply_hop iter hop outer # msgRelayHops m\<rparr>)"
proof -
  let ?kvs = "(OptionRelayMsg6, outer) # hop_values (iter (hopOptions hop))"
  let ?t = "concat (map option_bytes ?kvs)"
  let ?d = "wrap_hop iter hop outer"
  note d = wrap_hop_bytes [OF ok, of iter outer]
  have l: "length (hopLinkAddr hop) = 16" "length (hopPeerAddr hop) = 16" using ok by (simp_all add: hop_ok_def)
  have dr: "drop 34 ?d = ?t" unfolding d using l by (simp add: drop_Cons')
  have s1: "slice 2 18 ?d = hopLinkAddr hop"
    unfolding d using slice_field [of "[MessageTypeRelayReply6, hopCount hop]" 2 "hopLinkAddr hop" 18] l by simp
  have s2: "slice 18 34 ?d = hopPeerAddr hop"
    unfolding d using slice_field [of "MessageTypeRelayReply6 # hopCount hop # hopLinkAddr hop" 18 "hopPeerAddr hop" 34] l by simp
  have hd: "?d ! 0 = MessageTypeRelayReply6" "?d ! 1 = hopCount hop" by (simp_all add: d)
  have ln: "\<not> length ?d < 34" "\<not> length ?d < 4" unfolding d using l by simp_all
  have p: "parseOptions6 ?t = Inr (collect ?kvs [])"
    using len unfolding d by (intro parseOptions6_tlvs) simp
  have g: "opt_get (collect ?kvs []) OptionRelayMsg6 = [outer]"
    using relay_msg_reply_hop [OF it ok, of outer] by (simp add: reply_hop_def)
  show ?thesis
    using ln hd dr s1 s2 p g inner
    by (simp add: ParseMessage6.simps [of ?d] parseRelay6.simps [of ?d] reply_hop_def)
qed

lemma wrap_hop_longer: "length outer < length (wrap_hop iter hop outer)"
  unfolding wrap_hop_def foldl_appendOption by (simp add: appendOption_bytes option_bytes_length)

lemma parse_wrapRelayResponse:
  assumes "go_order iter" and "list_all hop_ok hops" and "ParseMessage6 payload = Inr m"
    and "length (wrapRelayResponse iter hops payload) < 65536"
  shows "\<exists>hops'. ParseMessage6 (wrapRelayResponse iter hops payload) = Inr (m\<lparr>msgRelayHops := hops' @ msgRelayHops m\<rparr>)
    \<and> list_all2 same_hop hops hops'"
  using assms(2,4)
proof (induction hops)
  case Nil
  then show ?case using assms(3) by (simp add: wrapRelayResponse_def)
next
  case (Cons h hs)
  let ?outer = "wrapRelayResponse iter hs payload"
  have w: "wrapRelayResponse iter (h # hs) payload = wrap_hop iter h ?outer" by (simp add: wrapRelayResponse_def)
  have len: "length (wrap_hop iter h ?outer) < 65536" using Cons.prems(2) w by simp
  moreover have "length ?outer < 65536" using wrap_hop_longer [of ?outer iter h] len by simp
  ultimately obtain hops' where
    i: "ParseMessage6 ?outer = Inr (m\<lparr>msgRelayHops := hops' @ msgRelayHops m\<rparr>)" and s: "list_all2 same_hop hs hops'"
    using Cons by auto
  have "hop_ok h" using Cons.prems(1) by simp
  from parse_wrap_hop [OF assms(1) this i len] same_reply_hop [OF assms(1) this, of ?outer] s
  show ?case unfolding w by (intro exI [of _ "reply_hop iter h ?outer # hops'"]) simp
qed

lemma parse_options6_distinct:
  "parse_options6 data acc = Inr opts \<Longrightarrow> distinct (map fst acc) \<Longrightarrow> distinct (map fst opts)"
proof (induction data acc rule: parse_options6.induct)
  case (1 data acc)
  let ?body = "drop 4 data" and ?len = "unat (get16 (drop 2 data))"
  show ?case
  proof (cases "data = [] \<or> length data < 4 \<or> length ?body < ?len")
    case True
    then show ?thesis using "1.prems" by (auto simp: parse_options6.simps [of data] Let_def split: if_splits)
  next
    case False
    then have "parse_options6 (drop ?len ?body) (opt_add (get16 data) (take ?len ?body) acc) = Inr opts"
      using "1.prems"(1) by (simp add: parse_options6.simps [of data] Let_def)
    from "1.IH" [OF _ _ refl refl refl _ this] False "1.prems"(2)
    show ?thesis by (simp add: distinct_opt_add)
  qed
qed

text \<open>What the parser delivers: well-formed hops and a transaction id of 24 bits.\<close>

lemma parsed_message:
  "ParseMessage6 data = Inr m \<Longrightarrow> list_all hop_ok (msgRelayHops m) \<and> msgTransactionID m AND 0xFFFFFF = msgTransactionID m"
  "parseRelay6 data = Inr m \<Longrightarrow> list_all hop_ok (msgRelayHops m) \<and> msgTransactionID m AND 0xFFFFFF = msgTransactionID m"
proof (induction data and data arbitrary: m and m rule: ParseMessage6_parseRelay6.induct)
  case (1 data)
  have "(push_bit 16 (ucast a) OR push_bit 8 (ucast b) OR ucast c :: u32) AND 0xFFFFFF =
      push_bit 16 (ucast a) OR push_bit 8 (ucast b) OR ucast c" for a b c :: byte
  proof -
    have "(x :: u32) AND 0xFFFFFF = take_bit 24 x" for x
      by (simp add: take_bit_eq_mask mask_eq_exp_minus_1)
    then show ?thesis by (simp only:) (rule bit_word_eqI, auto simp: bit_simps dest: bit_bounds)
  qed
  with 1 show ?case
    by (auto simp: ParseMessage6.simps [of data] split: if_splits sum.splits)
next
  case (2 data)
  from "2.prems" obtain opts v vs inner where
    o: "parseOptions6 (drop 34 data) = Inr opts" "opt_get opts OptionRelayMsg6 = v # vs" "\<not> length data < 34"
    and i: "ParseMessage6 v = Inr inner"
    and m: "m = inner\<lparr>msgRelayHops := \<lparr>hopCount = data ! 1, hopLinkAddr = slice 2 18 data, hopPeerAddr = slice 18 34 data,
                     hopOptions = opts\<rparr> # msgRelayHops inner\<rparr>"
    by (auto simp: parseRelay6.simps [of data] split: if_splits sum.splits list.splits)
  have "distinct (map fst opts)" using o(1) parse_options6_distinct by (force simp: parseOptions6_def)
  with "2.IH" [OF o(3) o(1) o(2) i] o(3) show ?case by (simp add: m hop_ok_def)
qed

section \<open>Domain names survive the wire\<close>

definition plain_char :: "char \<Rightarrow> bool" where
  "plain_char c \<longleftrightarrow> 33 \<le> (of_char c :: nat) \<and> (of_char c :: nat) \<le> 126"

definition plain_label :: "string \<Rightarrow> bool" where
  "plain_label l \<longleftrightarrow> l \<noteq> [] \<and> length l \<le> 63 \<and> list_all plain_char l"

definition plain_name :: "string \<Rightarrow> bool" where
  "plain_name n \<longleftrightarrow> list_all plain_label (split_at_char CHR ''.'' n)"

lemma split_nonempty [simp]: "split_at_char sep s \<noteq> []"
  by (induction sep s rule: split_at_char.induct) (auto split: list.splits)

lemma join_split: "join_with [sep] (split_at_char sep s) = s"
proof (induction sep s rule: split_at_char.induct)
  case (2 sep c s)
  obtain w ws where "split_at_char sep s = w # ws" by (cases "split_at_char sep s") auto
  then show ?case using 2 by (cases ws) auto
qed simp

lemma split_snoc: "split_at_char sep (s @ [sep]) = split_at_char sep s @ [[]]"
proof (induction s)
  case (Cons c s)
  then show ?case by (cases "split_at_char sep s") auto
qed simp

lemma chars_of_split: "set s \<subseteq> insert sep (\<Union> (set ` set (split_at_char sep s)))"
proof (induction s)
  case (Cons c s)
  then show ?case by (cases "split_at_char sep s") auto
qed simp

lemma plain_not_space: "plain_char c \<Longrightarrow> \<not> is_space c"
  by (auto simp: plain_char_def is_space_def)

lemma plain_label_trim: "plain_label l \<Longrightarrow> trim_space l = l"
  by (rule trim_space_id) (auto simp: plain_label_def list_all_iff dest: plain_not_space)

lemma plain_name_trim:
  assumes "plain_name n"
  shows "trim_space (trim_dot n) = n" and "n \<noteq> []"
proof -
  show ne: "n \<noteq> []" using assms by (auto simp: plain_name_def plain_label_def)
  have "last n \<noteq> CHR ''.''"
  proof
    assume "last n = CHR ''.''"
    then have "n = butlast n @ [CHR ''.'']" using ne by (metis append_butlast_last_id)
    then have "[] \<in> set (split_at_char CHR ''.'' n)" using split_snoc [of "CHR ''.''" "butlast n"] by simp
    then show False using assms by (auto simp: plain_name_def plain_label_def list_all_iff)
  qed
  then have t: "trim_dot n = n" by (simp add: trim_dot_def)
  have "\<not> is_space c" if c: "c \<in> set n" for c
  proof (cases "c = CHR ''.''")
    case False
    then obtain l where "l \<in> set (split_at_char CHR ''.'' n)" "c \<in> set l"
      using c chars_of_split [of n "CHR ''.''"] by auto
    then show ?thesis using assms by (auto simp: plain_name_def plain_label_def list_all_iff dest!: plain_not_space)
  qed (simp add: is_space_def)
  then show "trim_space (trim_dot n) = n" using ne by (simp add: t trim_space_id)
qed

definition label_bytes :: "string \<Rightarrow> bytes" where
  "label_bytes l = of_nat (length l) # bytes_of_string (to_lower l)"

lemma encode_plain_labels:
  "list_all plain_label ls \<Longrightarrow> encode_labels d ls = Inr (concat (map label_bytes ls) @ [0])"
proof (induction ls)
  case (Cons l ls)
  then have "plain_label l" by simp
  with Cons plain_label_trim [OF this] show ?case by (simp add: label_bytes_def plain_label_def)
qed simp

lemma char_of_byte [simp]: "char_of (unat (of_char c :: byte)) = c"
proof -
  have "unat (of_char c :: byte) = of_char c" using of_char_bound [of c]
    by (metis of_nat_of_char unat_of_nat_byte)
  then show ?thesis by simp
qed

lemma lower_plain: "plain_char c \<Longrightarrow> 32 \<le> (of_char (lower_char c) :: byte) \<and> (of_char (lower_char c) :: byte) \<le> 126"
proof -
  assume p: "plain_char c"
  let ?c = "lower_char c"
  have n: "32 \<le> (of_char ?c :: nat)" "(of_char ?c :: nat) \<le> 126"
    using p by (auto simp: plain_char_def lower_char_def Let_def)
  have "unat (of_char ?c :: byte) = of_char ?c" using of_char_bound [of ?c]
    by (metis of_nat_of_char unat_of_nat_byte)
  then show ?thesis using n by (simp add: word_le_nat_alt)
qed

lemma sanitize_plain: "list_all plain_char l \<Longrightarrow> sanitizeASCII (bytes_of_string (to_lower l)) = to_lower l"
  by (induction l) (auto simp: sanitizeASCII_def bytes_of_string_def to_lower_def string_of_bytes_def dest: lower_plain)

lemma decode_plain_labels:
  "list_all plain_label ls \<Longrightarrow>
   decode_labels (concat (map label_bytes ls) @ 0 # rest) parts = Some (join_with ''.'' (parts @ map to_lower ls), rest)"
proof (induction ls arbitrary: parts)
  case Nil
  then show ?case by (simp add: decode_labels.simps [of "0 # rest"])
next
  case (Cons l ls)
  then have l: "l \<noteq> []" "length l \<le> 63" "list_all plain_char l" by (simp_all add: plain_label_def)
  have u: "unat (of_nat (length l) :: byte) = length l" using l(2) by (simp add: unat_of_nat_byte)
  then have "(of_nat (length l) :: byte) \<noteq> 0" using l(1) by (metis length_0_conv unat_0)
  moreover have "length (bytes_of_string (to_lower l)) = length l" by (simp add: bytes_of_string_def to_lower_def)
  moreover have "to_lower l \<noteq> []" using l(1) by (simp add: to_lower_def)
  ultimately have "decode_labels (concat (map label_bytes (l # ls)) @ 0 # rest) parts =
      decode_labels (concat (map label_bytes ls) @ 0 # rest) (parts @ [to_lower l])"
    using l u by (subst decode_labels.simps) (simp add: label_bytes_def sanitize_plain Let_def)
  also have "\<dots> = Some (join_with ''.'' ((parts @ [to_lower l]) @ map to_lower ls), rest)"
    using Cons.prems by (intro Cons.IH) simp
  finally show ?case by simp
qed

lemma to_lower_join: "to_lower (join_with sep ws) = join_with (to_lower sep) (map to_lower ws)"
  by (induction sep ws rule: join_with.induct) (simp_all add: to_lower_def)

lemma domain_name_roundtrip:
  assumes "plain_name n"
  shows "\<exists>bs. encodeDomainName n = Inr bs \<and> bs \<noteq> [] \<and> decodeDomainName (bs @ rest) = Some (to_lower n, rest)"
proof -
  let ?ls = "split_at_char CHR ''.'' n"
  have p: "list_all plain_label ?ls" using assms by (simp add: plain_name_def)
  have e: "encodeDomainName n = Inr (concat (map label_bytes ?ls) @ [0])"
    using plain_name_trim [OF assms] encode_plain_labels [OF p] by (simp add: encodeDomainName_def)
  have "lower_char CHR ''.'' = CHR ''.''" by (simp add: lower_char_def)
  then have "to_lower n = join_with ''.'' (map to_lower ?ls)"
    using to_lower_join [of "''.''" ?ls] join_split [of "CHR ''.''" n] by (simp add: to_lower_def [of "''.''"])
  then show ?thesis using e decode_plain_labels [OF p, of rest "[]"] by (simp add: decodeDomainName_def)
qed

text \<open>Names survive the wire.  A list of domain names with labels of 1 to 63 printable
  characters is encoded without an error, and decoding the option returns the same names in
  lower case; the client's fully qualified name round-trips in the same way.\<close>

theorem domain_names_roundtrip:
  assumes "list_all plain_name names" and "plain_name fqdn"
  shows "\<exists>bs fs. encodeDomainSearchListOption names = Inr bs \<and> parseDomainSearchListOption bs = map to_lower names \<and>
    encodeFQDNOption fqdn = Inr fs \<and> parseFQDNOption fs = to_lower fqdn"
proof -
  have list: "\<exists>bs. encodeDomainSearchListOption names = Inr bs \<and> parseDomainSearchListOption bs = map to_lower names"
    using assms(1)
  proof (induction names)
    case Nil
    then show ?case by (simp add: parseDomainSearchListOption.simps)
  next
    case (Cons n names)
    then obtain bs where bs: "encodeDomainSearchListOption names = Inr bs" "parseDomainSearchListOption bs = map to_lower names"
      by auto
    obtain b where b: "encodeDomainName n = Inr b" "b \<noteq> []" "decodeDomainName (b @ bs) = Some (to_lower n, bs)"
      using domain_name_roundtrip [of n bs] Cons.prems by auto
    have "to_lower n \<noteq> []" using plain_name_trim(2) [of n] Cons.prems by (simp add: to_lower_def)
    then have "parseDomainSearchListOption (b @ bs) = map to_lower (n # names)"
      using b bs by (subst parseDomainSearchListOption.simps) simp
    then show ?case using b bs by simp
  qed
  obtain f where "encodeDomainName fqdn = Inr f" "f \<noteq> []" "decodeDomainName (f @ []) = Some (to_lower fqdn, [])"
    using domain_name_roundtrip [OF assms(2), of "[]"] by blast
  then show ?thesis using list by (auto simp: encodeFQDNOption_def parseFQDNOption_def)
qed

theorem domain_names_roundtrip_witness:
  "\<exists>bs fs. encodeDomainSearchListOption [''Example.org'', ''lab''] = Inr bs \<and>
     parseDomainSearchListOption bs = [''example.org'', ''lab''] \<and>
     encodeFQDNOption ''Host.Lab'' = Inr fs \<and> parseFQDNOption fs = ''host.lab''"
proof -
  have "list_all plain_name [''Example.org'', ''lab'']" "plain_name ''Host.Lab''" by code_simp+
  moreover have "map to_lower [''Example.org'', ''lab''] = [''example.org'', ''lab'']" "to_lower ''Host.Lab'' = ''host.lab''"
    by code_simp+
  ultimately show ?thesis using domain_names_roundtrip [of "[''Example.org'', ''lab'']" "''Host.Lab''"] by metis
qed

end
