(* ===== verification/Ratelimit.thy ===== *)
theory Ratelimit
  imports Netip Float64 Dhcpv4_Message
begin

text \<open>
  Throttling.  The token bucket of \<^verbatim>\<open>third_party/juju/ratelimit\<close> and the per-MAC limiter
  built on it, with the relay whitelist (\<^verbatim>\<open>internal/dhcpv4/security/security.go\<close>), and
  the limiter of the security guard with its three dimensions
  (\<^verbatim>\<open>internal/security/ratelimit/token_bucket.go\<close>).  Token counts are floating-point
  numbers; every operation rounds.  The clock is an argument, read once per call.

  Both buckets provide the interface \<open>burst_limiter\<close>: at one instant no more than the
  capacity is granted.
\<close>

section \<open>The bucket of \<^verbatim>\<open>juju/ratelimit\<close>\<close>

record bucket =
  bRate :: rat
  bCapacity :: rat
  bTokens :: rat
  bLast :: gotime

definition NewBucketWithRate :: "gotime \<Rightarrow> rat \<Rightarrow> int \<Rightarrow> bucket" where
  "NewBucketWithRate now rate capacity =
     (let rate = (if rate \<le> 0 then 1 else rate); capacity = (if capacity \<le> 0 then 1 else capacity) in
      \<lparr>bRate = rate, bCapacity = float_of_int capacity, bTokens = float_of_int capacity, bLast = now\<rparr>)"

definition refill :: "gotime \<Rightarrow> bucket \<Rightarrow> bucket" where
  "refill now b =
     (let elapsed = Seconds (now - bLast b) in
      if elapsed > 0
      then let t = fadd (bTokens b) (fmul elapsed (bRate b)) in
        b\<lparr>bTokens := (if t > bCapacity b then bCapacity b else t), bLast := now\<rparr>
      else b)"

definition TakeAvailable :: "gotime \<Rightarrow> bucket \<Rightarrow> int \<Rightarrow> int \<times> bucket" where
  "TakeAvailable now b count =
     (if count \<le> 0 then (0, b)
      else
        let b = refill now b; need = float_of_int count in
        if bTokens b < need then (0, b)
        else (count, b\<lparr>bTokens := fsub (bTokens b) need\<rparr>))"

section \<open>The MAC limiter and the relay whitelist\<close>

record mac_limiter =
  mlPps :: int
  mlBuckets :: "string \<rightharpoonup> bucket"

definition NewMACRateLimiter :: "int \<Rightarrow> mac_limiter" where
  "NewMACRateLimiter pps = \<lparr>mlPps = (if pps \<le> 0 then 10 else pps), mlBuckets = Map.empty\<rparr>"

definition mac_key :: "string \<Rightarrow> string" where
  "mac_key mac = to_lower (trim_space mac)"

definition mac_bucket :: "gotime \<Rightarrow> mac_limiter \<Rightarrow> string \<Rightarrow> bucket" where
  "mac_bucket now l key =
     (case mlBuckets l key of
        Some b \<Rightarrow> b
      | None \<Rightarrow> NewBucketWithRate now (float_of_int (mlPps l)) (mlPps l))"

definition AllowMAC :: "gotime \<Rightarrow> mac_limiter \<Rightarrow> string \<Rightarrow> bool \<times> mac_limiter" where
  "AllowMAC now l mac =
     (let key = mac_key mac in
      if key = [] then (True, l)
      else let (n, b) = TakeAvailable now (mac_bucket now l key) 1 in
        (n = 1, l\<lparr>mlBuckets := (mlBuckets l)(key \<mapsto> b)\<rparr>))"

record relay_request =
  rrOption82Present :: bool
  rrGIAddr :: bytes
  rrXID :: u32

definition NormalizeIPSet :: "string list \<Rightarrow> string set" where
  "NormalizeIPSet values =
     set (List.map_filter (\<lambda>v. map_option (\<lambda>a. addr_string (Unmap a)) (ParseIP (trim_space v))) values)"

text \<open>\<^verbatim>\<open>firstIPv4\<close>: the address as four bytes, unless it is zero or not IPv4.\<close>

definition firstIPv4 :: "bytes \<Rightarrow> bytes option" where
  "firstIPv4 ip =
     (case To4 ip of
        None \<Rightarrow> None
      | Some v4 \<Rightarrow> if v4 = [0, 0, 0, 0] then None else Some v4)"

text \<open>The remote address is \<open>None\<close> when the packet carries none.\<close>

definition ValidateRelay :: "string set \<Rightarrow> relay_request \<Rightarrow> bytes option \<Rightarrow> dhcpv4_error option" where
  "ValidateRelay whitelist req remote =
     (if whitelist = {} then None
      else if \<not> (rrOption82Present req \<or> firstIPv4 (rrGIAddr req) \<noteq> None) then None
      else case remote of
        None \<Rightarrow> Some (WrapErr CodeRelayRejected ''relay source validation failed''
                  (''xid='' @ dec (unat (rrXID req))))
      | Some ip \<Rightarrow>
          if ip_string ip \<in> whitelist then None
          else Some (WrapErr CodeRelayRejected ''relay source not allowed''
                  (''remote='' @ ip_string ip @ '' xid='' @ dec (unat (rrXID req)))))"

section \<open>The limiter of the security guard\<close>

record rate_profile =
  PerMacPPS :: int
  PerPortPPS :: int
  PerIPPPS :: int
  Burst :: int

record rate_key =
  rkTenantID :: string
  rkMAC :: string
  rkPortID :: string
  rkIPAddress :: string

record guard_bucket =
  gbTokens :: rat
  gbLastTime :: gotime

record guard_limiter =
  glDefault :: rate_profile
  glOverrides :: "string \<rightharpoonup> rate_profile"
  glBuckets :: "string \<rightharpoonup> guard_bucket"

definition normalizeRateProfile :: "rate_profile \<Rightarrow> rate_profile" where
  "normalizeRateProfile p =
     \<lparr>PerMacPPS = max 0 (PerMacPPS p), PerPortPPS = max 0 (PerPortPPS p), PerIPPPS = max 0 (PerIPPPS p),
      Burst = max 0 (Burst p)\<rparr>"

definition profileFor :: "guard_limiter \<Rightarrow> string \<Rightarrow> rate_profile" where
  "profileFor l tenant =
     (case glOverrides l tenant of
        Some p \<Rightarrow> normalizeRateProfile p
      | None \<Rightarrow> normalizeRateProfile (glDefault l))"

definition dimensionKey :: "string \<Rightarrow> string \<Rightarrow> string \<Rightarrow> string" where
  "dimensionKey dimension tenant value =
     (let normalized = to_lower (trim_space value) in
      if normalized = [] then [] else dimension @ ''|'' @ tenant @ ''|'' @ normalized)"

text \<open>One bucket: the answer, the time to wait, and the bucket afterwards.\<close>

definition consume_bucket :: "gotime \<Rightarrow> int \<Rightarrow> int \<Rightarrow> guard_bucket \<Rightarrow> (bool \<times> duration) \<times> guard_bucket" where
  "consume_bucket now limit burst b =
     (let elapsed = Seconds (now - gbLastTime b);
          t = fadd (gbTokens b) (fmul (float_of_int limit) elapsed);
          t = (if t > float_of_int burst then float_of_int burst else t) in
      if t \<ge> 1 then ((True, 0), \<lparr>gbTokens = fsub t 1, gbLastTime = now\<rparr>)
      else
        let deficit = fsub 1 t;
            retryAfter = trunc (fmul (fdiv deficit (float_of_int limit)) (float_of_int second)) in
        ((False, if retryAfter < 10 * millisecond then 10 * millisecond else retryAfter),
         \<lparr>gbTokens = t, gbLastTime = now\<rparr>))"

definition consume ::
  "gotime \<Rightarrow> string \<Rightarrow> string \<Rightarrow> int \<Rightarrow> int \<Rightarrow> string \<Rightarrow> guard_limiter \<Rightarrow> (bool \<times> duration) \<times> guard_limiter" where
  "consume now dimension tenant limit burst value l =
     (let value = trim_space value in
      if limit \<le> 0 \<or> value = [] then ((True, 0), l)
      else
        let burst = (if burst \<le> 0 then limit else burst);
            key = dimensionKey dimension tenant value;
            b = (case glBuckets l key of
                   Some b \<Rightarrow> b
                 | None \<Rightarrow> \<lparr>gbTokens = float_of_int burst, gbLastTime = now\<rparr>);
            (r, b) = consume_bucket now limit burst b in
        (r, l\<lparr>glBuckets := (glBuckets l)(key \<mapsto> b)\<rparr>))"

definition AllowKey :: "gotime \<Rightarrow> rate_key \<Rightarrow> guard_limiter \<Rightarrow> (bool \<times> duration) \<times> guard_limiter" where
  "AllowKey now key l =
     (let profile = profileFor l (rkTenantID key) in
      case consume now ''mac'' (rkTenantID key) (PerMacPPS profile) (Burst profile) (rkMAC key) l of
        ((False, retry), l) \<Rightarrow> ((False, retry), l)
      | ((True, _), l) \<Rightarrow>
      case consume now ''port'' (rkTenantID key) (PerPortPPS profile) (Burst profile) (rkPortID key) l of
        ((False, retry), l) \<Rightarrow> ((False, retry), l)
      | ((True, _), l) \<Rightarrow>
      case consume now ''ip'' (rkTenantID key) (PerIPPPS profile) (Burst profile) (rkIPAddress key) l of
        ((False, retry), l) \<Rightarrow> ((False, retry), l)
      | ((True, _), l) \<Rightarrow> ((True, 0), l))"

section \<open>The interface\<close>

text \<open>\<open>bounded now k b\<close>: at the instant \<open>now\<close> bucket \<open>b\<close> has at most \<open>k\<close> grants left.\<close>

fun grants :: "('b \<Rightarrow> bool \<times> 'b) \<Rightarrow> nat \<Rightarrow> 'b \<Rightarrow> nat" where
  "grants take1 0 b = 0"
| "grants take1 (Suc n) b = (let (g, b') = take1 b in (if g then 1 else 0) + grants take1 n b')"

locale burst_limiter =
  fixes take1 :: "gotime \<Rightarrow> 'b \<Rightarrow> bool \<times> 'b"
    and bounded :: "gotime \<Rightarrow> int \<Rightarrow> 'b \<Rightarrow> bool"
  assumes granted: "bounded now k b \<Longrightarrow> take1 now b = (True, b') \<Longrightarrow> 1 \<le> k \<and> bounded now (k - 1) b'"
    and refused: "bounded now k b \<Longrightarrow> take1 now b = (False, b') \<Longrightarrow> bounded now k b'"
    and nonneg: "bounded now k b \<Longrightarrow> 0 \<le> k"
begin

lemma burst_bound: "bounded now k b \<Longrightarrow> int (grants (take1 now) n b) \<le> k"
proof (induction n arbitrary: k b)
  case 0
  then show ?case using nonneg by simp
next
  case (Suc n)
  obtain g b' where t: "take1 now b = (g, b')" by force
  show ?case
  proof (cases g)
    case True
    then have "1 \<le> k \<and> bounded now (k - 1) b'" using granted [OF Suc.prems] t by simp
    then show ?thesis using Suc.IH [of "k - 1" b'] t True by simp
  next
    case False
    then have "bounded now k b'" using refused [OF Suc.prems] t by simp
    then show ?thesis using Suc.IH [of k b'] t False by simp
  qed
qed

end

section \<open>The buckets keep the contract\<close>

lemma fsub_one:
  assumes "1 \<le> t" and "t \<le> of_int k" and "k \<le> 2 ^ 53"
  shows "0 \<le> fsub t 1" "fsub t 1 \<le> of_int (k - 1)"
proof -
  have "1 \<le> k" using assms(1,2) by (metis dual_order.trans of_int_1_le_iff)
  then have "fl64 (of_int (k - 1)) = of_int (k - 1)" using assms(3) by (intro fl64_of_int) auto
  moreover have "fl64 (t - 1) \<le> fl64 (of_int (k - 1))" using assms by (intro fl64_mono) simp_all
  ultimately show "fsub t 1 \<le> of_int (k - 1)" by (simp add: fsub_def)
  show "0 \<le> fsub t 1" using assms(1) by (simp add: fsub_def fl64_nonneg)
qed

lemma float_one [simp]: "float_of_int 1 = 1"
  using float_of_int_exact [of 1] by simp

lemma Seconds_zero [simp]: "Seconds 0 = 0"
  using Seconds_whole [of 0] by simp

lemma Seconds_nonneg: "0 \<le> d \<Longrightarrow> 0 \<le> Seconds d"
  by (simp add: Seconds_def fadd_def fdiv_def float_of_int_def quot_def rem_def second_def fl64_nonneg zero_le_mult_iff
      sgn_if)

lemma fl64_pos: "0 < x \<Longrightarrow> 0 < fl64 x"
  using fl64_binade(1) [of x] pow2_pos [of "ilog2 x"] by linarith

lemma quot_rem_second: "0 \<le> d \<Longrightarrow> quot d second = d div second \<and> rem d second = d mod second"
  by (auto simp: quot_def rem_def second_def sgn_if minus_mult_div_eq_mod)

lemma Seconds_pos: "0 < d \<Longrightarrow> 0 < Seconds d"
proof -
  assume d: "0 < d"
  have "0 < d div second \<or> 0 < d mod second" 
  proof (rule ccontr)
    assume "\<not> ?thesis"
    then have "d div second \<le> 0" "d mod second \<le> 0" by auto
    moreover have "0 \<le> d mod second" by (simp add: second_def)
    moreover have "d = second * (d div second) + d mod second" by simp
    moreover have "second * (d div second) \<le> 0" using calculation(1) by (intro mult_nonneg_nonpos) (simp_all add: second_def)
    ultimately show False using d by linarith
  qed
  moreover have "0 \<le> d div second" "0 \<le> d mod second" using d by (simp_all add: second_def pos_imp_zdiv_nonneg_iff)
  ultimately have "0 < float_of_int (d div second) + fdiv (float_of_int (d mod second)) 1000000000"
    by (auto simp: float_of_int_def fdiv_def fl64_nonneg fl64_pos add_pos_nonneg add_nonneg_pos)
  then show ?thesis using quot_rem_second [of d] d by (simp add: Seconds_def fadd_def fl64_pos)
qed

lemma fl64_nonpos: "x \<le> 0 \<Longrightarrow> fl64 x \<le> 0"
proof -
  assume "x \<le> 0"
  moreover define q where "q = x / pow2 (ilog2 \<bar>x\<bar> - 52)"
  ultimately have "q \<le> 0" by (simp add: divide_nonpos_pos)
  then have "\<lceil>q\<rceil> \<le> 0" by simp
  then have "round_even q \<le> 0" using round_even_bounds(2) [of q] by linarith
  then show ?thesis by (simp add: fl64_def Let_def q_def [symmetric] mult_nonpos_nonneg)
qed

lemma Seconds_nonpos: "d \<le> 0 \<Longrightarrow> Seconds d \<le> 0"
proof -
  assume d: "d \<le> 0"
  have "quot d second \<le> 0" "rem d second \<le> 0"
    using d by (auto simp: quot_def rem_def second_def sgn_if pos_imp_zdiv_nonneg_iff) (presburger+)?
  then show ?thesis
    by (simp add: Seconds_def fadd_def fdiv_def float_of_int_def fl64_nonpos divide_nonpos_pos add_nonpos_nonpos)
qed

definition take_mac :: "gotime \<Rightarrow> bucket \<Rightarrow> bool \<times> bucket" where
  "take_mac now b = (let (n, b') = TakeAvailable now b 1 in (n = 1, b'))"

definition bucket_ok :: "int \<Rightarrow> bucket \<Rightarrow> bool" where
  "bucket_ok cap b \<longleftrightarrow> 0 \<le> cap \<and> cap \<le> 2 ^ 53 \<and> bCapacity b = of_int cap \<and> 0 \<le> bRate b \<and> 0 \<le> bTokens b \<and>
     bTokens b \<le> of_int cap"

definition mac_bounded :: "int \<Rightarrow> gotime \<Rightarrow> int \<Rightarrow> bucket \<Rightarrow> bool" where
  "mac_bounded cap now k b \<longleftrightarrow> bucket_ok cap b \<and> 0 \<le> k \<and> k \<le> cap \<and>
     (if bLast b < now then k = cap else bTokens b \<le> of_int k)"

lemma refill_bounded:
  assumes "mac_bounded cap now k b"
  shows "bucket_ok cap (refill now b) \<and> 0 \<le> k \<and> k \<le> cap \<and> \<not> bLast (refill now b) < now \<and> bTokens (refill now b) \<le> of_int k"
proof (cases "bLast b < now")
  case True
  then have "0 < Seconds (now - bLast b)" by (intro Seconds_pos) simp
  moreover have "0 \<le> fadd (bTokens b) (fmul (Seconds (now - bLast b)) (bRate b))"
    using assms calculation by (simp add: mac_bounded_def bucket_ok_def fadd_def fl64_nonneg fmul_nonneg)
  ultimately show ?thesis using assms True by (auto simp: mac_bounded_def bucket_ok_def refill_def Let_def)
next
  case False
  then have "\<not> 0 < Seconds (now - bLast b)" using Seconds_nonpos [of "now - bLast b"] by simp
  then show ?thesis using assms False by (auto simp: mac_bounded_def refill_def Let_def)
qed


interpretation mac: burst_limiter take_mac "mac_bounded cap" for cap
proof
  fix now k b b'
  assume b: "mac_bounded cap now k b" and t: "take_mac now b = (True, b')"
  note r = refill_bounded [OF b]
  let ?t = "bTokens (refill now b)"
  have b': "1 \<le> ?t" "b' = (refill now b)\<lparr>bTokens := fsub ?t 1\<rparr>"
    using t by (auto simp: take_mac_def TakeAvailable_def Let_def split: if_splits)
  have k: "k \<le> 2 ^ 53" using r by (auto simp: bucket_ok_def)
  note f = fsub_one [OF b'(1) _ k]
  have "(1::rat) \<le> of_int k" using b'(1) r by (meson order_trans)
  then have "1 \<le> k" by simp
  moreover have "of_int (k - 1) \<le> (of_int cap :: rat)" using r by simp
  ultimately show "1 \<le> k \<and> mac_bounded cap now (k - 1) b'"
    using f r b'(2) by (auto simp: mac_bounded_def bucket_ok_def)
next
  fix now k b b'
  assume b: "mac_bounded cap now k b" and t: "take_mac now b = (False, b')"
  then have "b' = refill now b" by (auto simp: take_mac_def TakeAvailable_def Let_def split: if_splits)
  then show "mac_bounded cap now k b'" using refill_bounded [OF b] by (simp add: mac_bounded_def)
next
  fix now k b
  assume "mac_bounded cap now k b"
  then show "0 \<le> k" by (simp add: mac_bounded_def)
qed

section \<open>The buckets of the guard\<close>

definition take_guard :: "int \<Rightarrow> int \<Rightarrow> gotime \<Rightarrow> guard_bucket \<Rightarrow> bool \<times> guard_bucket" where
  "take_guard limit burst now b = (let ((g, _), b') = consume_bucket now limit burst b in (g, b'))"

definition guard_bounded :: "int \<Rightarrow> int \<Rightarrow> gotime \<Rightarrow> int \<Rightarrow> guard_bucket \<Rightarrow> bool" where
  "guard_bounded limit burst now k b \<longleftrightarrow> 0 \<le> limit \<and> burst \<le> 2 ^ 53 \<and> 0 \<le> k \<and> k \<le> burst \<and> gbLastTime b \<le> now \<and> 0 \<le> gbTokens b \<and>
     (if gbLastTime b < now then k = burst else gbTokens b \<le> of_int k)"

text \<open>The level after the refill.\<close>

definition guard_level :: "gotime \<Rightarrow> int \<Rightarrow> int \<Rightarrow> guard_bucket \<Rightarrow> rat" where
  "guard_level now limit burst b =
     (let t = fadd (gbTokens b) (fmul (float_of_int limit) (Seconds (now - gbLastTime b))) in
      if t > float_of_int burst then float_of_int burst else t)"

lemma guard_level_bounds:
  assumes "guard_bounded limit burst now k b"
  shows "0 \<le> guard_level now limit burst b" "guard_level now limit burst b \<le> of_int k"
proof -
  note a = assms [unfolded guard_bounded_def]
  have burst: "float_of_int burst = of_int burst" using a by (intro float_of_int_exact) auto
  have s: "0 \<le> Seconds (now - gbLastTime b)" using a by (intro Seconds_nonneg) simp
  have pos: "0 \<le> fadd (gbTokens b) (fmul (float_of_int limit) (Seconds (now - gbLastTime b)))"
    using a s by (simp add: fadd_def fl64_nonneg fmul_nonneg float_of_int_def)
  then show "0 \<le> guard_level now limit burst b" using a burst by (simp add: guard_level_def Let_def)
  show "guard_level now limit burst b \<le> of_int k"
  proof (cases "gbLastTime b < now")
    case True
    then show ?thesis using a burst by (simp add: guard_level_def Let_def)
  next
    case False
    then have now: "gbLastTime b = now" using a by simp
    have "fl64 (gbTokens b) \<le> fl64 (of_int k)" using a False by (intro fl64_mono) simp_all
    moreover have "fl64 (of_int k) = of_int k" using a by (intro fl64_of_int) auto
    ultimately have "fl64 (gbTokens b) \<le> of_int k" by simp
    moreover have "(of_int k :: rat) \<le> of_int burst" using a by simp
    ultimately show ?thesis using burst by (simp add: guard_level_def Let_def now fmul_def fadd_def fl64_def [of 0])
  qed
qed

lemma take_guard_level:
  "take_guard limit burst now b =
     (if 1 \<le> guard_level now limit burst b then (True, \<lparr>gbTokens = fsub (guard_level now limit burst b) 1, gbLastTime = now\<rparr>)
      else (False, \<lparr>gbTokens = guard_level now limit burst b, gbLastTime = now\<rparr>))"
  by (simp add: take_guard_def consume_bucket_def guard_level_def Let_def)

interpretation guard: burst_limiter "take_guard limit burst" "guard_bounded limit burst" for limit burst
proof
  fix now k b b'
  assume b: "guard_bounded limit burst now k b" and t: "take_guard limit burst now b = (True, b')"
  note l = guard_level_bounds [OF b]
  from t have b': "1 \<le> guard_level now limit burst b" "b' = \<lparr>gbTokens = fsub (guard_level now limit burst b) 1, gbLastTime = now\<rparr>"
    by (auto simp: take_guard_level split: if_splits)
  have k: "k \<le> 2 ^ 53" using b by (simp add: guard_bounded_def)
  have "(1::rat) \<le> of_int k" using b'(1) l(2) by (meson order_trans)
  then have "1 \<le> k" by simp
  then show "1 \<le> k \<and> guard_bounded limit burst now (k - 1) b'"
    using fsub_one [OF b'(1) l(2) k] b b'(2) by (auto simp: guard_bounded_def)
next
  fix now k b b'
  assume b: "guard_bounded limit burst now k b" and t: "take_guard limit burst now b = (False, b')"
  then have "b' = \<lparr>gbTokens = guard_level now limit burst b, gbLastTime = now\<rparr>" by (simp add: take_guard_level split: if_splits)
  then show "guard_bounded limit burst now k b'" using guard_level_bounds [OF b] b by (simp add: guard_bounded_def)
next
  fix now k b
  assume "guard_bounded limit burst now k b"
  then show "0 \<le> k" by (simp add: guard_bounded_def)
qed

section \<open>Properties\<close>

definition limiter_ok :: "mac_limiter \<Rightarrow> bool" where
  "limiter_ok l \<longleftrightarrow> 1 \<le> mlPps l \<and> mlPps l \<le> 2 ^ 53 \<and> (\<forall>key b. mlBuckets l key = Some b \<longrightarrow> bucket_ok (mlPps l) b)"

lemma bucket_ok_bounded: "bucket_ok cap b \<Longrightarrow> mac_bounded cap now cap b"
  by (auto simp: mac_bounded_def bucket_ok_def)

lemma mac_bucket_ok: "limiter_ok l \<Longrightarrow> bucket_ok (mlPps l) (mac_bucket now l key)"
  by (auto simp: limiter_ok_def mac_bucket_def NewBucketWithRate_def bucket_ok_def float_of_int_exact Let_def
      split: option.splits)

lemma mac_bounded_ok: "mac_bounded cap now k b \<Longrightarrow> bucket_ok cap b"
  by (simp add: mac_bounded_def)

lemma AllowMAC_take:
  "mac_key mac \<noteq> [] \<Longrightarrow> AllowMAC now l mac =
     (let (g, b) = take_mac now (mac_bucket now l (mac_key mac)) in (g, l\<lparr>mlBuckets := (mlBuckets l)(mac_key mac \<mapsto> b)\<rparr>))"
  by (simp add: AllowMAC_def take_mac_def Let_def split: prod.splits)

lemma AllowMAC_ok: "limiter_ok l \<Longrightarrow> AllowMAC now l mac = (g, l') \<Longrightarrow> limiter_ok l' \<and> mlPps l' = mlPps l"
proof (cases "mac_key mac = []")
  case False
  assume ok: "limiter_ok l" and run: "AllowMAC now l mac = (g, l')"
  obtain g' b where t: "take_mac now (mac_bucket now l (mac_key mac)) = (g', b)" by force
  have bd: "mac_bounded (mlPps l) now (mlPps l) (mac_bucket now l (mac_key mac))"
    using bucket_ok_bounded mac_bucket_ok [OF ok] by blast
  have "bucket_ok (mlPps l) b"
    using mac.granted [OF bd] mac.refused [OF bd] mac_bounded_ok t by (cases g') auto
  then show ?thesis using run ok t False by (auto simp: AllowMAC_take limiter_ok_def split: if_splits)
qed (auto simp: AllowMAC_def)

text \<open>A burst: packets that arrive at one instant, and how many of those with a given key pass.\<close>

fun burst_passed :: "gotime \<Rightarrow> string \<Rightarrow> string list \<Rightarrow> mac_limiter \<Rightarrow> nat" where
  "burst_passed now key [] l = 0"
| "burst_passed now key (mac # macs) l =
     (let (g, l') = AllowMAC now l mac in
      (if g \<and> mac_key mac = key then 1 else 0) + burst_passed now key macs l')"

lemma burst_passed_bound:
  assumes "limiter_ok l" and "mac_bounded (mlPps l) now k (mac_bucket now l key)" and "key \<noteq> []"
  shows "int (burst_passed now key macs l) \<le> k"
  using assms
proof (induction macs arbitrary: l k)
  case Nil
  then show ?case by (simp add: mac_bounded_def)
next
  case (Cons m macs)
  obtain g l' where a: "AllowMAC now l m = (g, l')" by force
  have ok': "limiter_ok l' \<and> mlPps l' = mlPps l" using AllowMAC_ok [OF Cons.prems(1) a] .
  show ?case
  proof (cases "mac_key m = key")
    case False
    then have "mac_bucket now l' key = mac_bucket now l key"
      using a by (cases "mlBuckets l key") (auto simp: AllowMAC_def mac_bucket_def Let_def split: if_splits prod.splits)
    then show ?thesis using Cons ok' a False by auto
  next
    case True
    obtain b where t: "take_mac now (mac_bucket now l key) = (g, b)" and l': "l' = l\<lparr>mlBuckets := (mlBuckets l)(key \<mapsto> b)\<rparr>"
      using a AllowMAC_take [of m now l] True Cons.prems(3) by (auto split: prod.splits)
    have b: "mac_bucket now l' key = b" using l' by (simp add: mac_bucket_def)
    show ?thesis
    proof (cases g)
      case g: True
      then have "1 \<le> k \<and> mac_bounded (mlPps l) now (k - 1) b" using mac.granted [OF Cons.prems(2)] t by simp
      then show ?thesis using Cons.IH [of l' "k - 1"] ok' b a True g Cons.prems(3) by simp
    next
      case g: False
      then have "mac_bounded (mlPps l) now k b" using mac.refused [OF Cons.prems(2)] t by simp
      then show ?thesis using Cons.IH [of l' k] ok' b a g Cons.prems(3) by simp
    qed
  qed
qed

text \<open>C20: A MAC cannot exceed its rate in a burst.  In any state the limiter can be in, of the
  packets that arrive at one instant no more than \<^verbatim>\<open>pps\<close> with the same hardware address
  pass, however they are mixed with others; and every call keeps the limiter well-formed.\<close>

theorem mac_burst_bounded:
  assumes "limiter_ok l" and "key \<noteq> []"
  shows "int (burst_passed now key macs l) \<le> mlPps l \<and> limiter_ok (snd (AllowMAC now l mac))"
proof
  show "int (burst_passed now key macs l) \<le> mlPps l"
    by (rule burst_passed_bound [OF assms(1) bucket_ok_bounded [OF mac_bucket_ok [OF assms(1)]] assms(2)])
  obtain g l' where a: "AllowMAC now l mac = (g, l')" by force
  then show "limiter_ok (snd (AllowMAC now l mac))" using AllowMAC_ok [OF assms(1) a] by simp
qed

lemma NewMACRateLimiter_ok: "pps \<le> 2 ^ 53 \<Longrightarrow> limiter_ok (NewMACRateLimiter pps)"
  by (auto simp: limiter_ok_def NewMACRateLimiter_def)

theorem mac_burst_bounded_witness:
  "burst_passed 5 ''aa'' [''AA'', '' aa'', ''bb'', ''aa''] (NewMACRateLimiter 2) = 2 \<and>
   int (burst_passed 5 ''aa'' [''AA'', '' aa'', ''bb'', ''aa''] (NewMACRateLimiter 2)) \<le> mlPps (NewMACRateLimiter 2)"
proof -
  have "burst_passed 5 ''aa'' [''AA'', '' aa'', ''bb'', ''aa''] (NewMACRateLimiter 2) = 2" by code_simp
  then show ?thesis
    using mac_burst_bounded [OF NewMACRateLimiter_ok, of 2 "''aa''" 5 "[''AA'', '' aa'', ''bb'', ''aa'']"] by simp
qed

lemma Seconds_ge_one: "second \<le> d \<Longrightarrow> d \<le> 2 ^ 62 \<Longrightarrow> 1 \<le> Seconds d"
proof -
  assume d: "second \<le> d" "d \<le> 2 ^ 62"
  then have q: "quot d second = d div second" "rem d second = d mod second" using quot_rem_second [of d] by (simp_all add: second_def)
  have "1 \<le> d div second" using d by (simp add: second_def zdiv_mono1 [of 1000000000 d 1000000000, simplified])
  moreover have "d div second \<le> 2 ^ 53" using d by (simp add: second_def zdiv_mono1 [of d "2 ^ 62" 1000000000, simplified] order_trans)
  ultimately have "float_of_int (d div second) = of_int (d div second)" "(1::rat) \<le> of_int (d div second)"
    by (auto intro: float_of_int_exact)
  moreover have "0 \<le> fdiv (float_of_int (d mod second)) 1000000000"
    by (simp add: fdiv_def float_of_int_def fl64_nonneg second_def)
  ultimately have "1 \<le> float_of_int (d div second) + fdiv (float_of_int (d mod second)) 1000000000" by simp
  from fl64_mono [OF _ this] show ?thesis using fl64_of_int [of 1] by (simp add: Seconds_def fadd_def q)
qed

lemma fl64_ge_one: "1 \<le> x \<Longrightarrow> 1 \<le> fl64 x"
  using fl64_mono [of 1 x] fl64_of_int [of 1] by simp

text \<open>A client that waits is served.  In the guard's limiter, a bucket whose last packet is
  at least one second old grants the next packet, whatever it was refused before; a refused
  packet is told to wait at least ten milliseconds.\<close>

theorem guard_serves_after_pause:
  assumes "1 \<le> limit" and "limit \<le> 2 ^ 53" and "1 \<le> burst" and "burst \<le> 2 ^ 53" and "0 \<le> gbTokens b"
    and "gbLastTime b + second \<le> now" and "now - gbLastTime b \<le> 2 ^ 62"
  shows "fst (consume_bucket now limit burst b) = (True, 0) \<and>
    (\<not> fst (fst (consume_bucket t limit burst c)) \<longrightarrow> 10 * millisecond \<le> snd (fst (consume_bucket t limit burst c)))"
proof -
  have s: "1 \<le> Seconds (now - gbLastTime b)" using assms by (intro Seconds_ge_one) simp_all
  have lim: "float_of_int limit = of_int limit" "float_of_int burst = of_int burst"
    using assms by (simp_all add: float_of_int_exact)
  have "(1::rat) * 1 \<le> of_int limit * Seconds (now - gbLastTime b)" using assms(1) s by (intro mult_mono) simp_all
  then have "1 \<le> fmul (of_int limit) (Seconds (now - gbLastTime b))" by (simp add: fmul_def fl64_ge_one)
  then have "1 \<le> fadd (gbTokens b) (fmul (of_int limit) (Seconds (now - gbLastTime b)))"
    using assms(5) by (simp add: fadd_def fl64_ge_one)
  then show ?thesis using assms(3) lim by (simp add: consume_bucket_def Let_def)
qed

theorem guard_serves_after_pause_witness:
  "fst (consume_bucket second 5 2 \<lparr>gbTokens = 0, gbLastTime = 0\<rparr>) = (True, 0)"
  using guard_serves_after_pause [of 5 2 "\<lparr>gbTokens = 0, gbLastTime = 0\<rparr>" second] by (simp add: second_def)

text \<open>The guard's buckets hold their burst.  From any bucket filled to at most its burst,
  packets that arrive at one instant are granted at most \<open>burst\<close> times.\<close>

theorem guard_burst_bounded:
  assumes "0 \<le> limit" and "0 \<le> burst" and "burst \<le> 2 ^ 53" and "gbLastTime b \<le> now"
    and "0 \<le> gbTokens b" and "gbTokens b \<le> of_int burst"
  shows "int (grants (take_guard limit burst now) n b) \<le> burst"
  using assms by (intro guard.burst_bound) (simp add: guard_bounded_def)

theorem guard_burst_bounded_witness:
  "grants (take_guard 1 2 9) 4 \<lparr>gbTokens = 2, gbLastTime = 9\<rparr> = 2 \<and>
   int (grants (take_guard 1 2 9) 4 \<lparr>gbTokens = 2, gbLastTime = 9\<rparr>) \<le> 2"
proof -
  have "grants (take_guard 1 2 9) 4 \<lparr>gbTokens = 2, gbLastTime = 9\<rparr> = 2" by code_simp
  then show ?thesis using guard_burst_bounded [of 1 2 "\<lparr>gbTokens = 2, gbLastTime = 9\<rparr>" 9 4] by simp
qed

definition refused_bucket :: guard_bucket where
  "refused_bucket = snd (consume_bucket 0 3 1 \<lparr>gbTokens = 1, gbLastTime = 0\<rparr>)"

text \<open>The advertised waiting time is too short.  With three packets per second and a burst
  of one, a packet refused right after the first is told to wait 333333333 nanoseconds; after
  exactly that time it is refused again.\<close>

theorem retry_after_too_short:
  "fst (consume_bucket 0 3 1 \<lparr>gbTokens = 1, gbLastTime = 0\<rparr>) = (True, 0) \<and>
   fst (consume_bucket 0 3 1 refused_bucket) = (False, 333333333) \<and>
   \<not> fst (fst (consume_bucket 333333333 3 1 (snd (consume_bucket 0 3 1 refused_bucket))))"
  by code_simp

end
