(* ===== verification/Dhcpv6_Server.thy ===== *)
theory Dhcpv6_Server
  imports Dhcpv6_Message Ratelimit Lease_Fsm Lease_Env
begin

text \<open>
  The DHCPv6 server, \<^verbatim>\<open>internal/dhcpv6/server.go\<close>: how a datagram is checked
  (relay whitelist, partition, rate limit, rogue advertisements), driven through the lease
  state machine of its client, handed to the handler, and answered.

  The handler is an argument: a record of the methods the server calls, over a state of its
  own, so that what is proved here holds for every handler.  The clock, the order in which
  Go visits a map and the random server id are arguments as well.  A datagram is answered
  with at most one datagram.
\<close>

section \<open>The handler the server calls\<close>

record slaac_info =
  slPrefix :: string
  slAddress :: string
  slPreferredLifetime :: duration
  slValidLifetime :: duration

text \<open>\<^verbatim>\<open>lease.Result\<close> as the DHCPv6 code uses it: the pointers may be nil.\<close>

record result6 =
  r6Lease :: "lease option"
  r6Reused :: bool
  r6Profile :: lease_profile
  r6Pool :: "address_pool option"
  r6SLAAC :: "slaac_info option"
  r6PrefixDelegations :: "prefix_delegation list"

datatype handler_error = NACKError string | HandlerError string

record 'h handler6 =
  HandleSolicit6 :: "string \<Rightarrow> packet6 \<Rightarrow> 'h \<Rightarrow> (handler_error + result6) \<times> 'h"
  HandleRequest6 :: "string \<Rightarrow> packet6 \<Rightarrow> 'h \<Rightarrow> (handler_error + result6) \<times> 'h"
  HandleConfirm6 :: "string \<Rightarrow> packet6 \<Rightarrow> 'h \<Rightarrow> (handler_error + result6) \<times> 'h"
  HandleRenew6 :: "string \<Rightarrow> packet6 \<Rightarrow> 'h \<Rightarrow> (handler_error + result6) \<times> 'h"
  HandleRebind6 :: "string \<Rightarrow> packet6 \<Rightarrow> 'h \<Rightarrow> (handler_error + result6) \<times> 'h"
  HandleRelease6 :: "string \<Rightarrow> packet6 \<Rightarrow> 'h \<Rightarrow> handler_error option \<times> 'h"
  HandleDecline6 :: "string \<Rightarrow> packet6 \<Rightarrow> 'h \<Rightarrow> handler_error option \<times> 'h"

text \<open>The answer to a refused client, \<^verbatim>\<open>handler.go\<close>.\<close>

definition zeroLifetimeConfirmResult :: "packet6 \<Rightarrow> result6" where
  "zeroLifetimeConfirmResult pkt =
     \<lparr>r6Lease = Some (empty_lease\<lparr>leaseIPAddress := (case pkIAAddr pkt of None \<Rightarrow> ''::'' | Some a \<Rightarrow> ip_string a)\<rparr>),
      r6Reused = False, r6Profile = empty_profile, r6Pool = None, r6SLAAC = None, r6PrefixDelegations = []\<rparr>"

section \<open>The server\<close>

record server6_options =
  so6TenantID :: string
  so6ServerID :: bytes
  so6RateLimitPPS :: int
  so6RelayWhitelist :: "string list"
  so6ClusterServerIDs :: "string list"
  so6PreferredLifetime :: duration
  so6ValidLifetime :: duration
  so6Partitioner :: "partitioner option"

record server6 =
  sv6Opts :: server6_options
  sv6ServerID :: bytes
  sv6RelayAllow :: "string set"
  sv6RogueAllow :: "string set"

record 'h server6_state =
  st6Limiter :: mac_limiter
  st6RogueEvents :: "(string \<times> string) list"
  st6LeaseFSMs :: "string \<rightharpoonup> string"
  st6Handler :: 'h

definition normalizeIPv6Address :: "bytes option \<Rightarrow> string" where
  "normalizeIPv6Address ip =
     (case ip of
        None \<Rightarrow> []
      | Some bs \<Rightarrow>
          (case AddrFromSlice bs of
             Some a \<Rightarrow> if Is6 a then addr_string (Unmap a) else []
           | None \<Rightarrow> []))"

text \<open>\<^verbatim>\<open>net.ParseIP\<close> returns sixteen bytes for both families.\<close>

definition ParseIP_bytes :: "string \<Rightarrow> bytes option" where
  "ParseIP_bytes s = map_option As16 (ParseIP s)"

definition normalizeRelayWhitelist :: "string list \<Rightarrow> string set" where
  "normalizeRelayWhitelist raw =
     set (filter (\<lambda>n. n \<noteq> []) (map (\<lambda>v. normalizeIPv6Address (ParseIP_bytes (trim_space v))) raw))"

definition canonicalServerID :: "bytes \<Rightarrow> string" where
  "canonicalServerID raw = (if raw = [] then [] else to_lower (hex_string raw))"

text \<open>\<^verbatim>\<open>hex.DecodeString\<close>.\<close>

fun hex_decode :: "string \<Rightarrow> bytes option" where
  "hex_decode [] = Some []"
| "hex_decode [c] = None"
| "hex_decode (a # b # s) =
     (case (hex_digit_val a, hex_digit_val b, hex_decode s) of
        (Some x, Some y, Some bs) \<Rightarrow> Some (of_nat (16 * x + y) # bs)
      | _ \<Rightarrow> None)"

definition cluster_server_id :: "string \<Rightarrow> string" where
  "cluster_server_id raw =
     (let trimmed = trim_space (to_lower raw) in
      if trimmed = [] then []
      else case hex_decode trimmed of
        Some decoded \<Rightarrow> canonicalServerID decoded
      | None \<Rightarrow> trimmed)"

definition normalizeServerIDSet :: "string list \<Rightarrow> bytes \<Rightarrow> string set" where
  "normalizeServerIDSet clusterServerIDs selfServerID =
     set (filter (\<lambda>i. i \<noteq> []) (canonicalServerID selfServerID # map cluster_server_id clusterServerIDs))"

definition dhcpv6NewIdentityRateLimiter :: "int \<Rightarrow> mac_limiter" where
  "dhcpv6NewIdentityRateLimiter pps = NewMACRateLimiter pps"

text \<open>\<open>duid\<close> is what \<^verbatim>\<open>generateServerDUID\<close> draws.\<close>

definition NewServer6 :: "bytes \<Rightarrow> server6_options \<Rightarrow> server6" where
  "NewServer6 duid opts =
     (let serverID = (if so6ServerID opts = [] then duid else so6ServerID opts) in
      \<lparr>sv6Opts = opts, sv6ServerID = serverID,
       sv6RelayAllow = normalizeRelayWhitelist (so6RelayWhitelist opts),
       sv6RogueAllow = normalizeServerIDSet (so6ClusterServerIDs opts) serverID\<rparr>)"

definition initial_server6 :: "server6_options \<Rightarrow> 'h \<Rightarrow> 'h server6_state" where
  "initial_server6 opts h =
     \<lparr>st6Limiter = dhcpv6NewIdentityRateLimiter (so6RateLimitPPS opts), st6RogueEvents = [],
      st6LeaseFSMs = Map.empty, st6Handler = h\<rparr>"

section \<open>Checks before the handler\<close>

definition isRelaySourceAllowed :: "server6 \<Rightarrow> bytes option \<Rightarrow> bool" where
  "isRelaySourceAllowed srv linkAddr =
     (if sv6RelayAllow srv = {} then True
      else let key = normalizeIPv6Address linkAddr in
        if key = [] then False else key \<in> sv6RelayAllow srv)"

definition parseRelayVLAN :: "attrs \<Rightarrow> int" where
  "parseRelayVLAN relay =
     (case map_option (\<lambda>raw. Atoi (trim_space raw)) (relay ''vlan-id'') of
        Some (Some v) \<Rightarrow> v
      | _ \<Rightarrow>
          (case map_option (\<lambda>raw. Atoi (trim_space raw)) (relay ''agent.vlan-id'') of
             Some (Some v) \<Rightarrow> v
           | _ \<Rightarrow> 0))"

definition shouldHandleRelay :: "server6 \<Rightarrow> packet6 \<Rightarrow> bool" where
  "shouldHandleRelay srv pkt =
     ShouldHandle (so6Partitioner (sv6Opts srv))
       (BuildMetadata (so6TenantID (sv6Opts srv)) (pkLinkAddr pkt) (pkRelayInfo pkt) (parseRelayVLAN (pkRelayInfo pkt)) [])"

definition packetIdentityKey :: "packet6 \<Rightarrow> string" where
  "packetIdentityKey pkt =
     (let duid = trim_space (to_lower (pkDUID pkt)) in
      if duid \<noteq> [] then ''duid:'' @ duid
      else if pkClientMAC pkt \<noteq> [] then ''mac:'' @ to_lower (hw_string (pkClientMAC pkt))
      else [])"

definition messageClientIDKey :: "message6 \<Rightarrow> string" where
  "messageClientIDKey msg =
     (case Option6 msg OptionClientID6 of
        None \<Rightarrow> []
      | Some clientID \<Rightarrow> if clientID = [] then [] else ''duid:'' @ to_lower (hex_string clientID))"

text \<open>\<^verbatim>\<open>dhcpv6IdentityRateLimiter.allow\<close> has the buckets of the MAC limiter.\<close>

definition allow6 :: "gotime \<Rightarrow> mac_limiter \<Rightarrow> string \<Rightarrow> bool \<times> mac_limiter" where
  "allow6 now l key =
     (let key = trim_space (to_lower key) in
      if key = [] then (True, l)
      else let (n, b) = TakeAvailable now (mac_bucket now l key) 1 in
        (n = 1, l\<lparr>mlBuckets := (mlBuckets l)(key \<mapsto> b)\<rparr>))"

definition rateLimitMiddleware :: "gotime \<Rightarrow> message6 \<Rightarrow> packet6 \<Rightarrow> 'h server6_state \<Rightarrow> bool \<times> 'h server6_state" where
  "rateLimitMiddleware now msg pkt st =
     (let ident = packetIdentityKey pkt;
          ident = (if ident = [] then messageClientIDKey msg else ident) in
      if ident = [] then (True, st)
      else let (ok, l) = allow6 now (st6Limiter st) ident in (ok, st\<lparr>st6Limiter := l\<rparr>))"

text \<open>Advertisements are never answered; those of servers outside the cluster are recorded
  in a channel of 128 entries.\<close>

definition rogueDetectMiddleware :: "server6 \<Rightarrow> message6 \<Rightarrow> string \<Rightarrow> 'h server6_state \<Rightarrow> bool \<times> 'h server6_state" where
  "rogueDetectMiddleware srv msg remote st =
     (if msgType msg \<noteq> MessageTypeAdvertise6 then (True, st)
      else
        let serverID = canonicalServerID (case Option6 msg OptionServerID6 of None \<Rightarrow> [] | Some v \<Rightarrow> v) in
        if serverID = [] then (False, st)
        else if serverID \<in> sv6RogueAllow srv then (False, st)
        else (False, if length (st6RogueEvents st) < 128
                     then st\<lparr>st6RogueEvents := st6RogueEvents st @ [(remote, serverID)]\<rparr> else st))"

definition applyMiddleware ::
  "gotime \<Rightarrow> server6 \<Rightarrow> message6 \<Rightarrow> packet6 \<Rightarrow> string \<Rightarrow> 'h server6_state \<Rightarrow> bool \<times> 'h server6_state" where
  "applyMiddleware now srv msg pkt remote st =
     (case rateLimitMiddleware now msg pkt st of
        (False, st) \<Rightarrow> (False, st)
      | (True, st) \<Rightarrow> rogueDetectMiddleware srv msg remote st)"

section \<open>The lease state machine of a client\<close>

definition leaseFSMClientKey :: "packet6 \<Rightarrow> string" where
  "leaseFSMClientKey pkt =
     (let ident = trim_space (pkDUID pkt) in
      if ident \<noteq> [] then ''duid:'' @ ident
      else if pkClientMAC pkt \<noteq> [] then ''mac:'' @ to_lower (hw_string (pkClientMAC pkt))
      else [])"

type_synonym fsm_table = "string \<rightharpoonup> string"

definition transitionLeaseState :: "string \<Rightarrow> string \<Rightarrow> fsm_table \<Rightarrow> string option \<times> fsm_table" where
  "transitionLeaseState clientKey target fsms =
     (let current = (case fsms clientKey of None \<Rightarrow> [] | Some s \<Rightarrow> s);
          current = (if current = [] then LeaseStateInit else current) in
      case ValidateTransition6 current target of
        Some err \<Rightarrow> (Some err, fsms)
      | None \<Rightarrow> if current = target then (None, fsms) else (None, fsms(clientKey \<mapsto> target)))"

definition applyFSMPreTransition :: "string \<Rightarrow> byte \<Rightarrow> fsm_table \<Rightarrow> string option \<times> fsm_table" where
  "applyFSMPreTransition clientKey mtype fsms =
     (if clientKey = [] then (None, fsms)
      else if mtype = MessageTypeRenew6 then transitionLeaseState clientKey LeaseStateRenewing fsms
      else if mtype = MessageTypeRebind6 then transitionLeaseState clientKey LeaseStateRebinding fsms
      else (None, fsms))"

definition applyFSMSuccessTransition :: "string \<Rightarrow> byte \<Rightarrow> fsm_table \<Rightarrow> string option \<times> fsm_table" where
  "applyFSMSuccessTransition clientKey mtype fsms =
     (if clientKey = [] then (None, fsms)
      else if mtype = MessageTypeSolicit6 then transitionLeaseState clientKey LeaseStateOffered fsms
      else if mtype \<in> {MessageTypeRequest6, MessageTypeConfirm6, MessageTypeRenew6, MessageTypeRebind6}
      then transitionLeaseState clientKey LeaseStateBound fsms
      else if mtype = MessageTypeDecline6 then transitionLeaseState clientKey LeaseStateExpired fsms
      else if mtype = MessageTypeRelease6 then transitionLeaseState clientKey LeaseStateReleased fsms
      else (None, fsms))"

section \<open>The answer\<close>

definition responseType :: "byte \<Rightarrow> byte" where
  "responseType mtype =
     (if mtype = MessageTypeSolicit6 then MessageTypeAdvertise6
      else if mtype \<in> {MessageTypeRequest6, MessageTypeRenew6, MessageTypeRebind6, MessageTypeConfirm6,
                         MessageTypeInformationReq6, MessageTypeRelease6, MessageTypeDecline6}
      then MessageTypeReply6
      else 0)"

definition responseDNSServers :: "result6 option \<Rightarrow> packet6 \<Rightarrow> bytes list" where
  "responseDNSServers result pkt =
     (let servers = (case result of
            None \<Rightarrow> []
          | Some r \<Rightarrow>
              (case r6Pool r of
                 None \<Rightarrow> []
               | Some pool \<Rightarrow> List.map_filter (\<lambda>raw. case ParseIP_bytes raw of
                     None \<Rightarrow> None
                   | Some ip \<Rightarrow> if To4 ip \<noteq> None then None else Some ip) (poolDNS pool))) in
      if servers \<noteq> [] then servers else pkDNSRecursiveServers pkt)"

text \<open>The options common to all answers, and those that carry the lease.\<close>

definition optional_option :: "u16 \<Rightarrow> bytes \<Rightarrow> (u16 \<times> bytes) list" where
  "optional_option code payload = (if payload = [] then [] else [(code, payload)])"

definition base_options :: "server6 \<Rightarrow> message6 \<Rightarrow> packet6 \<Rightarrow> result6 option \<Rightarrow> byte \<Rightarrow> (u16 \<times> bytes) list" where
  "base_options srv req pkt result mtype =
     (case Option6 req OptionClientID6 of None \<Rightarrow> [] | Some clientID \<Rightarrow> [(OptionClientID6, clientID)])
     @ [(OptionServerID6, sv6ServerID srv)]
     @ (if mtype = MessageTypeAdvertise6 then [(OptionPreference6, [0x40])] else [])
     @ optional_option OptionDNSRecursiveNameServer6 (encodeIPv6AddressListOption (responseDNSServers result pkt))
     @ (case encodeDomainSearchListOption (pkDomainSearchList pkt) of
          Inl _ \<Rightarrow> [] | Inr payload \<Rightarrow> optional_option OptionDomainSearchList6 payload)
     @ (case encodeFQDNOption (pkFQDN pkt) of Inl _ \<Rightarrow> [] | Inr payload \<Rightarrow> optional_option OptionFQDN6 payload)
     @ optional_option OptionNTPServer6 (encodeNTPServerOption (pkNTPServers pkt))"

text \<open>The lifetimes: preferred, valid, and the times T1 and T2, in 32-bit arithmetic.\<close>

definition lifetimes :: "server6 \<Rightarrow> byte \<Rightarrow> lease_profile \<Rightarrow> u32 \<times> u32 \<times> u32 \<times> u32" where
  "lifetimes srv reqType profile =
     (let preferred = secondsValue (profDefaultDuration profile) (so6PreferredLifetime (sv6Opts srv)) hour;
          valid = secondsValue (profMaxDuration profile) (so6ValidLifetime (sv6Opts srv)) (int (unat preferred) * 2 * second);
          zero = (reqType = MessageTypeConfirm6 \<and> profDefaultDuration profile \<le> 0 \<and> profMaxDuration profile \<le> 0);
          preferred = (if zero then 0 else preferred);
          valid = (if zero then 0 else valid);
          valid = (if valid < preferred then preferred else valid);
          t1 = secondsValue (profRenewalTime profile) 0 (int (unat (preferred div 2)) * second);
          t2 = secondsValue (profRebindingTime profile) 0 (int (unat ((preferred * 3) div 4)) * second)
      in (preferred, valid, t1, t2))"

fun delegation_options ::
  "string option \<Rightarrow> u32 \<Rightarrow> u32 \<Rightarrow> u32 \<Rightarrow> u32 \<Rightarrow> prefix_delegation list \<Rightarrow> string + (u16 \<times> bytes) list" where
  "delegation_options cidr t1 t2 preferred valid [] = Inr []"
| "delegation_options cidr t1 t2 preferred valid (pd # pds) =
     (case encodeIAPDOption pd cidr t1 t2 preferred valid of
        Inl e \<Rightarrow> Inl e
      | Inr payload \<Rightarrow>
          (case delegation_options cidr t1 t2 preferred valid pds of
             Inl e \<Rightarrow> Inl e
           | Inr os \<Rightarrow> Inr ((OptionIAPD6, payload) # os)))"

definition lease_options ::
  "server6 \<Rightarrow> message6 \<Rightarrow> packet6 \<Rightarrow> result6 option \<Rightarrow> byte \<Rightarrow> string + (u16 \<times> bytes) list" where
  "lease_options srv req pkt result reqType =
     (case result of
        None \<Rightarrow> Inl ''dhcpv6: missing lease result''
      | Some r \<Rightarrow>
          (case r6Lease r of
             None \<Rightarrow> Inl ''dhcpv6: missing lease result''
           | Some l \<Rightarrow>
               (case ParseIP_bytes (leaseIPAddress l) of
                  None \<Rightarrow> Inl ''dhcpv6: invalid IPv6 lease IP''
                | Some ip \<Rightarrow>
                    if To4 ip \<noteq> None then Inl ''dhcpv6: invalid IPv6 lease IP''
                    else
                      let iaid = (if pkIAID pkt = 0
                            then (case Option6 req OptionIANA6 of Some raw \<Rightarrow> fst (parseIANA raw) | None \<Rightarrow> 0)
                            else pkIAID pkt) in
                      case lifetimes srv reqType (r6Profile r) of
                        (preferred, valid, t1, t2) \<Rightarrow>
                          (case delegation_options (map_option poolCIDR (r6Pool r)) t1 t2 preferred valid (r6PrefixDelegations r) of
                             Inl e \<Rightarrow> Inl e
                           | Inr pds \<Rightarrow> Inr ((OptionIANA6, encodeIANA iaid t1 t2 ip preferred valid) # pds)))))"

definition response_bytes :: "(options6 \<Rightarrow> options6) \<Rightarrow> message6 \<Rightarrow> byte \<Rightarrow> (u16 \<times> bytes) list \<Rightarrow> bytes" where
  "response_bytes iter req mtype os =
     (let txID = msgTransactionID req AND 0xFFFFFF;
          payload = buildBaseMessage mtype txID (foldl (\<lambda>buf (code, v). appendOption buf code v) [] os) in
      if msgRelayHops req = [] then payload else wrapRelayResponse iter (msgRelayHops req) payload)"

definition buildResponse6 ::
  "(options6 \<Rightarrow> options6) \<Rightarrow> server6 \<Rightarrow> message6 \<Rightarrow> packet6 \<Rightarrow> result6 option \<Rightarrow> byte \<Rightarrow> byte \<Rightarrow> string + bytes" where
  "buildResponse6 iter srv req pkt result mtype reqType =
     (let os = base_options srv req pkt result mtype in
      if reqType = MessageTypeInformationReq6 then Inr (response_bytes iter req mtype os)
      else if reqType \<noteq> MessageTypeRelease6 \<and> reqType \<noteq> MessageTypeDecline6
      then (case lease_options srv req pkt result reqType of
              Inl e \<Rightarrow> Inl e
            | Inr ls \<Rightarrow> Inr (response_bytes iter req mtype (os @ ls)))
      else Inr (response_bytes iter req mtype os))"

section \<open>One datagram\<close>

definition reply_of :: "string + bytes \<Rightarrow> bytes option" where
  "reply_of r = (case r of Inl _ \<Rightarrow> None | Inr resp \<Rightarrow> Some resp)"

text \<open>\<^verbatim>\<open>trySendNACK\<close>: only the error of the type \<^verbatim>\<open>NACKError\<close> is answered.\<close>

definition trySendNACK ::
  "(options6 \<Rightarrow> options6) \<Rightarrow> server6 \<Rightarrow> message6 \<Rightarrow> packet6 \<Rightarrow> byte \<Rightarrow> handler_error \<Rightarrow> bytes option" where
  "trySendNACK iter srv req pkt reqType err =
     (case err of
        HandlerError _ \<Rightarrow> None
      | NACKError _ \<Rightarrow>
          let respType = responseType reqType in
          if respType = 0 then None
          else reply_of (buildResponse6 iter srv req pkt (Some (zeroLifetimeConfirmResult pkt)) respType reqType))"

text \<open>The method the handler runs for a message type: the result of a lease method, or that
  there is none.\<close>

definition call_handler ::
  "'h handler6 \<Rightarrow> string \<Rightarrow> byte \<Rightarrow> packet6 \<Rightarrow> 'h \<Rightarrow> (handler_error + result6 option) \<times> 'h" where
  "call_handler H tenant mtype pkt h =
     (let leased = (\<lambda>f. case f tenant pkt h of (Inl e, h) \<Rightarrow> (Inl e, h) | (Inr r, h) \<Rightarrow> (Inr (Some r), h));
          plain = (\<lambda>f. case f tenant pkt h of
            (Some e, h) \<Rightarrow> (Inl (HandlerError (case e of NACKError s \<Rightarrow> s | HandlerError s \<Rightarrow> s)), h)
          | (None, h) \<Rightarrow> (Inr None, h)) in
      if mtype = MessageTypeSolicit6 then leased (HandleSolicit6 H)
      else if mtype = MessageTypeInformationReq6 then (Inr None, h)
      else if mtype = MessageTypeConfirm6 then leased (HandleConfirm6 H)
      else if mtype = MessageTypeRenew6 then leased (HandleRenew6 H)
      else if mtype = MessageTypeRebind6 then leased (HandleRebind6 H)
      else if mtype = MessageTypeRelease6 then plain (HandleRelease6 H)
      else if mtype = MessageTypeDecline6 then plain (HandleDecline6 H)
      else leased (HandleRequest6 H))"

definition answer ::
  "(options6 \<Rightarrow> options6) \<Rightarrow> server6 \<Rightarrow> 'h handler6 \<Rightarrow> message6 \<Rightarrow> packet6 \<Rightarrow> 'h server6_state
     \<Rightarrow> bytes option \<times> 'h server6_state" where
  "answer iter srv H msg pkt st =
     (case applyFSMPreTransition (leaseFSMClientKey pkt) (msgType msg) (st6LeaseFSMs st) of
        (Some _, fsms) \<Rightarrow> (None, st\<lparr>st6LeaseFSMs := fsms\<rparr>)
      | (None, fsms) \<Rightarrow>
          (case call_handler H (so6TenantID (sv6Opts srv)) (msgType msg) pkt (st6Handler st) of
             (Inl e, h) \<Rightarrow> (trySendNACK iter srv msg pkt (msgType msg) e, st\<lparr>st6LeaseFSMs := fsms, st6Handler := h\<rparr>)
           | (Inr result, h) \<Rightarrow>
               (case applyFSMSuccessTransition (leaseFSMClientKey pkt) (msgType msg) fsms of
                  (Some _, fsms) \<Rightarrow> (None, st\<lparr>st6LeaseFSMs := fsms, st6Handler := h\<rparr>)
                | (None, fsms) \<Rightarrow>
                    (let st = st\<lparr>st6LeaseFSMs := fsms, st6Handler := h\<rparr>; replyType = responseType (msgType msg) in
                     if replyType = 0 then (None, st)
                     else (reply_of (buildResponse6 iter srv msg pkt result replyType (msgType msg)), st)))))"

definition processDatagram6 ::
  "(options6 \<Rightarrow> options6) \<Rightarrow> gotime \<Rightarrow> server6 \<Rightarrow> 'h handler6 \<Rightarrow> bytes \<times> string \<Rightarrow> 'h server6_state
     \<Rightarrow> bytes option \<times> 'h server6_state" where
  "processDatagram6 iter now srv H dg st =
     (case ParseMessage6 (fst dg) of
        Inl _ \<Rightarrow> (None, st)
      | Inr msg \<Rightarrow>
          let pkt = packetFromMessage6 msg in
          if msgRelayHops msg \<noteq> [] \<and> \<not> isRelaySourceAllowed srv (pkLinkAddr pkt) then (None, st)
          else if \<not> shouldHandleRelay srv pkt then (None, st)
          else (case applyMiddleware now srv msg pkt (snd dg) st of
              (False, st) \<Rightarrow> (None, st)
            | (True, st) \<Rightarrow> answer iter srv H msg pkt st))"

section \<open>The answer reaches the client\<close>

definition values_of :: "u16 \<Rightarrow> (u16 \<times> bytes) list \<Rightarrow> bytes list" where
  "values_of c os = map snd (filter (\<lambda>cv. fst cv = c) os)"

lemma values_of_simps [simp]:
  "values_of c [] = []"
  "values_of c ((d, v) # os) = (if d = c then v # values_of c os else values_of c os)"
  "values_of c (xs @ ys) = values_of c xs @ values_of c ys"
  by (simp_all add: values_of_def)

lemma values_of_optional: "values_of c (optional_option d v) = (if c = d \<and> v \<noteq> [] then [v] else [])"
  by (simp add: optional_option_def)

lemma bytes_of_txid:
  assumes "(x :: u32) AND 0xFFFFFF = x"
  shows "push_bit 16 (ucast (ucast (drop_bit 16 x AND 255) :: byte)) OR push_bit 8 (ucast (ucast (drop_bit 8 x AND 255) :: byte))
    OR ucast (ucast (x AND 255) :: byte) = x"
proof -
  have m: "(y :: u32) AND 255 = take_bit 8 y" for y
    by (simp add: take_bit_eq_mask mask_eq_exp_minus_1)
  have "x = take_bit 24 x" using assms by (simp add: take_bit_eq_mask mask_eq_exp_minus_1)
  then have hi: "bit x n \<Longrightarrow> n < 24" for n by (metis bit_take_bit_iff)
  show ?thesis unfolding m
    apply (rule bit_word_eqI)
    subgoal for n using hi [of n] by (cases "n < 8"; cases "n < 16") (auto simp: bit_simps)
    done
qed

lemma parse_base_message:
  assumes "(x :: u32) AND 0xFFFFFF = x" and "mtype \<noteq> MessageTypeRelayForward6" and "mtype \<noteq> MessageTypeRelayReply6"
    and "length (concat (map option_bytes os)) < 65536"
  shows "ParseMessage6 (buildBaseMessage mtype x (concat (map option_bytes os))) =
    Inr \<lparr>msgType = mtype, msgTransactionID = x, msgOptions = collect os [], msgRelayHops = []\<rparr>"
  using assms(2,3) parseOptions6_tlvs [OF assms(4)] bytes_of_txid [OF assms(1)]
  by (subst ParseMessage6.simps) (simp add: buildBaseMessage_def)

lemma base_response_bytes:
  "response_bytes iter req mtype os =
     wrapRelayResponse iter (msgRelayHops req)
       (buildBaseMessage mtype (msgTransactionID req AND 0xFFFFFF) (concat (map option_bytes os)))"
  unfolding response_bytes_def foldl_appendOption by (simp add: Let_def wrapRelayResponse_def)

lemma wrap_longer: "length payload \<le> length (wrapRelayResponse iter hops payload)"
proof (induction hops)
  case (Cons h hs)
  then show ?case using wrap_hop_longer [of "foldr (wrap_hop iter) hs payload" iter h]
    by (simp add: wrapRelayResponse_def)
qed (simp add: wrapRelayResponse_def)

lemma parse_response:
  assumes "go_order iter" and "ParseMessage6 data = Inr req"
    and "mtype \<noteq> MessageTypeRelayForward6" and "mtype \<noteq> MessageTypeRelayReply6"
    and "length (response_bytes iter req mtype os) < 65536"
  shows "\<exists>m. ParseMessage6 (response_bytes iter req mtype os) = Inr m \<and> msgType m = mtype \<and>
    msgTransactionID m = msgTransactionID req \<and> list_all2 same_hop (msgRelayHops req) (msgRelayHops m) \<and>
    (\<forall>c. AllOptions6 m c = values_of c os)"
proof -
  from parsed_message(1) [OF assms(2)] have ok: "list_all hop_ok (msgRelayHops req)"
    and tx: "msgTransactionID req AND 0xFFFFFF = msgTransactionID req" by simp_all
  let ?p = "buildBaseMessage mtype (msgTransactionID req) (concat (map option_bytes os))"
  have len: "length (wrapRelayResponse iter (msgRelayHops req) ?p) < 65536"
    using assms(5) by (simp add: base_response_bytes tx)
  have "length (concat (map option_bytes os)) < 65536"
    using wrap_longer [of ?p iter "msgRelayHops req"] len by (simp add: buildBaseMessage_def)
  from parse_wrapRelayResponse [OF assms(1) ok parse_base_message [OF tx assms(3,4) this] len]
  show ?thesis
    by (auto simp: base_response_bytes tx AllOptions6_def opt_get_collect values_of_def)
qed

lemma Option6_AllOptions6: "Option6 m c = (case AllOptions6 m c of [] \<Rightarrow> None | v # _ \<Rightarrow> Some v)"
  by (simp add: Option6_def AllOptions6_def)

lemma base_values:
  "values_of OptionClientID6 (base_options srv req pkt result mtype) =
     (case Option6 req OptionClientID6 of None \<Rightarrow> [] | Some v \<Rightarrow> [v])"
  "values_of OptionServerID6 (base_options srv req pkt result mtype) = [sv6ServerID srv]"
  "values_of OptionIANA6 (base_options srv req pkt result mtype) = []"
  "values_of OptionIAPD6 (base_options srv req pkt result mtype) = []"
  by (auto simp: base_options_def option6_defs values_of_optional split: option.splits sum.splits)

lemma delegation_values:
  "delegation_options cidr t1 t2 p v pds = Inr os \<Longrightarrow>
   (\<forall>c. c \<noteq> OptionIAPD6 \<longrightarrow> values_of c os = []) \<and> length (values_of OptionIAPD6 os) = length pds"
  by (induction cidr t1 t2 p v pds arbitrary: os rule: delegation_options.induct)
     (auto split: sum.splits)

lemma parseIANA_encodeIANA [wire]:
  assumes "length ip = 16"
  shows "parseIANA (encodeIANA iaid t1 t2 ip preferred valid) = (iaid, Some ip)"
proof -
  let ?e = "ip @ put32 preferred @ put32 valid"
  have enc: "encodeIANA iaid t1 t2 ip preferred valid = put32 iaid @ put32 t1 @ put32 t2 @ option_bytes (OptionIAAddr6, ?e)"
    using assms by (simp add: encodeIANA_def encodeIAAddr_def To16_def appendOption_bytes Let_def)
  have "parseOptions6 (option_bytes (OptionIAAddr6, ?e)) = Inr (collect [(OptionIAAddr6, ?e)] [])"
    using parseOptions6_tlvs [of "[(OptionIAAddr6, ?e)]"] assms by (simp add: option_bytes_length)
  then show ?thesis using assms
    by (simp add: parseIANA_def enc Let_def opt_get_collect)
qed

lemma length_As16: "length (As16 a) = 16"
  by (cases a) (simp_all add: bytes_of_u128_def)

lemma ParseIP_bytes_length: "ParseIP_bytes s = Some ip \<Longrightarrow> length ip = 16"
  by (auto simp: ParseIP_bytes_def length_As16)

text \<open>What the options of a lease are.\<close>

lemma lease_options_cases:
  assumes "lease_options srv req pkt result reqType = Inr ls"
  obtains r l ip iaid preferred valid t1 t2 pds where
    "result = Some r" "r6Lease r = Some l" "ParseIP_bytes (leaseIPAddress l) = Some ip"
    "lifetimes srv reqType (r6Profile r) = (preferred, valid, t1, t2)"
    "ls = (OptionIANA6, encodeIANA iaid t1 t2 ip preferred valid) # pds"
    "length (values_of OptionIAPD6 pds) = length (r6PrefixDelegations r)"
    "pkIAID pkt \<noteq> 0 \<Longrightarrow> iaid = pkIAID pkt"
    "\<forall>c. c \<noteq> OptionIAPD6 \<longrightarrow> values_of c pds = []"
proof -
  from assms obtain r l ip where a: "result = Some r" "r6Lease r = Some l" "ParseIP_bytes (leaseIPAddress l) = Some ip"
    "To4 ip = None"
    by (auto simp: lease_options_def split: option.splits if_splits)
  obtain preferred valid t1 t2 where lt: "lifetimes srv reqType (r6Profile r) = (preferred, valid, t1, t2)"
    by (cases "lifetimes srv reqType (r6Profile r)") auto
  let ?iaid = "if pkIAID pkt = 0 then (case Option6 req OptionIANA6 of Some raw \<Rightarrow> fst (parseIANA raw) | None \<Rightarrow> 0) else pkIAID pkt"
  from assms a lt obtain pds where
    p: "delegation_options (map_option poolCIDR (r6Pool r)) t1 t2 preferred valid (r6PrefixDelegations r) = Inr pds"
    and ls: "ls = (OptionIANA6, encodeIANA ?iaid t1 t2 ip preferred valid) # pds"
    by (auto simp: lease_options_def Let_def split: sum.splits)
  show thesis
    using that [OF a(1-3) lt ls] delegation_values [OF p] by simp
qed

lemma buildResponse6_cases:
  assumes "buildResponse6 iter srv req pkt result mtype reqType = Inr resp"
  obtains ls where "resp = response_bytes iter req mtype (base_options srv req pkt result mtype @ ls)"
    "reqType \<in> {MessageTypeInformationReq6, MessageTypeRelease6, MessageTypeDecline6} \<and> ls = [] \<or>
     lease_options srv req pkt result reqType = Inr ls"
proof (cases "reqType \<in> {MessageTypeInformationReq6, MessageTypeRelease6, MessageTypeDecline6}")
  case True
  then have "resp = response_bytes iter req mtype (base_options srv req pkt result mtype @ [])"
    using assms by (auto simp: buildResponse6_def Let_def split: if_splits)
  then show thesis using True by (intro that [of "[]"]) simp_all
next
  case False
  then obtain ls where "lease_options srv req pkt result reqType = Inr ls"
    "resp = response_bytes iter req mtype (base_options srv req pkt result mtype @ ls)"
    using assms by (auto simp: buildResponse6_def Let_def split: sum.splits)
  then show thesis using that by blast
qed

text \<open>C14: An answer reaches the client that asked.  When the server answers a datagram it parsed,
  with at most 65535 bytes, the answer parses again: it has the expected type, the
  transaction id of the request, the client id the client sent and the server's own id; it
  passes through the same relays in the same order, each with its own link and peer address
  and options; and unless the request was an information request, a release or a decline it
  carries the leased address in its identity association and one option per delegated
  prefix.\<close>

theorem reply6_roundtrip:
  assumes "go_order iter" and "ParseMessage6 data = Inr req"
    and "buildResponse6 iter srv req pkt result (responseType reqType) reqType = Inr resp" and "length resp < 65536"
  shows "\<exists>m. ParseMessage6 resp = Inr m \<and> msgType m = responseType reqType \<and>
    msgTransactionID m = msgTransactionID req \<and> list_all2 same_hop (msgRelayHops req) (msgRelayHops m) \<and>
    Option6 m OptionClientID6 = Option6 req OptionClientID6 \<and> Option6 m OptionServerID6 = Some (sv6ServerID srv) \<and>
    (reqType \<notin> {MessageTypeInformationReq6, MessageTypeRelease6, MessageTypeDecline6} \<longrightarrow>
      (\<exists>r l ip raw. result = Some r \<and> r6Lease r = Some l \<and> ParseIP_bytes (leaseIPAddress l) = Some ip \<and>
         Option6 m OptionIANA6 = Some raw \<and> snd (parseIANA raw) = Some ip \<and>
         length (AllOptions6 m OptionIAPD6) = length (r6PrefixDelegations r)))"
proof -
  let ?t = "responseType reqType" and ?base = "base_options srv req pkt result (responseType reqType)"
  have t: "?t \<noteq> MessageTypeRelayForward6" "?t \<noteq> MessageTypeRelayReply6"
    by (simp_all add: responseType_def message_type6_defs)
  note parse = parse_response [OF assms(1,2) t]
  obtain ls where resp: "resp = response_bytes iter req ?t (?base @ ls)"
    and ls: "reqType \<in> {MessageTypeInformationReq6, MessageTypeRelease6, MessageTypeDecline6} \<and> ls = [] \<or>
       lease_options srv req pkt result reqType = Inr ls"
    using buildResponse6_cases [OF assms(3)] by blast
  from parse [of "?base @ ls"] assms(4) resp obtain m where m: "ParseMessage6 resp = Inr m" "msgType m = ?t"
    "msgTransactionID m = msgTransactionID req" "list_all2 same_hop (msgRelayHops req) (msgRelayHops m)"
    and vals: "AllOptions6 m c = values_of c (?base @ ls)" for c by blast
  have ids: "values_of OptionClientID6 ls = []" "values_of OptionServerID6 ls = []"
    using ls by (auto elim!: lease_options_cases simp: option6_defs)
  have c: "Option6 m OptionClientID6 = Option6 req OptionClientID6" "Option6 m OptionServerID6 = Some (sv6ServerID srv)"
    by (simp_all add: Option6_AllOptions6 [of m] vals base_values ids split: option.splits)
  have "\<exists>r l ip raw. result = Some r \<and> r6Lease r = Some l \<and> ParseIP_bytes (leaseIPAddress l) = Some ip \<and>
         Option6 m OptionIANA6 = Some raw \<and> snd (parseIANA raw) = Some ip \<and>
         length (AllOptions6 m OptionIAPD6) = length (r6PrefixDelegations r)"
    if "lease_options srv req pkt result reqType = Inr ls"
    using that
  proof (rule lease_options_cases)
    fix r l ip iaid preferred valid t1 t2 pds
    assume a: "result = Some r" "r6Lease r = Some l" "ParseIP_bytes (leaseIPAddress l) = Some ip"
      "ls = (OptionIANA6, encodeIANA iaid t1 t2 ip preferred valid) # pds"
      "length (values_of OptionIAPD6 pds) = length (r6PrefixDelegations r)"
      "\<forall>c. c \<noteq> OptionIAPD6 \<longrightarrow> values_of c pds = []"
    have "OptionIANA6 \<noteq> OptionIAPD6" by (simp add: option6_defs)
    with a show ?thesis
      by (simp add: Option6_AllOptions6 [of m] vals base_values parseIANA_encodeIANA ParseIP_bytes_length)
  qed
  then show ?thesis using m c ls by blast
qed

definition sample_options6 :: server6_options where
  "sample_options6 =
     \<lparr>so6TenantID = ''t1'', so6ServerID = [0, 3, 0, 1, 2, 2, 2, 2, 2, 2], so6RateLimitPPS = 10,
      so6RelayWhitelist = [], so6ClusterServerIDs = [], so6PreferredLifetime = 0, so6ValidLifetime = 0,
      so6Partitioner = None\<rparr>"

definition sample_server6 :: server6 where
  "sample_server6 = NewServer6 [] sample_options6"

text \<open>A message of client \<open>00030001aabbccddeeff\<close> with an identity association (IAID 7) that
  names the address \<open>fd::5\<close>.\<close>

definition sample_addr6 :: bytes where
  "sample_addr6 = [0, 0xfd, 0, 0, 0, 0, 0, 0, 0, 0, 0, 0, 0, 0, 0, 5]"

definition sample_message6 :: "byte \<Rightarrow> bytes" where
  "sample_message6 mtype =
     [mtype, 1, 2, 3] @ option_bytes (OptionClientID6, [0, 3, 0, 1, 0xaa, 0xbb, 0xcc, 0xdd, 0xee, 0xff])
     @ option_bytes (OptionIANA6, encodeIANA 7 0 0 sample_addr6 0 0)"

definition sample_relayed6 :: bytes where
  "sample_relayed6 =
     [MessageTypeRelayForward6, 0] @ sample_addr6 @ sample_addr6
     @ option_bytes (OptionInterfaceID6, [0x67, 0x65, 0x30])
     @ option_bytes (OptionRelayMsg6, sample_message6 MessageTypeSolicit6)"

definition sample_req6 :: message6 where
  "sample_req6 =
     \<lparr>msgType = 1, msgTransactionID = 0x010203,
      msgOptions = [(1, [[0, 3, 0, 1, 0xaa, 0xbb, 0xcc, 0xdd, 0xee, 0xff]]), (3, [encodeIANA 7 0 0 sample_addr6 0 0])],
      msgRelayHops = [\<lparr>hopCount = 0, hopLinkAddr = sample_addr6, hopPeerAddr = sample_addr6,
        hopOptions = [(18, [[0x67, 0x65, 0x30]]), (9, [sample_message6 1])]\<rparr>]\<rparr>"

definition sample_pkt6 :: packet6 where
  "sample_pkt6 =
     \<lparr>pkTransactionID = 0x010203, pkDUID = ''00030001aabbccddeeff'', pkIAID = 7, pkIAAddr = Some sample_addr6,
      pkDNSRecursiveServers = [], pkDomainSearchList = [], pkFQDN = [], pkNTPServers = [], pkLinkAddr = None,
      pkPeerAddr = None, pkVendorClass = [], pkUserClass = [], pkRelayInfo = Map.empty,
      pkClientMAC = [0xaa, 0xbb, 0xcc, 0xdd, 0xee, 0xff], pkSupportsSLAAC = False, pkPrefixRequests = []\<rparr>"

definition sample_result6 :: result6 where
  "sample_result6 =
     \<lparr>r6Lease = Some (empty_lease\<lparr>leaseIPAddress := ''fd::5''\<rparr>), r6Reused = False,
      r6Profile = empty_profile\<lparr>profDefaultDuration := hour\<rparr>, r6Pool = None, r6SLAAC = None,
      r6PrefixDelegations = [\<lparr>pdIAPDID = 1, pdPrefix = ''fd:1::/48'', pdPrefixLength = 48,
        pdPreferredLifetime = hour, pdValidLifetime = 2 * hour\<rparr>]\<rparr>"

lemma go_order_rev: "go_order rev"
  by (simp add: go_order_def)

theorem reply6_roundtrip_witness:
  "\<exists>resp m raw. buildResponse6 rev sample_server6 sample_req6 sample_pkt6 (Some sample_result6)
       MessageTypeAdvertise6 MessageTypeSolicit6 = Inr resp \<and>
     ParseMessage6 resp = Inr m \<and> msgType m = MessageTypeAdvertise6 \<and>
     list_all2 same_hop (msgRelayHops sample_req6) (msgRelayHops m) \<and>
     Option6 m OptionIANA6 = Some raw \<and> snd (parseIANA raw) = Some sample_addr6"
proof -
  let ?b = "buildResponse6 rev sample_server6 sample_req6 sample_pkt6 (Some sample_result6)
     MessageTypeAdvertise6 MessageTypeSolicit6"
  have p: "ParseMessage6 sample_relayed6 = Inr sample_req6" by code_simp
  have "case ?b of Inl _ \<Rightarrow> False | Inr r \<Rightarrow> length r < 250" by code_simp
  then obtain resp where b: "?b = Inr resp" and "length resp < 65536" by (auto split: sum.splits)
  have t: "responseType MessageTypeSolicit6 = MessageTypeAdvertise6"
    and ty: "MessageTypeSolicit6 \<notin> {MessageTypeInformationReq6, MessageTypeRelease6, MessageTypeDecline6}"
    by code_simp+
  have ip: "ParseIP_bytes ''fd::5'' = Some sample_addr6" by code_simp
  have l: "r6Lease sample_result6 = Some (empty_lease\<lparr>leaseIPAddress := ''fd::5''\<rparr>)" by (simp add: sample_result6_def)
  from reply6_roundtrip [OF go_order_rev p, of sample_server6 sample_pkt6 "Some sample_result6"
      MessageTypeSolicit6 resp, unfolded t, OF b \<open>length resp < 65536\<close>] ty
  show ?thesis using ip l b by auto
qed

section \<open>A refusal grants the address\<close>

lemma clampSeconds_pos: "0 < d \<Longrightarrow> 0 < clampSeconds d"
proof -
  assume d: "0 < d"
  let ?s = "if quot d second \<le> 0 then 1 else quot d second"
  have "0 < ?s" by simp
  moreover have "0 < (of_int ?s :: u32)" if "?s \<le> 2 ^ 32 - 1"
  proof -
    have "uint (of_int ?s :: u32) = ?s" using that \<open>0 < ?s\<close> by (simp add: uint_word_of_int_eq take_bit_int_eq_self)
    then show ?thesis using \<open>0 < ?s\<close> by (simp add: word_less_def)
  qed
  ultimately show ?thesis using d by (auto simp: clampSeconds_def Let_def)
qed

lemma preferred_le_valid: "lifetimes srv reqType p = (preferred, valid, t1, t2) \<Longrightarrow> preferred \<le> valid"
  by (auto simp: lifetimes_def Let_def split: if_splits)

lemma preferred_pos:
  assumes "lifetimes srv reqType p = (preferred, valid, t1, t2)" and "reqType \<noteq> MessageTypeConfirm6"
  shows "0 < preferred"
  using assms clampSeconds_pos [of hour] clampSeconds_pos
  by (auto simp: lifetimes_def Let_def secondsValue_def hour_def second_def)

text \<open>C16: A refusal grants the address.  When the handler refuses a SOLICIT, REQUEST, RENEW or
  REBIND with a NACK (the address is bound to another client, or a conflict was detected),
  the server answers with an identity association that contains the refused address with a
  positive preferred lifetime: only for CONFIRM is the zero lifetime of the refusal kept.\<close>

theorem nack_grants_address:
  assumes "go_order iter" and "ParseMessage6 data = Inr msg"
    and "msgType msg \<in> {MessageTypeSolicit6, MessageTypeRequest6, MessageTypeRenew6, MessageTypeRebind6}"
    and "fst (applyFSMPreTransition (leaseFSMClientKey pkt) (msgType msg) (st6LeaseFSMs st)) = None"
    and "fst (call_handler H (so6TenantID (sv6Opts srv)) (msgType msg) pkt (st6Handler st)) = Inl (NACKError reason)"
    and "pkIAAddr pkt = Some a" and "ParseIP_bytes (ip_string a) = Some a" and "To4 a = None"
    and "fst (answer iter srv H msg pkt st) = Some resp" and "length resp < 65536"
  shows "\<exists>m iaid t1 t2 preferred valid. ParseMessage6 resp = Inr m \<and>
    Option6 m OptionIANA6 = Some (encodeIANA iaid t1 t2 a preferred valid) \<and> 0 < preferred \<and> preferred \<le> valid"
proof -
  let ?t = "msgType msg" and ?r = "zeroLifetimeConfirmResult pkt"
  have "fst (answer iter srv H msg pkt st) = trySendNACK iter srv msg pkt ?t (NACKError reason)"
    using assms(4,5) by (auto simp: answer_def split: prod.splits)
  then have "reply_of (buildResponse6 iter srv msg pkt (Some ?r) (responseType ?t) ?t) = Some resp"
    using assms(9) by (simp add: trySendNACK_def Let_def split: if_splits)
  then have b: "buildResponse6 iter srv msg pkt (Some ?r) (responseType ?t) ?t = Inr resp"
    by (auto simp: reply_of_def split: sum.splits)
  have not: "?t \<notin> {MessageTypeInformationReq6, MessageTypeRelease6, MessageTypeDecline6, MessageTypeConfirm6}"
    using assms(3) by (auto simp: message_type6_defs)
  obtain ls where resp: "resp = response_bytes iter msg (responseType ?t) (base_options srv msg pkt (Some ?r) (responseType ?t) @ ls)"
    and "lease_options srv msg pkt (Some ?r) ?t = Inr ls"
    using buildResponse6_cases [OF b] not by blast
  then obtain iaid preferred valid t1 t2 pds where lt: "lifetimes srv ?t (r6Profile ?r) = (preferred, valid, t1, t2)"
    and ls: "ls = (OptionIANA6, encodeIANA iaid t1 t2 a preferred valid) # pds"
  proof (elim lease_options_cases)
    fix r l ip iaid preferred valid t1 t2 pds
    assume "Some ?r = Some r" "r6Lease r = Some l" "ParseIP_bytes (leaseIPAddress l) = Some ip"
      "lifetimes srv ?t (r6Profile r) = (preferred, valid, t1, t2)"
      "ls = (OptionIANA6, encodeIANA iaid t1 t2 ip preferred valid) # pds"
    moreover from this assms(6,7) have "ip = a" by (auto simp: zeroLifetimeConfirmResult_def)
    ultimately show thesis using that by auto
  qed
  have t: "responseType ?t \<noteq> MessageTypeRelayForward6" "responseType ?t \<noteq> MessageTypeRelayReply6"
    by (simp_all add: responseType_def message_type6_defs)
  obtain m where "ParseMessage6 resp = Inr m"
    and "\<forall>c. AllOptions6 m c = values_of c (base_options srv msg pkt (Some ?r) (responseType ?t) @ ls)"
    using parse_response [OF assms(1,2) t] assms(10) resp by blast
  then have "Option6 m OptionIANA6 = Some (encodeIANA iaid t1 t2 a preferred valid)"
    by (simp add: Option6_AllOptions6 base_values ls)
  then show ?thesis
    using \<open>ParseMessage6 resp = Inr m\<close> preferred_pos [OF lt] preferred_le_valid [OF lt] not by blast
qed

text \<open>A handler that refuses every request.\<close>

definition refusing_handler :: "unit handler6" where
  "refusing_handler =
     (let no = (\<lambda>_ _ h. (Inl (NACKError ''dhcpv6 nack: ipv6 address conflict detected''), h)) in
      \<lparr>HandleSolicit6 = no, HandleRequest6 = no, HandleConfirm6 = no, HandleRenew6 = no, HandleRebind6 = no,
       HandleRelease6 = (\<lambda>_ _ h. (None, h)), HandleDecline6 = (\<lambda>_ _ h. (None, h))\<rparr>)"

definition sample_request6 :: message6 where
  "sample_request6 =
     \<lparr>msgType = 3, msgTransactionID = 0x010203,
      msgOptions = [(1, [[0, 3, 0, 1, 0xaa, 0xbb, 0xcc, 0xdd, 0xee, 0xff]]), (3, [encodeIANA 7 0 0 sample_addr6 0 0])],
      msgRelayHops = []\<rparr>"

theorem nack_grants_address_witness:
  "\<exists>resp m iaid t1 t2 preferred valid.
     fst (answer rev sample_server6 refusing_handler sample_request6 sample_pkt6 (initial_server6 sample_options6 ())) = Some resp \<and>
     ParseMessage6 resp = Inr m \<and>
     Option6 m OptionIANA6 = Some (encodeIANA iaid t1 t2 sample_addr6 preferred valid) \<and> 0 < preferred"
proof -
  let ?st = "initial_server6 sample_options6 ()"
  let ?a = "fst (answer rev sample_server6 refusing_handler sample_request6 sample_pkt6 ?st)"
  have ip: "ip_string sample_addr6 = ''fd::5''" by code_simp
  have p: "ParseMessage6 (sample_message6 3) = Inr sample_request6" by code_simp
  have parse: "ParseIP_bytes ''fd::5'' = Some sample_addr6" by code_simp
  have fsm: "fst (applyFSMPreTransition (leaseFSMClientKey sample_pkt6) 3 (st6LeaseFSMs ?st)) = None"
    by (simp add: applyFSMPreTransition_def message_type6_defs)
  have call: "fst (call_handler refusing_handler tenant 3 sample_pkt6 ()) =
      Inl (NACKError ''dhcpv6 nack: ipv6 address conflict detected'')" for tenant
    by (simp add: call_handler_def refusing_handler_def message_type6_defs Let_def)
  have a: "pkIAAddr sample_pkt6 = Some sample_addr6" "To4 sample_addr6 = None" by code_simp+
  have ty: "msgType sample_request6 = 3" "st6Handler ?st = ()" by (simp_all add: sample_request6_def)
  have "case ?a of None \<Rightarrow> False | Some r \<Rightarrow> length r < 250" by code_simp
  then obtain resp where b: "?a = Some resp" and len: "length resp < 65536" by (auto split: option.splits)
  have "msgType sample_request6 \<in> {MessageTypeSolicit6, MessageTypeRequest6, MessageTypeRenew6, MessageTypeRebind6}"
    by (simp add: sample_request6_def message_type6_defs)
  from nack_grants_address [OF go_order_rev p this, of sample_pkt6 ?st refusing_handler sample_server6, unfolded ty,
      OF fsm call a(1) _ a(2) b len] ip parse
  show ?thesis using b by (metis (no_types))
qed

section \<open>Clients that are never answered again\<close>

text \<open>Handlers without refusals.\<close>

definition never_nacks :: "'h handler6 \<Rightarrow> bool" where
  "never_nacks H \<longleftrightarrow> (\<forall>tenant mtype pkt h reason. fst (call_handler H tenant mtype pkt h) \<noteq> Inl (NACKError reason))"

definition run6 ::
  "(options6 \<Rightarrow> options6) \<Rightarrow> server6 \<Rightarrow> 'h handler6 \<Rightarrow> (gotime \<times> bytes \<times> string) list \<Rightarrow> 'h server6_state \<Rightarrow> 'h server6_state" where
  "run6 iter srv H dgs st = foldl (\<lambda>st (now, dg). snd (processDatagram6 iter now srv H dg st)) st dgs"

definition once_bound :: "string set" where
  "once_bound = {LeaseStateBound, LeaseStateRenewing, LeaseStateRebinding, LeaseStateExpired, LeaseStateReleased}"

definition gone :: "string set" where
  "gone = {LeaseStateExpired, LeaseStateReleased}"

lemmas fsm6_tables = ValidateTransition6_def IsKnownState6_def allowedTransitions6_def fsm6_state_defs

text \<open>A target other than Init and Offered keeps a client in the set.\<close>

lemma transition_closed:
  assumes "fsms c = Some s" and "s \<in> S" and "S = once_bound \<or> S = gone"
    and "target \<in> {LeaseStateOffered, LeaseStateBound, LeaseStateRenewing, LeaseStateRebinding, LeaseStateExpired, LeaseStateReleased}"
  shows "\<exists>s'. snd (transitionLeaseState k target fsms) c = Some s' \<and> s' \<in> S"
proof (cases "k = c")
  case True
  have "s \<noteq> []" using assms(2,3) by (auto simp: once_bound_def gone_def fsm6_state_defs)
  then have "ValidateTransition6 s target = None \<Longrightarrow> target \<in> S \<or> s = target"
    using assms(2-4) by (auto simp: once_bound_def gone_def fsm6_tables split: if_splits)
  then show ?thesis using True assms(1,2) \<open>s \<noteq> []\<close>
    by (auto simp: transitionLeaseState_def Let_def split: option.splits)
qed (use assms(1,2) in \<open>auto simp: transitionLeaseState_def Let_def split: option.splits\<close>)

lemma pre_closed:
  "fsms c = Some s \<Longrightarrow> s \<in> S \<Longrightarrow> S = once_bound \<or> S = gone \<Longrightarrow>
   \<exists>s'. snd (applyFSMPreTransition k mtype fsms) c = Some s' \<and> s' \<in> S"
  using transition_closed [of fsms c s S LeaseStateRenewing k] transition_closed [of fsms c s S LeaseStateRebinding k]
  by (simp add: applyFSMPreTransition_def)

lemma success_closed:
  "fsms c = Some s \<Longrightarrow> s \<in> S \<Longrightarrow> S = once_bound \<or> S = gone \<Longrightarrow>
   \<exists>s'. snd (applyFSMSuccessTransition k mtype fsms) c = Some s' \<and> s' \<in> S"
  using transition_closed [of fsms c s S _ k] by (simp add: applyFSMSuccessTransition_def)

lemma middleware_frame [frame]: "st6LeaseFSMs (snd (applyMiddleware now srv msg pkt remote st)) = st6LeaseFSMs st"
  by (auto simp: applyMiddleware_def rateLimitMiddleware_def rogueDetectMiddleware_def Let_def split: prod.splits bool.splits)

lemma answer_closed:
  assumes "st6LeaseFSMs st c = Some s" and "s \<in> S" and "S = once_bound \<or> S = gone"
  shows "\<exists>s'. st6LeaseFSMs (snd (answer iter srv H msg pkt st)) c = Some s' \<and> s' \<in> S"
proof -
  let ?k = "leaseFSMClientKey pkt"
  obtain e fsms where pre: "applyFSMPreTransition ?k (msgType msg) (st6LeaseFSMs st) = (e, fsms)" by fastforce
  obtain s1 where s1: "fsms c = Some s1" "s1 \<in> S"
    using pre_closed [of "st6LeaseFSMs st" c s S ?k "msgType msg"] assms pre by auto
  obtain e2 fsms2 where suc: "applyFSMSuccessTransition ?k (msgType msg) fsms = (e2, fsms2)" by fastforce
  obtain s2 where s2: "fsms2 c = Some s2" "s2 \<in> S" using success_closed [of fsms c s1 S ?k "msgType msg"] s1 assms(3) suc by auto
  obtain r h where ch: "call_handler H (so6TenantID (sv6Opts srv)) (msgType msg) pkt (st6Handler st) = (r, h)" by fastforce
  show ?thesis
    using pre suc ch s1 s2 by (cases e; cases r; cases e2) (simp_all add: answer_def Let_def)
qed

lemma process_closed:
  assumes "st6LeaseFSMs st c = Some s" and "s \<in> S" and "S = once_bound \<or> S = gone"
  shows "\<exists>s'. st6LeaseFSMs (snd (processDatagram6 iter now srv H dg st)) c = Some s' \<and> s' \<in> S"
proof (cases "ParseMessage6 (fst dg)")
  case (Inr msg)
  let ?pkt = "packetFromMessage6 msg"
  obtain ok st1 where m: "applyMiddleware now srv msg ?pkt (snd dg) st = (ok, st1)" by fastforce
  have "st6LeaseFSMs st1 c = Some s" using middleware_frame [of now srv msg ?pkt "snd dg" st] m assms(1) by simp
  note answer_closed [of st1 c s S iter srv H msg ?pkt, OF this assms(2,3)]
  then show ?thesis
    using Inr m assms \<open>st6LeaseFSMs st1 c = Some s\<close>
    by (cases ok) (auto simp: processDatagram6_def Let_def)
qed (use assms in \<open>simp add: processDatagram6_def\<close>)

lemma run_closed:
  assumes "st6LeaseFSMs st c = Some s" and "s \<in> S" and "S = once_bound \<or> S = gone"
  shows "\<exists>s'. st6LeaseFSMs (run6 iter srv H dgs st) c = Some s' \<and> s' \<in> S"
  using assms(1,2)
proof (induction dgs arbitrary: st s)
  case (Cons d dgs)
  obtain now dg where d: "d = (now, dg)" by (cases d)
  from process_closed [of st c s S iter now srv H dg, OF Cons.prems assms(3)] obtain s' where
    "st6LeaseFSMs (snd (processDatagram6 iter now srv H dg st)) c = Some s'" "s' \<in> S" by blast
  from Cons.IH [OF this] show ?case by (simp add: run6_def d)
qed (simp add: run6_def)

lemma refused_targets:
  "s \<in> once_bound \<Longrightarrow> ValidateTransition6 s LeaseStateOffered \<noteq> None"
  "s \<in> gone \<Longrightarrow> ValidateTransition6 s LeaseStateBound \<noteq> None"
  "s \<in> gone \<Longrightarrow> ValidateTransition6 s LeaseStateRenewing \<noteq> None"
  "s \<in> gone \<Longrightarrow> ValidateTransition6 s LeaseStateRebinding \<noteq> None"
  unfolding once_bound_def gone_def by (elim insertE emptyE; simp add: fsm6_tables)+

lemma refused_transition:
  "fsms c = Some s \<Longrightarrow> s \<in> once_bound \<union> gone \<Longrightarrow> ValidateTransition6 s target \<noteq> None \<Longrightarrow>
   fst (transitionLeaseState c target fsms) \<noteq> None"
  by (auto simp: transitionLeaseState_def Let_def once_bound_def gone_def fsm6_state_defs)

lemma refused_solicit:
  assumes "st6LeaseFSMs st c = Some s" and "c \<noteq> []" and "leaseFSMClientKey pkt = c" and "never_nacks H"
    and "s \<in> once_bound \<and> msgType msg = MessageTypeSolicit6 \<or>
      s \<in> gone \<and> msgType msg \<in> {MessageTypeRequest6, MessageTypeConfirm6, MessageTypeRenew6, MessageTypeRebind6}"
  shows "fst (answer iter srv H msg pkt st) = None"
proof -
  note tr = refused_transition [of "st6LeaseFSMs st" c s, OF assms(1)]
  have gone: "s \<in> gone" if "msgType msg \<noteq> MessageTypeSolicit6" using that assms(5) by blast
  have nn: "\<forall>r. fst (call_handler H (so6TenantID (sv6Opts srv)) (msgType msg) pkt (st6Handler st)) \<noteq> Inl (NACKError r)"
    using assms(4) by (simp add: never_nacks_def)
  consider "msgType msg \<in> {MessageTypeRenew6, MessageTypeRebind6}"
    | "msgType msg \<in> {MessageTypeSolicit6, MessageTypeRequest6, MessageTypeConfirm6}" using assms(5) by auto
  then show ?thesis
  proof cases
    case 1
    then have "s \<in> gone" using gone by (auto simp: message_type6_defs)
    then have "fst (applyFSMPreTransition c (msgType msg) (st6LeaseFSMs st)) \<noteq> None"
      using 1 assms(2) tr refused_targets(3,4) by (auto simp: applyFSMPreTransition_def)
    then show ?thesis by (auto simp: answer_def assms(3) split: prod.splits option.splits)
  next
    case 2
    then have pre: "applyFSMPreTransition c (msgType msg) (st6LeaseFSMs st) = (None, st6LeaseFSMs st)"
      by (auto simp: applyFSMPreTransition_def message_type6_defs)
    have "fst (applyFSMSuccessTransition c (msgType msg) (st6LeaseFSMs st)) \<noteq> None"
    proof (cases "msgType msg = MessageTypeSolicit6")
      case True
      then have "s \<in> once_bound" using assms(5) by (auto simp: message_type6_defs)
      then show ?thesis using True assms(2) tr refused_targets(1) by (simp add: applyFSMSuccessTransition_def)
    next
      case False
      then have "applyFSMSuccessTransition c (msgType msg) (st6LeaseFSMs st) =
          transitionLeaseState c LeaseStateBound (st6LeaseFSMs st)"
        using 2 assms(2) by (auto simp: applyFSMSuccessTransition_def)
      then show ?thesis using tr refused_targets(2) gone [OF False] by simp
    qed
    then show ?thesis using nn
      by (auto simp: answer_def assms(3) pre trySendNACK_def split: prod.splits option.splits sum.splits handler_error.splits)
  qed
qed


definition accepting_handler :: "unit handler6" where
  "accepting_handler =
     (let yes = (\<lambda>_ _ h. (Inr sample_result6, h)) in
      \<lparr>HandleSolicit6 = yes, HandleRequest6 = yes, HandleConfirm6 = yes, HandleRenew6 = yes, HandleRebind6 = yes,
       HandleRelease6 = (\<lambda>_ _ h. (None, h)), HandleDecline6 = (\<lambda>_ _ h. (None, h))\<rparr>)"

definition sample_client6 :: string where
  "sample_client6 = ''duid:00030001aabbccddeeff''"


section \<open>Lifetimes\<close>

lemma clampSeconds_seconds: "0 \<le> n \<Longrightarrow> n < 2 ^ 32 \<Longrightarrow> clampSeconds (n * second) = of_int n"
  by (auto simp: clampSeconds_def Let_def quot_def second_def sgn_if)

lemma secondsValue_fallback [simp]: "value \<le> 0 \<Longrightarrow> secondsValue value 0 (uint w * second) = w"
proof -
  have n: "0 \<le> uint w" "uint w < 2 ^ 32" using uint_bounded [of w] by simp_all
  assume "value \<le> 0"
  then show ?thesis
  proof (cases "uint w = 0")
    case False
    then have "0 < uint w" using n(1) by linarith
    then have "0 < uint w * second" by (simp add: second_def)
    then show ?thesis using clampSeconds_seconds [OF n] \<open>value \<le> 0\<close> by (simp add: secondsValue_def)
  qed (simp add: secondsValue_def uint_0_iff)
qed

lemma three_quarters: "n div 2 \<le> n * 3 div 4 \<and> n * 3 div 4 \<le> n" for n :: nat
proof
  have "n div 2 = (n * 2) div 4" using div_mult_mult2 [of 2 n 2] by simp
  then show "n div 2 \<le> n * 3 div 4" by (simp add: div_le_mono)
  show "n * 3 div 4 \<le> n" using div_le_mono [of "n * 3" "n * 4" 4] by simp
qed

lemma mod_below_thrice: "m \<le> x \<Longrightarrow> x < 3 * m \<Longrightarrow> x mod m = x - m \<or> x mod m = x - m * 2" for x :: nat
  by (cases "x < 2 * m") (auto simp: le_mod_geq)

text \<open>The renewal times of long leases wrap around.  Without configured times, a lease is
  renewed at T1 and rebound at T2 with T1 <= T2 <= preferred <= valid as long as three times
  the preferred lifetime fits in 32 bits; for every longer lifetime, the infinite one
  included, T2 falls below T1.\<close>

theorem renewal_times_wrap:
  assumes "lifetimes srv reqType p = (preferred, valid, t1, t2)"
    and "profRenewalTime p \<le> 0" and "profRebindingTime p \<le> 0"
  shows "(if 3 * unat preferred < 2 ^ 32 then t1 \<le> t2 \<and> t2 \<le> preferred else t2 < t1) \<and> preferred \<le> valid"
proof -
  let ?n = "unat preferred"
  have t: "t1 = preferred div 2" "t2 = (preferred * 3) div 4"
    using assms by (auto simp: lifetimes_def Let_def)
  have n: "?n < 2 ^ 32" by (rule unat_u32_bound)
  have u1: "unat t1 = ?n div 2" by (simp add: t unat_div)
  have u2: "unat t2 = (?n * 3) mod 2 ^ 32 div 4" by (simp add: t unat_div unat_word_ariths)
  have "if 3 * ?n < 2 ^ 32 then unat t1 \<le> unat t2 \<and> unat t2 \<le> ?n else unat t2 < unat t1"
  proof (cases "3 * ?n < 2 ^ 32")
    case True
    have "?n div 2 \<le> ?n * 3 div 4 \<and> ?n * 3 div 4 \<le> ?n" by (rule three_quarters)
    then show ?thesis using True unfolding u1 u2 by simp
  next
    case False
    have "(?n * 3) mod 2 ^ 32 = ?n * 3 - 2 ^ 32 \<or> (?n * 3) mod 2 ^ 32 = ?n * 3 - 2 ^ 32 * 2"
      using False n by (intro mod_below_thrice) simp_all
    then show ?thesis using False n unfolding u1 u2 by auto
  qed
  then show ?thesis using preferred_le_valid [OF assms(1)]
    by (simp add: word_le_nat_alt word_less_nat_alt split: if_splits)
qed

theorem renewal_times_wrap_witness:
  "lifetimes sample_server6 MessageTypeRequest6 (empty_profile\<lparr>profDefaultDuration := (2 ^ 32 - 1) * second\<rparr>) =
     (2 ^ 32 - 1, 2 ^ 32 - 1, 2147483647, 1073741823) \<and> (1073741823 :: u32) < 2147483647"
proof -
  let ?p = "empty_profile\<lparr>profDefaultDuration := (2 ^ 32 - 1) * second\<rparr>"
  have l: "lifetimes sample_server6 MessageTypeRequest6 ?p = (2 ^ 32 - 1, 2 ^ 32 - 1, 2147483647, 1073741823)"
    by (simp add: lifetimes_def secondsValue_def clampSeconds_def quot_def second_def hour_def sample_server6_def
        NewServer6_def sample_options6_def empty_profile_def message_type6_defs Let_def)
  have "profRenewalTime ?p \<le> 0" "profRebindingTime ?p \<le> 0" by (simp_all add: empty_profile_def)
  from renewal_times_wrap [OF l this] show ?thesis using l by simp
qed

end
