(* ===== verification/Policy_Engine.thy ===== *)
theory Policy_Engine
  imports Relay Models
begin

text \<open>
  The policy engine: the metadata that the handlers derive from a packet
  (\<^verbatim>\<open>internal/policy/metadata.go\<close>) and the evaluation of the rules with their cache
  (\<^verbatim>\<open>internal/policy/engine.go\<close>).

  A JSON text is represented by the value it decodes to, if any; numbers are integers.  The
  rules the repository lists are an argument, and so is the order in which \<^verbatim>\<open>sort.Slice\<close>
  leaves rules of equal priority.
\<close>

section \<open>Metadata of a packet\<close>

fun firstRelayValue :: "attrs \<Rightarrow> string list \<Rightarrow> string" where
  "firstRelayValue relay [] = []"
| "firstRelayValue relay (key # keys) =
     (case relay key of
        Some val \<Rightarrow> if trim_space val \<noteq> [] then trim_space val else firstRelayValue relay keys
      | None \<Rightarrow> firstRelayValue relay keys)"

definition DeriveSSID :: "attrs \<Rightarrow> string" where
  "DeriveSSID relay = firstRelayValue relay [''ssid'', ''wifi-ssid'', ''wireless-ssid'', ''essid'', ''ap-ssid'']"

definition DeriveLocation :: "attrs \<Rightarrow> string" where
  "DeriveLocation relay =
     (let loc = firstRelayValue relay [''location'', ''site'', ''room'', ''zone'', ''building''] in
      if loc \<noteq> [] then loc else firstRelayValue relay [''remote-id'', ''agent.remote-id''])"

definition DeriveGeoZone :: "attrs \<Rightarrow> string" where
  "DeriveGeoZone relay = firstRelayValue relay [''geo-zone'', ''geozone'', ''campus-zone'', ''zone'']"

definition DeriveUserID :: "attrs \<Rightarrow> string" where
  "DeriveUserID relay = firstRelayValue relay [''user-id'', ''subscriber-id'', ''account-id'', ''pppoe-id'']"

definition DeriveAccessPointID :: "attrs \<Rightarrow> string" where
  "DeriveAccessPointID relay = firstRelayValue relay [''ap-id'', ''ap.name'', ''ap-mac'', ''radio-mac'', ''bssid'']"

definition DeriveControllerID :: "attrs \<Rightarrow> string" where
  "DeriveControllerID relay = firstRelayValue relay [''controller-id'', ''controller'', ''wlc-id'', ''ap-controller'']"

definition DeriveMobilityAnchorID :: "attrs \<Rightarrow> string" where
  "DeriveMobilityAnchorID relay =
     firstRelayValue relay [''mobility-anchor-id'', ''mobility.anchor'', ''anchor-id'', ''anchor'']"

definition filterNonEmpty :: "string list \<Rightarrow> string list" where
  "filterNonEmpty values = filter (\<lambda>v. v \<noteq> []) (map trim_space values)"

definition device_rules :: "(string \<times> string list) list" where
  "device_rules =
     [(''ip_camera'', [''camera'', ''cam'']),
      (''ip_phone'', [''phone'', ''sip'', ''voip'']),
      (''printer'', [''printer'', ''print'']),
      (''wireless_ap'', [''access point'', ''wifi ap'', ''wireless ap'']),
      (''iot_sensor'', [''sensor'', ''iot'', ''controller''])]"

definition ClassifyDeviceType :: "string \<Rightarrow> string \<Rightarrow> attrs \<Rightarrow> string" where
  "ClassifyDeviceType vendorClass userClass relay =
     (let source = to_lower (join_with '' '' (filterNonEmpty
            [firstRelayValue relay [''device-type'', ''dev-type''], vendorClass, userClass])) in
      if source = [] then []
      else case find (\<lambda>(label, keywords). list_all (str_contains source) keywords) device_rules of
        Some (label, _) \<Rightarrow> label
      | None \<Rightarrow> [])"

text \<open>\<^verbatim>\<open>strings.FieldsFunc\<close>: the maximal runs of characters that are no separators.\<close>

fun fields_by :: "(char \<Rightarrow> bool) \<Rightarrow> string \<Rightarrow> string \<Rightarrow> string list" where
  "fields_by sep acc [] = (if acc = [] then [] else [acc])"
| "fields_by sep acc (c # s) =
     (if sep c then (if acc = [] then [] else [acc]) @ fields_by sep [] s else fields_by sep (acc @ [c]) s)"

definition list_separator :: "char \<Rightarrow> bool" where
  "list_separator c \<longleftrightarrow> c \<in> set [CHR '','', CHR '';'', CHR ''|'', CHR ''/'', CHR 0x5C, CHR 0x0A, CHR 0x0D, CHR 0x09]"

definition tokenizeList :: "string \<Rightarrow> string list" where
  "tokenizeList raw =
     (if trim_space raw = [] then []
      else filter (\<lambda>t. t \<noteq> []) (map trim_space (fields_by list_separator [] raw)))"

definition appendUnique :: "string list \<Rightarrow> string \<Rightarrow> string list" where
  "appendUnique items candidate =
     (if candidate = [] then items
      else if list_ex (\<lambda>existing. equal_fold existing candidate) items then items
      else items @ [candidate])"

definition DeriveUserGroups :: "string \<Rightarrow> attrs \<Rightarrow> string list" where
  "DeriveUserGroups userClass relay =
     (let groups = foldl appendUnique [] (tokenizeList userClass);
          groups = foldl (\<lambda>gs key. foldl appendUnique gs
            (tokenizeList (trim_space (case relay key of None \<Rightarrow> [] | Some v \<Rightarrow> v)))) groups [''user-group'', ''policy-group''];
          blob = to_lower userClass;
          groups = (if str_contains blob ''guest'' then appendUnique groups ''guest'' else groups) in
      if str_contains blob ''staff'' \<or> str_contains blob ''corp'' then appendUnique groups ''employee'' else groups)"

section \<open>Rules and their input\<close>

record policy_input =
  inTenantID :: string
  inMAC :: string
  inClientID :: string
  inUserID :: string
  inDeviceType :: string
  inDevicePersona :: string
  inDeviceTags :: "string list"
  inMDMManaged :: bool
  inUserGroups :: "string list"
  inLocation :: string
  inVLANID :: int
  inSSID :: string
  inAccessPointID :: string
  inControllerID :: string
  inGeoZone :: string
  inRelayInfo :: "string \<rightharpoonup> json"
  inVendorClass :: string
  inUserClass :: string
  inOption60 :: string
  inOption82 :: attrs
  inIPv4Class :: string
  inIsBOOTP :: bool
  inSupportsSLAAC :: bool
  inTimestamp :: gotime

record pool_selector =
  pslVLANID :: int
  pslInterfaceID :: string
  pslSSID :: string
  pslLocation :: string
  pslAccessPointID :: string
  pslControllerID :: string
  pslGeoZone :: string

record policy_decision =
  decPoolID :: string
  decPoolSelector :: "pool_selector option"
  decLeaseProfile :: lease_profile
  decSecurityTags :: "string list"
  decMetadata :: "(string \<times> json) list"

record policy_rule =
  ruleID :: string
  ruleTenantID :: string
  rulePriority :: int
  ruleConditions :: "json option"
  ruleActions :: "json option"
  ruleEnabled :: bool

text \<open>The fields of an object as the map \<^verbatim>\<open>json.Unmarshal\<close> fills: of equal keys the last one
  counts.  \<^verbatim>\<open>null\<close> leaves the map nil.\<close>

definition obj_map :: "(string \<times> json) list \<Rightarrow> (string \<times> json) list" where
  "obj_map fs = fold (\<lambda>(k, v). obj_put k v) fs []"

definition unmarshal_map :: "json option \<Rightarrow> (string \<times> json) list option" where
  "unmarshal_map raw =
     (case raw of Some (JObj fs) \<Rightarrow> Some (obj_map fs) | Some JNull \<Rightarrow> Some [] | _ \<Rightarrow> None)"

section \<open>Matching\<close>

definition policy_int :: "json \<Rightarrow> int option" where
  "policy_int v = (case v of JInt i \<Rightarrow> Some i | _ \<Rightarrow> None)"

definition policy_bool :: "json \<Rightarrow> bool option" where
  "policy_bool v =
     (case v of
        JBool b \<Rightarrow> Some b
      | JStr s \<Rightarrow> if to_lower s = ''true'' then Some True else if to_lower s = ''false'' then Some False else None
      | _ \<Rightarrow> None)"

definition policy_cmp :: "bool \<Rightarrow> string \<Rightarrow> string \<Rightarrow> bool" where
  "policy_cmp ignoreCase a b = (if ignoreCase then equal_fold a b else a = b)"

definition json_str_sat :: "(string \<Rightarrow> bool) \<Rightarrow> json \<Rightarrow> bool" where
  "json_str_sat P v = (case v of JStr s \<Rightarrow> P s | _ \<Rightarrow> False)"

definition matchStringCondition :: "string \<Rightarrow> json \<Rightarrow> bool \<Rightarrow> bool" where
  "matchStringCondition actual cond ignoreCase =
     (let actual = trim_space actual in
      case cond of
        JStr v \<Rightarrow> v = [] \<or> policy_cmp ignoreCase actual v
      | JArr vs \<Rightarrow> vs = [] \<or> list_ex (json_str_sat (policy_cmp ignoreCase actual)) vs
      | _ \<Rightarrow> True)"

definition matchSliceCondition :: "string list \<Rightarrow> json \<Rightarrow> bool \<Rightarrow> bool" where
  "matchSliceCondition values cond ignoreCase =
     (let matches = (\<lambda>target. list_ex (\<lambda>v. policy_cmp ignoreCase (trim_space v) target) values) in
      if values = [] then False
      else case cond of
        JStr v \<Rightarrow> trim_space v = [] \<or> matches v
      | JArr vs \<Rightarrow> vs = [] \<or> list_ex (json_str_sat matches) vs
      | _ \<Rightarrow> False)"

text \<open>\<^verbatim>\<open>time.Parse("15:04", s)\<close>: one or two digits of the hour, a colon, two digits of the
  minute; the result is the minute of the day.\<close>

definition parse_clock :: "string \<Rightarrow> int option" where
  "parse_clock s =
     (let (hs, rest) =
            (case s of
               a # b # r \<Rightarrow> if is_digit a then (if is_digit b then ([a, b], r) else ([a], b # r)) else ([], s)
             | [a] \<Rightarrow> if is_digit a then ([a], []) else ([], s)
             | [] \<Rightarrow> ([], [])) in
      case rest of
        [c, d, e] \<Rightarrow>
          if hs = [] \<or> c \<noteq> CHR '':'' \<or> \<not> is_digit d \<or> \<not> is_digit e then None
          else let h = nat_of_digits hs; m = nat_of_digits [d, e] in
            if h \<ge> 24 \<or> m \<ge> 60 then None else Some (int (h * 60 + m))
      | _ \<Rightarrow> None)"

definition minute_of_day :: "gotime \<Rightarrow> int" where
  "minute_of_day ts = ts div minute mod 1440"

definition weekdayKey :: "gotime \<Rightarrow> string" where
  "weekdayKey ts =
     [''sun'', ''mon'', ''tue'', ''wed'', ''thu'', ''fri'', ''sat''] ! nat ((ts div (24 * hour) + 4) mod 7)"

definition expandDayToken :: "string \<Rightarrow> string list" where
  "expandDayToken raw =
     (let t = to_lower raw in
      if trim_space raw = [] then []
      else if t \<in> {''mon'', ''monday''} then [''mon'']
      else if t \<in> {''tue'', ''tues'', ''tuesday''} then [''tue'']
      else if t \<in> {''wed'', ''weds'', ''wednesday''} then [''wed'']
      else if t \<in> {''thu'', ''thur'', ''thurs'', ''thursday''} then [''thu'']
      else if t \<in> {''fri'', ''friday''} then [''fri'']
      else if t \<in> {''sat'', ''saturday''} then [''sat'']
      else if t \<in> {''sun'', ''sunday''} then [''sun'']
      else if t \<in> {''weekday'', ''workday''} then [''mon'', ''tue'', ''wed'', ''thu'', ''fri'']
      else if t = ''weekend'' then [''sat'', ''sun'']
      else [])"

definition extractDayTokens :: "json \<Rightarrow> string list" where
  "extractDayTokens raw =
     (case raw of
        JStr s \<Rightarrow> [s]
      | JArr vs \<Rightarrow> List.map_filter (\<lambda>v. case v of JStr s \<Rightarrow> Some s | _ \<Rightarrow> None) vs
      | _ \<Rightarrow> [])"

definition buildAllowedDaySet :: "(string \<times> json) list \<Rightarrow> string set" where
  "buildAllowedDaySet cfg =
     (let raw = (case map_of cfg ''daysOfWeek'' of Some v \<Rightarrow> Some v | None \<Rightarrow> map_of cfg ''days'') in
      case raw of
        None \<Rightarrow> {}
      | Some v \<Rightarrow> set (concat (map expandDayToken (extractDayTokens v))))"

definition matchesAllowedDay :: "gotime \<Rightarrow> (string \<times> json) list \<Rightarrow> bool" where
  "matchesAllowedDay ts cfg =
     (let allowed = buildAllowedDaySet cfg in allowed = {} \<or> weekdayKey ts \<in> allowed)"

definition withinTimeRange :: "gotime \<Rightarrow> (string \<times> json) list \<Rightarrow> bool" where
  "withinTimeRange ts cfg =
     (if \<not> matchesAllowedDay ts cfg then False
      else case (map_of cfg ''start'', map_of cfg ''end'') of
        (Some (JStr start), Some (JStr end')) \<Rightarrow>
          (case (parse_clock start, parse_clock end') of
             (Some s, Some e) \<Rightarrow>
               let current = minute_of_day ts;
                   over = (e < s);
                   current = (if over \<and> current < s then current + 1440 else current);
                   e = (if over then e + 1440 else e)
               in s \<le> current \<and> current < e
           | _ \<Rightarrow> True)
      | _ \<Rightarrow> True)"

text \<open>One condition of a rule.  A condition with an unknown key, or of a type the key does not
  expect, holds.\<close>

definition condition_holds :: "policy_input \<Rightarrow> string \<times> json \<Rightarrow> bool" where
  "condition_holds i c =
     (case c of (k, v) \<Rightarrow>
        let str = (\<lambda>P. case v of JStr s \<Rightarrow> P s | _ \<Rightarrow> True);
            bool = (\<lambda>actual. case policy_bool v of Some want \<Rightarrow> want = actual | None \<Rightarrow> True) in
        if k = ''deviceType'' then str (\<lambda>s. inDeviceType i = s)
        else if k = ''devicePersona'' then str (\<lambda>s. equal_fold (inDevicePersona i) s)
        else if k \<in> {''deviceTag'', ''deviceTags''} then matchSliceCondition (inDeviceTags i) v True
        else if k \<in> {''mdmManaged'', ''deviceMdmManaged''} then bool (inMDMManaged i)
        else if k = ''location'' then matchStringCondition (inLocation i) v True
        else if k = ''vlanID'' then (case policy_int v of Some vlan \<Rightarrow> vlan = inVLANID i | None \<Rightarrow> True)
        else if k = ''ssid'' then str (\<lambda>s. inSSID i = s)
        else if k \<in> {''accessPointId'', ''apId''} then matchStringCondition (inAccessPointID i) v True
        else if k = ''controllerId'' then matchStringCondition (inControllerID i) v True
        else if k = ''geoZone'' then matchStringCondition (inGeoZone i) v True
        else if k \<in> {''userGroup'', ''userGroups''} then matchSliceCondition (inUserGroups i) v True
        else if k = ''timeRange'' then (case v of JObj cfg \<Rightarrow> withinTimeRange (inTimestamp i) (obj_map cfg) | _ \<Rightarrow> True)
        else if k \<in> {''supportsSLAAC'', ''slaac''} then bool (inSupportsSLAAC i)
        else if k = ''ipv4Class'' then matchStringCondition (inIPv4Class i) v False
        else if k \<in> {''bootp'', ''isBootp''} then bool (inIsBOOTP i)
        else if k = ''vendorClass'' then matchStringCondition (inVendorClass i) v False
        else if k = ''userClass'' then matchStringCondition (inUserClass i) v False
        else if k = ''clientID'' then matchStringCondition (inClientID i) v False
        else if k = ''mac'' then matchStringCondition (inMAC i) v True
        else if k = ''option60'' then matchStringCondition (inOption60 i) v False
        else True)"

text \<open>The order in which the conditions are visited does not matter: all of them must hold.\<close>

definition matchRule :: "policy_rule \<Rightarrow> policy_input \<Rightarrow> bool" where
  "matchRule rule i =
     (case unmarshal_map (ruleConditions rule) of
        None \<Rightarrow> False
      | Some conditions \<Rightarrow> list_all (condition_holds i) conditions)"

section \<open>Actions\<close>

text \<open>\<^verbatim>\<open>json.Unmarshal\<close> into a \<^verbatim>\<open>Decision\<close>: names match without regard to
  case, \<^verbatim>\<open>null\<close> changes nothing, a value of the wrong type is an error.\<close>

definition put_str :: "json \<Rightarrow> string \<Rightarrow> string option" where
  "put_str v cur = (case v of JNull \<Rightarrow> Some cur | JStr s \<Rightarrow> Some s | _ \<Rightarrow> None)"

definition put_int :: "json \<Rightarrow> int \<Rightarrow> int option" where
  "put_int v cur =
     (case v of JNull \<Rightarrow> Some cur | JInt i \<Rightarrow> if - (2 ^ 63) \<le> i \<and> i < 2 ^ 63 then Some i else None | _ \<Rightarrow> None)"

definition put_bool :: "json \<Rightarrow> bool \<Rightarrow> bool option" where
  "put_bool v cur = (case v of JNull \<Rightarrow> Some cur | JBool b \<Rightarrow> Some b | _ \<Rightarrow> None)"

fun put_fields :: "('a \<Rightarrow> string \<times> json \<Rightarrow> 'a option) \<Rightarrow> (string \<times> json) list \<Rightarrow> 'a \<Rightarrow> 'a option" where
  "put_fields put [] cur = Some cur"
| "put_fields put (f # fs) cur = (case put cur f of None \<Rightarrow> None | Some cur \<Rightarrow> put_fields put fs cur)"

definition put_object :: "('a \<Rightarrow> string \<times> json \<Rightarrow> 'a option) \<Rightarrow> json \<Rightarrow> 'a \<Rightarrow> 'a option" where
  "put_object put v cur = (case v of JNull \<Rightarrow> Some cur | JObj fs \<Rightarrow> put_fields put fs cur | _ \<Rightarrow> None)"

definition put_selector :: "pool_selector \<Rightarrow> string \<times> json \<Rightarrow> pool_selector option" where
  "put_selector s f =
     (case f of (k, v) \<Rightarrow>
        if equal_fold k ''vlanId'' then map_option (\<lambda>x. s\<lparr>pslVLANID := x\<rparr>) (put_int v (pslVLANID s))
        else if equal_fold k ''interfaceId'' then map_option (\<lambda>x. s\<lparr>pslInterfaceID := x\<rparr>) (put_str v (pslInterfaceID s))
        else if equal_fold k ''ssid'' then map_option (\<lambda>x. s\<lparr>pslSSID := x\<rparr>) (put_str v (pslSSID s))
        else if equal_fold k ''location'' then map_option (\<lambda>x. s\<lparr>pslLocation := x\<rparr>) (put_str v (pslLocation s))
        else if equal_fold k ''accessPointId'' then map_option (\<lambda>x. s\<lparr>pslAccessPointID := x\<rparr>) (put_str v (pslAccessPointID s))
        else if equal_fold k ''controllerId'' then map_option (\<lambda>x. s\<lparr>pslControllerID := x\<rparr>) (put_str v (pslControllerID s))
        else if equal_fold k ''geoZone'' then map_option (\<lambda>x. s\<lparr>pslGeoZone := x\<rparr>) (put_str v (pslGeoZone s))
        else Some s)"

definition empty_selector :: pool_selector where
  "empty_selector = \<lparr>pslVLANID = 0, pslInterfaceID = [], pslSSID = [], pslLocation = [], pslAccessPointID = [],
     pslControllerID = [], pslGeoZone = []\<rparr>"

definition put_time :: "(string \<Rightarrow> gotime option) \<Rightarrow> json \<Rightarrow> gotime \<Rightarrow> gotime option" where
  "put_time parseTime v cur = (case v of JNull \<Rightarrow> Some cur | JStr s \<Rightarrow> parseTime s | _ \<Rightarrow> None)"

definition put_profile :: "(string \<Rightarrow> gotime option) \<Rightarrow> lease_profile \<Rightarrow> string \<times> json \<Rightarrow> lease_profile option" where
  "put_profile parseTime p f =
     (case f of (k, v) \<Rightarrow>
        if equal_fold k ''id'' then map_option (\<lambda>x. p\<lparr>profID := x\<rparr>) (put_str v (profID p))
        else if equal_fold k ''tenantId'' then map_option (\<lambda>x. p\<lparr>profTenantID := x\<rparr>) (put_str v (profTenantID p))
        else if equal_fold k ''name'' then map_option (\<lambda>x. p\<lparr>profName := x\<rparr>) (put_str v (profName p))
        else if equal_fold k ''defaultDuration'' then map_option (\<lambda>x. p\<lparr>profDefaultDuration := x\<rparr>) (put_int v (profDefaultDuration p))
        else if equal_fold k ''minDuration'' then map_option (\<lambda>x. p\<lparr>profMinDuration := x\<rparr>) (put_int v (profMinDuration p))
        else if equal_fold k ''maxDuration'' then map_option (\<lambda>x. p\<lparr>profMaxDuration := x\<rparr>) (put_int v (profMaxDuration p))
        else if equal_fold k ''renewalTime'' then map_option (\<lambda>x. p\<lparr>profRenewalTime := x\<rparr>) (put_int v (profRenewalTime p))
        else if equal_fold k ''rebindingTime'' then map_option (\<lambda>x. p\<lparr>profRebindingTime := x\<rparr>) (put_int v (profRebindingTime p))
        else if equal_fold k ''notificationLead'' then map_option (\<lambda>x. p\<lparr>profNotificationLead := x\<rparr>) (put_int v (profNotificationLead p))
        else if equal_fold k ''infinite'' then map_option (\<lambda>x. p\<lparr>profInfinite := x\<rparr>) (put_bool v (profInfinite p))
        else if equal_fold k ''sleepyCapable'' then map_option (\<lambda>x. p\<lparr>profSleepyCapable := x\<rparr>) (put_bool v (profSleepyCapable p))
        else if equal_fold k ''sleepyOfflineWindow'' then map_option (\<lambda>x. p\<lparr>profSleepyOfflineWindow := x\<rparr>) (put_int v (profSleepyOfflineWindow p))
        else if equal_fold k ''sleepyHoldDuration'' then map_option (\<lambda>x. p\<lparr>profSleepyHoldDuration := x\<rparr>) (put_int v (profSleepyHoldDuration p))
        else if equal_fold k ''mobilityGracePeriod'' then map_option (\<lambda>x. p\<lparr>profMobilityGracePeriod := x\<rparr>) (put_int v (profMobilityGracePeriod p))
        else if equal_fold k ''deviceType'' then map_option (\<lambda>x. p\<lparr>profDeviceType := x\<rparr>) (put_str v (profDeviceType p))
        else if equal_fold k ''createdAt'' then map_option (\<lambda>x. p\<lparr>profCreatedAt := x\<rparr>) (put_time parseTime v (profCreatedAt p))
        else if equal_fold k ''updatedAt'' then map_option (\<lambda>x. p\<lparr>profUpdatedAt := x\<rparr>) (put_time parseTime v (profUpdatedAt p))
        else Some p)"

definition string_list_of :: "json list \<Rightarrow> string list option" where
  "string_list_of vs =
     (if list_all (\<lambda>v. put_str v [] \<noteq> None) vs then Some (List.map_filter (\<lambda>v. put_str v []) vs) else None)"

definition put_decision :: "(string \<Rightarrow> gotime option) \<Rightarrow> policy_decision \<Rightarrow> string \<times> json \<Rightarrow> policy_decision option" where
  "put_decision parseTime d f =
     (case f of (k, v) \<Rightarrow>
        if equal_fold k ''PoolID'' then map_option (\<lambda>x. d\<lparr>decPoolID := x\<rparr>) (put_str v (decPoolID d))
        else if equal_fold k ''PoolSelector'' then
          (if v = JNull then Some (d\<lparr>decPoolSelector := None\<rparr>)
           else map_option (\<lambda>x. d\<lparr>decPoolSelector := Some x\<rparr>)
             (put_object put_selector v (case decPoolSelector d of None \<Rightarrow> empty_selector | Some s \<Rightarrow> s)))
        else if equal_fold k ''LeaseProfile'' then
          map_option (\<lambda>x. d\<lparr>decLeaseProfile := x\<rparr>) (put_object (put_profile parseTime) v (decLeaseProfile d))
        else if equal_fold k ''SecurityTags'' then
          (case v of
             JNull \<Rightarrow> Some (d\<lparr>decSecurityTags := []\<rparr>)
           | JArr vs \<Rightarrow> map_option (\<lambda>x. d\<lparr>decSecurityTags := x\<rparr>) (string_list_of vs)
           | _ \<Rightarrow> None)
        else if equal_fold k ''Metadata'' then
          (case v of
             JNull \<Rightarrow> Some (d\<lparr>decMetadata := []\<rparr>)
           | JObj fs \<Rightarrow> Some (d\<lparr>decMetadata := fold (\<lambda>(k, v). obj_put k v) fs (decMetadata d)\<rparr>)
           | _ \<Rightarrow> None)
        else Some d)"

definition empty_decision :: policy_decision where
  "empty_decision = \<lparr>decPoolID = [], decPoolSelector = None, decLeaseProfile = empty_profile, decSecurityTags = [], decMetadata = []\<rparr>"

definition decode_decision :: "(string \<Rightarrow> gotime option) \<Rightarrow> json option \<Rightarrow> policy_decision option" where
  "decode_decision parseTime raw =
     (case raw of None \<Rightarrow> None | Some v \<Rightarrow> put_object (put_decision parseTime) v empty_decision)"

section \<open>The engine\<close>

datatype policy_error = PolicyRepoError string | PolicyDecodeError | NoMatchingRule

type_synonym rule_cache = "string \<rightharpoonup> policy_rule list \<times> gotime"

definition defaultCacheTTL :: duration where "defaultCacheTTL = 60 * second"

definition fetchRules ::
  "(string \<Rightarrow> string + policy_rule list) \<Rightarrow> (policy_rule list \<Rightarrow> policy_rule list) \<Rightarrow> gotime \<Rightarrow> string \<Rightarrow> rule_cache
     \<Rightarrow> (string + policy_rule list) \<times> rule_cache" where
  "fetchRules listRules arrange now tenantID cache =
     (case cache tenantID of
        Some (cached, t) \<Rightarrow>
          if now - t < defaultCacheTTL then (Inr cached, cache)
          else (case listRules tenantID of
              Inl e \<Rightarrow> (Inl e, cache)
            | Inr rules \<Rightarrow> let rs = arrange (filter ruleEnabled rules) in (Inr rs, cache(tenantID \<mapsto> (rs, now))))
      | None \<Rightarrow>
          (case listRules tenantID of
             Inl e \<Rightarrow> (Inl e, cache)
           | Inr rules \<Rightarrow> let rs = arrange (filter ruleEnabled rules) in (Inr rs, cache(tenantID \<mapsto> (rs, now)))))"

definition Evaluate ::
  "(string \<Rightarrow> gotime option) \<Rightarrow> (string \<Rightarrow> string + policy_rule list) \<Rightarrow> (policy_rule list \<Rightarrow> policy_rule list) \<Rightarrow> gotime
     \<Rightarrow> policy_input \<Rightarrow> rule_cache \<Rightarrow> (policy_error + policy_decision) \<times> rule_cache" where
  "Evaluate parseTime listRules arrange now i cache =
     (case fetchRules listRules arrange now (inTenantID i) cache of
        (Inl e, cache) \<Rightarrow> (Inl (PolicyRepoError e), cache)
      | (Inr rules, cache) \<Rightarrow>
          (case find (\<lambda>r. matchRule r i) rules of
             None \<Rightarrow> (Inl NoMatchingRule, cache)
           | Some rule \<Rightarrow>
               (case decode_decision parseTime (ruleActions rule) of
                  None \<Rightarrow> (Inl PolicyDecodeError, cache)
                | Some d \<Rightarrow> (Inr d, cache))))"

definition Invalidate :: "string \<Rightarrow> rule_cache \<Rightarrow> rule_cache" where
  "Invalidate tenantID cache = (if tenantID = [] then Map.empty else cache(tenantID := None))"

section \<open>Evaluation\<close>

text \<open>What the sort of the sources promises: the same rules, by priority.\<close>

definition sorts_rules :: "(policy_rule list \<Rightarrow> policy_rule list) \<Rightarrow> bool" where
  "sorts_rules arrange \<longleftrightarrow> (\<forall>rs. set (arrange rs) = set rs \<and> sorted (map rulePriority (arrange rs)))"

lemma find_first_sorted:
  assumes "sorted (map key rs)" and "find P rs = Some r" and "r' \<in> set rs" and "P r'"
  shows "key r \<le> key r'"
  using assms by (induction rs) (auto split: if_splits)

lemma fetch_fresh:
  assumes "\<forall>rs t. cache tenant = Some (rs, t) \<longrightarrow> defaultCacheTTL \<le> now - t" and "listRules tenant = Inr rules"
  shows "fetchRules listRules arrange now tenant cache =
    (Inr (arrange (filter ruleEnabled rules)), cache(tenant \<mapsto> (arrange (filter ruleEnabled rules), now)))"
  using assms by (auto simp: fetchRules_def Let_def split: option.splits)

text \<open>C29: The engine decides by the enabled rule of least priority number whose conditions all
  hold: the answer is the decoded actions of such a rule, or that there is none.  For the next
  minute the answers to the tenant rest on the rules read then, whatever the table holds
  meanwhile.\<close>

theorem evaluate_first_match:
  assumes "sorts_rules arrange" and "listRules (inTenantID i) = Inr rules"
    and "\<forall>rs t. cache (inTenantID i) = Some (rs, t) \<longrightarrow> defaultCacheTTL \<le> now - t"
    and "Evaluate parseTime listRules arrange now i cache = (res, cache')"
  shows "(if \<exists>r \<in> set rules. ruleEnabled r \<and> matchRule r i
      then \<exists>r \<in> set rules. ruleEnabled r \<and> matchRule r i \<and>
        (\<forall>r' \<in> set rules. ruleEnabled r' \<and> matchRule r' i \<longrightarrow> rulePriority r \<le> rulePriority r') \<and>
        res = (case decode_decision parseTime (ruleActions r) of None \<Rightarrow> Inl PolicyDecodeError | Some d \<Rightarrow> Inr d)
      else res = Inl NoMatchingRule) \<and>
    (\<forall>now' listRules' j. inTenantID j = inTenantID i \<longrightarrow> now' - now < defaultCacheTTL \<longrightarrow>
       Evaluate parseTime listRules' arrange now' j cache' =
         (fst (Evaluate parseTime listRules arrange now j cache), cache'))"
proof -
  let ?rs = "arrange (filter ruleEnabled rules)"
  note fetch = fetch_fresh [of cache "inTenantID i" now listRules rules arrange, OF assms(3,2)]
  have rs: "set ?rs = {r \<in> set rules. ruleEnabled r}" "sorted (map rulePriority ?rs)"
    using assms(1) by (auto simp: sorts_rules_def)
  have cache': "cache' = cache(inTenantID i \<mapsto> (?rs, now))"
    using assms(4) fetch by (auto simp: Evaluate_def split: option.splits)
  have again: "Evaluate parseTime listRules' arrange now' j cache' =
      (fst (Evaluate parseTime listRules arrange now j cache), cache')"
    if "inTenantID j = inTenantID i" "now' - now < defaultCacheTTL" for now' listRules' j
    using that fetch by (auto simp: Evaluate_def fetchRules_def cache' split: option.splits)
  show ?thesis
  proof (cases "find (\<lambda>r. matchRule r i) ?rs")
    case None
    then have "res = Inl NoMatchingRule" using assms(4) fetch by (simp add: Evaluate_def)
    moreover from None have "\<not> (\<exists>r \<in> set rules. ruleEnabled r \<and> matchRule r i)"
      using rs(1) by (auto simp: find_None_iff)
    ultimately show ?thesis using again by auto
  next
    case (Some r)
    then have r: "r \<in> set ?rs" "matchRule r i" by (auto simp: find_Some_iff)
    have least: "rulePriority r \<le> rulePriority r'" if "r' \<in> set rules" "ruleEnabled r'" "matchRule r' i" for r'
      using find_first_sorted [OF rs(2) Some, of r'] that rs(1) by auto
    have "res = (case decode_decision parseTime (ruleActions r) of None \<Rightarrow> Inl PolicyDecodeError | Some d \<Rightarrow> Inr d)"
      using assms(4) fetch Some by (auto simp: Evaluate_def split: option.splits)
    with r least rs(1) again show ?thesis by auto
  qed
qed

section \<open>The time window\<close>

lemma parse_clock_bounds: "parse_clock s = Some m \<Longrightarrow> 0 \<le> m \<and> m < 1440"
proof -
  assume "parse_clock s = Some m"
  then obtain h k where "m = int (h * 60 + k)" "h < 24" "k < 60"
    by (auto simp: parse_clock_def Let_def split: list.splits if_splits)
  then show ?thesis by simp
qed

lemma circular_window:
  assumes "0 \<le> s" "s < 1440" "0 \<le> e" "e < 1440" "0 \<le> c" "c < (1440 :: int)"
  shows "(let over = (e < s); c' = (if over \<and> c < s then c + 1440 else c); e' = (if over then e + 1440 else e) in
    s \<le> c' \<and> c' < e') \<longleftrightarrow> (c - s) mod 1440 < (e - s) mod 1440"
proof -
  have m: "(x :: int) mod 1440 = (if 0 \<le> x then x else x + 1440)" if "-1440 < x" "x < 1440" for x
  proof (cases "0 \<le> x")
    case False
    have "x mod 1440 = (x + 1440) mod 1440" by simp
    also have "\<dots> = x + 1440" using that False by (intro mod_pos_pos_trivial) auto
    finally show ?thesis using False by simp
  qed (use that in simp)
  have "(c - s) mod 1440 = (if 0 \<le> c - s then c - s else c - s + 1440)"
    "(e - s) mod 1440 = (if 0 \<le> e - s then e - s else e - s + 1440)" using assms by (intro m; simp)+
  then show ?thesis using assms by (auto simp: Let_def)
qed

text \<open>C30: A time window is a circular interval of the day.  With readable start and end the
  window holds exactly when the day is allowed and the minutes passed since the start are fewer
  than its length; a window that ends where it starts never holds, and one past midnight asks
  for the day of the current instant, not for the day on which it began.\<close>

theorem time_window_circular:
  assumes "map_of cfg ''start'' = Some (JStr start)" and "map_of cfg ''end'' = Some (JStr end')"
    and "parse_clock start = Some s" and "parse_clock end' = Some e"
  shows "withinTimeRange ts cfg \<longleftrightarrow> matchesAllowedDay ts cfg \<and>
    (minute_of_day ts - s) mod 1440 < (e - s) mod 1440"
proof -
  have "0 \<le> minute_of_day ts" "minute_of_day ts < 1440" by (simp_all add: minute_of_day_def)
  with circular_window [of s e "minute_of_day ts"] parse_clock_bounds [OF assms(3)] parse_clock_bounds [OF assms(4)]
  show ?thesis using assms by (auto simp: withinTimeRange_def Let_def split: if_splits)
qed

section \<open>Concrete rules\<close>

definition sample_input :: policy_input where
  "sample_input = \<lparr>inTenantID = ''t'', inMAC = [], inClientID = [], inUserID = [], inDeviceType = [], inDevicePersona = [],
     inDeviceTags = [], inMDMManaged = False, inUserGroups = [''staff''], inLocation = [], inVLANID = 7, inSSID = [],
     inAccessPointID = [], inControllerID = [], inGeoZone = [], inRelayInfo = Map.empty, inVendorClass = [], inUserClass = [],
     inOption60 = [], inOption82 = Map.empty, inIPv4Class = [], inIsBOOTP = False, inSupportsSLAAC = False, inTimestamp = 0\<rparr>"

definition sample_rule :: "int \<Rightarrow> (string \<times> json) list \<Rightarrow> string \<Rightarrow> policy_rule" where
  "sample_rule prio conds pool = \<lparr>ruleID = pool, ruleTenantID = ''t'', rulePriority = prio, ruleConditions = Some (JObj conds),
     ruleActions = Some (JObj [(''poolId'', JStr pool)]), ruleEnabled = True\<rparr>"

definition sample_rules :: "policy_rule list" where
  "sample_rules = [sample_rule 2 [(''userGroup'', JStr ''STAFF'')] ''b'', sample_rule 1 [(''vlanID'', JInt 9)] ''a'']"

lemma sort_key_sorts: "sorts_rules (sort_key rulePriority)"
  by (simp add: sorts_rules_def)

theorem evaluate_first_match_witness:
  "(case Evaluate (\<lambda>_. None) (\<lambda>_. Inr sample_rules) (sort_key rulePriority) 0 sample_input Map.empty of
      (Inr d, _) \<Rightarrow> decPoolID d = ''b'' | _ \<Rightarrow> False)"
proof -
  let ?ev = "Evaluate (\<lambda>_. None) (\<lambda>_. Inr sample_rules) (sort_key rulePriority) 0 sample_input Map.empty"
  have m: "\<not> matchRule (sample_rule 1 [(''vlanID'', JInt 9)] ''a'') sample_input"
    "matchRule (sample_rule 2 [(''userGroup'', JStr ''STAFF'')] ''b'') sample_input"
    "map_option decPoolID (decode_decision (\<lambda>_. None) (ruleActions (sample_rule 2 [(''userGroup'', JStr ''STAFF'')] ''b''))) = Some ''b''"
    "ruleEnabled (sample_rule 2 [(''userGroup'', JStr ''STAFF'')] ''b'')"
    by code_simp+
  from evaluate_first_match [OF sort_key_sorts, of "\<lambda>_. Inr sample_rules" sample_input sample_rules Map.empty 0
      "\<lambda>_. None" "fst ?ev" "snd ?ev"] m
  show ?thesis by (auto simp: sample_rules_def split: option.splits prod.splits)
qed

theorem time_window_circular_witness:
  "withinTimeRange (30 * minute) [(''start'', JStr ''22:00''), (''end'', JStr ''6:30'')]"
proof -
  have c: "parse_clock ''22:00'' = Some 1320" "parse_clock ''6:30'' = Some 390" by code_simp+
  have "matchesAllowedDay (30 * minute) [(''start'', JStr ''22:00''), (''end'', JStr ''6:30'')]"
    by (simp add: matchesAllowedDay_def buildAllowedDaySet_def)
  moreover have "minute_of_day (30 * minute) = 30" by (simp add: minute_of_day_def duration_units)
  ultimately show ?thesis
    using time_window_circular [of "[(''start'', JStr ''22:00''), (''end'', JStr ''6:30'')]" "''22:00''" "''6:30''" 1320 390] c
    by simp
qed

text \<open>A device class asks for all its keywords, so the alternatives of a class exclude each other.\<close>

lemma phone_needs_every_keyword:
  "ClassifyDeviceType ''SIP phone'' [] Map.empty = []"
  "ClassifyDeviceType ''wifi ap'' [] Map.empty = []"
  "ClassifyDeviceType ''SIP VoIP phone'' [] Map.empty = ''ip_phone''"
  by code_simp+

end
