(* ===== verification/Handler_Services.thy ===== *)
theory Handler_Services
  imports Policy_Engine Lease_Env
begin

text \<open>
  The services both protocol handlers are built with, as records of the operations they call:
  the policy engine with its rule table, the sort of its rules and the reading of instants, and
  the pool service (\<^verbatim>\<open>internal/pool/service.go\<close>), whose failures and missing answers the
  handlers treat alike.
\<close>

record policy_engine =
  peParseTime :: "string \<Rightarrow> gotime option"
  peListRules :: "string \<Rightarrow> string + policy_rule list"
  peArrange :: "policy_rule list \<Rightarrow> policy_rule list"

record pool_service =
  psResolvePool :: "access_scope \<Rightarrow> pool_selector \<Rightarrow> address_pool option"
  psGetPool :: "access_scope \<Rightarrow> string \<Rightarrow> address_pool option"
  psGetLeaseProfile :: "access_scope \<Rightarrow> string \<Rightarrow> lease_profile option"
  psFindBinding :: "access_scope \<Rightarrow> string \<Rightarrow> static_binding option"

end
