(* ===== verification/Mobility.thy ===== *)
theory Mobility
  imports Relay Lease_Env
begin

text \<open>
  What the servers know of a mobile device: the detector that classifies it from its vendor and
  user classes, relay attributes, MAC prefix and option 55 (\<^verbatim>\<open>internal/mobility/detector.go\<close>), the
  cache of the pool a roaming client was last served from (\<^verbatim>\<open>internal/mobility/affinity.go\<close>), and
  the cache of compliance records read from the MDM connectors
  (\<^verbatim>\<open>internal/mobility/mdm/cache.go\<close>, \<^verbatim>\<open>service.go\<close>).

  Go visits a map in an arbitrary order, so the detector takes the order as an argument.
\<close>

section \<open>The device detector\<close>

record mobile_profile_spec =
  mpsName :: string
  mpsPlatform :: string
  mpsPersona :: string
  mpsTags :: "string list"
  mpsVendorClassContains :: "string list"
  mpsUserClassContains :: "string list"
  mpsRelayKeywords :: "string list"
  mpsOUIs :: "string list"
  mpsOption55Contains :: "int list"

record mobile_profiles_config =
  mpEnabled :: bool
  mpProfiles :: "mobile_profile_spec list"

record device_signals =
  dsVendorClass :: string
  dsUserClass :: string
  dsRelayInfo :: attrs
  dsMAC :: bytes
  dsOption55 :: "int list"

record profile_match =
  pmName :: string
  pmPlatform :: string
  pmPersona :: string
  pmTags :: "string list"

record compiled_profile =
  cpName :: string
  cpPlatform :: string
  cpPersona :: string
  cpTags :: "string list"
  cpVendorSet :: "string list"
  cpUserSet :: "string list"
  cpRelaySet :: "string list"
  cpOUIs :: "string list"
  cpOption55 :: "int set"

text \<open>A detector is its list of compiled profiles; \<^verbatim>\<open>enabled\<close> is always true in one that
  was built.\<close>

type_synonym detector = "compiled_profile list"

definition normalizeList :: "string list \<Rightarrow> string list" where
  "normalizeList values = filter (\<lambda>t. t \<noteq> []) (map (\<lambda>v. trim_space (to_lower v)) values)"

definition compile_profile :: "mobile_profile_spec \<Rightarrow> compiled_profile" where
  "compile_profile spec =
     (let name = trim_space (mpsName spec); platform = trim_space (to_lower (mpsPlatform spec)) in
      \<lparr>cpName = (if name = [] then platform else name), cpPlatform = platform,
       cpPersona = trim_space (to_lower (mpsPersona spec)), cpTags = normalizeList (mpsTags spec),
       cpVendorSet = normalizeList (mpsVendorClassContains spec), cpUserSet = normalizeList (mpsUserClassContains spec),
       cpRelaySet = normalizeList (mpsRelayKeywords spec), cpOUIs = normalizeList (mpsOUIs spec),
       cpOption55 = set (filter (\<lambda>code. code > 0) (mpsOption55Contains spec))\<rparr>)"

definition NewDetector :: "mobile_profiles_config \<Rightarrow> detector option" where
  "NewDetector cfg =
     (if \<not> mpEnabled cfg \<or> mpProfiles cfg = [] then None
      else Some (map compile_profile (mpProfiles cfg)))"

text \<open>\<open>visit\<close> lists the keys of the attribute map in the order in which the loop visits them.\<close>

definition flattenRelay :: "(attrs \<Rightarrow> string list) \<Rightarrow> attrs \<Rightarrow> string" where
  "flattenRelay visit relay =
     concat (map (\<lambda>k. case relay k of None \<Rightarrow> [] | Some v \<Rightarrow> if v = [] then [] else to_lower v @ '' '') (visit relay))"

definition drop_colons :: "string \<Rightarrow> string" where
  "drop_colons s = filter (\<lambda>c. c \<noteq> CHR '':'') s"

definition deriveOUI :: "bytes \<Rightarrow> string" where
  "deriveOUI mac = (if length mac < 3 then [] else to_lower (drop_colons (take 8 (hw_string mac))))"

definition containsAllTokens :: "string \<Rightarrow> string list \<Rightarrow> bool" where
  "containsAllTokens source tokens \<longleftrightarrow> list_all (str_contains source) tokens"

definition relayHasKeywords :: "string \<Rightarrow> string list \<Rightarrow> bool" where
  "relayHasKeywords relay tokens \<longleftrightarrow> list_all (str_contains relay) tokens"

definition ouiMatches :: "string \<Rightarrow> string list \<Rightarrow> bool" where
  "ouiMatches actual expected \<longleftrightarrow>
     (if expected = [] then True
      else if actual = [] then False
      else list_ex (\<lambda>c. let normalized = drop_colons c in
          normalized \<noteq> [] \<and> has_prefix actual (to_lower normalized)) expected)"

definition option55Superset :: "int list \<Rightarrow> int set \<Rightarrow> bool" where
  "option55Superset codes required \<longleftrightarrow> required \<subseteq> set codes"

definition profile_satisfied :: "string \<Rightarrow> device_signals \<Rightarrow> compiled_profile \<Rightarrow> bool" where
  "profile_satisfied relayBlob sig p \<longleftrightarrow>
     containsAllTokens (to_lower (dsVendorClass sig)) (cpVendorSet p) \<and>
     containsAllTokens (to_lower (dsUserClass sig)) (cpUserSet p) \<and>
     relayHasKeywords relayBlob (cpRelaySet p) \<and>
     ouiMatches (deriveOUI (dsMAC sig)) (cpOUIs p) \<and>
     \<not> (cpOption55 p \<noteq> {} \<and> \<not> option55Superset (dsOption55 sig) (cpOption55 p))"

definition Match :: "(attrs \<Rightarrow> string list) \<Rightarrow> detector option \<Rightarrow> device_signals \<Rightarrow> profile_match option" where
  "Match visit d sig =
     (case d of
        None \<Rightarrow> None
      | Some profiles \<Rightarrow>
          map_option (\<lambda>p. \<lparr>pmName = cpName p, pmPlatform = cpPlatform p, pmPersona = cpPersona p, pmTags = cpTags p\<rparr>)
            (find (profile_satisfied (flattenRelay visit (dsRelayInfo sig)) sig) profiles))"

section \<open>The affinity cache\<close>

record coordinates =
  coAnchorID :: string
  coAccessPointID :: string
  coControllerID :: string
  coGeoZone :: string
  coLocation :: string
  coVLANID :: int

record affinity_entry =
  afPoolID :: string
  afCoordinates :: coordinates
  afStoredAt :: gotime

record affinity_cache =
  acTTL :: duration
  acEntries :: "string \<rightharpoonup> affinity_entry"

definition NewAffinityCache :: "duration \<Rightarrow> affinity_cache option" where
  "NewAffinityCache ttl = (if ttl \<le> 0 then None else Some \<lparr>acTTL = ttl, acEntries = Map.empty\<rparr>)"

definition affinityKey :: "string \<Rightarrow> string \<Rightarrow> string" where
  "affinityKey tenantID identifier =
     (let tenantID = trim_space (to_lower tenantID); identifier = trim_space (to_lower identifier) in
      if tenantID = [] \<or> identifier = [] then [] else tenantID @ ''|'' @ identifier)"

definition LookupAffinity :: "gotime \<Rightarrow> string \<Rightarrow> string \<Rightarrow> affinity_cache \<Rightarrow> affinity_entry option \<times> affinity_cache" where
  "LookupAffinity now tenantID identifier c =
     (let key = affinityKey tenantID identifier in
      if key = [] then (None, c)
      else case acEntries c key of
        None \<Rightarrow> (None, c)
      | Some entry \<Rightarrow>
          if afStoredAt entry + acTTL c < now then (None, c\<lparr>acEntries := (acEntries c)(key := None)\<rparr>)
          else (Some entry, c))"

definition RememberAffinity :: "gotime \<Rightarrow> string \<Rightarrow> string \<Rightarrow> affinity_entry \<Rightarrow> affinity_cache \<Rightarrow> affinity_cache" where
  "RememberAffinity now tenantID identifier entry c =
     (let key = affinityKey tenantID identifier in
      if afPoolID entry = [] \<or> key = [] then c
      else c\<lparr>acEntries := (acEntries c)(key \<mapsto> entry\<lparr>afStoredAt := now\<rparr>)\<rparr>)"

section \<open>Compliance records\<close>

record compliance_record =
  crTenantID :: string
  crDeviceID :: string
  crManaged :: bool
  crTags :: "string list"
  crSource :: string
  crObservedAt :: gotime
  crExpiresAt :: gotime

record mdm_cache =
  mcTTL :: duration
  mcRecords :: "string \<rightharpoonup> compliance_record \<times> gotime"

definition NewMDMCache :: "duration \<Rightarrow> mdm_cache" where
  "NewMDMCache ttl = \<lparr>mcTTL = (if ttl \<le> 0 then 30 * minute else ttl), mcRecords = Map.empty\<rparr>"

definition mdmKey :: "string \<Rightarrow> string \<Rightarrow> string" where
  "mdmKey tenantID deviceID =
     (let tenantID = trim_space (to_lower tenantID); deviceID = trim_space (to_lower deviceID) in
      if tenantID = [] \<or> deviceID = [] then [] else tenantID @ ''|'' @ deviceID)"

definition RememberMDM :: "gotime \<Rightarrow> compliance_record \<Rightarrow> mdm_cache \<Rightarrow> mdm_cache" where
  "RememberMDM now r c =
     (let key = mdmKey (crTenantID r) (crDeviceID r) in
      if key = [] then c else c\<lparr>mcRecords := (mcRecords c)(key \<mapsto> (r, now))\<rparr>)"

definition LookupMDM :: "gotime \<Rightarrow> string \<Rightarrow> string \<Rightarrow> mdm_cache \<Rightarrow> compliance_record option \<times> mdm_cache" where
  "LookupMDM now tenantID deviceID c =
     (let key = mdmKey tenantID deviceID in
      if key = [] then (None, c)
      else case mcRecords c key of
        None \<Rightarrow> (None, c)
      | Some (r, storedAt) \<Rightarrow>
          let r = (if IsZeroTime (crExpiresAt r) then r\<lparr>crExpiresAt := storedAt + mcTTL c\<rparr> else r) in
          if crExpiresAt r < now then (None, c\<lparr>mcRecords := (mcRecords c)(key := None)\<rparr>)
          else (Some r, c))"

text \<open>One synchronisation, given what every connector answers: its records, or a failure.\<close>

definition sync_mdm :: "gotime \<Rightarrow> (bool \<times> (string + compliance_record list)) list \<Rightarrow> mdm_cache \<Rightarrow> mdm_cache" where
  "sync_mdm now connectors c =
     foldl (\<lambda>c (on, answer). if \<not> on then c else case answer of Inl _ \<Rightarrow> c | Inr rs \<Rightarrow> foldl (\<lambda>c r. RememberMDM now r c) c rs)
       c connectors"

section \<open>Deterministic matching\<close>

lemma has_prefix_nil [simp]: "has_prefix [] k \<longleftrightarrow> k = []"
  by (auto simp: has_prefix_def)

lemma has_prefix_Cons: "has_prefix (c # s) (d # k) \<longleftrightarrow> c = d \<and> has_prefix s k"
  by (auto simp: has_prefix_def)

lemma has_prefix_blank:
  "CHR '' '' \<notin> set k \<Longrightarrow> has_prefix (a @ CHR '' '' # b) k \<longleftrightarrow> has_prefix a k"
proof (induction a arbitrary: k)
  case Nil
  then show ?case by (cases k) (auto simp: has_prefix_def)
next
  case (Cons c a)
  then show ?case by (cases k) (auto simp: has_prefix_Cons, auto simp: has_prefix_def)
qed

text \<open>A token without a blank lies on one side of every blank.\<close>

lemma contains_blank:
  "CHR '' '' \<notin> set k \<Longrightarrow> k \<noteq> [] \<Longrightarrow>
     str_contains (a @ CHR '' '' # b) k \<longleftrightarrow> str_contains a k \<or> str_contains b k"
proof (induction a)
  case Nil
  then show ?case by (cases k) (auto simp: has_prefix_def)
next
  case (Cons c a)
  then show ?case using has_prefix_blank [of k "c # a" b] by simp
qed

lemma contains_values:
  assumes "CHR '' '' \<notin> set k" and "k \<noteq> []"
  shows "str_contains (concat (map (\<lambda>x. case m x of None \<Rightarrow> [] | Some v \<Rightarrow> if v = [] then [] else to_lower v @ '' '') ks)) k \<longleftrightarrow>
    (\<exists>x \<in> set ks. \<exists>v. m x = Some v \<and> str_contains (to_lower v) k)"
proof (induction ks)
  case Nil
  then show ?case using assms by simp
next
  case (Cons x ks)
  show ?case
  proof (cases "m x")
    case None
    with Cons show ?thesis by simp
  next
    case (Some v)
    show ?thesis
    proof (cases "v = []")
      case True
      with Some Cons assms show ?thesis by (simp add: to_lower_def)
    next
      case False
      with Some Cons contains_blank [OF assms] show ?thesis by auto
    qed
  qed
qed

definition enumerates :: "(attrs \<Rightarrow> string list) \<Rightarrow> attrs \<Rightarrow> bool" where
  "enumerates visit m \<longleftrightarrow> distinct (visit m) \<and> set (visit m) = dom m"

lemma keywords_by_value:
  assumes "enumerates visit m" and "\<forall>k \<in> set tokens. CHR '' '' \<notin> set k \<and> k \<noteq> []"
  shows "relayHasKeywords (flattenRelay visit m) tokens \<longleftrightarrow>
    (\<forall>k \<in> set tokens. \<exists>v \<in> ran m. str_contains (to_lower v) k)"
proof -
  have "str_contains (flattenRelay visit m) k \<longleftrightarrow> (\<exists>v \<in> ran m. str_contains (to_lower v) k)" if "k \<in> set tokens" for k
    using that assms contains_values [of k m "visit m"] by (auto simp: flattenRelay_def enumerates_def ran_def dom_def)
  then show ?thesis by (auto simp: relayHasKeywords_def list_all_iff)
qed

lemma normalizeList_nonempty: "k \<in> set (normalizeList vs) \<Longrightarrow> k \<noteq> []"
  by (auto simp: normalizeList_def)

lemma detector_profiles:
  "NewDetector cfg = Some d \<Longrightarrow> p \<in> set d \<Longrightarrow> \<exists>spec \<in> set (mpProfiles cfg). p = compile_profile spec"
  by (auto simp: NewDetector_def split: if_splits)

lemma find_iff_cong:
  "(\<And>x. x \<in> set xs \<Longrightarrow> P x \<longleftrightarrow> Q x) \<Longrightarrow> find P xs = find Q xs"
  by (induction xs) auto

text \<open>C40: The class of a device does not depend on the order in which Go visits the relay
  attributes, as long as no configured relay keyword contains a blank: the first profile is
  taken each of whose keywords occurs in the value of some attribute.\<close>

theorem match_order_independent:
  assumes "enumerates visit (dsRelayInfo sig)" and "enumerates visit' (dsRelayInfo sig)" and "NewDetector cfg = Some d"
    and "\<forall>spec \<in> set (mpProfiles cfg). \<forall>k \<in> set (normalizeList (mpsRelayKeywords spec)). CHR '' '' \<notin> set k"
  shows "Match visit (Some d) sig = Match visit' (Some d) sig \<and>
    (Match visit (Some d) sig = None \<longleftrightarrow> (\<forall>p \<in> set d.
       \<not> (containsAllTokens (to_lower (dsVendorClass sig)) (cpVendorSet p) \<and> containsAllTokens (to_lower (dsUserClass sig)) (cpUserSet p) \<and>
          (\<forall>k \<in> set (cpRelaySet p). \<exists>v \<in> ran (dsRelayInfo sig). str_contains (to_lower v) k) \<and>
          ouiMatches (deriveOUI (dsMAC sig)) (cpOUIs p) \<and> cpOption55 p \<subseteq> set (dsOption55 sig))))"
proof -
  have blank: "\<forall>k \<in> set (cpRelaySet p). CHR '' '' \<notin> set k \<and> k \<noteq> []" if "p \<in> set d" for p
    using detector_profiles [OF assms(3) that] assms(4) normalizeList_nonempty by (fastforce simp: compile_profile_def Let_def)
  note by_value = keywords_by_value [OF assms(1) blank] keywords_by_value [OF assms(2) blank]
  have same: "find (profile_satisfied (flattenRelay visit (dsRelayInfo sig)) sig) d =
      find (profile_satisfied (flattenRelay visit' (dsRelayInfo sig)) sig) d"
    by (intro find_iff_cong) (simp add: profile_satisfied_def by_value)
  have "Match visit (Some d) sig = None \<longleftrightarrow> (\<forall>p \<in> set d. \<not> profile_satisfied (flattenRelay visit (dsRelayInfo sig)) sig p)"
    by (auto simp: Match_def find_None_iff)
  also have "\<dots> \<longleftrightarrow> (\<forall>p \<in> set d.
       \<not> (containsAllTokens (to_lower (dsVendorClass sig)) (cpVendorSet p) \<and> containsAllTokens (to_lower (dsUserClass sig)) (cpUserSet p) \<and>
          (\<forall>k \<in> set (cpRelaySet p). \<exists>v \<in> ran (dsRelayInfo sig). str_contains (to_lower v) k) \<and>
          ouiMatches (deriveOUI (dsMAC sig)) (cpOUIs p) \<and> cpOption55 p \<subseteq> set (dsOption55 sig)))"
    by (intro ball_cong refl) (auto simp: profile_satisfied_def by_value option55Superset_def)
  finally show ?thesis using same by (simp add: Match_def)
qed

definition sample_attrs :: attrs where
  "sample_attrs = [''ssid'' \<mapsto> ''Campus'', ''ap'' \<mapsto> ''North'']"

definition sample_spec :: "string list \<Rightarrow> mobile_profile_spec" where
  "sample_spec keywords = \<lparr>mpsName = [], mpsPlatform = '' IOS '', mpsPersona = ''Phone'', mpsTags = [], mpsVendorClassContains = [],
     mpsUserClassContains = [], mpsRelayKeywords = keywords, mpsOUIs = [''02:AB''], mpsOption55Contains = [6, -1]\<rparr>"

definition sample_signals :: device_signals where
  "sample_signals = \<lparr>dsVendorClass = [], dsUserClass = [], dsRelayInfo = sample_attrs, dsMAC = [2, 0xAB, 0, 0, 0, 1],
     dsOption55 = [1, 6]\<rparr>"

theorem match_order_independent_witness:
  "Match (\<lambda>_. [''ap'', ''ssid'']) (Some [compile_profile (sample_spec [''CAMP'', ''north''])]) sample_signals =
     Some \<lparr>pmName = ''ios'', pmPlatform = ''ios'', pmPersona = ''phone'', pmTags = []\<rparr> \<and>
   Match (\<lambda>_. [''ssid'', ''ap'']) (Some [compile_profile (sample_spec [''Campus North''])]) sample_signals \<noteq>
     Match (\<lambda>_. [''ap'', ''ssid'']) (Some [compile_profile (sample_spec [''Campus North''])]) sample_signals"
proof
  let ?cfg = "\<lparr>mpEnabled = True, mpProfiles = [sample_spec [''CAMP'', ''north'']]\<rparr>"
  have e: "enumerates (\<lambda>_. [''ap'', ''ssid'']) (dsRelayInfo sample_signals)" "enumerates (\<lambda>_. [''ssid'', ''ap'']) (dsRelayInfo sample_signals)"
    by (auto simp: enumerates_def sample_signals_def sample_attrs_def)
  have d: "NewDetector ?cfg = Some [compile_profile (sample_spec [''CAMP'', ''north''])]" by (simp add: NewDetector_def)
  have "normalizeList [''CAMP'', ''north''] = [''camp'', ''north'']" by code_simp
  then have k: "\<forall>spec \<in> set (mpProfiles ?cfg). \<forall>k \<in> set (normalizeList (mpsRelayKeywords spec)). CHR '' '' \<notin> set k"
    by (simp add: sample_spec_def)
  have "Match (\<lambda>_. [''ssid'', ''ap'']) (Some [compile_profile (sample_spec [''CAMP'', ''north''])]) sample_signals =
     Some \<lparr>pmName = ''ios'', pmPlatform = ''ios'', pmPersona = ''phone'', pmTags = []\<rparr>" by code_simp
  then show "Match (\<lambda>_. [''ap'', ''ssid'']) (Some [compile_profile (sample_spec [''CAMP'', ''north''])]) sample_signals =
     Some \<lparr>pmName = ''ios'', pmPlatform = ''ios'', pmPersona = ''phone'', pmTags = []\<rparr>"
    using match_order_independent [OF e d k] by simp
  show "Match (\<lambda>_. [''ssid'', ''ap'']) (Some [compile_profile (sample_spec [''Campus North''])]) sample_signals \<noteq>
     Match (\<lambda>_. [''ap'', ''ssid'']) (Some [compile_profile (sample_spec [''Campus North''])]) sample_signals"
    by code_simp
qed

end
