(* ===== verification/Prefix_Delegation.thy ===== *)
theory Prefix_Delegation
  imports Dhcpv6_Message Lease_Service
begin

text \<open>
  Prefix delegation: the allocator of \<^verbatim>\<open>internal/pool/ipv6_prefix_pool.go\<close>, its use in
  \<^verbatim>\<open>internal/lease/prefix_allocator.go\<close>, the release and decline of delegated
  prefixes (\<^verbatim>\<open>internal/lease/prefix.go\<close>) and the statements of
  \<^verbatim>\<open>internal/lease/repository.go\<close> on the table \<^verbatim>\<open>prefix_leases_v6\<close> with
  its keys.
\<close>

section \<open>The prefix pool\<close>

record ipv6_prefix_pool =
  PoolPrefix :: prefix
  DelegatedPrefixLength :: nat
  usedPrefixes :: "string set"

definition NewIPv6PrefixPool :: "prefix \<Rightarrow> int \<Rightarrow> string set \<Rightarrow> ipv6_prefix_pool option" where
  "NewIPv6PrefixPool poolPrefix len used =
     (if \<not> pfx_valid poolPrefix \<or> \<not> Is6 (pfx_addr poolPrefix) then None
      else
        let len = (if len \<le> 0 then int (pfx_bits poolPrefix) else len);
            len = (if len < int (pfx_bits poolPrefix) then int (pfx_bits poolPrefix) else len);
            len = (if len > 128 then 128 else len) in
        Some \<lparr>PoolPrefix = Masked poolPrefix, DelegatedPrefixLength = nat len, usedPrefixes = used\<rparr>)"

definition IsPrefixInUse :: "ipv6_prefix_pool \<Rightarrow> prefix \<Rightarrow> bool" where
  "IsPrefixInUse p prefix \<longleftrightarrow> prefix_string (Masked prefix) \<in> usedPrefixes p"

definition MarkUsed :: "ipv6_prefix_pool \<Rightarrow> prefix \<Rightarrow> ipv6_prefix_pool" where
  "MarkUsed p prefix = p\<lparr>usedPrefixes := insert (prefix_string (Masked prefix)) (usedPrefixes p)\<rparr>"

definition AllocateSpecificPrefix :: "ipv6_prefix_pool \<Rightarrow> prefix \<Rightarrow> (prefix \<times> ipv6_prefix_pool) option" where
  "AllocateSpecificPrefix p candidate =
     (if \<not> pfx_valid candidate then None
      else
        let m = Masked (PrefixFrom (pfx_addr (Masked candidate)) (DelegatedPrefixLength p)) in
        if \<not> Contains (PoolPrefix p) (pfx_addr (Masked m)) then None
        else if IsPrefixInUse p m then None
        else Some (m, MarkUsed p m))"

text \<open>The scan over the delegated prefixes of the pool, at most 4096 of them.\<close>

fun scan_prefixes :: "ipv6_prefix_pool \<Rightarrow> nat \<Rightarrow> nat \<Rightarrow> (prefix \<times> ipv6_prefix_pool) option" where
  "scan_prefixes p i 0 = None"
| "scan_prefixes p i (Suc fuel) =
     (let diff = int (DelegatedPrefixLength p) - int (pfx_bits (PoolPrefix p));
          diff = (if diff < 0 then 0 else diff) in
      if int i \<ge> 2 ^ nat diff then None
      else
        let candidate = AddrToBig (pfx_addr (Masked (PoolPrefix p))) + 2 ^ (128 - DelegatedPrefixLength p) * int i in
        case BigToAddr candidate of
          None \<Rightarrow> scan_prefixes p (Suc i) fuel
        | Some addr \<Rightarrow>
            let prefix = Masked (PrefixFrom addr (DelegatedPrefixLength p)) in
            if IsPrefixInUse p prefix then scan_prefixes p (Suc i) fuel
            else Some (prefix, MarkUsed p prefix))"

definition maxCandidates :: nat where "maxCandidates = 4096"

definition AllocateAvailablePrefix :: "ipv6_prefix_pool \<Rightarrow> prefix \<Rightarrow> (prefix \<times> ipv6_prefix_pool) option" where
  "AllocateAvailablePrefix p candidate =
     (case AllocateSpecificPrefix p candidate of
        Some r \<Rightarrow> Some r
      | None \<Rightarrow> scan_prefixes p 0 maxCandidates)"

text \<open>\<^verbatim>\<open>netip.Prefix{}\<close>.\<close>

definition zero_prefix :: prefix where
  "zero_prefix = \<lparr>pfx_addr = AddrZero, pfx_bits = 0\<rparr>"

definition determinePrefixLength :: "prefix \<Rightarrow> prefix_request \<Rightarrow> int" where
  "determinePrefixLength poolPrefix req =
     (let len = uint (prPrefixLength req);
          len = (if len \<le> 0 then int (pfx_bits poolPrefix) else len);
          len = (if len < int (pfx_bits poolPrefix) then int (pfx_bits poolPrefix) else len) in
      if len > 128 then 128 else len)"

definition pickAvailablePrefix :: "prefix \<Rightarrow> int \<Rightarrow> prefix_request \<Rightarrow> string set \<Rightarrow> prefix option" where
  "pickAvailablePrefix poolPrefix len req used =
     (case NewIPv6PrefixPool poolPrefix len used of
        None \<Rightarrow> None
      | Some allocator \<Rightarrow>
          (case AddrFromSlice (prPrefix req) of
             Some addr \<Rightarrow>
               (case AllocateAvailablePrefix allocator (Masked (PrefixFrom addr (nat len))) of
                  Some (allocated, _) \<Rightarrow> Some allocated
                | None \<Rightarrow> map_option fst (AllocateAvailablePrefix allocator zero_prefix))
           | None \<Rightarrow> map_option fst (AllocateAvailablePrefix allocator zero_prefix)))"

section \<open>The table of prefix leases\<close>

type_synonym prefix_db = "prefix_lease list"

definition GetActivePrefixLease :: "prefix_db \<Rightarrow> string \<Rightarrow> u32 \<Rightarrow> repo_error + prefix_lease" where
  "GetActivePrefixLease db clientID iapdID =
     (case find (\<lambda>r. sql_eq (plClientID r) clientID \<and> plIAPDID r = iapdID \<and> sql_eq (plState r) ''ACTIVE'') db of
        None \<Rightarrow> Inl ErrNotFound
      | Some r \<Rightarrow> Inr r)"

definition GetPrefixLeaseByID :: "prefix_db \<Rightarrow> string \<Rightarrow> repo_error + prefix_lease" where
  "GetPrefixLeaseByID db lid =
     (case find (\<lambda>r. sql_eq (plID r) lid) db of None \<Rightarrow> Inl ErrNotFound | Some r \<Rightarrow> Inr r)"

definition ListActivePrefixes :: "prefix_db \<Rightarrow> string \<Rightarrow> prefix_lease list" where
  "ListActivePrefixes db pid = filter (\<lambda>r. sql_eq (plPoolID r) pid \<and> sql_eq (plState r) ''ACTIVE'') db"

text \<open>The primary key and \<^verbatim>\<open>uniq_prefix_active\<close> on (client, IAPD, state).\<close>

definition prefix_key_clash :: "prefix_lease \<Rightarrow> prefix_lease \<Rightarrow> bool" where
  "prefix_key_clash a b \<longleftrightarrow> sql_eq (plID a) (plID b) \<or>
     (sql_eq (plClientID a) (plClientID b) \<and> plIAPDID a = plIAPDID b \<and> sql_eq (plState a) (plState b))"

definition CreatePrefixLease :: "prefix_db \<Rightarrow> prefix_lease \<Rightarrow> repo_error + prefix_db" where
  "CreatePrefixLease db l =
     (if \<exists>r \<in> set db. prefix_key_clash r l then Inl ErrDuplicateKey
      else Inr (db @ [l\<lparr>plTenantID := []\<rparr>]))"

definition update_prefix_row :: "prefix_lease \<Rightarrow> prefix_lease \<Rightarrow> prefix_lease" where
  "update_prefix_row l r =
     r\<lparr>plPrefix := plPrefix l, plPrefixLen := plPrefixLen l, plState := plState l,
       plExpiresAt := plExpiresAt l, plUpdatedAt := plUpdatedAt l\<rparr>"

fun prefix_keys_ok :: "prefix_db \<Rightarrow> bool" where
  "prefix_keys_ok [] = True"
| "prefix_keys_ok (r # rs) = ((\<forall>r' \<in> set rs. \<not> prefix_key_clash r r') \<and> prefix_keys_ok rs)"

definition UpdatePrefixLease :: "prefix_db \<Rightarrow> prefix_lease \<Rightarrow> repo_error + prefix_db" where
  "UpdatePrefixLease db l =
     (let rows = map (\<lambda>r. if sql_eq (plID r) (plID l) then update_prefix_row l r else r) db in
      if prefix_keys_ok rows then Inr rows else Inl ErrDuplicateKey)"

definition ListPrefixLeases :: "prefix_db \<Rightarrow> string \<Rightarrow> int \<Rightarrow> int \<Rightarrow> prefix_lease list" where
  "ListPrefixLeases db state limit offset =
     (let limit = (if limit \<le> 0 \<or> limit > 500 then 50 else limit); offset = (if offset < 0 then 0 else offset) in
      take (nat limit) (drop (nat offset)
        (rev (sort_key plUpdatedAt (filter (\<lambda>r. state = [] \<or> sql_eq (plState r) state) db)))))"

section \<open>The service\<close>

record 'r pd_state =
  pdRows :: prefix_db
  pdSvc :: "'r svc_state"

definition applyPrefixTiming :: "gotime \<Rightarrow> lease_profile \<Rightarrow> prefix_lease \<Rightarrow> prefix_lease" where
  "applyPrefixTiming now profile l =
     l\<lparr>plUpdatedAt := now,
       plExpiresAt := (if profInfinite profile then now + 24 * hour * 365 * 100 else now + profDefaultDuration profile)\<rparr>"

definition prefix_key :: "prefix_lease \<Rightarrow> string" where
  "prefix_key l = plPrefix l @ ''/'' @ json_int (plPrefixLen l)"

definition buildPrefixDelegation :: "prefix_lease \<Rightarrow> lease_profile \<Rightarrow> prefix_request \<Rightarrow> prefix_delegation" where
  "buildPrefixDelegation l profile req =
     (let preferred = profDefaultDuration profile;
          preferred = (if prPreferredLifetime req > 0 then uint (prPreferredLifetime req) * second else preferred);
          preferred = (if preferred \<le> 0 then hour else preferred);
          valid = profMaxDuration profile;
          valid = (if prValidLifetime req > 0 then uint (prValidLifetime req) * second else valid);
          valid = (if valid < preferred then preferred * 2 else valid) in
      \<lparr>pdIAPDID = plIAPDID l, pdPrefix = prefix_key l, pdPrefixLength = of_int (plPrefixLen l),
       pdPreferredLifetime = preferred, pdValidLifetime = valid\<rparr>)"

definition computePrefixNotification :: "gotime \<Rightarrow> prefix_lease \<Rightarrow> lease_profile \<Rightarrow> lease_notification option" where
  "computePrefixNotification now l profile =
     (if profNotificationLead profile \<le> 0 then None
      else let notifyAt = plExpiresAt l - profNotificationLead profile;
               notifyAt = (if notifyAt < now then now else notifyAt) in
        Some \<lparr>noteSendAfter = notifyAt, noteLead = profNotificationLead profile\<rparr>)"

definition enqueue_prefix_job ::
  "'r svc_env \<Rightarrow> gotime \<Rightarrow> prefix_lease \<Rightarrow> lease_profile \<Rightarrow> prefix_delegation \<Rightarrow> 'r svc_state \<Rightarrow> 'r svc_state" where
  "enqueue_prefix_job env now l profile pd st =
     (case computePrefixNotification now l profile of
        None \<Rightarrow> st
      | Some n \<Rightarrow> enqueueNotificationJob env
          \<lparr>jobLeaseID = plID l, jobTenantID = plTenantID l, jobPoolID = plPoolID l,
           jobSendAfter = noteSendAfter n, jobLead = noteLead n, jobKind = ''prefix'',
           jobMetadata = [(''prefix'', pdPrefix pd)]\<rparr> st)"

text \<open>One request: the client's active lease of the association if there is one, otherwise a
  new prefix that is not in use.\<close>

definition allocateOrReusePrefix ::
  "gotime \<Rightarrow> 'r svc_env \<Rightarrow> access_scope \<Rightarrow> string \<Rightarrow> string \<Rightarrow> lease_profile \<Rightarrow> address_pool \<Rightarrow> prefix
     \<Rightarrow> prefix_request \<Rightarrow> string set \<Rightarrow> 'r pd_state \<Rightarrow> (svc_error + prefix_delegation) \<times> 'r pd_state" where
  "allocateOrReusePrefix now env scope tenantID clientID profile pool poolPrefix req used st =
     (case TenantIDOrErr scope of
        Inl e \<Rightarrow> (Inl e, st)
      | Inr _ \<Rightarrow>
          (case GetActivePrefixLease (pdRows st) clientID (prIAPDID req) of
             Inr existing \<Rightarrow>
               (let l = applyPrefixTiming now profile existing in
                case UpdatePrefixLease (pdRows st) l of
                  Inl e \<Rightarrow> (Inl (ErrRepo e), st)
                | Inr rows \<Rightarrow>
                    let pd = buildPrefixDelegation l profile req in
                    (Inr pd, st\<lparr>pdRows := rows, pdSvc := enqueue_prefix_job env now l profile pd (pdSvc st)\<rparr>))
           | Inl _ \<Rightarrow>
               (case pickAvailablePrefix poolPrefix (determinePrefixLength poolPrefix req) req used of
                  None \<Rightarrow> (Inl ErrNoAvailablePrefix, st)
                | Some candidate \<Rightarrow>
                    let svc = pdSvc st;
                        l = applyPrefixTiming now profile
                          \<lparr>plID = envNewID env (stNextID svc), plTenantID = tenantID, plPoolID = poolID pool,
                           plClientID = clientID, plIAPDID = prIAPDID req,
                           plPrefix = addr_string (pfx_addr (Masked candidate)),
                           plPrefixLen = int (pfx_bits candidate), plState = leaseStateActive,
                           plExpiresAt = zero_time, plCreatedAt = now, plUpdatedAt = now\<rparr>;
                        svc = svc\<lparr>stNextID := Suc (stNextID svc)\<rparr> in
                    case CreatePrefixLease (pdRows st) l of
                      Inl e \<Rightarrow> (Inl (ErrRepo e), st\<lparr>pdSvc := svc\<rparr>)
                    | Inr rows \<Rightarrow>
                        let pd = buildPrefixDelegation l profile req in
                        (Inr pd, st\<lparr>pdRows := rows, pdSvc := enqueue_prefix_job env now l profile pd svc\<rparr>))))"

fun allocate_prefixes ::
  "gotime \<Rightarrow> 'r svc_env \<Rightarrow> access_scope \<Rightarrow> string \<Rightarrow> string \<Rightarrow> lease_profile \<Rightarrow> address_pool \<Rightarrow> prefix
     \<Rightarrow> prefix_request list \<Rightarrow> string set \<Rightarrow> 'r pd_state \<Rightarrow> (svc_error + prefix_delegation list) \<times> 'r pd_state" where
  "allocate_prefixes now env scope tenantID clientID profile pool poolPrefix [] used st = (Inr [], st)"
| "allocate_prefixes now env scope tenantID clientID profile pool poolPrefix (req # reqs) used st =
     (case allocateOrReusePrefix now env scope tenantID clientID profile pool poolPrefix req used st of
        (Inl e, st) \<Rightarrow> (Inl e, st)
      | (Inr pd, st) \<Rightarrow>
          (case allocate_prefixes now env scope tenantID clientID profile pool poolPrefix reqs (insert (pdPrefix pd) used) st of
             (Inl e, st) \<Rightarrow> (Inl e, st)
           | (Inr pds, st) \<Rightarrow> (Inr (pd # pds), st)))"

definition AllocateOrReusePrefixes ::
  "gotime \<Rightarrow> 'r svc_env \<Rightarrow> access_scope \<Rightarrow> string \<Rightarrow> lease_profile \<Rightarrow> address_pool option
     \<Rightarrow> prefix_request list \<Rightarrow> 'r pd_state \<Rightarrow> (svc_error + prefix_delegation list) \<times> 'r pd_state" where
  "AllocateOrReusePrefixes now env scope clientID profile pool requests st =
     (case pool of
        None \<Rightarrow> (Inr [], st)
      | Some pool \<Rightarrow>
          if requests = [] then (Inr [], st)
          else (case tenantFromScope scope of
              Inl e \<Rightarrow> (Inl e, st)
            | Inr tenantID \<Rightarrow>
                (case ParsePrefix (poolCIDR pool) of
                   None \<Rightarrow> (Inl ErrUnsupportedCIDR, st)
                 | Some poolPrefix \<Rightarrow>
                     if \<not> Is6 (pfx_addr poolPrefix) then (Inl ErrUnsupportedCIDR, st)
                     else
                       let used = set (map prefix_key (ListActivePrefixes (pdRows st) (poolID pool))) in
                       allocate_prefixes now env scope tenantID clientID profile pool poolPrefix requests used st)))"

definition updatePrefixState ::
  "gotime \<Rightarrow> access_scope \<Rightarrow> string \<Rightarrow> u32 \<Rightarrow> string \<Rightarrow> 'r pd_state \<Rightarrow> svc_error option \<times> 'r pd_state" where
  "updatePrefixState now scope clientID iapdID state st =
     (case TenantIDOrErr scope of
        Inl e \<Rightarrow> (Some e, st)
      | Inr _ \<Rightarrow>
          (case GetActivePrefixLease (pdRows st) clientID iapdID of
             Inl _ \<Rightarrow> (None, st)
           | Inr l \<Rightarrow>
               (case UpdatePrefixLease (pdRows st) (l\<lparr>plState := state, plUpdatedAt := now, plExpiresAt := now\<rparr>) of
                  Inl e \<Rightarrow> (Some (ErrRepo e), st)
                | Inr rows \<Rightarrow> (None, st\<lparr>pdRows := rows\<rparr>))))"

definition ReleasePrefix ::
  "gotime \<Rightarrow> 'r svc_env \<Rightarrow> access_scope \<Rightarrow> string \<Rightarrow> u32 \<Rightarrow> 'r pd_state \<Rightarrow> svc_error option \<times> 'r pd_state" where
  "ReleasePrefix now env scope clientID iapdID st =
     (case guarded env scope ''lease.prefix.release'' of
        Some e \<Rightarrow> (Some e, st)
      | None \<Rightarrow> updatePrefixState now scope clientID iapdID leaseStateReleased st)"

definition DeclinePrefix ::
  "gotime \<Rightarrow> 'r svc_env \<Rightarrow> access_scope \<Rightarrow> string \<Rightarrow> u32 \<Rightarrow> 'r pd_state \<Rightarrow> svc_error option \<times> 'r pd_state" where
  "DeclinePrefix now env scope clientID iapdID st =
     (case guarded env scope ''lease.prefix.decline'' of
        Some e \<Rightarrow> (Some e, st)
      | None \<Rightarrow> updatePrefixState now scope clientID iapdID leaseStateDeclined st)"

definition updatePrefixStateByID ::
  "gotime \<Rightarrow> access_scope \<Rightarrow> string \<Rightarrow> string \<Rightarrow> 'r pd_state \<Rightarrow> (svc_error + prefix_lease \<times> bool) \<times> 'r pd_state" where
  "updatePrefixStateByID now scope lid state st =
     (case TenantIDOrErr scope of
        Inl e \<Rightarrow> (Inl e, st)
      | Inr _ \<Rightarrow>
          (case GetPrefixLeaseByID (pdRows st) lid of
             Inl e \<Rightarrow> (Inl (ErrRepo e), st)
           | Inr l \<Rightarrow>
               if plState l = state then (Inr (l, False), st)
               else
                 let l = l\<lparr>plState := state, plUpdatedAt := now, plExpiresAt := now\<rparr> in
                 case UpdatePrefixLease (pdRows st) l of
                   Inl e \<Rightarrow> (Inl (ErrRepo e), st)
                 | Inr rows \<Rightarrow> (Inr (l, True), st\<lparr>pdRows := rows\<rparr>)))"

definition ReleasePrefixByID ::
  "gotime \<Rightarrow> access_scope \<Rightarrow> string \<Rightarrow> 'r pd_state \<Rightarrow> (svc_error + prefix_lease \<times> bool) \<times> 'r pd_state" where
  "ReleasePrefixByID now scope lid st =
     (case tenantFromScope scope of
        Inl e \<Rightarrow> (Inl e, st)
      | Inr _ \<Rightarrow> updatePrefixStateByID now scope lid leaseStateReleased st)"

definition DeclinePrefixByID ::
  "gotime \<Rightarrow> access_scope \<Rightarrow> string \<Rightarrow> 'r pd_state \<Rightarrow> (svc_error + prefix_lease \<times> bool) \<times> 'r pd_state" where
  "DeclinePrefixByID now scope lid st =
     (case tenantFromScope scope of
        Inl e \<Rightarrow> (Inl e, st)
      | Inr _ \<Rightarrow> updatePrefixStateByID now scope lid leaseStateDeclined st)"

section \<open>The allocator answers a free prefix of the pool\<close>

declare Contains.simps [simp del]

lemma Contains_v6:
  assumes "pfx_addr p = Addr6 n z" and "pfx_bits p \<le> 128"
  shows "Contains p (Addr6 w []) \<longleftrightarrow> unat w div 2 ^ (128 - pfx_bits p) = unat n div 2 ^ (128 - pfx_bits p)"
proof -
  have "Contains p (Addr6 w []) \<longleftrightarrow> drop_bit (128 - pfx_bits p) w = drop_bit (128 - pfx_bits p) n"
    using assms drop_bit_xor_zero [of "128 - pfx_bits p" w n] by (simp add: Contains.simps pfx_valid_def)
  then show ?thesis by (simp only: word_unat_eq_iff unat_drop_bit)
qed

lemma clear_low_idem [simp]: "clear_low k (clear_low k w) = clear_low k w" for w :: "'a::len word"
  by (simp add: word_unat_eq_iff unat_clear_low)

lemma Masked_idem [simp]: "Masked (Masked p) = Masked p"
  by (cases "pfx_addr p") (simp_all add: Masked_def)

lemma unat_of_nat_u128: "x < 2 ^ 128 \<Longrightarrow> unat (of_nat x :: u128) = x"
  by (simp only: unat_of_nat) simp

lemma pfx_bits_Masked [simp]: "pfx_bits (Masked p) = pfx_bits p"
  by (simp add: Masked_def)

lemma pfx_valid_Masked [simp]: "pfx_valid (Masked p) = pfx_valid p"
  by (cases "pfx_addr p") (simp_all add: Masked_def pfx_valid_def)

lemma PrefixFrom_simps [simp]: "pfx_addr (PrefixFrom a b) = a" "pfx_bits (PrefixFrom a b) = b"
  by (simp_all add: PrefixFrom_def)

text \<open>A pool as the constructor leaves it: an IPv6 network and a delegated length between the
  network's and 128.\<close>

definition pool_shape :: "ipv6_prefix_pool \<Rightarrow> u128 \<Rightarrow> nat \<Rightarrow> nat \<Rightarrow> bool" where
  "pool_shape p n b L \<longleftrightarrow>
     PoolPrefix p = \<lparr>pfx_addr = Addr6 n [], pfx_bits = b\<rparr> \<and> DelegatedPrefixLength p = L \<and> b \<le> L \<and> L \<le> 128 \<and>
     unat n mod 2 ^ (128 - b) = 0"

lemma NewIPv6PrefixPool_shape:
  assumes "NewIPv6PrefixPool pp len used = Some p"
  shows "\<exists>n. pool_shape p n (pfx_bits pp) (DelegatedPrefixLength p) \<and> usedPrefixes p = used \<and> PoolPrefix p = Masked pp"
proof -
  from assms obtain n z where a: "pfx_addr pp = Addr6 n z" "pfx_bits pp \<le> 128"
    by (cases "pfx_addr pp") (auto simp: NewIPv6PrefixPool_def pfx_valid_def split: if_splits)
  have "unat (clear_low (128 - pfx_bits pp) n) mod 2 ^ (128 - pfx_bits pp) = 0" by (simp add: unat_clear_low)
  with assms a show ?thesis
    by (intro exI [of _ "clear_low (128 - pfx_bits pp) n"])
       (auto simp: NewIPv6PrefixPool_def pool_shape_def Masked_def Let_def split: if_splits)
qed

text \<open>The prefix the scan looks at in its \<open>i\<close>-th round.\<close>

definition nth_prefix :: "u128 \<Rightarrow> nat \<Rightarrow> nat \<Rightarrow> prefix" where
  "nth_prefix n L i = Masked (PrefixFrom (Addr6 (of_nat (unat n + 2 ^ (128 - L) * i)) []) L)"

lemma nth_address:
  assumes "pool_shape p n b L" and "i < 2 ^ (L - b)"
  shows "unat n + 2 ^ (128 - L) * i < 2 ^ 128"
    and "(unat n + 2 ^ (128 - L) * i) div 2 ^ (128 - b) = unat n div 2 ^ (128 - b)"
proof -
  have bl: "b \<le> L" "L \<le> 128" and n: "unat n mod 2 ^ (128 - b) = 0" using assms(1) by (simp_all add: pool_shape_def)
  let ?M = "(2::nat) ^ (128 - b)"
  have "(2::nat) ^ (128 - L) * 2 ^ (L - b) = ?M" using bl by (simp flip: power_add)
  then have lt: "2 ^ (128 - L) * i < ?M" using assms(2) by (metis mult_less_mono2 zero_less_numeral zero_less_power)
  show "(unat n + 2 ^ (128 - L) * i) div ?M = unat n div ?M"
  proof -
    have q: "unat n = unat n div ?M * ?M" using n by (metis add.right_neutral div_mult_mod_eq)
    have "(unat n div ?M * ?M + 2 ^ (128 - L) * i) div ?M = unat n div ?M" using lt by simp
    then show ?thesis using q by simp
  qed
  have "unat n < 2 ^ 128" using unsigned_less [of n, where ?'a = nat] by simp
  moreover have "(2::nat) ^ 128 = 2 ^ b * ?M" using bl by (simp flip: power_add)
  ultimately have "unat n div ?M < 2 ^ b" by (simp add: less_mult_imp_div_less)
  then have "Suc (unat n div ?M) * ?M \<le> 2 ^ b * ?M" by (intro mult_le_mono1) simp
  moreover have "unat n = unat n div ?M * ?M" using n by (metis add.right_neutral div_mult_mod_eq)
  ultimately show "unat n + 2 ^ (128 - L) * i < 2 ^ 128" using lt \<open>(2::nat) ^ 128 = 2 ^ b * ?M\<close> by simp
qed

lemma nth_prefix_in_pool:
  assumes "pool_shape p n b L" and "i < 2 ^ (L - b)"
  shows "Contains (PoolPrefix p) (pfx_addr (nth_prefix n L i))"
proof -
  let ?x = "unat n + 2 ^ (128 - L) * i" and ?K = "(2::nat) ^ (128 - L)"
  have bl: "b \<le> L" "L \<le> 128" and n: "unat n mod 2 ^ (128 - b) = 0" using assms(1) by (simp_all add: pool_shape_def)
  have pw: "(2::nat) ^ (128 - b) = 2 ^ (L - b) * ?K" using bl by (simp flip: power_add)
  have ux: "unat (of_nat ?x :: u128) = ?x" by (rule unat_of_nat_u128) (rule nth_address(1) [OF assms])
  have "?x div ?K * ?K div 2 ^ (128 - b) = ?x div 2 ^ (128 - b)"
    unfolding pw by (simp add: div_mult2_eq mult.commute [of "2 ^ (L - b)"])
  then have "unat (clear_low (128 - L) (of_nat ?x :: u128)) div 2 ^ (128 - b) = unat n div 2 ^ (128 - b)"
    using nth_address(2) [OF assms] by (simp only: unat_clear_low ux)
  then show ?thesis using assms(1) bl
    by (simp add: Contains_v6 [of _ n "[]"] pool_shape_def nth_prefix_def Masked_def)
qed

lemma scan_step:
  assumes "pool_shape p n b L" and "i < 2 ^ (L - b)"
  shows "scan_prefixes p i (Suc fuel) =
    (if IsPrefixInUse p (nth_prefix n L i) then scan_prefixes p (Suc i) fuel
     else Some (nth_prefix n L i, MarkUsed p (nth_prefix n L i)))"
proof -
  have p: "PoolPrefix p = \<lparr>pfx_addr = Addr6 n [], pfx_bits = b\<rparr>" "DelegatedPrefixLength p = L" "b \<le> L"
    and n: "unat n mod 2 ^ (128 - b) = 0" using assms(1) by (simp_all add: pool_shape_def)
  let ?x = "unat n + 2 ^ (128 - L) * i"
  have c: "clear_low (128 - b) n = n"
    using n by (simp add: word_unat_eq_iff unat_clear_low) (metis add.right_neutral div_mult_mod_eq)
  have v: "uint n + 2 ^ (128 - L) * int i = int ?x" by simp
  have "int ?x < int (2 ^ 128)" using nth_address(1) [OF assms] by (simp only: of_nat_less_iff)
  moreover have "int (2 ^ 128) = 2 ^ 128" by simp
  ultimately have lt: "int ?x < 2 ^ 128" by (simp only:)
  have wi: "word_of_int (int ?x) = (of_nat ?x :: u128)" by (rule of_int_of_nat_eq)
  have "\<not> (int ?x < 0 \<or> int ?x \<ge> 2 ^ 128)" using lt by (simp only: not_le of_nat_less_0_iff de_Morgan_disj not_False_eq_True simp_thms)
  then have big: "BigToAddr (uint n + 2 ^ (128 - L) * int i) = Some (Addr6 (of_nat ?x) [])"
    unfolding v BigToAddr_def by (simp only: if_False wi)
  have "\<not> (2::int) ^ (L - b) \<le> int i" using assms(2) by (simp add: not_le of_nat_less_iff [symmetric] del: of_nat_less_iff)
  moreover have "nat (int L - int b) = L - b" by simp
  ultimately show ?thesis using p(3) big
    by (simp add: p(1,2) Masked_def c AddrToBig_def nth_prefix_def [unfolded Masked_def] Let_def)
qed

lemma scan_end: "pool_shape p n b L \<Longrightarrow> \<not> i < 2 ^ (L - b) \<Longrightarrow> scan_prefixes p i fuel = None"
proof (cases fuel)
  case (Suc k)
  assume a: "pool_shape p n b L" "\<not> i < 2 ^ (L - b)"
  then have "(2::int) ^ (L - b) \<le> int i" by (metis of_nat_le_iff of_nat_numeral of_nat_power not_le)
  then show ?thesis using a(1) by (simp add: Suc pool_shape_def Let_def nat_diff_distrib)
qed simp

lemma scan_sound:
  assumes "pool_shape p n b L" and "scan_prefixes p i fuel = Some (pr, p')"
  shows "\<exists>j. i \<le> j \<and> j < i + fuel \<and> j < 2 ^ (L - b) \<and> pr = nth_prefix n L j \<and> \<not> IsPrefixInUse p pr"
  using assms(2)
proof (induction fuel arbitrary: i)
  case (Suc fuel)
  have i: "i < 2 ^ (L - b)" using scan_end [OF assms(1)] Suc.prems by (metis option.distinct(1))
  show ?case
  proof (cases "IsPrefixInUse p (nth_prefix n L i)")
    case True
    with Suc.prems have "scan_prefixes p (Suc i) fuel = Some (pr, p')" by (simp only: scan_step [OF assms(1) i] if_True)
    from Suc.IH [OF this] show ?thesis by (metis Suc_leD add_Suc_right add_Suc_shift)
  next
    case False
    with Suc.prems have "pr = nth_prefix n L i" by (simp only: scan_step [OF assms(1) i] if_False) simp
    then show ?thesis using False i by auto
  qed
qed simp

lemma scan_complete:
  assumes "pool_shape p n b L" and "scan_prefixes p i fuel = None" and "i \<le> j" and "j < i + fuel" and "j < 2 ^ (L - b)"
  shows "IsPrefixInUse p (nth_prefix n L j)"
  using assms(2-5)
proof (induction fuel arbitrary: i)
  case (Suc fuel)
  have i: "i < 2 ^ (L - b)" using Suc.prems by simp
  from Suc.prems(1) have u: "IsPrefixInUse p (nth_prefix n L i)" and "scan_prefixes p (Suc i) fuel = None"
    by (auto simp only: scan_step [OF assms(1) i] option.distinct split: if_splits)
  then show ?case using Suc.IH [of "Suc i"] Suc.prems by (cases "i = j") auto
qed simp

text \<open>What a delegated prefix is: masked, of the delegated length, inside the pool, not in use.\<close>

definition fresh_prefix :: "ipv6_prefix_pool \<Rightarrow> prefix \<Rightarrow> bool" where
  "fresh_prefix p pr \<longleftrightarrow> pfx_valid pr \<and> Masked pr = pr \<and> pfx_bits pr = DelegatedPrefixLength p \<and>
     Contains (PoolPrefix p) (pfx_addr pr) \<and> prefix_string pr \<notin> usedPrefixes p"

lemma nth_prefix_valid: "L \<le> 128 \<Longrightarrow> pfx_valid (nth_prefix n L i)"
  unfolding nth_prefix_def pfx_valid_Masked by (simp add: pfx_valid_def)

lemma nth_prefix_masked [simp]: "Masked (nth_prefix n L i) = nth_prefix n L i" "pfx_bits (nth_prefix n L i) = L"
  by (simp_all add: nth_prefix_def)

lemma nth_prefix_fresh:
  assumes "pool_shape p n b L" and "j < 2 ^ (L - b)" and "\<not> IsPrefixInUse p (nth_prefix n L j)"
  shows "fresh_prefix p (nth_prefix n L j)"
  using assms nth_prefix_in_pool [OF assms(1,2)] nth_prefix_valid [of L n j]
  by (simp add: fresh_prefix_def IsPrefixInUse_def pool_shape_def)

lemma specific_fresh:
  assumes "pool_shape p n b L" and "AllocateSpecificPrefix p candidate = Some (pr, p')"
  shows "fresh_prefix p pr"
proof -
  let ?m = "Masked (PrefixFrom (pfx_addr (Masked candidate)) (DelegatedPrefixLength p))"
  have m: "pr = ?m" "Contains (PoolPrefix p) (pfx_addr ?m)" "\<not> IsPrefixInUse p ?m"
    using assms(2) by (auto simp: AllocateSpecificPrefix_def Let_def split: if_splits)
  have "\<exists>w. pfx_addr ?m = Addr6 w []"
    using m(2) assms(1) by (cases "pfx_addr ?m") (auto simp: Contains.simps pool_shape_def pfx_valid_def split: addr.splits)
  then have "pfx_valid ?m" using assms(1) by (auto simp: pfx_valid_def pool_shape_def)
  then show ?thesis using m by (simp add: fresh_prefix_def IsPrefixInUse_def)
qed

lemma available_fresh:
  assumes "pool_shape p n b L" and "AllocateAvailablePrefix p candidate = Some (pr, p')"
  shows "fresh_prefix p pr"
proof (cases "AllocateSpecificPrefix p candidate")
  case None
  then have "scan_prefixes p 0 maxCandidates = Some (pr, p')" using assms(2) by (simp add: AllocateAvailablePrefix_def)
  from scan_sound [OF assms(1) this] obtain j where "j < 2 ^ (L - b)" "pr = nth_prefix n L j" "\<not> IsPrefixInUse p pr"
    by blast
  then show ?thesis using nth_prefix_fresh [OF assms(1)] by simp
next
  case (Some r)
  then show ?thesis using assms specific_fresh [OF assms(1)] by (auto simp: AllocateAvailablePrefix_def)
qed

lemma available_hint:
  assumes "pfx_valid candidate" and "m = Masked (PrefixFrom (pfx_addr (Masked candidate)) (DelegatedPrefixLength p))"
    and "Contains (PoolPrefix p) (pfx_addr m)" and "\<not> IsPrefixInUse p m"
  shows "AllocateAvailablePrefix p candidate = Some (m, MarkUsed p m)"
  using assms by (simp add: AllocateAvailablePrefix_def AllocateSpecificPrefix_def Let_def)

lemma AllocateSpecificPrefix_zero [simp]: "AllocateSpecificPrefix p zero_prefix = None"
  by (simp add: AllocateSpecificPrefix_def zero_prefix_def pfx_valid_def)

lemma determined_length:
  "determinePrefixLength pp req = max (int (pfx_bits pp)) (uint (prPrefixLength req)) \<or> determinePrefixLength pp req = 128"
  by (auto simp: determinePrefixLength_def Let_def)

lemma determined_bounds:
  assumes "pfx_bits pp \<le> 128"
  shows "int (pfx_bits pp) \<le> determinePrefixLength pp req" "determinePrefixLength pp req \<le> 128"
  using assms by (auto simp: determinePrefixLength_def Let_def)

lemma NewIPv6PrefixPool_determined:
  assumes "pfx_valid pp" and "Is6 (pfx_addr pp)"
  shows "NewIPv6PrefixPool pp (determinePrefixLength pp req) used =
    Some \<lparr>PoolPrefix = Masked pp, DelegatedPrefixLength = nat (determinePrefixLength pp req), usedPrefixes = used\<rparr>"
proof -
  have b: "pfx_bits pp \<le> 128" using assms by (cases "pfx_addr pp") (simp_all add: pfx_valid_def)
  from determined_bounds [OF b, of req] assms show ?thesis by (simp add: NewIPv6PrefixPool_def Let_def)
qed

lemma pick_cases:
  assumes "pickAvailablePrefix pp len req used = Some pr"
  obtains p candidate p' where "NewIPv6PrefixPool pp len used = Some p"
    "AllocateAvailablePrefix p candidate = Some (pr, p')"
  using assms by (auto simp: pickAvailablePrefix_def split: option.splits)

lemma pick_fresh:
  assumes "pickAvailablePrefix pp len req used = Some pr"
  shows "\<exists>p. NewIPv6PrefixPool pp len used = Some p \<and> fresh_prefix p pr \<and> usedPrefixes p = used"
proof -
  from pick_cases [OF assms] obtain p candidate p' where p: "NewIPv6PrefixPool pp len used = Some p"
    "AllocateAvailablePrefix p candidate = Some (pr, p')" .
  from NewIPv6PrefixPool_shape [OF p(1)] available_fresh [OF _ p(2)] p(1) show ?thesis by blast
qed

text \<open>The choice of a delegated prefix.  For an IPv6 pool the delegated length is the
  requested one, but no shorter than the pool's own prefix.  What is chosen is a masked prefix of that length whose
  address lies in the pool and which is not in use; a hinted prefix of the pool that is free is
  the one chosen; and nothing is found only when the first 4096 prefixes of the pool (or all,
  where there are fewer) are in use.\<close>

theorem delegated_prefix_choice:
  assumes "pfx_valid pool" and "pfx_addr pool = Addr6 n z"
  shows "let L = determinePrefixLength pool req in
    (L = max (int (pfx_bits pool)) (uint (prPrefixLength req)) \<or> L = 128) \<and>
    (\<forall>pr. pickAvailablePrefix pool L req used = Some pr \<longrightarrow>
       pfx_valid pr \<and> Masked pr = pr \<and> int (pfx_bits pr) = L \<and>
       Contains (Masked pool) (pfx_addr pr) \<and> prefix_string pr \<notin> used) \<and>
    (\<forall>w z'. AddrFromSlice (prPrefix req) = Some (Addr6 w z') \<longrightarrow>
       Contains (Masked pool) (Addr6 (clear_low (128 - nat L) w) []) \<longrightarrow>
       prefix_string (PrefixFrom (Addr6 (clear_low (128 - nat L) w) []) (nat L)) \<notin> used \<longrightarrow>
       pickAvailablePrefix pool L req used = Some (PrefixFrom (Addr6 (clear_low (128 - nat L) w) []) (nat L))) \<and>
    (pickAvailablePrefix pool L req used = None \<longrightarrow>
       (\<forall>i < min 4096 (2 ^ (nat L - pfx_bits pool)).
          prefix_string (nth_prefix (clear_low (128 - pfx_bits pool) n) (nat L) i) \<in> used))"
proof -
  let ?L = "determinePrefixLength pool req"
  let ?p = "\<lparr>PoolPrefix = Masked pool, DelegatedPrefixLength = nat ?L, usedPrefixes = used\<rparr>"
  have b: "pfx_bits pool \<le> 128" using assms by (simp add: pfx_valid_def)
  note L = determined_bounds [OF b, of req]
  have new: "NewIPv6PrefixPool pool ?L used = Some ?p"
    using assms by (intro NewIPv6PrefixPool_determined) simp_all
  have shape: "pool_shape ?p (clear_low (128 - pfx_bits pool) n) (pfx_bits pool) (nat ?L)"
    using NewIPv6PrefixPool_shape [OF new] assms by (auto simp: pool_shape_def Masked_def unat_clear_low)
  have chosen: "pfx_valid pr \<and> Masked pr = pr \<and> int (pfx_bits pr) = ?L \<and>
      Contains (Masked pool) (pfx_addr pr) \<and> prefix_string pr \<notin> used"
    if "pickAvailablePrefix pool ?L req used = Some pr" for pr
    using pick_fresh [OF that] new L b by (auto simp: fresh_prefix_def)
  have hint: "pickAvailablePrefix pool ?L req used = Some (PrefixFrom (Addr6 (clear_low (128 - nat ?L) w) []) (nat ?L))"
    if h: "AddrFromSlice (prPrefix req) = Some (Addr6 w z')"
      "Contains (Masked pool) (Addr6 (clear_low (128 - nat ?L) w) [])"
      "prefix_string (PrefixFrom (Addr6 (clear_low (128 - nat ?L) w) []) (nat ?L)) \<notin> used" for w z'
  proof -
    let ?c = "Masked (PrefixFrom (Addr6 w z') (nat ?L))"
    have c: "?c = PrefixFrom (Addr6 (clear_low (128 - nat ?L) w) []) (nat ?L)" by (simp add: Masked_def PrefixFrom_def)
    have "AllocateAvailablePrefix ?p ?c = Some (?c, MarkUsed ?p ?c)"
      using h L by (intro available_hint) (simp_all add: c pfx_valid_def IsPrefixInUse_def Masked_def PrefixFrom_def)
    then show ?thesis using h(1) new c by (simp add: pickAvailablePrefix_def)
  qed
  have full: "prefix_string (nth_prefix (clear_low (128 - pfx_bits pool) n) (nat ?L) i) \<in> used"
    if none: "pickAvailablePrefix pool ?L req used = None" and i: "i < min 4096 (2 ^ (nat ?L - pfx_bits pool))" for i
  proof -
    have "AllocateAvailablePrefix ?p zero_prefix = None"
      using none new by (auto simp: pickAvailablePrefix_def split: option.splits)
    then have "scan_prefixes ?p 0 maxCandidates = None" by (simp add: AllocateAvailablePrefix_def)
    from scan_complete [OF shape this, of i] i show ?thesis by (simp add: maxCandidates_def IsPrefixInUse_def)
  qed
  show ?thesis using determined_length chosen hint full by (simp only: Let_def) blast
qed

section \<open>Prefixes of one length do not meet\<close>

text \<open>A row whose text columns are those of a masked IPv6 prefix.\<close>

definition row_prefix :: "prefix_lease \<Rightarrow> prefix \<Rightarrow> bool" where
  "row_prefix r p \<longleftrightarrow> pfx_valid p \<and> Is6 (pfx_addr p) \<and> Masked p = p \<and>
     plPrefix r = addr_string (pfx_addr p) \<and> plPrefixLen r = int (pfx_bits p)"

definition active_prefix :: "prefix_lease \<Rightarrow> bool" where
  "active_prefix r \<longleftrightarrow> sql_eq (plState r) ''ACTIVE''"

definition pd_ok :: "prefix_db \<Rightarrow> bool" where
  "pd_ok rows \<longleftrightarrow> prefix_keys_ok rows \<and> (\<forall>r \<in> set rows. \<exists>p. row_prefix r p) \<and>
     (\<forall>r \<in> set rows. \<forall>r' \<in> set rows. active_prefix r \<longrightarrow> active_prefix r' \<longrightarrow>
        sql_eq (plPoolID r) (plPoolID r') \<longrightarrow> prefix_key r = prefix_key r' \<longrightarrow> r = r')"

definition used_keys :: "prefix_db \<Rightarrow> string \<Rightarrow> string set" where
  "used_keys rows pid = set (map prefix_key (ListActivePrefixes rows pid))"

lemma used_keys_iff:
  "k \<in> used_keys rows pid \<longleftrightarrow> (\<exists>r \<in> set rows. active_prefix r \<and> sql_eq (plPoolID r) pid \<and> prefix_key r = k)"
  by (auto simp: used_keys_def ListActivePrefixes_def active_prefix_def)

lemma row_prefix_key: "row_prefix r p \<Longrightarrow> prefix_key r = prefix_string p"
  by (simp add: row_prefix_def prefix_key_def prefix_string_def json_int_def)

lemma prefix_key_clash_sym: "prefix_key_clash a b \<longleftrightarrow> prefix_key_clash b a"
  by (auto simp: prefix_key_clash_def sql_eq_sym)

lemma prefix_keys_snoc:
  "prefix_keys_ok (rows @ [l]) \<longleftrightarrow> prefix_keys_ok rows \<and> (\<forall>r \<in> set rows. \<not> prefix_key_clash r l)"
  by (induction rows) auto

lemma prefix_row_by_id:
  "prefix_keys_ok rows \<Longrightarrow> r \<in> set rows \<Longrightarrow> r' \<in> set rows \<Longrightarrow> sql_eq (plID r) (plID r') \<Longrightarrow> r = r'"
  by (induction rows) (auto simp: prefix_key_clash_def sql_eq_sym)

lemma prefix_key_clash_cong:
  assumes "plID a = plID a'" "plClientID a = plClientID a'" "plIAPDID a = plIAPDID a'" "plState a = plState a'"
  shows "prefix_key_clash a b = prefix_key_clash a' b"
  using assms by (simp add: prefix_key_clash_def)

text \<open>An update of one row that keeps its prefix and does not activate it.\<close>

lemma pd_ok_update:
  assumes ok: "pd_ok rows" and r: "r \<in> set rows" and l: "plID l = plID r" "plPrefix l = plPrefix r" "plPrefixLen l = plPrefixLen r"
    and st: "active_prefix l \<Longrightarrow> active_prefix r" and up: "UpdatePrefixLease rows l = Inr rows'"
  shows "pd_ok rows' \<and> used_keys rows' pid \<subseteq> used_keys rows pid"
proof -
  define f where "f x = (if sql_eq (plID x) (plID l) then update_prefix_row l x else x)" for x
  have rows': "rows' = map f rows" "prefix_keys_ok rows'"
    using up by (auto simp: UpdatePrefixLease_def Let_def f_def split: if_splits)
  have eq: "sql_eq (plID x) (plID l) \<longleftrightarrow> x = r" if "x \<in> set rows" for x
    using that r ok prefix_row_by_id [of rows x r] l(1) by (auto simp: pd_ok_def)
  have same: "plPrefix (f x) = plPrefix x \<and> plPrefixLen (f x) = plPrefixLen x \<and> plPoolID (f x) = plPoolID x \<and>
      (active_prefix (f x) \<longrightarrow> active_prefix x)" if "x \<in> set rows" for x
    using eq [OF that] l(2,3) st by (auto simp: f_def update_prefix_row_def active_prefix_def)
  have key: "prefix_key (f x) = prefix_key x" if "x \<in> set rows" for x
    using same [OF that] by (simp add: prefix_key_def)
  have "\<exists>p. row_prefix (f x) p" if "x \<in> set rows" for x
    using ok that same [OF that] by (auto simp: pd_ok_def row_prefix_def)
  moreover have "f x = f y" if "x \<in> set rows" "y \<in> set rows" "active_prefix (f x)" "active_prefix (f y)"
      "sql_eq (plPoolID (f x)) (plPoolID (f y))" "prefix_key (f x) = prefix_key (f y)" for x y
  proof -
    have "x = y" using ok that(1,2,5) same [OF that(1)] same [OF that(2)] that(3,4,6) key
      unfolding pd_ok_def by metis
    then show ?thesis by simp
  qed
  ultimately have "pd_ok rows'" using rows' unfolding pd_ok_def by auto
  moreover have "used_keys rows' pid \<subseteq> used_keys rows pid"
  proof
    fix k assume "k \<in> used_keys rows' pid"
    then obtain x where "x \<in> set rows" "active_prefix (f x)" "sql_eq (plPoolID (f x)) pid" "prefix_key (f x) = k"
      unfolding used_keys_iff rows' by auto
    then show "k \<in> used_keys rows pid" using same key unfolding used_keys_iff by metis
  qed
  ultimately show ?thesis by blast
qed

lemma pd_ok_create:
  assumes ok: "pd_ok rows" and p: "row_prefix l p" and new: "prefix_string p \<notin> used_keys rows (plPoolID l)"
    and cr: "CreatePrefixLease rows l = Inr rows'"
  shows "pd_ok rows' \<and> used_keys rows' pid \<subseteq> insert (prefix_key l) (used_keys rows pid)"
proof -
  let ?l = "l\<lparr>plTenantID := []\<rparr>"
  have rows': "rows' = rows @ [?l]" "\<forall>r \<in> set rows. \<not> prefix_key_clash r l"
    using cr by (auto simp: CreatePrefixLease_def split: if_splits)
  have kl: "prefix_key ?l = prefix_string p" using row_prefix_key [of ?l p] p by (simp add: row_prefix_def)
  have pool: "plPoolID ?l = plPoolID l" and key: "prefix_key l = prefix_string p" using row_prefix_key [OF p] by simp_all
  have "prefix_keys_ok rows'" using ok rows' by (simp add: pd_ok_def prefix_keys_snoc prefix_key_clash_def)
  moreover have "\<forall>r \<in> set rows'. \<exists>q. row_prefix r q" using ok p rows'(1) by (auto simp: pd_ok_def row_prefix_def)
  moreover have clash: False if "r \<in> set rows" "active_prefix r" "sql_eq (plPoolID r) (plPoolID ?l)" "prefix_key r = prefix_key ?l" for r
    using that new kl pool unfolding used_keys_iff by auto
  then have "r = r'" if "r \<in> set rows'" "r' \<in> set rows'" "active_prefix r" "active_prefix r'"
      "sql_eq (plPoolID r) (plPoolID r')" "prefix_key r = prefix_key r'" for r r'
    using that ok clash [of r] clash [of r'] sql_eq_sym [of "plPoolID r"] unfolding rows'(1) pd_ok_def by auto
  ultimately have "pd_ok rows'" unfolding pd_ok_def by blast
  then show ?thesis using kl key by (auto simp: used_keys_iff rows'(1))
qed

lemma GetActivePrefixLeaseD:
  "GetActivePrefixLease rows c i = Inr r \<Longrightarrow> r \<in> set rows \<and> active_prefix r"
  by (auto simp: GetActivePrefixLease_def active_prefix_def find_Some_iff split: option.splits)

lemma GetPrefixLeaseByIDD: "GetPrefixLeaseByID rows i = Inr r \<Longrightarrow> r \<in> set rows"
  by (auto simp: GetPrefixLeaseByID_def find_Some_iff split: option.splits)

lemma prefix_timing_simps [simp]:
  "plID (applyPrefixTiming now profile l) = plID l" "plPrefix (applyPrefixTiming now profile l) = plPrefix l"
  "plPrefixLen (applyPrefixTiming now profile l) = plPrefixLen l" "plState (applyPrefixTiming now profile l) = plState l"
  "plPoolID (applyPrefixTiming now profile l) = plPoolID l"
  by (simp_all add: applyPrefixTiming_def)

lemma prefix_key_timing [simp]: "prefix_key (applyPrefixTiming now profile l) = prefix_key l"
  by (simp add: prefix_key_def)

lemma fresh_row:
  assumes "fresh_prefix p pr" and "pool_shape p n b L" and "plPrefix l = addr_string (pfx_addr (Masked pr))" and "plPrefixLen l = int (pfx_bits pr)"
  shows "row_prefix l pr"
proof -
  have "Is6 (pfx_addr pr)"
    using assms(1,2) by (cases "pfx_addr pr") (auto simp: fresh_prefix_def pool_shape_def Contains.simps pfx_valid_def)
  then show ?thesis using assms by (simp add: row_prefix_def fresh_prefix_def)
qed

text \<open>One request keeps the table in order and adds at most the key of its answer.\<close>

lemma allocate_one_ok:
  assumes ok: "pd_ok (pdRows st)" and used: "used_keys (pdRows st) (poolID pool) \<subseteq> used"
    and run: "allocateOrReusePrefix now env scope tenant client profile pool pp req used st = (res, st')"
  shows "pd_ok (pdRows st') \<and>
    (\<forall>pd. res = Inr pd \<longrightarrow> used_keys (pdRows st') (poolID pool) \<subseteq> insert (pdPrefix pd) used)"
proof (cases "TenantIDOrErr scope")
  case (Inl e)
  then show ?thesis using run ok by (auto simp: allocateOrReusePrefix_def)
next
  case (Inr t)
  show ?thesis
  proof (cases "GetActivePrefixLease (pdRows st) client (prIAPDID req)")
    case (Inr r)
    note D = GetActivePrefixLeaseD [OF Inr]
    have l: "active_prefix (applyPrefixTiming now profile r) \<Longrightarrow> active_prefix r" by (simp add: active_prefix_def)
    show ?thesis
    proof (cases "UpdatePrefixLease (pdRows st) (applyPrefixTiming now profile r)")
      case (Inl e)
      then show ?thesis using run ok Inr \<open>TenantIDOrErr scope = Inr t\<close>
        by (auto simp: allocateOrReusePrefix_def Let_def)
    next
      case (Inr rows)
      from pd_ok_update [OF ok conjunct1 [OF D] _ _ _ l Inr, of "poolID pool"]
      show ?thesis using run used \<open>GetActivePrefixLease _ _ _ = Inr r\<close> \<open>TenantIDOrErr scope = Inr t\<close> Inr
        by (auto simp: allocateOrReusePrefix_def Let_def)
    qed
  next
    case (Inl e)
    show ?thesis
    proof (cases "pickAvailablePrefix pp (determinePrefixLength pp req) req used")
      case None
      then show ?thesis using run ok Inl Inr by (auto simp: allocateOrReusePrefix_def)
    next
      case (Some c)
      from pick_fresh [OF this] obtain p where p: "NewIPv6PrefixPool pp (determinePrefixLength pp req) used = Some p"
        "fresh_prefix p c" "usedPrefixes p = used" by blast
      define l where "l = applyPrefixTiming now profile
        \<lparr>plID = envNewID env (stNextID (pdSvc st)), plTenantID = tenant, plPoolID = poolID pool, plClientID = client,
         plIAPDID = prIAPDID req, plPrefix = addr_string (pfx_addr (Masked c)), plPrefixLen = int (pfx_bits c),
         plState = leaseStateActive, plExpiresAt = zero_time, plCreatedAt = now, plUpdatedAt = now\<rparr>"
      from NewIPv6PrefixPool_shape [OF p(1)] obtain n b L where "pool_shape p n b L" by blast
      from fresh_row [OF p(2) this, of l] have row: "row_prefix l c" by (simp add: l_def)
      have pool: "plPoolID l = poolID pool" by (simp add: l_def)
      have "prefix_string c \<notin> used_keys (pdRows st) (plPoolID l)"
        using p(2,3) used pool by (auto simp: fresh_prefix_def)
      note cr = pd_ok_create [OF ok row this, where pid = "poolID pool"]
      show ?thesis
      proof (cases "CreatePrefixLease (pdRows st) l")
        case (Inl e')
        then show ?thesis using run ok Inr \<open>GetActivePrefixLease _ _ _ = Inl e\<close> Some
          by (auto simp: allocateOrReusePrefix_def Let_def l_def [symmetric])
      next
        case (Inr rows)
        then show ?thesis using run cr [OF Inr] used \<open>TenantIDOrErr scope = Inr t\<close> \<open>GetActivePrefixLease _ _ _ = Inl e\<close> Some
          by (auto simp: allocateOrReusePrefix_def Let_def l_def [symmetric] buildPrefixDelegation_def)
      qed
    qed
  qed
qed

lemma allocate_all_ok:
  "pd_ok (pdRows st) \<Longrightarrow> used_keys (pdRows st) (poolID pool) \<subseteq> used \<Longrightarrow>
   pd_ok (pdRows (snd (allocate_prefixes now env scope tenant client profile pool pp reqs used st)))"
proof (induction reqs arbitrary: used st)
  case (Cons req reqs)
  obtain res st1 where one: "allocateOrReusePrefix now env scope tenant client profile pool pp req used st = (res, st1)" by force
  note ok = allocate_one_ok [OF Cons.prems one]
  show ?case
  proof (cases res)
    case (Inl e)
    then show ?thesis using one ok by simp
  next
    case (Inr pd)
    with ok have "pd_ok (pdRows (snd (allocate_prefixes now env scope tenant client profile pool pp reqs (insert (pdPrefix pd) used) st1)))"
      by (intro Cons.IH) simp_all
    then show ?thesis using one Inr by (auto split: prod.splits sum.splits)
  qed
qed simp

lemma AllocateOrReusePrefixes_ok:
  "pd_ok (pdRows st) \<Longrightarrow> pd_ok (pdRows (snd (AllocateOrReusePrefixes now env scope client profile pool reqs st)))"
  by (auto simp: AllocateOrReusePrefixes_def used_keys_def intro!: allocate_all_ok split: option.splits sum.splits)

lemma not_active_states: "\<not> sql_eq leaseStateReleased ''ACTIVE''" "\<not> sql_eq leaseStateDeclined ''ACTIVE''"
  by code_simp+

lemma set_prefix_state_ok:
  assumes "pd_ok rows" and "r \<in> set rows" and "\<not> sql_eq state ''ACTIVE''"
    and "UpdatePrefixLease rows (r\<lparr>plState := state, plUpdatedAt := now, plExpiresAt := now\<rparr>) = Inr rows'"
  shows "pd_ok rows'"
  using pd_ok_update [OF assms(1,2) _ _ _ _ assms(4)] assms(3) by (simp add: active_prefix_def)

lemma updatePrefixState_ok:
  assumes "pd_ok (pdRows st)" and "\<not> sql_eq state ''ACTIVE''"
  shows "pd_ok (pdRows (snd (updatePrefixState now scope client iapd state st)))"
  using assms by (auto simp: updatePrefixState_def split: sum.splits
    dest!: GetActivePrefixLeaseD intro: set_prefix_state_ok [OF assms(1) _ assms(2)])

lemma updatePrefixStateByID_ok:
  assumes "pd_ok (pdRows st)" and "\<not> sql_eq state ''ACTIVE''"
  shows "pd_ok (pdRows (snd (updatePrefixStateByID now scope lid state st)))"
  using assms by (auto simp: updatePrefixStateByID_def Let_def split: sum.splits
    dest!: GetPrefixLeaseByIDD intro: set_prefix_state_ok [OF assms(1) _ assms(2)])

text \<open>Any sequence of the operations, with the rest of the service free to change in between.\<close>

inductive pd_reach :: "'r svc_env \<Rightarrow> 'r pd_state \<Rightarrow> bool" for env where
  empty: "pdRows st = [] \<Longrightarrow> pd_reach env st"
| allocate: "pd_reach env st \<Longrightarrow> pd_reach env (snd (AllocateOrReusePrefixes now env scope client profile pool reqs st))"
| release: "pd_reach env st \<Longrightarrow> pd_reach env (snd (ReleasePrefix now env scope client iapd st))"
| decline: "pd_reach env st \<Longrightarrow> pd_reach env (snd (DeclinePrefix now env scope client iapd st))"
| release_id: "pd_reach env st \<Longrightarrow> pd_reach env (snd (ReleasePrefixByID now scope lid st))"
| decline_id: "pd_reach env st \<Longrightarrow> pd_reach env (snd (DeclinePrefixByID now scope lid st))"
| service: "pd_reach env st \<Longrightarrow> pd_reach env (st\<lparr>pdSvc := svc\<rparr>)"

lemma pd_reach_ok: "pd_reach env st \<Longrightarrow> pd_ok (pdRows st)"
proof (induction rule: pd_reach.induct)
  case (empty st)
  then show ?case by (simp add: pd_ok_def)
next
  case (allocate st now scope client profile pool reqs)
  then show ?case by (intro AllocateOrReusePrefixes_ok)
next
  case (release st now scope client iapd)
  then show ?case by (simp add: ReleasePrefix_def updatePrefixState_ok not_active_states split: option.splits)
next
  case (decline st now scope client iapd)
  then show ?case by (simp add: DeclinePrefix_def updatePrefixState_ok not_active_states split: option.splits)
next
  case (release_id st now scope lid)
  then show ?case by (simp add: ReleasePrefixByID_def updatePrefixStateByID_ok not_active_states split: sum.splits)
next
  case (decline_id st now scope lid)
  then show ?case by (simp add: DeclinePrefixByID_def updatePrefixStateByID_ok not_active_states split: sum.splits)
qed simp

lemma same_length_disjoint:
  assumes "row_prefix r p" and "row_prefix r' p'" and "pfx_bits p = pfx_bits p'" and "p \<noteq> p'"
  shows "\<not> (Contains p (Addr6 w []) \<and> Contains p' (Addr6 w []))"
proof
  assume c: "Contains p (Addr6 w []) \<and> Contains p' (Addr6 w [])"
  from assms(1) obtain n z where n: "pfx_addr p = Addr6 n z" "pfx_bits p \<le> 128"
    by (cases "pfx_addr p") (auto simp: row_prefix_def pfx_valid_def)
  from assms(2) obtain n' z' where n': "pfx_addr p' = Addr6 n' z'" "pfx_bits p' \<le> 128"
    by (cases "pfx_addr p'") (auto simp: row_prefix_def pfx_valid_def)
  let ?k = "128 - pfx_bits p"
  have m: "Masked p = p" "Masked p' = p'" using assms(1,2) by (simp_all add: row_prefix_def)
  have "unat n div 2 ^ ?k = unat n' div 2 ^ ?k"
    using c Contains_v6 [OF n, of w] Contains_v6 [OF n', of w] assms(3) by simp
  then have "clear_low ?k n = clear_low ?k n'" by (simp add: word_unat_eq_iff unat_clear_low)
  then have "Masked p = Masked p'" using n n' assms(3) by (cases p; cases p') (simp add: Masked_def)
  then show False using m assms(4) by simp
qed

text \<open>C12: Delegated prefixes of one length are disjoint.  Whatever requests, releases and declines
  have run (one after the other), two active leases of a pool with the same prefix length hold
  prefixes that share no address.\<close>

theorem delegated_prefixes_disjoint:
  assumes "pd_reach env st" and "r \<in> set (pdRows st)" and "r' \<in> set (pdRows st)" and "r \<noteq> r'"
    and "sql_eq (plState r) ''ACTIVE''" and "sql_eq (plState r') ''ACTIVE''"
    and "sql_eq (plPoolID r) (plPoolID r')" and "plPrefixLen r = plPrefixLen r'"
  shows "\<exists>p p'. prefix_key r = prefix_string p \<and> prefix_key r' = prefix_string p' \<and>
    \<not> (\<exists>w. Contains p (Addr6 w []) \<and> Contains p' (Addr6 w []))"
proof -
  have ok: "pd_ok (pdRows st)" using assms(1) by (rule pd_reach_ok)
  then obtain p p' where p: "row_prefix r p" "row_prefix r' p'" using assms(2,3) unfolding pd_ok_def by blast
  have "prefix_key r \<noteq> prefix_key r'" using ok assms(2-7) unfolding pd_ok_def active_prefix_def by blast
  then have "p \<noteq> p'" using row_prefix_key [OF p(1)] row_prefix_key [OF p(2)] by auto
  moreover have "pfx_bits p = pfx_bits p'" using p assms(8) by (simp add: row_prefix_def)
  ultimately show ?thesis
    using row_prefix_key [OF p(1)] row_prefix_key [OF p(2)] same_length_disjoint [OF p] by blast
qed

section \<open>Concrete runs\<close>

definition sample_pool6 :: address_pool where
  "sample_pool6 = empty_pool\<lparr>poolID := ''p6'', poolCIDR := ''5::/120''\<rparr>"

definition sample_pd_request :: "u32 \<Rightarrow> byte \<Rightarrow> prefix_request" where
  "sample_pd_request iapd len = \<lparr>prIAPDID = iapd, prPrefix = [], prPrefixLength = len, prPreferredLifetime = 0, prValidLifetime = 0\<rparr>"

definition sample_pd_state :: "unit pd_state" where
  "sample_pd_state = \<lparr>pdRows = [], pdSvc = initial_state () []\<rparr>"

definition pd_env :: "unit svc_env" where
  "pd_env = plain_env \<lparr>GetPool = (\<lambda>_. Inl ErrPoolNotFound), FindBinding = \<lambda>_ _. Inl ErrPoolNotFound,
     ListBindingsByPool = \<lambda>_. Inr []\<rparr>"

definition delegate :: "string \<Rightarrow> prefix_request list \<Rightarrow> unit pd_state \<Rightarrow> (svc_error + prefix_delegation list) \<times> unit pd_state" where
  "delegate client reqs st = AllocateOrReusePrefixes 1000 pd_env sample_scope client empty_profile (Some sample_pool6) reqs st"

text \<open>Three clients in turn, and a fourth whose set of used prefixes was read before the first
  was served.\<close>

definition pd_run :: "unit pd_state" where
  "pd_run = snd (delegate ''c'' [sample_pd_request 1 122] (snd (delegate ''b'' [sample_pd_request 1 124]
     (snd (delegate ''a'' [sample_pd_request 1 124] sample_pd_state)))))"

definition pd_race :: "unit pd_state" where
  "pd_race = snd (allocate_prefixes 1000 pd_env sample_scope ''t1'' ''d'' empty_profile sample_pool6
     \<lparr>pfx_addr = Addr6 0x00050000000000000000000000000000 [], pfx_bits = 120\<rparr> [sample_pd_request 1 124] {} 
     (snd (delegate ''a'' [sample_pd_request 1 124] sample_pd_state)))"

lemma pd_run_rows:
  "map (\<lambda>r. (plID r, plState r, plPoolID r, plPrefixLen r, prefix_key r)) (pdRows pd_run) =
    [(''lease-0'', ''ACTIVE'', ''p6'', 124, ''5::/124''), (''lease-1'', ''ACTIVE'', ''p6'', 124, ''5::10/124''),
     (''lease-2'', ''ACTIVE'', ''p6'', 122, ''5::/122'')]"
  by code_simp

lemma pd_race_rows:
  "map (\<lambda>r. (plID r, plState r, plPoolID r, prefix_key r)) (pdRows pd_race) =
    [(''lease-0'', ''ACTIVE'', ''p6'', ''5::/124''), (''lease-1'', ''ACTIVE'', ''p6'', ''5::/124'')]"
  by code_simp

lemma pd_run_reach: "pd_reach pd_env pd_run"
  unfolding pd_run_def delegate_def
  by (intro pd_reach.allocate pd_reach.empty) (simp add: sample_pd_state_def)

theorem delegated_prefixes_disjoint_witness:
  "\<exists>r r' p p'. r \<in> set (pdRows pd_run) \<and> r' \<in> set (pdRows pd_run) \<and> prefix_string p = ''5::/124'' \<and>
     prefix_string p' = ''5::10/124'' \<and> \<not> (\<exists>w. Contains p (Addr6 w []) \<and> Contains p' (Addr6 w []))"
proof -
  from pd_run_rows obtain r r' rest where rows: "pdRows pd_run = r # r' # rest"
    and r: "plState r = ''ACTIVE''" "plPoolID r = ''p6''" "plPrefixLen r = 124" "prefix_key r = ''5::/124''"
    and r': "plState r' = ''ACTIVE''" "plPoolID r' = ''p6''" "plPrefixLen r' = 124" "prefix_key r' = ''5::10/124''"
    by (auto simp: map_eq_Cons_conv)
  have "r \<noteq> r'" using r(4) r'(4) by auto
  from delegated_prefixes_disjoint [OF pd_run_reach _ _ this] rows r r' show ?thesis by (auto 0 3)
qed


text \<open>The choice at a concrete pool.\<close>

theorem delegated_prefix_choice_witness:
  "pickAvailablePrefix \<lparr>pfx_addr = Addr6 0x00050000000000000000000000000000 [], pfx_bits = 120\<rparr> 124
     \<lparr>prIAPDID = 1, prPrefix = [0, 5, 0, 0, 0, 0, 0, 0, 0, 0, 0, 0, 0, 0, 0, 31], prPrefixLength = 124,
      prPreferredLifetime = 0, prValidLifetime = 0\<rparr> {''5::/124''} =
   Some (PrefixFrom (Addr6 0x00050000000000000000000000000010 []) 124)"
proof -
  let ?p = "\<lparr>pfx_addr = Addr6 0x00050000000000000000000000000000 [], pfx_bits = 120\<rparr>"
  let ?r = "\<lparr>prIAPDID = 1, prPrefix = [0, 5, 0, 0, 0, 0, 0, 0, 0, 0, 0, 0, 0, 0, 0, 31], prPrefixLength = 124,
      prPreferredLifetime = 0, prValidLifetime = 0\<rparr> :: prefix_request"
  have v: "pfx_valid ?p" by (simp add: pfx_valid_def)
  have len: "determinePrefixLength ?p ?r = 124" by (simp add: determinePrefixLength_def)
  have hint: "AddrFromSlice (prPrefix ?r) = Some (Addr6 0x0005000000000000000000000000001F [])"
    "clear_low 4 (0x0005000000000000000000000000001F :: u128) = 0x00050000000000000000000000000010"
    "Contains (Masked ?p) (Addr6 0x00050000000000000000000000000010 [])"
    "prefix_string (PrefixFrom (Addr6 0x00050000000000000000000000000010 []) 124) \<noteq> ''5::/124''"
    by code_simp+
  show ?thesis
    using delegated_prefix_choice [of ?p "0x00050000000000000000000000000000" "[]" ?r "{''5::/124''}"] v hint
    unfolding len Let_def by (simp del: prefix_request.simps)
qed

end
