(* ===== verification/Slaac.thy ===== *)
theory Slaac
  imports Prefix_Delegation
begin

text \<open>
  Addresses computed from a client: \<^verbatim>\<open>internal/dhcpv6/slaac.go\<close> (the SLAAC hint) and
  \<^verbatim>\<open>internal/dhcpv6/eui64_binding.go\<close> (EUI-64 addresses), with the persisted EUI-64
  bindings of \<^verbatim>\<open>internal/lease/eui64_binding.go\<close> and their statements in
  \<^verbatim>\<open>internal/lease/repository.go\<close>.  The digest function SHA-256 is an argument.
\<close>

section \<open>SLAAC\<close>

definition buildSLAACSeed :: "packet6 \<Rightarrow> string option" where
  "buildSLAACSeed pkt =
     (let parts =
        (if pkDUID pkt \<noteq> [] then [pkDUID pkt] else [])
        @ (if pkClientMAC pkt \<noteq> [] then [hw_string (pkClientMAC pkt)] else [])
        @ (case pkLinkAddr pkt of None \<Rightarrow> [] | Some a \<Rightarrow> [ip_string a])
        @ (case pkPeerAddr pkt of None \<Rightarrow> [] | Some a \<Rightarrow> [ip_string a])
        @ (if pkIAID pkt \<noteq> 0 then [dec (unat (pkIAID pkt))] else []) in
      if parts = [] then None else Some (join_with ''|'' parts))"

definition linkLocal10Prefix :: prefix where
  "linkLocal10Prefix = \<lparr>pfx_addr = Addr6 (push_bit 112 0xFE80) [], pfx_bits = 10\<rparr>"

definition linkLocal64Prefix :: prefix where
  "linkLocal64Prefix = \<lparr>pfx_addr = Addr6 (push_bit 112 0xFE80) [], pfx_bits = 64\<rparr>"

fun IsLinkLocalUnicast6 :: "addr \<Rightarrow> bool" where
  "IsLinkLocalUnicast6 (Addr6 w z) = (drop_bit 118 w = 0x3FA)"
| "IsLinkLocalUnicast6 _ = False"

definition IsValidSLAACAddr :: "addr \<Rightarrow> prefix \<Rightarrow> bool" where
  "IsValidSLAACAddr addr prefix =
     (if \<not> IsValid addr \<or> \<not> Is6 addr \<or> \<not> pfx_valid prefix \<or> \<not> Is6 (pfx_addr prefix) then False
      else if \<not> Contains (Masked prefix) addr then False
      else if 128 - int (pfx_bits (Masked prefix)) \<le> 0 then False
      else
        let host = AddrToBig addr - AddrToBig (pfx_addr (Masked prefix));
            maxHosts = 2 ^ (128 - pfx_bits (Masked prefix)) in
        if host < 0 \<or> host \<ge> maxHosts \<or> host = 0 \<or> host = maxHosts - 1 then False
        else if pfx_bits (Masked prefix) = 10 \<and> pfx_addr (Masked prefix) = pfx_addr linkLocal10Prefix
        then IsLinkLocalUnicast6 addr \<and> Contains linkLocal64Prefix addr
        else True)"

text \<open>\<^verbatim>\<open>big.Int.SetBytes\<close>.\<close>

definition big_of_bytes :: "bytes \<Rightarrow> int" where
  "big_of_bytes bs = foldl (\<lambda>acc b. acc * 256 + uint b) 0 bs"

definition deriveSLAACAddress :: "(string \<Rightarrow> bytes) \<Rightarrow> prefix \<Rightarrow> string \<Rightarrow> addr option" where
  "deriveSLAACAddress sha256 prefix seed =
     (if \<not> pfx_valid prefix \<or> \<not> Is6 (pfx_addr prefix) then None
      else if seed = [] then None
      else if 128 - int (pfx_bits prefix) \<le> 0 then None
      else
        let host = big_of_bytes (sha256 seed) mod 2 ^ (128 - pfx_bits prefix) in
        case BigToAddr (AddrToBig (pfx_addr (Masked prefix)) + host) of
          None \<Rightarrow> None
        | Some addr \<Rightarrow> if IsValidSLAACAddr addr prefix then Some addr else None)"

section \<open>EUI-64\<close>

definition DeriveIPv6FromEUI64 :: "prefix \<Rightarrow> bytes \<Rightarrow> string + addr" where
  "DeriveIPv6FromEUI64 prefix mac =
     (if \<not> pfx_valid prefix \<or> \<not> Is6 (pfx_addr prefix) then Inl (''invalid ipv6 prefix: '' @ quoted (prefix_string prefix))
      else case mac of
        [m0, m1, m2, m3, m4, m5] \<Rightarrow>
          Inr (Addr6 (u128_of_bytes (take 8 (As16 (pfx_addr (Masked prefix))) @ [m0 XOR 2, m1, m2, 0xFF, 0xFE, m3, m4, m5])) [])
      | _ \<Rightarrow> Inl ''eui64 requires 48-bit mac'')"

definition canonicalEUI64Prefix :: "prefix \<Rightarrow> prefix" where
  "canonicalEUI64Prefix prefix =
     (let bits = pfx_bits prefix; bits = (if bits \<le> 0 \<or> bits > 64 then 64 else bits);
          m = Masked (PrefixFrom (pfx_addr (Masked prefix)) bits) in
      if bits = 64 then m else Masked (PrefixFrom (pfx_addr m) 64))"

section \<open>Persisted bindings\<close>

record eui64_binding =
  ebTenantID :: string
  ebMAC :: string
  ebPrefix :: string
  ebIPv6Addr :: string
  ebLeaseTime :: duration
  ebCreatedAt :: gotime
  ebUpdatedAt :: gotime

type_synonym eui64_db = "eui64_binding list"

definition tenantFromAccessScope :: "access_scope \<Rightarrow> string option" where
  "tenantFromAccessScope scope = (let t = trim_space (EffectiveTenant scope) in if t = [] then None else Some t)"

definition normalizeBindingMAC :: "string \<Rightarrow> string" where
  "normalizeBindingMAC mac = to_lower (trim_space mac)"

definition normalizeBindingIPv6Addr :: "string \<Rightarrow> string" where
  "normalizeBindingIPv6Addr a = to_lower (trim_space a)"

definition normalizeBindingPrefix :: "string \<Rightarrow> string" where
  "normalizeBindingPrefix prefix = trim_space prefix"

definition first_binding :: "(eui64_binding \<Rightarrow> bool) \<Rightarrow> eui64_db \<Rightarrow> svc_error + eui64_binding" where
  "first_binding P db = (case find P db of None \<Rightarrow> Inl (ErrRepo ErrNotFound) | Some b \<Rightarrow> Inr b)"

definition RepoFindByMAC :: "eui64_db \<Rightarrow> access_scope \<Rightarrow> string \<Rightarrow> string \<Rightarrow> svc_error + eui64_binding" where
  "RepoFindByMAC db scope mac prefix =
     (case tenantFromAccessScope scope of
        None \<Rightarrow> Inl ErrResourceScopeRequired
      | Some t \<Rightarrow> first_binding (\<lambda>b. sql_eq (ebTenantID b) t \<and> sql_eq (ebMAC b) (normalizeBindingMAC mac) \<and>
          sql_eq (ebPrefix b) (normalizeBindingPrefix prefix)) db)"

definition RepoFindByIPv6Addr :: "eui64_db \<Rightarrow> access_scope \<Rightarrow> string \<Rightarrow> string \<Rightarrow> svc_error + eui64_binding" where
  "RepoFindByIPv6Addr db scope prefix addr =
     (case tenantFromAccessScope scope of
        None \<Rightarrow> Inl ErrResourceScopeRequired
      | Some t \<Rightarrow> first_binding (\<lambda>b. sql_eq (ebTenantID b) t \<and> sql_eq (ebPrefix b) (normalizeBindingPrefix prefix) \<and>
          sql_eq (ebIPv6Addr b) (normalizeBindingIPv6Addr addr)) db)"

text \<open>The primary key is (tenant, MAC, prefix); (tenant, prefix, address) is unique.  An insert
  that meets a row with either key updates that row.\<close>

definition binding_clash :: "eui64_binding \<Rightarrow> eui64_binding \<Rightarrow> bool" where
  "binding_clash a b \<longleftrightarrow> sql_eq (ebTenantID a) (ebTenantID b) \<and> sql_eq (ebPrefix a) (ebPrefix b) \<and>
     (sql_eq (ebMAC a) (ebMAC b) \<or> sql_eq (ebIPv6Addr a) (ebIPv6Addr b))"

fun upsert_binding :: "eui64_binding \<Rightarrow> eui64_db \<Rightarrow> eui64_db" where
  "upsert_binding b [] = [b]"
| "upsert_binding b (r # rs) =
     (if binding_clash r b
      then r\<lparr>ebIPv6Addr := ebIPv6Addr b, ebLeaseTime := ebLeaseTime b, ebUpdatedAt := ebUpdatedAt b\<rparr> # rs
      else r # upsert_binding b rs)"

definition RepoCreateBinding :: "gotime \<Rightarrow> eui64_db \<Rightarrow> eui64_binding \<Rightarrow> svc_error + eui64_db" where
  "RepoCreateBinding now db b =
     (let tenantID = trim_space (ebTenantID b) in
      if tenantID = [] then Inl ErrResourceScopeRequired
      else
        let created = (if IsZeroTime (ebCreatedAt b) then now else ebCreatedAt b);
            updated = (if IsZeroTime (ebUpdatedAt b) then created else ebUpdatedAt b) in
        Inr (upsert_binding \<lparr>ebTenantID = tenantID, ebMAC = normalizeBindingMAC (ebMAC b),
          ebPrefix = normalizeBindingPrefix (ebPrefix b), ebIPv6Addr = normalizeBindingIPv6Addr (ebIPv6Addr b),
          ebLeaseTime = quot (ebLeaseTime b) second * second, ebCreatedAt = created, ebUpdatedAt = updated\<rparr> db))"

definition eui64FixedLeaseDuration :: duration where "eui64FixedLeaseDuration = 365 * 24 * hour"

definition FindIPv6EUI64BindingByMAC :: "eui64_db \<Rightarrow> access_scope \<Rightarrow> string \<Rightarrow> string \<Rightarrow> svc_error + eui64_binding" where
  "FindIPv6EUI64BindingByMAC db scope mac prefix =
     (let mac = to_lower (trim_space mac); prefix = trim_space prefix in
      if mac = [] \<or> prefix = [] then Inl (ErrRepo ErrNotFound) else RepoFindByMAC db scope mac prefix)"

definition FindIPv6EUI64BindingByIPv6Addr :: "eui64_db \<Rightarrow> access_scope \<Rightarrow> string \<Rightarrow> string \<Rightarrow> svc_error + eui64_binding" where
  "FindIPv6EUI64BindingByIPv6Addr db scope prefix addr =
     (let prefix = trim_space prefix; addr = to_lower (trim_space addr) in
      if prefix = [] \<or> addr = [] then Inl (ErrRepo ErrNotFound) else RepoFindByIPv6Addr db scope prefix addr)"

definition CreateIPv6EUI64Binding ::
  "gotime \<Rightarrow> access_scope \<Rightarrow> eui64_binding \<Rightarrow> eui64_db \<Rightarrow> (svc_error + eui64_binding) \<times> eui64_db" where
  "CreateIPv6EUI64Binding now scope b db =
     (case tenantFromScope scope of
        Inl e \<Rightarrow> (Inl e, db)
      | Inr tenantID \<Rightarrow>
          let b = \<lparr>ebTenantID = tenantID, ebMAC = to_lower (trim_space (ebMAC b)), ebPrefix = trim_space (ebPrefix b),
                   ebIPv6Addr = to_lower (trim_space (ebIPv6Addr b)),
                   ebLeaseTime = (if ebLeaseTime b \<le> 0 then eui64FixedLeaseDuration else ebLeaseTime b),
                   ebCreatedAt = now, ebUpdatedAt = now\<rparr> in
          if ebMAC b = [] \<or> ebPrefix b = [] \<or> ebIPv6Addr b = [] then (Inl ErrPoolRequired, db)
          else (case RepoCreateBinding now db b of
              Inl e \<Rightarrow> (Inl e, db)
            | Inr db' \<Rightarrow>
                (case RepoFindByMAC db' scope (ebMAC b) (ebPrefix b) of
                   Inr stored \<Rightarrow> (Inr stored, db')
                 | Inl e \<Rightarrow> if e = ErrRepo ErrNotFound then (Inr b, db') else (Inl e, db'))))"

section \<open>Bytes of an address\<close>

lemma u128_of_bytes_snoc: "u128_of_bytes (bs @ [b]) = push_bit 8 (u128_of_bytes bs) OR ucast b"
  by (simp add: u128_of_bytes_def)

lemma bit_u128_of_bytes:
  "length bs \<le> 16 \<Longrightarrow> bit (u128_of_bytes bs) n \<longleftrightarrow>
     n < 8 * length bs \<and> bit (bs ! (length bs - 1 - n div 8)) (n mod 8)"
proof (induction bs arbitrary: n rule: rev_induct)
  case (snoc b bs)
  show ?case
  proof (cases "n < 8")
    case True
    then show ?thesis using snoc.prems by (simp add: u128_of_bytes_snoc bit_simps nth_append)
  next
    case False
    then obtain m where n: "n = m + 8" by (metis add.commute le_Suc_ex not_less)
    have d: "n div 8 = Suc (m div 8)" "n mod 8 = m mod 8" using n by simp_all
    have len: "length bs \<le> 16" using snoc.prems by simp
    have b: "\<not> bit b n" using n bit_byte_bound [of b n] by auto
    have "bit (u128_of_bytes (bs @ [b])) n \<longleftrightarrow> n < 128 \<and> bit (u128_of_bytes bs) m"
      using b n by (simp add: u128_of_bytes_snoc bit_simps)
    also have "\<dots> \<longleftrightarrow> n < 128 \<and> m < 8 * length bs \<and> bit (bs ! (length bs - 1 - m div 8)) (m mod 8)"
      by (simp only: snoc.IH [OF len])
    also have "\<dots> \<longleftrightarrow> n < 8 * length (bs @ [b]) \<and> bit ((bs @ [b]) ! (length (bs @ [b]) - 1 - n div 8)) (n mod 8)"
      unfolding d using n snoc.prems by (cases "length bs = 0") (auto simp: nth_append)
    finally show ?thesis .
  qed
qed (simp add: u128_of_bytes_def)

lemma u128_of_bytes_inj:
  assumes "length bs = 16" and "length cs = 16" and "u128_of_bytes bs = u128_of_bytes cs"
  shows "bs = cs"
proof (rule nth_equalityI)
  fix i assume "i < length bs"
  then have i: "i < 16" using assms(1) by simp
  show "bs ! i = cs ! i"
  proof (rule bit_word_eqI)
    fix k assume "k < LENGTH(8)"
    then have k: "k < 8" by simp
    let ?n = "8 * (15 - i) + k"
    have n: "?n < 128" "15 - ?n div 8 = i" "?n mod 8 = k" using i k by simp_all
    have "bit (bs ! i) k \<longleftrightarrow> bit (u128_of_bytes bs) ?n" "bit (cs ! i) k \<longleftrightarrow> bit (u128_of_bytes cs) ?n"
      using assms(1,2) i k n by (simp_all add: bit_u128_of_bytes)
    then show "bit (bs ! i) k \<longleftrightarrow> bit (cs ! i) k" using assms(3) by simp
  qed
qed (simp add: assms)

lemma bit_nth_bytes_of_u128: "i < 16 \<Longrightarrow> k < 8 \<Longrightarrow> bit (bytes_of_u128 w ! i) k \<longleftrightarrow> bit w (8 * (15 - i) + k)"
  by (simp add: bytes_of_u128_def bit_simps ac_simps)

lemma length_bytes_of_u128 [simp]: "length (bytes_of_u128 w) = 16"
  by (simp add: bytes_of_u128_def)

text \<open>The text and the byte form of an IPv6 address agree.\<close>

lemma u128_of_bytes_of_u128 [simp]: "u128_of_bytes (bytes_of_u128 w) = w"
  by (rule bit_word_eqI) (simp add: bit_u128_of_bytes bit_nth_bytes_of_u128 ac_simps)

lemma drop_bit_replaced:
  assumes "length lo = 8"
  shows "drop_bit 64 (u128_of_bytes (take 8 (bytes_of_u128 w) @ lo)) = drop_bit 64 w"
proof (rule bit_word_eqI)
  fix n assume "n < LENGTH(128)"
  show "bit (drop_bit 64 (u128_of_bytes (take 8 (bytes_of_u128 w) @ lo))) n \<longleftrightarrow> bit (drop_bit 64 w) n"
  proof (cases "n < 64")
    case True
    have "(64 + n) mod 8 = (8 * 8 + n) mod 8" by simp
    also have "\<dots> = n mod 8" by (rule mod_mult_self4)
    finally have "(64 + n) mod 8 = n mod 8" .
    with True have d: "(64 + n) div 8 = 8 + n div 8" "(64 + n) mod 8 = n mod 8" "15 - (8 + n div 8) < 8" "n div 8 < 8"
      and rev: "8 * (15 - (15 - (8 + n div 8))) + n mod 8 = 64 + n" by simp_all
    have "bit (u128_of_bytes (take 8 (bytes_of_u128 w) @ lo)) (64 + n) \<longleftrightarrow>
        bit (bytes_of_u128 w ! (15 - (8 + n div 8))) (n mod 8)"
      using assms d True by (simp add: bit_u128_of_bytes nth_append)
    also have "\<dots> \<longleftrightarrow> bit w (64 + n)"
      using bit_nth_bytes_of_u128 [of "15 - (8 + n div 8)" "n mod 8" w] by (simp only: rev)
    finally show ?thesis by (simp add: bit_drop_bit_eq)
  next
    case False
    then have "\<not> bit x (64 + n)" for x :: u128 using bit_imp_le_length [of x "64 + n"] by auto
    then show ?thesis by (simp add: bit_drop_bit_eq)
  qed
qed

section \<open>What a derived address is\<close>

lemma big_of_bytes_nonneg: "0 \<le> big_of_bytes bs"
proof -
  have "0 \<le> acc \<Longrightarrow> 0 \<le> foldl (\<lambda>acc b. acc * 256 + uint b) acc bs" for acc
    by (induction bs arbitrary: acc) simp_all
  then show ?thesis by (simp add: big_of_bytes_def)
qed

text \<open>The masked network has room for every host number.\<close>

lemma network_room:
  fixes n :: u128
  assumes "b \<le> 128"
  shows "uint (clear_low (128 - b) n) mod 2 ^ (128 - b) = 0" "uint (clear_low (128 - b) n) + 2 ^ (128 - b) \<le> 2 ^ 128"
proof -
  let ?k = "128 - b"
  have u: "uint (clear_low ?k n) = uint n div 2 ^ ?k * 2 ^ ?k"
    by (simp only: uint_nat unat_clear_low of_nat_mult zdiv_int of_nat_power of_nat_numeral)
  show "uint (clear_low ?k n) mod 2 ^ ?k = 0" unfolding u by simp
  have p: "(2 :: int) ^ 128 = 2 ^ b * 2 ^ ?k" using assms by (simp flip: power_add)
  have "uint n < 2 ^ 128" using uint_lt2p [of n] by simp
  moreover have "uint n div 2 ^ ?k * 2 ^ ?k \<le> uint n" proof -
    have "0 \<le> uint n mod 2 ^ ?k" by simp
    then show ?thesis using div_mult_mod_eq [of "uint n" "2 ^ ?k"] by linarith
  qed
  ultimately have "uint n div 2 ^ ?k * 2 ^ ?k < 2 ^ b * 2 ^ ?k" unfolding p by linarith
  then have "uint n div 2 ^ ?k < 2 ^ b" by (rule mult_right_less_imp_less) simp
  then have "(uint n div 2 ^ ?k + 1) * 2 ^ ?k \<le> 2 ^ b * 2 ^ ?k" by (intro mult_right_mono) auto
  then show "uint (clear_low ?k n) + 2 ^ ?k \<le> 2 ^ 128" unfolding u p by (simp add: distrib_right)
qed

lemma derive_slaac_cases:
  assumes "pfx_valid prefix" and "pfx_addr prefix = Addr6 n z" and "seed \<noteq> []" and "pfx_bits prefix < 128"
  shows "let host = big_of_bytes (sha256 seed) mod 2 ^ (128 - pfx_bits prefix);
      net = uint (clear_low (128 - pfx_bits prefix) n); a = Addr6 (word_of_int (net + host)) [] in
    uint (word_of_int (net + host) :: u128) = net + host \<and> Contains (Masked prefix) a \<and>
    deriveSLAACAddress sha256 prefix seed =
      (if host = 0 \<or> host = 2 ^ (128 - pfx_bits prefix) - 1 then None
       else if pfx_bits prefix = 10 \<and> clear_low 118 n = push_bit 112 0xFE80 \<and>
         \<not> (IsLinkLocalUnicast6 a \<and> Contains linkLocal64Prefix a) then None else Some a)"
proof -
  let ?k = "128 - pfx_bits prefix" and ?b = "pfx_bits prefix"
  define host where "host = big_of_bytes (sha256 seed) mod 2 ^ ?k"
  define net where "net = uint (clear_low ?k n)"
  define a where "a = Addr6 (word_of_int (net + host)) []"
  have host: "0 \<le> host" "host < 2 ^ ?k" by (simp_all add: host_def)
  note room = network_room [of ?b n]
  have lt: "0 \<le> net + host" "net + host < 2 ^ 128" using room(2) host assms(4) by (simp_all add: net_def)
  have u: "uint (word_of_int (net + host) :: u128) = net + host"
    using lt by (subst uint_word_of_int) (simp add: mod_pos_pos_trivial)
  have m: "Masked prefix = \<lparr>pfx_addr = Addr6 (clear_low ?k n) [], pfx_bits = ?b\<rparr>"
    using assms(2) by (cases prefix) (simp add: Masked_def)
  have div: "(net + host) div 2 ^ ?k = net div 2 ^ ?k"
  proof -
    have "2 ^ ?k dvd net" using room(1) assms(4) by (simp add: net_def dvd_eq_mod_eq_0)
    then show ?thesis using host by (auto elim!: dvdE)
  qed
  have "unat (word_of_int (net + host) :: u128) div 2 ^ ?k = unat (clear_low ?k n) div 2 ^ ?k"
  proof -
    have "int (unat (word_of_int (net + host) :: u128) div 2 ^ ?k) = int (unat (clear_low ?k n) div 2 ^ ?k)"
      using div u by (simp add: zdiv_int net_def)
    then show ?thesis by (simp only: of_nat_eq_iff)
  qed
  then have c: "Contains (Masked prefix) a"
    unfolding m a_def by (subst Contains_v6) (use assms(4) in simp_all)
  have big: "BigToAddr (net + host) = Some a" using lt by (simp add: BigToAddr_def a_def)
  have val: "AddrToBig a = net + host" by (simp only: a_def AddrToBig_def addr_value.simps u)
  have kinds: "IsValid a" "Is6 a" by (simp_all add: a_def)
  have net: "AddrToBig (pfx_addr (Masked prefix)) = net" by (simp add: m AddrToBig_def net_def)
  have "deriveSLAACAddress sha256 prefix seed =
      (case BigToAddr (net + host) of None \<Rightarrow> None | Some addr \<Rightarrow> if IsValidSLAACAddr addr prefix then Some addr else None)"
    using assms by (simp add: deriveSLAACAddress_def host_def net Let_def)
  then have derive: "deriveSLAACAddress sha256 prefix seed = (if IsValidSLAACAddr a prefix then Some a else None)"
    by (simp only: big option.case)
  have "net + host - net = host" by simp
  then have "IsValidSLAACAddr a prefix \<longleftrightarrow> host \<noteq> 0 \<and> host \<noteq> 2 ^ ?k - 1 \<and>
      (?b = 10 \<and> clear_low ?k n = push_bit 112 0xFE80 \<longrightarrow> IsLinkLocalUnicast6 a \<and> Contains linkLocal64Prefix a)"
    using assms(1,2,4) c val net host kinds
    by (simp add: IsValidSLAACAddr_def Let_def linkLocal10Prefix_def) (auto simp: m)
  then have valid: "IsValidSLAACAddr a prefix \<longleftrightarrow> \<not> (host = 0 \<or> host = 2 ^ ?k - 1) \<and>
      \<not> (?b = 10 \<and> clear_low 118 n = push_bit 112 0xFE80 \<and> \<not> (IsLinkLocalUnicast6 a \<and> Contains linkLocal64Prefix a))"
    by (cases "?b = 10") simp_all
  show ?thesis
    unfolding Let_def host_def [symmetric] net_def [symmetric] a_def [symmetric] derive
    using u c valid by simp
qed

lemma drop_bit_clear_low: "k \<le> j \<Longrightarrow> drop_bit j (clear_low k w) = drop_bit j w" for w :: "'a::len word"
  by (intro bit_word_eqI) (auto simp: clear_low_def bit_simps dest: bit_imp_le_length)

text \<open>C31: The SLAAC hint.  For a prefix shorter than 128 bits the derived address is the prefix's
  network plus the digest of the seed modulo the size of the network, an address of the prefix;
  it is refused exactly for the host numbers zero and all ones, and, below fe80::/10, outside
  fe80::/64.\<close>

theorem slaac_address_spec:
  assumes "pfx_valid prefix" and "pfx_addr prefix = Addr6 n z" and "seed \<noteq> []" and "pfx_bits prefix < 128"
  shows "let host = big_of_bytes (sha256 seed) mod 2 ^ (128 - pfx_bits prefix);
      net = uint (clear_low (128 - pfx_bits prefix) n); a = Addr6 (word_of_int (net + host)) [] in
    uint (word_of_int (net + host) :: u128) = net + host \<and> Contains (Masked prefix) a \<and>
    deriveSLAACAddress sha256 prefix seed =
      (if host = 0 \<or> host = 2 ^ (128 - pfx_bits prefix) - 1 then None
       else if pfx_bits prefix = 10 \<and> clear_low 118 n = push_bit 112 0xFE80 \<and>
         \<not> (IsLinkLocalUnicast6 a \<and> Contains linkLocal64Prefix a) then None else Some a)"
  using assms by (rule derive_slaac_cases)

theorem slaac_address_spec_witness:
  "deriveSLAACAddress (\<lambda>s. map of_char s) \<lparr>pfx_addr = Addr6 0x00050000000000000000000000000000 [], pfx_bits = 64\<rparr> ''A'' =
     Some (Addr6 0x00050000000000000000000000000041 [])"
proof -
  let ?p = "\<lparr>pfx_addr = Addr6 0x00050000000000000000000000000000 [], pfx_bits = 64\<rparr>"
  have "pfx_valid ?p" by (simp add: pfx_valid_def)
  moreover have "big_of_bytes (map of_char ''A'') mod 2 ^ (128 - 64) = 65"
    "uint (clear_low (128 - 64) (0x00050000000000000000000000000000 :: u128)) = 0x00050000000000000000000000000000"
    by code_simp+
  ultimately show ?thesis
    using slaac_address_spec [of ?p "0x00050000000000000000000000000000" "[]" "''A''" "\<lambda>s. map of_char s"]
    by (simp add: Let_def)
qed

section \<open>EUI-64 addresses\<close>

lemma canonical_eui64:
  assumes "pfx_valid p" and "pfx_addr p = Addr6 n z"
  shows "\<exists>m. canonicalEUI64Prefix p = \<lparr>pfx_addr = Addr6 m [], pfx_bits = 64\<rparr> \<and> clear_low 64 m = m \<and>
    (pfx_bits p \<le> 64 \<longrightarrow> drop_bit (128 - pfx_bits p) m = drop_bit (128 - pfx_bits p) n)"
proof -
  let ?b = "if pfx_bits p \<le> 0 \<or> pfx_bits p > 64 then 64 else pfx_bits p"
  let ?m1 = "clear_low (128 - ?b) (clear_low (128 - pfx_bits p) n)"
  let ?m = "if ?b = 64 then ?m1 else clear_low 64 ?m1"
  have b: "0 < ?b" "?b \<le> 64" by auto
  have canon: "canonicalEUI64Prefix p = \<lparr>pfx_addr = Addr6 ?m [], pfx_bits = 64\<rparr>"
    using assms by (auto simp: canonicalEUI64Prefix_def Masked_def PrefixFrom_def Let_def)
  have low: "clear_low 64 ?m = ?m" by (auto simp: not_le)
  have "drop_bit (128 - pfx_bits p) ?m = drop_bit (128 - pfx_bits p) n" if "pfx_bits p \<le> 64"
    using that assms(1) by (simp add: drop_bit_clear_low)
  with canon low show ?thesis by blast
qed

lemma derive_eui64:
  assumes "pfx_valid p" and "pfx_addr p = Addr6 n z" and "DeriveIPv6FromEUI64 (canonicalEUI64Prefix p) mac = Inr a"
  obtains w m m0 m1 m2 m3 m4 m5 where "a = Addr6 w []" "mac = [m0, m1, m2, m3, m4, m5]"
    "canonicalEUI64Prefix p = \<lparr>pfx_addr = Addr6 m [], pfx_bits = 64\<rparr>"
    "w = u128_of_bytes (take 8 (bytes_of_u128 m) @ [m0 XOR 2, m1, m2, 0xFF, 0xFE, m3, m4, m5])"
    "drop_bit 64 w = drop_bit 64 m"
proof -
  from canonical_eui64 [OF assms(1,2)] obtain m where m: "canonicalEUI64Prefix p = \<lparr>pfx_addr = Addr6 m [], pfx_bits = 64\<rparr>"
    "clear_low 64 m = m" by blast
  from assms(3) obtain m0 m1 m2 m3 m4 m5 where mac: "mac = [m0, m1, m2, m3, m4, m5]"
    by (auto simp: DeriveIPv6FromEUI64_def split: list.splits if_splits)
  let ?w = "u128_of_bytes (take 8 (bytes_of_u128 m) @ [m0 XOR 2, m1, m2, 0xFF, 0xFE, m3, m4, m5])"
  have "a = Addr6 ?w []"
    using assms(3) mac m by (auto simp: DeriveIPv6FromEUI64_def Masked_def split: if_splits)
  then show thesis using that mac m(1) drop_bit_replaced by simp
qed

text \<open>C32: EUI-64 addresses identify the client and stay in the pool's first /64.  Two clients with the
  same address in a pool have the same MAC address; for pools with at most 64 bits the address
  belongs to the pool; for longer prefixes it need not.\<close>

theorem eui64_address_identifies_client:
  assumes "pfx_valid p" and "pfx_addr p = Addr6 n z" and "DeriveIPv6FromEUI64 (canonicalEUI64Prefix p) mac = Inr a"
  shows "Contains (canonicalEUI64Prefix p) a \<and> (pfx_bits p \<le> 64 \<longrightarrow> Contains (Masked p) a) \<and>
    (\<forall>mac'. DeriveIPv6FromEUI64 (canonicalEUI64Prefix p) mac' = Inr a \<longrightarrow> mac' = mac)"
proof -
  from derive_eui64 [OF assms] obtain w m m0 m1 m2 m3 m4 m5 where a: "a = Addr6 w []" "mac = [m0, m1, m2, m3, m4, m5]"
    "canonicalEUI64Prefix p = \<lparr>pfx_addr = Addr6 m [], pfx_bits = 64\<rparr>"
    "w = u128_of_bytes (take 8 (bytes_of_u128 m) @ [m0 XOR 2, m1, m2, 0xFF, 0xFE, m3, m4, m5])"
    "drop_bit 64 w = drop_bit 64 m" .
  have con: "Contains \<lparr>pfx_addr = Addr6 k [], pfx_bits = b\<rparr> (Addr6 w []) \<longleftrightarrow> drop_bit (128 - b) w = drop_bit (128 - b) k"
    if "b \<le> 128" for k b
    using that drop_bit_xor_zero [of "128 - b" w k] by (simp add: Contains.simps pfx_valid_def)
  have first: "Contains (canonicalEUI64Prefix p) a" using a con [of 64 m] by simp
  have second: "Contains (Masked p) a" if b: "pfx_bits p \<le> 64"
  proof -
    from canonical_eui64 [OF assms(1,2)] a(3) b have m: "drop_bit (128 - pfx_bits p) m = drop_bit (128 - pfx_bits p) n" by auto
    have "drop_bit (128 - pfx_bits p) x = drop_bit (64 - pfx_bits p) (drop_bit 64 x)" for x :: u128
      using b by simp
    then have "drop_bit (128 - pfx_bits p) w = drop_bit (128 - pfx_bits p) n" using a(5) m by metis
    moreover have "Masked p = \<lparr>pfx_addr = Addr6 (clear_low (128 - pfx_bits p) n) [], pfx_bits = pfx_bits p\<rparr>"
      using assms(2) by (cases p) (simp add: Masked_def)
    ultimately show ?thesis using a(1) b con by (simp add: drop_bit_clear_low)
  qed
  have "mac' = mac" if "DeriveIPv6FromEUI64 (canonicalEUI64Prefix p) mac' = Inr a" for mac'
  proof -
    from derive_eui64 [OF assms(1,2) that] obtain w' m' k0 k1 k2 k3 k4 k5 where b: "a = Addr6 w' []" "mac' = [k0, k1, k2, k3, k4, k5]"
      "canonicalEUI64Prefix p = \<lparr>pfx_addr = Addr6 m' [], pfx_bits = 64\<rparr>"
      "w' = u128_of_bytes (take 8 (bytes_of_u128 m') @ [k0 XOR 2, k1, k2, 0xFF, 0xFE, k3, k4, k5])" .
    have "take 8 (bytes_of_u128 m) @ [m0 XOR 2, m1, m2, 0xFF, 0xFE, m3, m4, m5] =
        take 8 (bytes_of_u128 m') @ [k0 XOR 2, k1, k2, 0xFF, 0xFE, k3, k4, k5]"
      using a b by (intro u128_of_bytes_inj) simp_all
    then have eq: "m0 XOR 2 = k0 XOR 2" and rest: "[m1, m2, m3, m4, m5] = [k1, k2, k3, k4, k5]" by simp_all
    have "m0 = (m0 XOR 2) XOR 2" "k0 = (k0 XOR 2) XOR 2" by (simp_all add: ac_simps)
    then have "m0 = k0" using eq by metis
    then show ?thesis using a b rest by simp
  qed
  with first second show ?thesis by blast
qed

lemma eui64_total: "\<exists>a. DeriveIPv6FromEUI64 \<lparr>pfx_addr = Addr6 m [], pfx_bits = 64\<rparr> [m0, m1, m2, m3, m4, m5] = Inr a"
  by (simp add: DeriveIPv6FromEUI64_def pfx_valid_def)

theorem eui64_address_identifies_client_witness:
  "\<exists>a. DeriveIPv6FromEUI64 (canonicalEUI64Prefix \<lparr>pfx_addr = Addr6 0x00050000000000000000000000000000 [], pfx_bits = 48\<rparr>)
      [2, 0, 0, 0, 0, 7] = Inr a \<and>
    Contains (Masked \<lparr>pfx_addr = Addr6 0x00050000000000000000000000000000 [], pfx_bits = 48\<rparr>) a"
proof -
  let ?p = "\<lparr>pfx_addr = Addr6 0x00050000000000000000000000000000 [], pfx_bits = 48\<rparr>"
  have v: "pfx_valid ?p" by (simp add: pfx_valid_def)
  from canonical_eui64 [OF v] obtain m where m: "canonicalEUI64Prefix ?p = \<lparr>pfx_addr = Addr6 m [], pfx_bits = 64\<rparr>" by auto
  obtain a where "DeriveIPv6FromEUI64 \<lparr>pfx_addr = Addr6 m [], pfx_bits = 64\<rparr> [2, 0, 0, 0, 0, 7] = Inr a"
    using eui64_total by blast
  then have a: "DeriveIPv6FromEUI64 (canonicalEUI64Prefix ?p) [2, 0, 0, 0, 0, 7] = Inr a" by (simp only: m)
  have "pfx_addr ?p = Addr6 0x00050000000000000000000000000000 []" "pfx_bits ?p \<le> 64" by simp_all
  with eui64_address_identifies_client [OF v this(1) a] have "Contains (Masked ?p) a" by blast
  with a show ?thesis by blast
qed

end
