(* ===== verification/Dhcpv6_Handler.thy ===== *)
theory Dhcpv6_Handler
  imports Dhcpv6_Server Handler_Services Mobility Slaac
begin

text \<open>
  The DHCPv6 handler, \<^verbatim>\<open>internal/dhcpv6/handler.go\<close>: how a request becomes a pool, a
  lease profile, a preferred address, an allocation, a SLAAC hint and prefix delegations.

  The lease service is the modelled one, with the table of delegated prefixes and of EUI-64
  bindings.  Device detection and the
  compliance lookup are those of \<^verbatim>\<open>Mobility\<close>.  The pool service, the conflict probe and the digest
  are arguments.  An outcome is \<open>None\<close> only where the lease service's own search does
  not end.
\<close>

section \<open>Collaborators and state\<close>

record static_prefix =
  spPrefix :: string
  spLength :: byte
  spReason :: string

record 'r handler6_env =
  h6Svc :: "'r svc_env"
  h6Policy :: "policy_engine option"
  h6Pools :: "pool_service option"
  h6RelayAuth :: "authenticator option"
  h6RelaySel :: "selector option"
  h6Detector :: "detector option"
  h6Visit :: "attrs \<Rightarrow> string list"
  h6MDM :: "mdm_cache option"
  h6StaticPD :: "string \<rightharpoonup> static_prefix"
  h6ProbeTimeout :: duration
  h6Probe :: "string \<Rightarrow> duration \<Rightarrow> bool"
  h6Sha256 :: "string \<Rightarrow> bytes"

record 'r handler6_state =
  hsPD :: "'r pd_state"
  hsEui :: eui64_db
  hsEuiCache :: "string \<rightharpoonup> eui64_binding"
  hsSeen :: seen_psk
  hsRules :: rule_cache

datatype failure6 = Nack string | RelayFailure relay_error | ServiceFailure svc_error | OtherFailure string

section \<open>Static prefix bindings\<close>

text \<open>The entries of the configuration in the order in which the map is visited.\<close>

definition SetStaticPDBindings :: "(string \<times> static_prefix) list \<Rightarrow> string \<rightharpoonup> static_prefix" where
  "SetStaticPDBindings bindings =
     map_of (rev (filter (\<lambda>kv. fst kv \<noteq> []) (map (\<lambda>(k, v). (to_lower (trim_space k), v)) bindings)))"

definition static_from_text :: "string \<Rightarrow> string \<Rightarrow> static_prefix option" where
  "static_from_text reason text =
     (let trimmed = trim_space text in
      if trimmed = [] then None
      else case ParsePrefix trimmed of
        None \<Rightarrow> None
      | Some p \<Rightarrow> Some \<lparr>spPrefix = prefix_string (Masked p), spLength = of_nat (pfx_bits p), spReason = reason\<rparr>)"

definition SetStaticPDBindingsFromConfig :: "(string \<times> string) list \<Rightarrow> string \<rightharpoonup> static_prefix" where
  "SetStaticPDBindingsFromConfig bindings =
     SetStaticPDBindings (List.map_filter (\<lambda>(duid, prefix).
       map_option (Pair duid) (static_from_text ''static-config'' prefix)) bindings)"

definition SetIPv6ConflictProbeTimeout :: "duration \<Rightarrow> duration" where
  "SetIPv6ConflictProbeTimeout timeout = (if timeout \<le> 0 then second else timeout)"

section \<open>Pool selection\<close>

text \<open>\<^verbatim>\<open>fmt.Sprint\<close> of a decoded JSON value; objects print with sorted keys.\<close>

fun sprint :: "json \<Rightarrow> string" where
  "sprint JNull = ''<nil>''"
| "sprint (JBool b) = (if b then ''true'' else ''false'')"
| "sprint (JInt i) = json_int i"
| "sprint (JStr s) = s"
| "sprint (JArr vs) = ''['' @ join_with '' '' (map sprint vs) @ '']''"
| "sprint (JObj fs) = ''map['' @ join_with '' '' (map (\<lambda>(k, v). k @ '':'' @ sprint v) fs) @ '']''"

definition toStringAny :: "json option \<Rightarrow> string" where
  "toStringAny value = (case value of None \<Rightarrow> [] | Some JNull \<Rightarrow> [] | Some v \<Rightarrow> sprint v)"

definition toIntAny :: "json option \<Rightarrow> int" where
  "toIntAny value =
     (case value of
        None \<Rightarrow> 0
      | Some JNull \<Rightarrow> 0
      | Some v \<Rightarrow>
          let s = trim_space (sprint v) in
          if s = [] then 0 else (case Atoi s of None \<Rightarrow> 0 | Some i \<Rightarrow> i))"

definition relayInterfaceID :: "relay_metadata \<Rightarrow> string" where
  "relayInterfaceID meta =
     (if trim_space (rmCircuitID meta) \<noteq> [] then trim_space (rmCircuitID meta)
      else trim_space (Attribute meta [''interface-id'', ''agent.circuit-id'']))"

definition relayRemoteID :: "relay_metadata \<Rightarrow> string" where
  "relayRemoteID meta =
     (if trim_space (rmRemoteID meta) \<noteq> [] then trim_space (rmRemoteID meta)
      else trim_space (Attribute meta [''remote-id'', ''agent.remote-id'']))"

definition relayRuleMatched :: "(string \<times> json) list \<Rightarrow> relay_metadata \<Rightarrow> bool" where
  "relayRuleMatched match meta =
     (let wants = (\<lambda>key actual. let want = trim_space (toStringAny (map_of match key)) in
            want = [] \<or> equal_fold want actual);
          wantVLAN = toIntAny (map_of match ''vlanId'') in
      match \<noteq> [] \<and> wants ''tenantId'' (rmTenantID meta) \<and> wants ''relayId'' (rmRelayID meta) \<and>
      wants ''giaddr'' (rmGIAddr meta) \<and> wants ''interfaceId'' (relayInterfaceID meta) \<and>
      wants ''circuitId'' (relayInterfaceID meta) \<and> wants ''remoteId'' (relayRemoteID meta) \<and>
      \<not> (wantVLAN > 0 \<and> rmVLANID meta \<noteq> wantVLAN))"

definition relay_rule_pool :: "relay_metadata \<Rightarrow> json \<Rightarrow> string option" where
  "relay_rule_pool meta item =
     (case item of
        JObj rule \<Rightarrow>
          let rule = obj_map rule;
              poolId = trim_space (toStringAny (map_of rule ''poolId''));
              poolId = (if poolId = [] then trim_space (toStringAny (map_of rule ''pool'')) else poolId);
              match = (case map_of rule ''match'' of Some (JObj typed) \<Rightarrow> obj_map typed | _ \<Rightarrow> rule) in
          if poolId = [] then None else if relayRuleMatched match meta then Some poolId else None
      | _ \<Rightarrow> None)"

definition resolveRelayPoolRuleList :: "json option \<Rightarrow> relay_metadata \<Rightarrow> string" where
  "resolveRelayPoolRuleList raw meta =
     (case raw of
        Some (JArr rules) \<Rightarrow> (case List.map_filter (relay_rule_pool meta) rules of [] \<Rightarrow> [] | p # _ \<Rightarrow> p)
      | _ \<Rightarrow> [])"

text \<open>Of several keys that agree up to case the first in key order is taken.\<close>

definition stringMapLookup :: "json option \<Rightarrow> string \<Rightarrow> string" where
  "stringMapLookup raw key =
     (let key = trim_space (to_lower key) in
      if key = [] then []
      else case raw of
        Some (JObj typed) \<Rightarrow>
          (case find (\<lambda>(k, v). equal_fold (trim_space k) key) (obj_map typed) of
             Some (k, v) \<Rightarrow> trim_space (toStringAny (Some v))
           | None \<Rightarrow> [])
      | _ \<Rightarrow> [])"

definition first_nonempty :: "string list \<Rightarrow> string" where
  "first_nonempty ss = (case filter (\<lambda>s. s \<noteq> []) ss of [] \<Rightarrow> [] | s # _ \<Rightarrow> s)"

definition resolveRelayPoolFromPolicyMetadata :: "(string \<times> json) list \<Rightarrow> relay_metadata \<Rightarrow> string" where
  "resolveRelayPoolFromPolicyMetadata md meta =
     (if md = [] then []
      else first_nonempty
        [resolveRelayPoolRuleList (map_of md ''relayPoolRules'') meta,
         resolveRelayPoolRuleList (map_of md ''relaySelectionRules'') meta,
         stringMapLookup (map_of md ''relayPoolByInterface'') (to_lower (relayInterfaceID meta)),
         stringMapLookup (map_of md ''poolByInterface'') (to_lower (relayInterfaceID meta)),
         stringMapLookup (map_of md ''relayPoolByRemote'') (to_lower (relayRemoteID meta)),
         stringMapLookup (map_of md ''poolByRemote'') (to_lower (relayRemoteID meta))])"

definition resolvePoolSelector ::
  "'r handler6_env \<Rightarrow> string \<Rightarrow> pool_selector option \<Rightarrow> relay_metadata \<Rightarrow> (string \<times> json) list \<Rightarrow> string" where
  "resolvePoolSelector env tenantID sel meta md =
     (let byRule = resolveRelayPoolFromPolicyMetadata md meta;
          bySelector = (case (sel, h6Pools env) of
              (Some s, Some ps) \<Rightarrow>
                psResolvePool ps (NewResourceScope [] tenantID)
                  (if trim_space (pslInterfaceID s) = [] then s\<lparr>pslInterfaceID := relayInterfaceID meta\<rparr> else s)
            | _ \<Rightarrow> None) in
      if byRule \<noteq> [] then byRule
      else case bySelector of
        Some pool \<Rightarrow> poolID pool
      | None \<Rightarrow>
          (case h6RelaySel env of
             Some rs \<Rightarrow> (case Resolve rs meta of Some p \<Rightarrow> p | None \<Rightarrow> [])
           | None \<Rightarrow> []))"

section \<open>The lease profile of the pool\<close>

definition resolvePoolLeaseProfile :: "'r handler6_env \<Rightarrow> string \<Rightarrow> string \<Rightarrow> lease_profile \<Rightarrow> lease_profile" where
  "resolvePoolLeaseProfile env tenantID pid fallback =
     (case h6Pools env of
        None \<Rightarrow> fallback
      | Some ps \<Rightarrow>
          let tenant = trim_space tenantID; pid = trim_space pid; scope = NewResourceScope tenant tenant in
          if tenant = [] \<or> pid = [] then fallback
          else case psGetPool ps scope pid of
            None \<Rightarrow> fallback
          | Some pool \<Rightarrow>
              let resolved = (if poolMinLeaseTime pool > 0
                    then fallback\<lparr>profDefaultDuration := poolMinLeaseTime pool * second\<rparr> else fallback);
                  resolved = (if poolMaxLeaseTime pool > 0
                    then resolved\<lparr>profMaxDuration := poolMaxLeaseTime pool * second\<rparr> else resolved);
                  resolved = (if profMaxDuration resolved > 0 \<and> profDefaultDuration resolved > profMaxDuration resolved
                    then resolved\<lparr>profDefaultDuration := profMaxDuration resolved\<rparr> else resolved);
                  profileID = trim_space (poolLeaseProfileID pool) in
              if poolMinLeaseTime pool > 0 \<or> poolMaxLeaseTime pool > 0 then resolved
              else if profileID = [] then resolved
              else case psGetLeaseProfile ps scope profileID of
                None \<Rightarrow> resolved
              | Some profile \<Rightarrow>
                  profile\<lparr>profDefaultDuration := (if profDefaultDuration profile \<le> 0 then profDefaultDuration fallback
                              else profDefaultDuration profile),
                          profMaxDuration := (if profMaxDuration profile \<le> 0 then profMaxDuration fallback
                              else profMaxDuration profile)\<rparr>)"

section \<open>EUI-64 binding of a client\<close>

definition validateRequestedAddress :: "packet6 \<Rightarrow> string \<Rightarrow> failure6 option" where
  "validateRequestedAddress pkt boundAddr =
     (case pkIAAddr pkt of
        None \<Rightarrow> None
      | Some a \<Rightarrow>
          let req = to_lower (trim_space (ip_string a)); bound = to_lower (trim_space boundAddr) in
          if req = [] \<or> bound = [] \<or> req = bound then None
          else Some (Nack ''dhcpv6 nack: requested address does not match bound eui64 address''))"

definition eui64BindingCacheKey :: "string \<Rightarrow> string \<Rightarrow> string \<Rightarrow> string" where
  "eui64BindingCacheKey tenantID mac prefix =
     to_lower (trim_space tenantID) @ ''|'' @ to_lower (trim_space mac) @ ''|'' @ trim_space prefix"

definition new_eui64_binding ::
  "gotime \<Rightarrow> 'r handler6_env \<Rightarrow> access_scope \<Rightarrow> string \<Rightarrow> string \<Rightarrow> prefix \<Rightarrow> packet6 \<Rightarrow> 'r handler6_state
     \<Rightarrow> (failure6 + string) \<times> 'r handler6_state" where
  "new_eui64_binding now env scope mac cacheKey euiPrefix pkt st =
     (case DeriveIPv6FromEUI64 euiPrefix (pkClientMAC pkt) of
        Inl e \<Rightarrow> (Inl (OtherFailure e), st)
      | Inr addr \<Rightarrow>
          let a = addr_string addr;
              timeout = (if h6ProbeTimeout env \<le> 0 then second else h6ProbeTimeout env);
              create =
                (if h6Probe env a timeout then (Inl (Nack ''dhcpv6 nack: ipv6 address conflict detected''), st)
                 else case CreateIPv6EUI64Binding now scope
                   \<lparr>ebTenantID = [], ebMAC = mac, ebPrefix = prefix_string euiPrefix, ebIPv6Addr = a,
                    ebLeaseTime = 365 * 24 * hour, ebCreatedAt = zero_time, ebUpdatedAt = zero_time\<rparr> (hsEui st) of
                   (Inl e, db) \<Rightarrow> (Inl (ServiceFailure e), st\<lparr>hsEui := db\<rparr>)
                 | (Inr created, db) \<Rightarrow>
                     (Inr a, st\<lparr>hsEui := db, hsEuiCache := (hsEuiCache st)(cacheKey \<mapsto> created)\<rparr>)) in
          case validateRequestedAddress pkt a of
            Some e \<Rightarrow> (Inl e, st)
          | None \<Rightarrow>
              (case FindIPv6EUI64BindingByIPv6Addr (hsEui st) scope (prefix_string euiPrefix) a of
                 Inr owner \<Rightarrow>
                   if \<not> equal_fold (ebMAC owner) mac
                   then (Inl (Nack ''dhcpv6 nack: address already bound to another mac''), st)
                   else create
               | Inl e \<Rightarrow> if e \<noteq> ErrRepo ErrNotFound then (Inl (ServiceFailure e), st) else create))"

definition resolveEUI64IPv6Binding ::
  "gotime \<Rightarrow> 'r handler6_env \<Rightarrow> access_scope \<Rightarrow> string \<Rightarrow> packet6 \<Rightarrow> 'r handler6_state
     \<Rightarrow> (failure6 + string) \<times> 'r handler6_state" where
  "resolveEUI64IPv6Binding now env scope pid pkt st =
     (case h6Pools env of
        None \<Rightarrow> (Inr [], st)
      | Some ps \<Rightarrow>
          let tenantID = trim_space (TenantOrDefault scope) in
          if pkClientMAC pkt = [] \<or> trim_space pid = [] \<or> tenantID = [] then (Inr [], st)
          else case psGetPool ps (NewResourceScope tenantID tenantID) pid of
            None \<Rightarrow> (Inr [], st)
          | Some pool \<Rightarrow>
              (case ParsePrefix (trim_space (poolCIDR pool)) of
                 None \<Rightarrow> (Inr [], st)
               | Some prefix \<Rightarrow>
                   if \<not> Is6 (pfx_addr prefix) then (Inr [], st)
                   else
                     let euiPrefix = canonicalEUI64Prefix prefix;
                         mac = to_lower (trim_space (hw_string (pkClientMAC pkt)));
                         cacheKey = eui64BindingCacheKey tenantID mac (prefix_string euiPrefix);
                         answer = (\<lambda>b st. case validateRequestedAddress pkt (ebIPv6Addr b) of
                            Some e \<Rightarrow> (Inl e, st) | None \<Rightarrow> (Inr (ebIPv6Addr b), st)) in
                     case hsEuiCache st cacheKey of
                       Some b \<Rightarrow> answer b st
                     | None \<Rightarrow>
                         (case FindIPv6EUI64BindingByMAC (hsEui st) scope mac (prefix_string euiPrefix) of
                            Inr b \<Rightarrow> answer b (st\<lparr>hsEuiCache := (hsEuiCache st)(cacheKey \<mapsto> b)\<rparr>)
                          | Inl e \<Rightarrow>
                              if e \<noteq> ErrRepo ErrNotFound then (Inl (ServiceFailure e), st)
                              else new_eui64_binding now env scope mac cacheKey euiPrefix pkt st)))"

section \<open>Prefix delegation and SLAAC\<close>

text \<open>The pages of active prefix leases, 256 rows each, are searched for another holder of the
  prefix.\<close>

definition prefix_taken_by_other :: "string \<Rightarrow> u32 \<Rightarrow> string \<Rightarrow> prefix_lease \<Rightarrow> bool" where
  "prefix_taken_by_other duid iapdID prefix l \<longleftrightarrow>
     equal_fold (prefix_key l) prefix \<and> \<not> (plClientID l = duid \<and> plIAPDID l = iapdID)"

lemma ListPrefixLeases_length: "length (ListPrefixLeases db s 256 (int offset)) \<le> length db - offset"
proof -
  have "length (filter (\<lambda>r. s = [] \<or> sql_eq (plState r) s) db) - offset \<le> length db - offset"
    by (intro diff_le_mono length_filter_le)
  then show ?thesis unfolding ListPrefixLeases_def Let_def by (auto simp: min_def)
qed

function conflict_pages :: "prefix_db \<Rightarrow> string \<Rightarrow> u32 \<Rightarrow> string \<Rightarrow> nat \<Rightarrow> bool" where
  "conflict_pages db duid iapdID prefix offset =
     (let leases = ListPrefixLeases db ''ACTIVE'' 256 (int offset) in
      if list_ex (prefix_taken_by_other duid iapdID prefix) leases then True
      else if length leases < 256 then False
      else conflict_pages db duid iapdID prefix (offset + length leases))"
  by pat_completeness auto

termination
proof (relation "measure (\<lambda>(db, duid, iapd, prefix, offset). length db - offset)")
  fix db :: prefix_db and duid prefix :: string and iapdID :: u32 and offset :: nat and leases
  assume leases: "leases = ListPrefixLeases db ''ACTIVE'' 256 (int offset)" "\<not> length leases < 256"
  then have "256 \<le> length db - offset" using ListPrefixLeases_length [of db "''ACTIVE''" offset] by simp
  then have "offset < length db" "0 < length leases" using leases by linarith+
  then show "((db, duid, iapdID, prefix, offset + length leases), db, duid, iapdID, prefix, offset)
      \<in> measure (\<lambda>(db, duid, iapd, prefix, offset). length db - offset)"
    by (simp add: diff_less_mono2)
qed simp

declare conflict_pages.simps [simp del]

definition rejectStaticPrefixConflict ::
  "access_scope \<Rightarrow> string \<Rightarrow> u32 \<Rightarrow> string \<Rightarrow> prefix_db \<Rightarrow> failure6 option" where
  "rejectStaticPrefixConflict scope duid iapdID prefix db =
     (let prefix = trim_space prefix in
      if prefix = [] then None
      else case tenantFromScope scope of
        Inl e \<Rightarrow> Some (ServiceFailure e)
      | Inr _ \<Rightarrow>
          if conflict_pages db duid iapdID prefix 0
          then Some (OtherFailure (''dhcpv6 static pd prefix conflict: '' @ prefix @ '' already allocated'')) else None)"

definition staticPrefixFromPolicy :: "policy_decision option \<Rightarrow> static_prefix option" where
  "staticPrefixFromPolicy decision =
     (case decision of
        None \<Rightarrow> None
      | Some d \<Rightarrow>
          (case (case map_of (decMetadata d) ''staticPrefix'' of Some v \<Rightarrow> Some v | None \<Rightarrow> map_of (decMetadata d) ''pdStaticPrefix'') of
             None \<Rightarrow> None
           | Some raw \<Rightarrow> static_from_text ''static-policy'' (sprint raw)))"

definition decoded_raw :: "raw_json \<Rightarrow> json option" where
  "decoded_raw raw = (case raw of RawEmpty \<Rightarrow> None | RawCanonical v \<Rightarrow> Some v | RawOther v \<Rightarrow> v)"

definition staticPrefixFromBinding :: "raw_json \<Rightarrow> static_prefix option" where
  "staticPrefixFromBinding metadata =
     (case unmarshal_map (decoded_raw metadata) of
        None \<Rightarrow> None
      | Some decoded \<Rightarrow>
          (case (case map_of decoded ''pdPrefix'' of Some v \<Rightarrow> Some v | None \<Rightarrow> map_of decoded ''staticPrefix'') of
             None \<Rightarrow> None
           | Some raw \<Rightarrow> static_from_text ''static-binding'' (sprint raw)))"

definition resolveStaticPrefixDelegation ::
  "'r handler6_env \<Rightarrow> access_scope \<Rightarrow> string \<Rightarrow> prefix_request \<Rightarrow> policy_decision option \<Rightarrow> prefix_db
     \<Rightarrow> failure6 + static_prefix option" where
  "resolveStaticPrefixDelegation env scope duid req decision db =
     (let checked = (\<lambda>s. case rejectStaticPrefixConflict scope duid (prIAPDID req) (spPrefix s) db of
            Some e \<Rightarrow> Inl e | None \<Rightarrow> Inr (Some s)) in
      case h6StaticPD env (to_lower (trim_space duid)) of
        Some s \<Rightarrow> map_sum id (map_option (\<lambda>s. if trim_space (spReason s) = [] then s\<lparr>spReason := ''static-config''\<rparr> else s)) (checked s)
      | None \<Rightarrow>
          (case staticPrefixFromPolicy decision of
             Some s \<Rightarrow> checked s
           | None \<Rightarrow>
               (case h6Pools env of
                  None \<Rightarrow> Inr None
                | Some ps \<Rightarrow>
                    (case psFindBinding ps scope duid of
                       None \<Rightarrow> Inr None
                     | Some b \<Rightarrow>
                         (case staticPrefixFromBinding (bindMetadata b) of
                            None \<Rightarrow> Inr None
                          | Some s \<Rightarrow> checked s)))))"

definition static_request ::
  "'r handler6_env \<Rightarrow> access_scope \<Rightarrow> string \<Rightarrow> string \<Rightarrow> policy_decision option \<Rightarrow> prefix_db \<Rightarrow> prefix_request
     \<Rightarrow> failure6 + prefix_request" where
  "static_request env scope duid poolCIDRText decision db req =
     (case resolveStaticPrefixDelegation env scope duid req decision db of
        Inl e \<Rightarrow> Inl e
      | Inr None \<Rightarrow> Inr req
      | Inr (Some s) \<Rightarrow>
          (case ParsePrefix (spPrefix s) of
             None \<Rightarrow> Inl (OtherFailure ''invalid static prefix'')
           | Some p \<Rightarrow>
               if \<not> Is6 (pfx_addr p) then Inl (OtherFailure (''dhcpv6 static prefix must be ipv6: '' @ spPrefix s))
               else (case ParsePrefix (trim_space poolCIDRText) of
                   None \<Rightarrow> Inl (OtherFailure (''dhcpv6 invalid pool cidr for static pd: '' @ poolCIDRText))
                 | Some pool \<Rightarrow>
                     if \<not> Is6 (pfx_addr pool)
                     then Inl (OtherFailure (''dhcpv6 invalid pool cidr for static pd: '' @ poolCIDRText))
                     else if \<not> Contains (Masked pool) (pfx_addr (Masked p))
                     then Inl (OtherFailure (''dhcpv6 static prefix '' @ spPrefix s @ '' outside pool '' @ poolCIDRText))
                     else Inr (req\<lparr>prPrefix := (case ParseIP_bytes (addr_string (pfx_addr (Masked p))) of None \<Rightarrow> [] | Some b \<Rightarrow> b),
                                   prPrefixLength := (if spLength s > 0 then spLength s else of_nat (pfx_bits p))\<rparr>))))"

fun static_requests ::
  "'r handler6_env \<Rightarrow> access_scope \<Rightarrow> string \<Rightarrow> string \<Rightarrow> policy_decision option \<Rightarrow> prefix_db \<Rightarrow> prefix_request list
     \<Rightarrow> failure6 + prefix_request list" where
  "static_requests env scope duid cidr decision db [] = Inr []"
| "static_requests env scope duid cidr decision db (req # reqs) =
     (case static_request env scope duid cidr decision db req of
        Inl e \<Rightarrow> Inl e
      | Inr r \<Rightarrow> map_sum id ((#) r) (static_requests env scope duid cidr decision db reqs))"

definition attachPrefixDelegation ::
  "gotime \<Rightarrow> 'r handler6_env \<Rightarrow> access_scope \<Rightarrow> result6 \<Rightarrow> packet6 \<Rightarrow> lease_profile \<Rightarrow> policy_decision option
     \<Rightarrow> 'r handler6_state \<Rightarrow> (failure6 + result6) \<times> 'r handler6_state" where
  "attachPrefixDelegation now env scope result pkt profile decision st =
     (case r6Pool result of
        None \<Rightarrow> (Inr result, st)
      | Some pool \<Rightarrow>
          if pkPrefixRequests pkt = [] then (Inr result, st)
          else (case static_requests env scope (pkDUID pkt) (poolCIDR pool) decision (pdRows (hsPD st)) (pkPrefixRequests pkt) of
              Inl e \<Rightarrow> (Inl e, st)
            | Inr requests \<Rightarrow>
                (case AllocateOrReusePrefixes now (h6Svc env) scope (pkDUID pkt) profile (Some pool) requests (hsPD st) of
                   (Inl e, pd) \<Rightarrow> (Inl (ServiceFailure e), st\<lparr>hsPD := pd\<rparr>)
                 | (Inr delegations, pd) \<Rightarrow> (Inr (result\<lparr>r6PrefixDelegations := delegations\<rparr>), st\<lparr>hsPD := pd\<rparr>))))"

definition attachSLAAC :: "(string \<Rightarrow> bytes) \<Rightarrow> result6 \<Rightarrow> packet6 \<Rightarrow> lease_profile \<Rightarrow> result6" where
  "attachSLAAC sha256 result pkt profile =
     (case r6Pool result of
        None \<Rightarrow> result
      | Some pool \<Rightarrow>
          if \<not> pkSupportsSLAAC pkt then result
          else (case ParsePrefix (poolCIDR pool) of
              None \<Rightarrow> result
            | Some prefix \<Rightarrow>
                if \<not> Is6 (pfx_addr prefix) then result
                else (case buildSLAACSeed pkt of
                    None \<Rightarrow> result
                  | Some seed \<Rightarrow>
                      (case deriveSLAACAddress sha256 prefix seed of
                         None \<Rightarrow> result
                       | Some addr \<Rightarrow>
                           let preferred = (if profDefaultDuration profile \<le> 0 then hour else profDefaultDuration profile);
                               valid = (if profMaxDuration profile < preferred then preferred * 2 else profMaxDuration profile) in
                           result\<lparr>r6SLAAC := Some \<lparr>slPrefix = prefix_string prefix, slAddress = addr_string addr,
                             slPreferredLifetime = preferred, slValidLifetime = valid\<rparr>\<rparr>))))"

section \<open>Requests\<close>

text \<open>The compliance cache is as the last synchronisation left it.  A lookup also drops the record it
  finds expired; the model does not write that back, since no later lookup finds it either.\<close>

definition lookupComplianceMetadata :: "gotime \<Rightarrow> 'r handler6_env \<Rightarrow> string \<Rightarrow> packet6 \<Rightarrow> compliance_metadata" where
  "lookupComplianceMetadata now env tenantID pkt =
     (let none = metaCompliance empty_metadata;
          deviceID = (if pkDUID pkt = [] \<and> pkClientMAC pkt \<noteq> [] then to_lower (hw_string (pkClientMAC pkt)) else pkDUID pkt) in
      case h6MDM env of
        None \<Rightarrow> none
      | Some c \<Rightarrow>
          (case fst (LookupMDM now tenantID deviceID c) of
             None \<Rightarrow> none
           | Some r \<Rightarrow> \<lparr>cmValid = True, cmManaged = crManaged r, cmSource = crSource r, cmTags = crTags r,
               cmObservedAt = crObservedAt r\<rparr>))"

definition relayPolicyAttributes :: "packet6 \<Rightarrow> string \<rightharpoonup> json" where
  "relayPolicyAttributes pkt =
     (let attrs = [''iaid'' \<mapsto> JInt (uint (pkIAID pkt))] ++ (\<lambda>k. map_option JStr (pkRelayInfo pkt k));
          attrs = (case pkLinkAddr pkt of
            None \<Rightarrow> attrs
          | Some a \<Rightarrow>
              let addr = ip_string a; attrs = attrs(''link-addr'' \<mapsto> JStr addr) in
              if attrs ''giaddr'' = None then attrs(''giaddr'' \<mapsto> JStr addr) else attrs) in
      case pkPeerAddr pkt of None \<Rightarrow> attrs | Some a \<Rightarrow> attrs(''peer-addr'' \<mapsto> JStr (ip_string a)))"

definition deviceClassification :: "'r handler6_env \<Rightarrow> packet6 \<Rightarrow> string \<times> string \<times> string list" where
  "deviceClassification env pkt =
     (let deviceType = ClassifyDeviceType (pkVendorClass pkt) (pkUserClass pkt) (pkRelayInfo pkt) in
      case Match (h6Visit env) (h6Detector env)
          \<lparr>dsVendorClass = pkVendorClass pkt, dsUserClass = pkUserClass pkt, dsRelayInfo = pkRelayInfo pkt,
           dsMAC = pkClientMAC pkt, dsOption55 = []\<rparr> of
        None \<Rightarrow> (deviceType, [], [])
      | Some m \<Rightarrow> (if pmPlatform m \<noteq> [] then pmPlatform m else deviceType, pmPersona m, pmTags m))"

definition policy_input6 :: "gotime \<Rightarrow> 'r handler6_env \<Rightarrow> string \<Rightarrow> packet6 \<Rightarrow> policy_input" where
  "policy_input6 now env tenantID pkt =
     (case deviceClassification env pkt of
        (deviceType, persona, tags) \<Rightarrow>
          let info = pkRelayInfo pkt; compliance = lookupComplianceMetadata now env tenantID pkt in
          \<lparr>inTenantID = tenantID, inMAC = [], inClientID = pkDUID pkt, inUserID = DeriveUserID info,
           inDeviceType = deviceType, inDevicePersona = persona, inDeviceTags = tags,
           inMDMManaged = (cmValid compliance \<and> cmManaged compliance),
           inUserGroups = DeriveUserGroups (pkUserClass pkt) info, inLocation = DeriveLocation info,
           inVLANID = parseRelayVLAN info, inSSID = DeriveSSID info, inAccessPointID = DeriveAccessPointID info,
           inControllerID = DeriveControllerID info, inGeoZone = DeriveGeoZone info,
           inRelayInfo = relayPolicyAttributes pkt, inVendorClass = pkVendorClass pkt, inUserClass = pkUserClass pkt,
           inOption60 = [], inOption82 = info, inIPv4Class = [], inIsBOOTP = False,
           inSupportsSLAAC = pkSupportsSLAAC pkt, inTimestamp = now\<rparr>)"

text \<open>The policy decision, if there is one; a failed evaluation is only logged.\<close>

definition decide6 :: "gotime \<Rightarrow> 'r handler6_env \<Rightarrow> string \<Rightarrow> packet6 \<Rightarrow> 'r handler6_state \<Rightarrow> policy_decision option \<times> 'r handler6_state" where
  "decide6 now env tenantID pkt st =
     (case h6Policy env of
        None \<Rightarrow> (None, st)
      | Some pe \<Rightarrow>
          (case Evaluate (peParseTime pe) (peListRules pe) (peArrange pe) now (policy_input6 now env tenantID pkt) (hsRules st) of
             (Inl _, cache) \<Rightarrow> (None, st\<lparr>hsRules := cache\<rparr>)
           | (Inr d, cache) \<Rightarrow> (Some d, st\<lparr>hsRules := cache\<rparr>)))"

definition choose_pool6 :: "'r handler6_env \<Rightarrow> string \<Rightarrow> relay_metadata \<Rightarrow> policy_decision option \<Rightarrow> string" where
  "choose_pool6 env tenantID meta decision =
     (let pid = (case decision of
            None \<Rightarrow> []
          | Some d \<Rightarrow> if decPoolID d \<noteq> [] then decPoolID d
                      else resolvePoolSelector env tenantID (decPoolSelector d) meta (decMetadata d));
          pid = (if pid = [] then
                   (case h6RelaySel env of
                      None \<Rightarrow> []
                    | Some rs \<Rightarrow> (case Resolve rs meta of Some p \<Rightarrow> p | None \<Rightarrow> []))
                 else pid) in
      if pid = [] then ''default-v6'' else pid)"

definition session_entries :: "(string \<times> string) list \<Rightarrow> (string \<times> json) list" where
  "session_entries kvs = fold (\<lambda>(k, v) m. if v = [] then m else obj_put k (JStr v) m) kvs []"

definition allocation_metadata6 :: "gotime \<Rightarrow> 'r handler6_env \<Rightarrow> string \<Rightarrow> packet6 \<Rightarrow> string \<Rightarrow> allocation_metadata" where
  "allocation_metadata6 now env tenantID pkt ip =
     (let info = pkRelayInfo pkt; anchor = DeriveMobilityAnchorID info; geo = DeriveGeoZone info; ctl = DeriveControllerID info in
      \<lparr>metaUserID = DeriveUserID info,
       metaMobility = \<lparr>mmAnchorID = anchor, mmAccessPointID = DeriveAccessPointID info, mmControllerID = ctl,
         mmGeoZone = geo, mmLocationHint = DeriveLocation info,
         mmSessionContinuity = session_entries [(''anchorId'', anchor), (''linkAddr'', ip), (''geoZone'', geo), (''controllerId'', ctl)]\<rparr>,
       metaCompliance = lookupComplianceMetadata now env tenantID pkt\<rparr>)"

definition result6_of :: "lease_result \<Rightarrow> result6" where
  "result6_of r = \<lparr>r6Lease = Some (resLease r), r6Reused = resReused r, r6Profile = resProfile r, r6Pool = Some (resPool r),
     r6SLAAC = None, r6PrefixDelegations = []\<rparr>"

definition allocate6 ::
  "gotime \<Rightarrow> 'r handler6_env \<Rightarrow> string \<Rightarrow> packet6 \<Rightarrow> lease_profile \<Rightarrow> string \<Rightarrow> string \<Rightarrow> policy_decision option
     \<Rightarrow> 'r handler6_state \<Rightarrow> ((failure6 + result6) \<times> 'r handler6_state) option" where
  "allocate6 now env tenantID pkt profile pid ip decision st =
     (let scope = NewResourceScope tenantID tenantID in
      case AllocateOrReuseWithMetadata now (h6Svc env) scope (pkDUID pkt) profile pid ip
        (allocation_metadata6 now env tenantID pkt ip) (pdSvc (hsPD st)) of
        None \<Rightarrow> None
      | Some (Inl e, svc) \<Rightarrow> Some (Inl (ServiceFailure e), st\<lparr>hsPD := (hsPD st)\<lparr>pdSvc := svc\<rparr>\<rparr>)
      | Some (Inr r, svc) \<Rightarrow>
          Some (attachPrefixDelegation now env scope (attachSLAAC (h6Sha256 env) (result6_of r) pkt profile) pkt profile decision
            (st\<lparr>hsPD := (hsPD st)\<lparr>pdSvc := svc\<rparr>\<rparr>)))"

text \<open>The address asked for: the client's, else the relay's link address.\<close>

definition preferred_ip6 :: "packet6 \<Rightarrow> string" where
  "preferred_ip6 pkt =
     (case pkIAAddr pkt of
        Some a \<Rightarrow> ip_string a
      | None \<Rightarrow> (case pkLinkAddr pkt of Some a \<Rightarrow> ip_string a | None \<Rightarrow> []))"

definition relay_meta6 :: "string \<Rightarrow> packet6 \<Rightarrow> string list \<Rightarrow> relay_metadata" where
  "relay_meta6 tenantID pkt groups =
     BuildMetadata tenantID (pkLinkAddr pkt) (pkRelayInfo pkt) (parseRelayVLAN (pkRelayInfo pkt)) groups"

definition HandleRequest6_impl ::
  "gotime \<Rightarrow> 'r handler6_env \<Rightarrow> string \<Rightarrow> packet6 \<Rightarrow> 'r handler6_state \<Rightarrow> ((failure6 + result6) \<times> 'r handler6_state) option" where
  "HandleRequest6_impl now env tenantID pkt st =
     (let meta = relay_meta6 tenantID pkt (DeriveUserGroups (pkUserClass pkt) (pkRelayInfo pkt)) in
      case Authorize now (h6RelayAuth env) meta (hsSeen st) of
        (Some e, seen) \<Rightarrow> Some (Inl (RelayFailure e), st\<lparr>hsSeen := seen\<rparr>)
      | (None, seen) \<Rightarrow>
          (case decide6 now env tenantID pkt (st\<lparr>hsSeen := seen\<rparr>) of
             (decision, st) \<Rightarrow>
               let pid = choose_pool6 env tenantID meta decision;
                   profile = (case decision of
                     None \<Rightarrow> empty_profile\<lparr>profDefaultDuration := 12 * hour\<rparr> | Some d \<Rightarrow> decLeaseProfile d);
                   profile = resolvePoolLeaseProfile env tenantID pid profile in
               case resolveEUI64IPv6Binding now env (NewResourceScope tenantID tenantID) pid pkt st of
                 (Inl e, st) \<Rightarrow> Some (Inl e, st)
               | (Inr eui, st) \<Rightarrow>
                   allocate6 now env tenantID pkt profile pid (if eui \<noteq> [] then eui else preferred_ip6 pkt) decision st))"

definition confirmAddressWithinPool :: "string \<Rightarrow> bytes \<Rightarrow> bool" where
  "confirmAddressWithinPool cidr clientAddr =
     (case ParsePrefix (trim_space cidr) of
        None \<Rightarrow> False
      | Some prefix \<Rightarrow>
          if \<not> Is6 (pfx_addr prefix) then False
          else (case AddrFromSlice clientAddr of
              None \<Rightarrow> False
            | Some addr \<Rightarrow> Is6 addr \<and> Contains (Masked prefix) addr))"

definition HandleConfirm6_impl ::
  "gotime \<Rightarrow> 'r handler6_env \<Rightarrow> string \<Rightarrow> packet6 \<Rightarrow> 'r handler6_state \<Rightarrow> ((failure6 + result6) \<times> 'r handler6_state) option" where
  "HandleConfirm6_impl now env tenantID pkt st =
     (case HandleRequest6_impl now env tenantID pkt st of
        None \<Rightarrow> None
      | Some (Inl e, st) \<Rightarrow> Some (Inl e, st)
      | Some (Inr result, st) \<Rightarrow>
          (case pkIAAddr pkt of
             None \<Rightarrow> Some (Inr result, st)
           | Some a \<Rightarrow>
               (case r6Pool result of
                  None \<Rightarrow> Some (Inr (zeroLifetimeConfirmResult pkt), st)
                | Some pool \<Rightarrow>
                    if confirmAddressWithinPool (poolCIDR pool) a then Some (Inr result, st)
                    else Some (Inr (zeroLifetimeConfirmResult pkt), st))))"

text \<open>RENEW and REBIND run a request between two checks of the state machine's table.\<close>

definition between_states ::
  "string \<Rightarrow> gotime \<Rightarrow> 'r handler6_env \<Rightarrow> string \<Rightarrow> packet6 \<Rightarrow> 'r handler6_state \<Rightarrow> ((failure6 + result6) \<times> 'r handler6_state) option" where
  "between_states mid now env tenantID pkt st =
     (case ValidateTransition6 LeaseStateBound mid of
        Some e \<Rightarrow> Some (Inl (OtherFailure e), st)
      | None \<Rightarrow>
          (case HandleRequest6_impl now env tenantID pkt st of
             None \<Rightarrow> None
           | Some (Inl e, st) \<Rightarrow> Some (Inl e, st)
           | Some (Inr result, st) \<Rightarrow>
               (case ValidateTransition6 mid LeaseStateBound of
                  Some e \<Rightarrow> Some (Inl (OtherFailure e), st)
                | None \<Rightarrow> Some (Inr result, st))))"

definition HandleRenew6_impl ::
  "gotime \<Rightarrow> 'r handler6_env \<Rightarrow> string \<Rightarrow> packet6 \<Rightarrow> 'r handler6_state \<Rightarrow> ((failure6 + result6) \<times> 'r handler6_state) option" where
  "HandleRenew6_impl = between_states LeaseStateRenewing"

definition HandleRebind6_impl ::
  "gotime \<Rightarrow> 'r handler6_env \<Rightarrow> string \<Rightarrow> packet6 \<Rightarrow> 'r handler6_state \<Rightarrow> ((failure6 + result6) \<times> 'r handler6_state) option" where
  "HandleRebind6_impl = between_states LeaseStateRebinding"

section \<open>Release and decline\<close>

fun for_each_request ::
  "(u32 \<Rightarrow> 'r pd_state \<Rightarrow> svc_error option \<times> 'r pd_state) \<Rightarrow> prefix_request list \<Rightarrow> 'r pd_state \<Rightarrow> svc_error option \<times> 'r pd_state" where
  "for_each_request f [] st = (None, st)"
| "for_each_request f (req # reqs) st =
     (case f (prIAPDID req) st of (Some e, st) \<Rightarrow> (Some e, st) | (None, st) \<Rightarrow> for_each_request f reqs st)"

definition end_prefixes ::
  "(gotime \<Rightarrow> 'r svc_env \<Rightarrow> access_scope \<Rightarrow> string \<Rightarrow> u32 \<Rightarrow> 'r pd_state \<Rightarrow> svc_error option \<times> 'r pd_state) \<Rightarrow>
   gotime \<Rightarrow> 'r handler6_env \<Rightarrow> string \<Rightarrow> packet6 \<Rightarrow> 'r handler6_state \<Rightarrow> failure6 option \<times> 'r handler6_state" where
  "end_prefixes f now env tenantID pkt st =
     (case Authorize now (h6RelayAuth env) (relay_meta6 tenantID pkt []) (hsSeen st) of
        (Some e, seen) \<Rightarrow> (Some (RelayFailure e), st\<lparr>hsSeen := seen\<rparr>)
      | (None, seen) \<Rightarrow>
          (case for_each_request (f now (h6Svc env) (NewResourceScope tenantID tenantID) (pkDUID pkt)) (pkPrefixRequests pkt) (hsPD st) of
             (e, pd) \<Rightarrow> (map_option ServiceFailure e, st\<lparr>hsSeen := seen, hsPD := pd\<rparr>)))"

definition HandleRelease6_impl ::
  "gotime \<Rightarrow> 'r handler6_env \<Rightarrow> string \<Rightarrow> packet6 \<Rightarrow> 'r handler6_state \<Rightarrow> failure6 option \<times> 'r handler6_state" where
  "HandleRelease6_impl = end_prefixes ReleasePrefix"

definition HandleDecline6_impl ::
  "gotime \<Rightarrow> 'r handler6_env \<Rightarrow> string \<Rightarrow> packet6 \<Rightarrow> 'r handler6_state \<Rightarrow> failure6 option \<times> 'r handler6_state" where
  "HandleDecline6_impl = end_prefixes DeclinePrefix"

section \<open>The handler of the server\<close>

definition handler_error_of :: "failure6 \<Rightarrow> handler_error" where
  "handler_error_of f = (case f of Nack reason \<Rightarrow> NACKError reason | _ \<Rightarrow> HandlerError [])"

text \<open>A search that does not end sends nothing.\<close>

definition as_method ::
  "(string \<Rightarrow> packet6 \<Rightarrow> 'h \<Rightarrow> ((failure6 + result6) \<times> 'h) option) \<Rightarrow> string \<Rightarrow> packet6 \<Rightarrow> 'h \<Rightarrow> (handler_error + result6) \<times> 'h" where
  "as_method f tenantID pkt h =
     (case f tenantID pkt h of
        None \<Rightarrow> (Inl (HandlerError []), h)
      | Some (Inl e, h) \<Rightarrow> (Inl (handler_error_of e), h)
      | Some (Inr r, h) \<Rightarrow> (Inr r, h))"

definition as_procedure ::
  "(string \<Rightarrow> packet6 \<Rightarrow> 'h \<Rightarrow> failure6 option \<times> 'h) \<Rightarrow> string \<Rightarrow> packet6 \<Rightarrow> 'h \<Rightarrow> handler_error option \<times> 'h" where
  "as_procedure f tenantID pkt h = (case f tenantID pkt h of (e, h) \<Rightarrow> (map_option handler_error_of e, h))"

definition dhcpv6_handler :: "gotime \<Rightarrow> 'r handler6_env \<Rightarrow> 'r handler6_state handler6" where
  "dhcpv6_handler now env =
     \<lparr>HandleSolicit6 = as_method (HandleRequest6_impl now env),
      HandleRequest6 = as_method (HandleRequest6_impl now env),
      HandleConfirm6 = as_method (HandleConfirm6_impl now env),
      HandleRenew6 = as_method (HandleRenew6_impl now env),
      HandleRebind6 = as_method (HandleRebind6_impl now env),
      HandleRelease6 = as_procedure (HandleRelease6_impl now env),
      HandleDecline6 = as_procedure (HandleDecline6_impl now env)\<rparr>"

end
