(* ===== verification/Dhcpv6_Safety.thy ===== *)
theory Dhcpv6_Safety
  imports Dhcpv6_Handler
begin

text \<open>
  The DHCPv6 server and its handler together.  The contract \<open>handler_contract\<close> says what the
  server asks of a handler's methods; its instances for the modelled handler carry three facts
  through every datagram: the table of delegated prefixes is reached by its operations only, the
  EUI-64 bindings stay, and a standby node writes nothing.
\<close>

section \<open>What the handler's methods keep, the server keeps\<close>

lemma leased_state: "snd (case x of (Inl e, h) \<Rightarrow> (Inl e, h) | (Inr r, h) \<Rightarrow> (Inr (Some r), h)) = snd x"
  by (simp split: prod.splits sum.splits)

lemma plain_state: "snd (case x of (Some e, h) \<Rightarrow> (Inl (f e), h) | (None, h) \<Rightarrow> (Inr None, h)) = snd x"
  by (simp split: prod.splits option.splits)

text \<open>The states the server reaches from a state by processing datagrams, each at some time and
  with some order of visiting the option maps.\<close>

inductive serves6 :: "server6 \<Rightarrow> (gotime \<Rightarrow> 'h handler6) \<Rightarrow> 'h server6_state \<Rightarrow> 'h server6_state \<Rightarrow> bool" for srv H st where
  none: "serves6 srv H st st"
| datagram: "serves6 srv H st st' \<Longrightarrow> serves6 srv H st (snd (processDatagram6 iter now srv (H now) dg st'))"

text \<open>The contract between the server and a handler: a preorder on the states of the handler that
  every method respects.\<close>

locale handler_contract =
  fixes H :: "gotime \<Rightarrow> 'h handler6" and keeps :: "'h \<Rightarrow> 'h \<Rightarrow> bool"
  assumes refl: "keeps h h"
    and trans: "keeps h h' \<Longrightarrow> keeps h' h'' \<Longrightarrow> keeps h h''"
    and solicit: "keeps h (snd (HandleSolicit6 (H now) tenant pkt h))"
    and request: "keeps h (snd (HandleRequest6 (H now) tenant pkt h))"
    and confirm: "keeps h (snd (HandleConfirm6 (H now) tenant pkt h))"
    and renew: "keeps h (snd (HandleRenew6 (H now) tenant pkt h))"
    and rebind: "keeps h (snd (HandleRebind6 (H now) tenant pkt h))"
    and release: "keeps h (snd (HandleRelease6 (H now) tenant pkt h))"
    and decline: "keeps h (snd (HandleDecline6 (H now) tenant pkt h))"
begin

lemma call_keeps: "keeps h (snd (call_handler (H now) tenant mtype pkt h))"
  by (simp add: call_handler_def Let_def leased_state plain_state refl solicit request confirm renew rebind release decline)

lemma middleware_handler: "st6Handler (snd (applyMiddleware now srv msg pkt remote st)) = st6Handler st"
  by (auto simp: applyMiddleware_def rateLimitMiddleware_def rogueDetectMiddleware_def Let_def
      split: prod.splits bool.splits)

lemma answer_keeps: "keeps (st6Handler st) (st6Handler (snd (answer iter srv (H now) msg pkt st)))"
  using call_keeps [of "st6Handler st" now "so6TenantID (sv6Opts srv)" "msgType msg" pkt] refl
  by (auto simp: answer_def Let_def split: prod.splits option.splits sum.splits)

lemma datagram_keeps: "keeps (st6Handler st) (st6Handler (snd (processDatagram6 iter now srv (H now) dg st)))"
proof (cases "ParseMessage6 (fst dg)")
  case (Inr msg)
  let ?pkt = "packetFromMessage6 msg"
  obtain ok st1 where m: "applyMiddleware now srv msg ?pkt (snd dg) st = (ok, st1)" by force
  then have "st6Handler st1 = st6Handler st" using middleware_handler [of now srv msg ?pkt "snd dg" st] by simp
  then show ?thesis using Inr m answer_keeps [of st1 iter srv now msg ?pkt] refl
    by (auto simp: processDatagram6_def Let_def split: bool.splits)
qed (simp add: processDatagram6_def refl)

lemma run_keeps: "serves6 srv H st st' \<Longrightarrow> keeps (st6Handler st) (st6Handler st')"
proof (induction rule: serves6.induct)
  case (datagram st' iter now dg)
  then show ?case using trans datagram_keeps by blast
qed (rule refl)

end

subsection \<open>Delegated prefixes\<close>

lemma attach_reach:
  "pd_reach (h6Svc env) (hsPD st) \<Longrightarrow> pd_reach (h6Svc env) (hsPD (snd (attachPrefixDelegation now env scope r pkt profile d st)))"
  using pd_reach.allocate [of "h6Svc env" "hsPD st" now scope "pkDUID pkt" profile]
  by (auto simp: attachPrefixDelegation_def split: option.splits sum.splits prod.splits) (metis snd_conv)+

lemma allocate6_reach:
  assumes "pd_reach (h6Svc env) (hsPD st)" and "allocate6 now env tenant pkt profile pid ip d st = Some (res, st')"
  shows "pd_reach (h6Svc env) (hsPD st')"
proof -
  have kept: "pd_reach (h6Svc env) (hsPD (st\<lparr>hsPD := (hsPD st)\<lparr>pdSvc := svc\<rparr>\<rparr>))" for svc
    using pd_reach.service [OF assms(1)] by simp
  have attached: "pd_reach (h6Svc env) (hsPD st')"
    if "attachPrefixDelegation now env scope r pkt profile d (st\<lparr>hsPD := (hsPD st)\<lparr>pdSvc := svc\<rparr>\<rparr>) = (res, st')"
    for scope r svc
    using attach_reach [OF kept, of now scope r pkt profile d svc] that by simp
  show ?thesis
    using assms(2) kept attached
    by (auto simp: allocate6_def Let_def split: option.splits prod.splits sum.splits)
qed

lemma decide_frame:
  "hsPD (snd (decide6 now env tenant pkt st)) = hsPD st"
  "hsEuiCache (snd (decide6 now env tenant pkt st)) = hsEuiCache st"
  by (auto simp: decide6_def split: option.splits prod.splits sum.splits)

lemma new_eui_frame: "hsPD (snd (new_eui64_binding now env scope mac key p pkt st)) = hsPD st"
  by (auto simp: new_eui64_binding_def Let_def split: option.splits prod.splits sum.splits)

lemma eui_frame: "hsPD (snd (resolveEUI64IPv6Binding now env scope pid pkt st)) = hsPD st"
  using new_eui_frame
  by (auto simp: resolveEUI64IPv6Binding_def Let_def split: option.splits sum.splits)

lemma new_eui_cache:
  "hsEuiCache st key = None \<Longrightarrow> hsEuiCache st \<subseteq>\<^sub>m hsEuiCache (snd (new_eui64_binding now env scope mac key p pkt st))"
  by (auto simp: new_eui64_binding_def Let_def map_le_def split: option.splits prod.splits sum.splits)

lemma map_le_new: "f k = None \<Longrightarrow> f \<subseteq>\<^sub>m f(k \<mapsto> v)"
  by (auto simp: map_le_def)

lemma eui_cache: "hsEuiCache st \<subseteq>\<^sub>m hsEuiCache (snd (resolveEUI64IPv6Binding now env scope pid pkt st))"
  by (auto simp: resolveEUI64IPv6Binding_def Let_def intro: new_eui_cache map_le_new split: option.splits sum.splits)

text \<open>A request is an allocation in a state with the same leases, or it fails before; the cached
  bindings stay.\<close>

lemma request_cases:
  assumes "HandleRequest6_impl now env tenant pkt st = Some (res, st')"
  obtains "hsPD st' = hsPD st" "\<exists>e. res = Inl e" "hsEuiCache st \<subseteq>\<^sub>m hsEuiCache st'"
  | profile pid ip d st1 where "hsPD st1 = hsPD st" "hsEuiCache st \<subseteq>\<^sub>m hsEuiCache st1"
      "allocate6 now env tenant pkt profile pid ip d st1 = Some (res, st')"
proof -
  let ?meta = "relay_meta6 tenant pkt (DeriveUserGroups (pkUserClass pkt) (pkRelayInfo pkt))"
  obtain e seen where a: "Authorize now (h6RelayAuth env) ?meta (hsSeen st) = (e, seen)" by force
  show thesis
  proof (cases e)
    case (Some e)
    then show thesis using assms a that(1) by (auto simp: HandleRequest6_impl_def)
  next
    case None
    obtain d st1 where d: "decide6 now env tenant pkt (st\<lparr>hsSeen := seen\<rparr>) = (d, st1)" by force
    have f1: "hsPD st1 = hsPD st" "hsEuiCache st1 = hsEuiCache st"
      using decide_frame [of now env tenant pkt "st\<lparr>hsSeen := seen\<rparr>"] d by simp_all
    let ?pid = "choose_pool6 env tenant ?meta d"
    obtain r st2 where r: "resolveEUI64IPv6Binding now env (NewResourceScope tenant tenant) ?pid pkt st1 = (r, st2)" by force
    have f2: "hsPD st2 = hsPD st" "hsEuiCache st \<subseteq>\<^sub>m hsEuiCache st2"
      using eui_frame [of now env "NewResourceScope tenant tenant" ?pid pkt st1]
        eui_cache [of st1 now env "NewResourceScope tenant tenant" ?pid pkt] r f1 by simp_all
    show thesis
    proof (cases r)
      case (Inl e)
      then show thesis using assms a None d r f2 that(1) by (auto simp: HandleRequest6_impl_def Let_def)
    next
      case (Inr eui)
      then show thesis using assms a None d r that(2) [OF f2] by (auto simp: HandleRequest6_impl_def Let_def)
    qed
  qed
qed

lemma request_reach:
  assumes "pd_reach (h6Svc env) (hsPD st)" and "HandleRequest6_impl now env tenant pkt st = Some (res, st')"
  shows "pd_reach (h6Svc env) (hsPD st')"
  using assms(2)
proof (cases rule: request_cases)
  case 1
  then show ?thesis using assms(1) by simp
next
  case (2 profile pid ip d st1)
  then show ?thesis using assms(1) allocate6_reach by metis
qed

lemma confirm_state:
  assumes "HandleConfirm6_impl now env tenant pkt st = Some (res, st')"
  shows "\<exists>res'. HandleRequest6_impl now env tenant pkt st = Some (res', st')"
  using assms by (auto simp: HandleConfirm6_impl_def split: option.splits sum.splits prod.splits if_splits)

lemma between_state:
  assumes "between_states mid now env tenant pkt st = Some (res, st')"
  shows "st' = st \<or> (\<exists>res'. HandleRequest6_impl now env tenant pkt st = Some (res', st'))"
  using assms by (auto simp: between_states_def split: option.splits sum.splits prod.splits)

lemma as_method_state:
  "snd (as_method f tenant pkt h) = h \<or> (\<exists>res. f tenant pkt h = Some (res, snd (as_method f tenant pkt h)))"
  by (auto simp: as_method_def split: option.splits sum.splits prod.splits)

lemma as_procedure_state:
  "snd (as_procedure f tenant pkt h) = snd (f tenant pkt h)"
  by (auto simp: as_procedure_def split: prod.splits)

lemma end_prefixes_reach:
  assumes "\<And>iapd st. pd_reach (h6Svc env) st \<Longrightarrow> pd_reach (h6Svc env) (snd (f now (h6Svc env) (NewResourceScope tenant tenant) (pkDUID pkt) iapd st))"
    and "pd_reach (h6Svc env) (hsPD st)"
  shows "pd_reach (h6Svc env) (hsPD (snd (end_prefixes f now env tenant pkt st)))"
proof -
  have "pd_reach (h6Svc env) st \<Longrightarrow> pd_reach (h6Svc env) (snd (for_each_request (f now (h6Svc env) (NewResourceScope tenant tenant) (pkDUID pkt)) reqs st))"
    for reqs st
  proof (induction reqs arbitrary: st)
    case (Cons req reqs)
    then show ?case using assms(1) [OF Cons.prems, of "prIAPDID req"] by (auto split: prod.splits option.splits)
  qed simp
  then show ?thesis using assms(2) by (auto simp: end_prefixes_def split: prod.splits option.splits) (metis snd_conv)
qed

definition reach_kept :: "'r handler6_env \<Rightarrow> 'r handler6_state \<Rightarrow> 'r handler6_state \<Rightarrow> bool" where
  "reach_kept env h h' \<longleftrightarrow> (pd_reach (h6Svc env) (hsPD h) \<longrightarrow> pd_reach (h6Svc env) (hsPD h'))"

lemma method_reach:
  "reach_kept env h (snd (as_method (HandleRequest6_impl now env) tenant pkt h))"
  "reach_kept env h (snd (as_method (HandleConfirm6_impl now env) tenant pkt h))"
  "reach_kept env h (snd (as_method (between_states mid now env) tenant pkt h))"
  using as_method_state [of "HandleRequest6_impl now env" tenant pkt h] as_method_state [of "HandleConfirm6_impl now env" tenant pkt h]
    as_method_state [of "between_states mid now env" tenant pkt h] request_reach confirm_state between_state
  unfolding reach_kept_def by metis+

lemma procedure_reach:
  "reach_kept env h (snd (as_procedure (HandleRelease6_impl now env) tenant pkt h))"
  "reach_kept env h (snd (as_procedure (HandleDecline6_impl now env) tenant pkt h))"
  using end_prefixes_reach [of env ReleasePrefix now tenant pkt h, OF pd_reach.release]
    end_prefixes_reach [of env DeclinePrefix now tenant pkt h, OF pd_reach.decline]
  by (simp_all add: reach_kept_def as_procedure_state HandleRelease6_impl_def HandleDecline6_impl_def)

interpretation v6_prefixes: handler_contract "\<lambda>now. dhcpv6_handler now env" "reach_kept env" for env
proof
  show "reach_kept env h h" for h by (simp add: reach_kept_def)
  show "reach_kept env h h' \<Longrightarrow> reach_kept env h' h'' \<Longrightarrow> reach_kept env h h''" for h h' h''
    by (simp add: reach_kept_def)
qed (simp_all add: dhcpv6_handler_def HandleRenew6_impl_def HandleRebind6_impl_def method_reach procedure_reach)

section \<open>Conflicts of static prefixes\<close>

definition active_rows :: "prefix_db \<Rightarrow> prefix_lease list" where
  "active_rows db = rev (sort_key plUpdatedAt (filter (\<lambda>r. sql_eq (plState r) ''ACTIVE'') db))"

lemma list_active: "ListPrefixLeases db ''ACTIVE'' 256 (int offset) = take 256 (drop offset (active_rows db))"
  by (simp add: ListPrefixLeases_def active_rows_def)

lemma set_active_rows: "set (active_rows db) = {r \<in> set db. sql_eq (plState r) ''ACTIVE''}"
  by (simp add: active_rows_def)

text \<open>The pages read so far and the pages to come are all active rows.\<close>

lemma conflict_pages_iff:
  "conflict_pages db duid iapd prefix offset \<longleftrightarrow>
     (\<exists>l \<in> set (drop offset (active_rows db)). prefix_taken_by_other duid iapd prefix l)"
proof (induction db duid iapd prefix offset rule: conflict_pages.induct)
  case (1 db duid iapd prefix offset)
  let ?rest = "drop offset (active_rows db)"
  let ?page = "take 256 ?rest"
  have split: "set ?rest = set ?page \<union> set (drop 256 ?rest)"
    by (metis append_take_drop_id set_append)
  have unfold: "conflict_pages db duid iapd prefix offset \<longleftrightarrow>
      (if list_ex (prefix_taken_by_other duid iapd prefix) ?page then True else if length ?page < 256 then False
       else conflict_pages db duid iapd prefix (offset + length ?page))"
    by (subst conflict_pages.simps) (simp only: list_active Let_def)
  show ?case
  proof (cases "list_ex (prefix_taken_by_other duid iapd prefix) ?page")
    case True
    then show ?thesis using split unfold by (auto simp: list_ex_iff)
  next
    case none: False
    show ?thesis
    proof (cases "length ?page < 256")
      case True
      then show ?thesis using none unfold by (simp add: list_ex_iff)
    next
      case False
      then have full: "length ?page = 256" by simp
      have "conflict_pages db duid iapd prefix (offset + length ?page) \<longleftrightarrow>
          (\<exists>l \<in> set (drop (offset + length ?page) (active_rows db)). prefix_taken_by_other duid iapd prefix l)"
        using 1 [OF list_active [symmetric] none False] by simp
      then have "conflict_pages db duid iapd prefix offset \<longleftrightarrow>
          (\<exists>l \<in> set (drop 256 ?rest). prefix_taken_by_other duid iapd prefix l)"
        using unfold none full by (simp add: add.commute)
      then show ?thesis using split none by (auto simp: list_ex_iff)
    qed
  qed
qed

text \<open>C21: A static prefix is refused exactly when some active row of the table holds it for
  another client or another identity association, however many rows there are: the search, which
  reads pages of 256 rows, ends and misses none.\<close>

theorem static_conflict_exact:
  assumes "tenantFromScope scope = Inr tenant" and "trim_space prefix \<noteq> []"
  shows "rejectStaticPrefixConflict scope duid iapd prefix db \<noteq> None \<longleftrightarrow>
    (\<exists>l \<in> set db. sql_eq (plState l) ''ACTIVE'' \<and> equal_fold (prefix_key l) (trim_space prefix) \<and>
       \<not> (plClientID l = duid \<and> plIAPDID l = iapd))"
  using assms by (auto simp: rejectStaticPrefixConflict_def Let_def conflict_pages_iff set_active_rows prefix_taken_by_other_def)

section \<open>What the server keeps\<close>

subsection \<open>Delegated prefixes\<close>

definition prefixes_disjoint :: "prefix_db \<Rightarrow> bool" where
  "prefixes_disjoint rows \<longleftrightarrow>
     (\<forall>r \<in> set rows. \<forall>r' \<in> set rows. r \<noteq> r' \<longrightarrow> sql_eq (plState r) ''ACTIVE'' \<longrightarrow> sql_eq (plState r') ''ACTIVE'' \<longrightarrow>
        sql_eq (plPoolID r) (plPoolID r') \<longrightarrow> plPrefixLen r = plPrefixLen r' \<longrightarrow>
        (\<exists>p p'. prefix_key r = prefix_string p \<and> prefix_key r' = prefix_string p' \<and>
           \<not> (\<exists>w. Contains p (Addr6 w []) \<and> Contains p' (Addr6 w []))))"

lemma pd_ok_disjoint:
  assumes "pd_ok rows"
  shows "prefixes_disjoint rows"
  unfolding prefixes_disjoint_def
proof (intro ballI impI)
  fix r r'
  assume r: "r \<in> set rows" "r' \<in> set rows" "r \<noteq> r'" "sql_eq (plState r) ''ACTIVE''" "sql_eq (plState r') ''ACTIVE''"
    "sql_eq (plPoolID r) (plPoolID r')" and len: "plPrefixLen r = plPrefixLen r'"
  obtain p p' where p: "row_prefix r p" "row_prefix r' p'" using assms r unfolding pd_ok_def by blast
  have "prefix_key r \<noteq> prefix_key r'" using assms r unfolding pd_ok_def active_prefix_def by blast
  then have "p \<noteq> p'" using row_prefix_key [OF p(1)] row_prefix_key [OF p(2)] by auto
  moreover have "pfx_bits p = pfx_bits p'" using p len by (simp add: row_prefix_def)
  ultimately show "\<exists>p p'. prefix_key r = prefix_string p \<and> prefix_key r' = prefix_string p' \<and>
      \<not> (\<exists>w. Contains p (Addr6 w []) \<and> Contains p' (Addr6 w []))"
    using row_prefix_key p same_length_disjoint by metis
qed


subsection \<open>EUI-64 bindings\<close>

definition bindings_kept :: "'r handler6_state \<Rightarrow> 'r handler6_state \<Rightarrow> bool" where
  "bindings_kept h h' \<longleftrightarrow> hsEuiCache h \<subseteq>\<^sub>m hsEuiCache h'"

lemma attach_cache: "hsEuiCache (snd (attachPrefixDelegation now env scope r pkt profile d st)) = hsEuiCache st"
  by (auto simp: attachPrefixDelegation_def split: option.splits sum.splits prod.splits)

lemma allocate6_cache:
  assumes "allocate6 now env tenant pkt profile pid ip d st = Some (res, st')"
  shows "hsEuiCache st' = hsEuiCache st"
proof -
  have "hsEuiCache st' = hsEuiCache st"
    if "attachPrefixDelegation now env scope r pkt profile d (st\<lparr>hsPD := (hsPD st)\<lparr>pdSvc := svc\<rparr>\<rparr>) = (res, st')" for scope r svc
    using attach_cache [of now env scope r pkt profile d "st\<lparr>hsPD := (hsPD st)\<lparr>pdSvc := svc\<rparr>\<rparr>"] that by simp
  then show ?thesis
    using assms by (auto simp: allocate6_def Let_def split: option.splits prod.splits sum.splits)
qed

lemma request_cache:
  "HandleRequest6_impl now env tenant pkt st = Some (res, st') \<Longrightarrow> hsEuiCache st \<subseteq>\<^sub>m hsEuiCache st'"
  by (erule request_cases) (simp_all add: allocate6_cache)

lemma method_cache:
  "bindings_kept h (snd (as_method (HandleRequest6_impl now env) tenant pkt h))"
  "bindings_kept h (snd (as_method (HandleConfirm6_impl now env) tenant pkt h))"
  "bindings_kept h (snd (as_method (between_states mid now env) tenant pkt h))"
  using as_method_state [of "HandleRequest6_impl now env" tenant pkt h] as_method_state [of "HandleConfirm6_impl now env" tenant pkt h]
    as_method_state [of "between_states mid now env" tenant pkt h] request_cache confirm_state between_state map_le_refl
  unfolding bindings_kept_def by metis+

lemma procedure_cache: "bindings_kept h (snd (as_procedure (end_prefixes f now env) tenant pkt h))"
  by (auto simp: bindings_kept_def as_procedure_state end_prefixes_def split: prod.splits option.splits)

interpretation v6_bindings: handler_contract "\<lambda>now. dhcpv6_handler now env" bindings_kept for env
proof
  show "bindings_kept h h" for h by (simp add: bindings_kept_def)
  show "bindings_kept h h' \<Longrightarrow> bindings_kept h' h'' \<Longrightarrow> bindings_kept h h''" for h h' h''
    unfolding bindings_kept_def by (rule map_le_trans)
qed (simp_all add: dhcpv6_handler_def HandleRenew6_impl_def HandleRebind6_impl_def HandleRelease6_impl_def
    HandleDecline6_impl_def method_cache procedure_cache)

text \<open>The EUI-64 prefix of a pool, when the pool has one.\<close>

definition eui_prefix :: "'r handler6_env \<Rightarrow> string \<Rightarrow> string \<Rightarrow> prefix option" where
  "eui_prefix env tenant pid =
     (case h6Pools env of
        None \<Rightarrow> None
      | Some ps \<Rightarrow>
          (case psGetPool ps (NewResourceScope tenant tenant) pid of
             None \<Rightarrow> None
           | Some pool \<Rightarrow>
               (case ParsePrefix (trim_space (poolCIDR pool)) of
                  None \<Rightarrow> None
                | Some p \<Rightarrow> if Is6 (pfx_addr p) then Some (canonicalEUI64Prefix p) else None)))"

definition binding_key :: "string \<Rightarrow> bytes \<Rightarrow> prefix \<Rightarrow> string" where
  "binding_key tenant mac p = eui64BindingCacheKey tenant (to_lower (trim_space (hw_string mac))) (prefix_string p)"

lemma tenant_of_scope: "trim_space tenant = tenant \<Longrightarrow> tenant \<noteq> [] \<Longrightarrow> trim_space (TenantOrDefault (NewResourceScope tenant tenant)) = tenant"
  by (simp add: TenantOrDefault_def NewResourceScope_def EffectiveTenant_def normalizeOptional_def)

lemma bound_answer:
  assumes "eui_prefix env tenant pid = Some p" and "hsEuiCache st (binding_key tenant (pkClientMAC pkt) p) = Some b"
    and "trim_space tenant = tenant" and "tenant \<noteq> []" and "trim_space pid \<noteq> []" and "pkClientMAC pkt \<noteq> []"
  shows "resolveEUI64IPv6Binding now env (NewResourceScope tenant tenant) pid pkt st =
    (case validateRequestedAddress pkt (ebIPv6Addr b) of Some e \<Rightarrow> (Inl e, st) | None \<Rightarrow> (Inr (ebIPv6Addr b), st))"
  using assms tenant_of_scope [OF assms(3,4)]
  by (auto simp: resolveEUI64IPv6Binding_def eui_prefix_def binding_key_def Let_def split: option.splits if_splits)


subsection \<open>Standby nodes\<close>

definition standby :: "'r svc_env \<Rightarrow> bool" where
  "standby env \<longleftrightarrow> (case envRole env of None \<Rightarrow> False | Some (role, _) \<Rightarrow> role \<noteq> RolePrimary \<and> role \<noteq> RoleUnknown)"

definition standby_kept :: "'r handler6_env \<Rightarrow> 'r handler6_state \<Rightarrow> 'r handler6_state \<Rightarrow> bool" where
  "standby_kept env h h' \<longleftrightarrow> (standby (h6Svc env) \<longrightarrow> hsPD h' = hsPD h)"

lemma standby_refuses: "standby env \<Longrightarrow> \<exists>e. ensurePrimaryWrite env op = Some e"
  by (auto simp: standby_def ensurePrimaryWrite_def split: option.splits)

lemma standby_allocate:
  assumes "standby (h6Svc env)" and "allocate6 now env tenant pkt profile pid ip d st = Some (res, st')"
  shows "(\<exists>e. res = Inl (ServiceFailure e)) \<and> hsPD st' = hsPD st"
  using assms standby_refuses [OF assms(1), of "''lease.allocate_or_reuse''"]
  by (auto simp: allocate6_def AllocateOrReuseWithMetadata_def Let_def split: sum.splits option.splits)

lemma standby_request:
  assumes "standby (h6Svc env)" and "HandleRequest6_impl now env tenant pkt st = Some (res, st')"
  shows "(\<exists>e. res = Inl e) \<and> hsPD st' = hsPD st"
  using assms(2) by (rule request_cases) (use standby_allocate [OF assms(1)] in fastforce)+

lemma standby_end:
  assumes "standby (h6Svc env)"
  shows "\<exists>e. ReleasePrefix now (h6Svc env) scope client iapd st = (Some e, st)"
    "\<exists>e. DeclinePrefix now (h6Svc env) scope client iapd st = (Some e, st)"
proof -
  have "\<exists>e. guarded (h6Svc env) scope op = Some e" for op
    using standby_refuses [OF assms, of op] by (auto simp: guarded_def split: sum.splits)
  from this [of "''lease.prefix.release''"] this [of "''lease.prefix.decline''"]
  show "\<exists>e. ReleasePrefix now (h6Svc env) scope client iapd st = (Some e, st)"
    "\<exists>e. DeclinePrefix now (h6Svc env) scope client iapd st = (Some e, st)"
    by (auto simp: ReleasePrefix_def DeclinePrefix_def)
qed

lemma standby_prefixes:
  assumes "\<And>iapd st. \<exists>e. f now (h6Svc env) (NewResourceScope tenant tenant) (pkDUID pkt) iapd st = (Some e, st)"
  shows "hsPD (snd (end_prefixes f now env tenant pkt st)) = hsPD st"
proof -
  have "snd (for_each_request (f now (h6Svc env) (NewResourceScope tenant tenant) (pkDUID pkt)) reqs pd) = pd" for reqs pd
    using assms by (cases reqs) (auto split: prod.splits option.splits, (metis Pair_inject option.distinct(1))+)
  then show ?thesis by (auto simp: end_prefixes_def split: prod.splits option.splits) (metis snd_conv)
qed

lemma method_standby:
  "standby_kept env h (snd (as_method (HandleRequest6_impl now env) tenant pkt h))"
  "standby_kept env h (snd (as_method (HandleConfirm6_impl now env) tenant pkt h))"
  "standby_kept env h (snd (as_method (between_states mid now env) tenant pkt h))"
  using as_method_state [of "HandleRequest6_impl now env" tenant pkt h] as_method_state [of "HandleConfirm6_impl now env" tenant pkt h]
    as_method_state [of "between_states mid now env" tenant pkt h] standby_request confirm_state between_state
  unfolding standby_kept_def by metis+

lemma procedure_standby:
  "standby_kept env h (snd (as_procedure (HandleRelease6_impl now env) tenant pkt h))"
  "standby_kept env h (snd (as_procedure (HandleDecline6_impl now env) tenant pkt h))"
  using standby_prefixes [of ReleasePrefix now env tenant pkt h] standby_end(1) [of env now]
    standby_prefixes [of DeclinePrefix now env tenant pkt h] standby_end(2) [of env now]
  by (auto simp: standby_kept_def as_procedure_state HandleRelease6_impl_def HandleDecline6_impl_def)

interpretation v6_standby: handler_contract "\<lambda>now. dhcpv6_handler now env" "standby_kept env" for env
proof
  show "standby_kept env h h" for h by (simp add: standby_kept_def)
  show "standby_kept env h h' \<Longrightarrow> standby_kept env h' h'' \<Longrightarrow> standby_kept env h h''" for h h' h''
    by (simp add: standby_kept_def)
qed (simp_all add: dhcpv6_handler_def HandleRenew6_impl_def HandleRebind6_impl_def method_standby procedure_standby)


section \<open>Concrete runs\<close>

definition long_pool :: address_pool where
  "long_pool = empty_pool\<lparr>poolID := ''default-v6'', poolCIDR := ''5::/124''\<rparr>"

definition reader6 :: pool_reader where
  "reader6 = \<lparr>GetPool = (\<lambda>_. Inr long_pool), FindBinding = \<lambda>_ _. Inl ErrPoolNotFound, ListBindingsByPool = \<lambda>_. Inr []\<rparr>"

definition sample_env6 :: "unit handler6_env" where
  "sample_env6 = \<lparr>h6Svc = (plain_env reader6)\<lparr>envDraws := \<lambda>_. [Some 3]\<rparr>, h6Policy = None,
     h6Pools = Some \<lparr>psResolvePool = \<lambda>_ _. None, psGetPool = \<lambda>_ _. Some long_pool, psGetLeaseProfile = \<lambda>_ _. None,
       psFindBinding = \<lambda>_ _. None\<rparr>,
     h6RelayAuth = None, h6RelaySel = None, h6Detector = None, h6Visit = \<lambda>_. [], h6MDM = None, h6StaticPD = Map.empty,
     h6ProbeTimeout = second, h6Probe = \<lambda>_ _. False, h6Sha256 = \<lambda>_. []\<rparr>"

definition sample_handler_state :: "unit handler6_state" where
  "sample_handler_state = \<lparr>hsPD = sample_pd_state, hsEui = [], hsEuiCache = Map.empty, hsSeen = Map.empty, hsRules = Map.empty\<rparr>"

definition sample_ip6 :: "byte \<Rightarrow> bytes" where
  "sample_ip6 n = [0, 5, 0, 0, 0, 0, 0, 0, 0, 0, 0, 0, 0, 0, 0, n]"

definition sample_solicit :: "bytes \<Rightarrow> bytes option \<Rightarrow> bytes option \<Rightarrow> packet6" where
  "sample_solicit mac ia link =
     \<lparr>pkTransactionID = 1, pkDUID = ''d1'', pkIAID = 1, pkIAAddr = ia, pkDNSRecursiveServers = [],
      pkDomainSearchList = [], pkFQDN = [], pkNTPServers = [], pkLinkAddr = link, pkPeerAddr = None, pkVendorClass = [],
      pkUserClass = [], pkRelayInfo = Map.empty, pkClientMAC = mac, pkSupportsSLAAC = False, pkPrefixRequests = []\<rparr>"

definition leased_to :: "((failure6 + result6) \<times> 'r handler6_state) option \<Rightarrow> string option" where
  "leased_to r =
     (case r of
        Some (Inr res, _) \<Rightarrow> map_option leaseIPAddress (r6Lease res)
      | _ \<Rightarrow> None)"


theorem static_conflict_exact_witness:
  "rejectStaticPrefixConflict sample_scope ''z'' 1 '' 5::10/124'' (pdRows pd_run) \<noteq> None \<and>
   rejectStaticPrefixConflict sample_scope ''b'' 1 '' 5::10/124'' (pdRows pd_run) = None"
proof -
  let ?rows = "map (\<lambda>r. (plClientID r, plIAPDID r, plState r, prefix_key r)) (pdRows pd_run)"
  have rows: "?rows = [(''a'', 1, ''ACTIVE'', ''5::/124''), (''b'', 1, ''ACTIVE'', ''5::10/124''), (''c'', 1, ''ACTIVE'', ''5::/122'')]"
    by code_simp
  have t: "tenantFromScope sample_scope = Inr ''t1''" "trim_space '' 5::10/124'' = ''5::10/124''" by code_simp+
  have e: "equal_fold ''5::10/124'' ''5::10/124''" "\<not> equal_fold ''5::/124'' ''5::10/124''" "\<not> equal_fold ''5::/122'' ''5::10/124''"
    by code_simp+
  from rows obtain r0 r1 r2 where r: "pdRows pd_run = [r0, r1, r2]" by (auto simp: map_eq_Cons_conv)
  with rows have f: "plClientID r0 = ''a''" "plClientID r1 = ''b''" "plClientID r2 = ''c''" "plIAPDID r1 = 1"
    "plState r1 = ''ACTIVE''" "prefix_key r0 = ''5::/124''" "prefix_key r1 = ''5::10/124''" "prefix_key r2 = ''5::/122''"
    by simp_all
  have ne: "trim_space '' 5::10/124'' \<noteq> []" using t(2) by simp
  note exact = static_conflict_exact [OF t(1) ne, where db = "pdRows pd_run" and iapd = 1]
  show ?thesis using exact [of "''z''"] exact [of "''b''"] r f e t(2) by simp
qed



definition standby_env6 :: "unit handler6_env" where
  "standby_env6 = sample_env6\<lparr>h6Svc := (h6Svc sample_env6)\<lparr>envRole := Some (''standby'', ''syncing'')\<rparr>\<rparr>"


text \<open>No pool of the reader is an IPv4 network with the last address, 255.255.255.255.\<close>

definition searchable :: "'r svc_env \<Rightarrow> bool" where
  "searchable env \<longleftrightarrow> envRedis env = None \<and>
     (\<forall>scope pid pool prefix. ensurePool env scope pid = Inr pool \<longrightarrow> ParsePrefix (poolCIDR pool) = Some prefix \<longrightarrow>
        Is4 (pfx_addr prefix) \<longrightarrow> \<not> Contains prefix (Addr4 (-1)))"

lemma pick_returns:
  assumes "searchable env" and "ensurePool env scope pid = Inr pool"
  shows "pickIPAddress now env scope pool preferred binding reserved st \<noteq> None"
proof (cases "ParsePrefix (poolCIDR pool)")
  case None
  then show ?thesis by (auto simp: pickIPAddress_def split: sum.splits)
next
  case (Some prefix)
  show ?thesis
  proof (cases "Is4 (pfx_addr prefix)")
    case True
    with Some assms have "envRedis env = None" "\<not> Contains prefix (Addr4 (-1))" by (auto simp: searchable_def)
    from pick_outcome [OF this(1) Some True this(2), where now = now and scope = scope and preferred = preferred
        and binding = binding and reserved = reserved and st = st]
    show ?thesis by (auto split: option.splits)
  next
    case False
    have "pick_search now env pool prefix s e x4 x6 b used cooldown st \<noteq> None" for s e x4 x6 b used cooldown st
      using False by (auto simp: pick_search_def split: prod.splits option.splits)
    then have "pick_preferring now env pool prefix s e x4 x6 b used cooldown bound preferred st \<noteq> None"
      for s e x4 x6 b used cooldown bound
      unfolding pick_preferring_def Let_def by (simp only: split: fixed_choice.split) (simp del: not_None_eq)
    then show ?thesis using Some
      by (cases "TenantIDOrErr scope"; cases "resolvePoolBounds pool prefix") (simp_all add: pickIPAddress_def Let_def del: not_None_eq)
  qed
qed

lemma reclaim_returns:
  "(case x of (Inl e', st) \<Rightarrow> Some (Inl e', st) | (Inr (Some res), st) \<Rightarrow> Some (Inr (f res), st) | (Inr None, st) \<Rightarrow> Some (Inl e, st)) \<noteq> None"
  by (simp split: prod.split sum.split option.split)

lemma created_returns: "(case x of (Inl e, st) \<Rightarrow> Some (Inl e, st) | (Inr res, st) \<Rightarrow> Some (Inr (f res), st)) \<noteq> None"
  by (simp split: prod.split sum.split)

text \<open>Only the choice of the address can fail to end.\<close>

lemma allocate_new_returns:
  assumes "searchable env"
  shows "allocate_new now env scope tenantID identifier profile meta held pid ip st \<noteq> None"
proof -
  obtain e st1 where limits: "enforceLeaseLimits now env tenantID identifier meta st = (e, st1)" by force
  show ?thesis
  proof (cases "e = None \<and> (case envQuota env of None \<Rightarrow> None | Some q \<Rightarrow> q tenantID) = None")
    case ok: True
    show ?thesis
    proof (cases "lookupBinding env identifier ip")
      case (Inr bm)
      obtain binding match where bm: "bm = (binding, match)" by force
      let ?own = "if match then binding else None"
      define pid' where "pid' = (case ?own of Some b \<Rightarrow> bindPoolID b | None \<Rightarrow> pid)"
      define ip' where "ip' = (case ?own of Some b \<Rightarrow> if bindIPAddress b \<noteq> [] then bindIPAddress b else ip | None \<Rightarrow> ip)"
      note step = allocate_new_def limits ok Inr bm Let_def pid'_def [symmetric] ip'_def [symmetric]
      show ?thesis
      proof (cases "ensurePool env scope pid'")
        case pool: (Inr pool)
        show ?thesis
        proof (cases "acquirePoolLock env held (poolID pool)")
          case lock: (Inr held')
          show ?thesis
          proof (cases "bindingsForPool env (poolID pool)")
            case reserved: (Inr reserved)
            obtain r st2 where pick: "pickIPAddress now env scope pool ip' ?own reserved st1 = Some (r, st2)"
              using pick_returns [OF assms pool, where now = now and preferred = ip' and binding = ?own and reserved = reserved and st = st1]
              by auto
            show ?thesis
              by (cases r) (simp_all add: step pool lock reserved pick reclaim_returns created_returns del: not_None_eq)
          qed (simp add: step pool lock)
        qed (simp add: step pool)
      qed (simp add: step)
    qed (simp add: allocate_new_def limits ok)
  qed (auto simp: allocate_new_def limits split: option.splits)
qed

lemma allocate_loop_returns:
  assumes "searchable env"
  shows "allocate_loop n now env scope tenantID identifier profile meta held pid ip st \<noteq> None"
proof (induction n arbitrary: held pid ip st)
  case (Suc n)
  show ?case
    by (simp add: Suc allocate_new_returns [OF assms] del: not_None_eq split: sum.split repo_error.split option.split prod.split)
qed simp

lemma allocation_returns:
  assumes "searchable env"
  shows "AllocateOrReuseWithMetadata now env scope identifier profile pid ip meta st \<noteq> None"
  using allocate_loop_returns [OF assms]
  by (auto simp: AllocateOrReuseWithMetadata_def split: sum.splits option.splits prod.splits)

lemma allocate6_returns:
  assumes "searchable (h6Svc env)"
  shows "allocate6 now env tenant pkt profile pid ip d st \<noteq> None"
  using allocation_returns [OF assms] by (auto simp: allocate6_def Let_def split: option.splits prod.splits sum.splits)



end
