(* ===== verification/Dhcpv6_Wellformed.thy ===== *)
theory Dhcpv6_Wellformed
  imports Dhcpv6_Server
begin

text \<open>
  What the rest of the DHCPv6 server may rely on in a packet that came off the wire
  (\<^verbatim>\<open>ParseMessage\<close> and \<^verbatim>\<open>packetFromMessage\<close>): every address has the sixteen
  bytes that the address type of the code has, and the numbers are in their fields' ranges.
\<close>

definition address6 :: "bytes \<Rightarrow> bool" where
  "address6 a \<longleftrightarrow> length a = 16"

definition request_ok :: "prefix_request \<Rightarrow> bool" where
  "request_ok req \<longleftrightarrow> prPrefix req = [] \<or> address6 (prPrefix req)"

definition packet_ok :: "packet6 \<Rightarrow> bool" where
  "packet_ok pkt \<longleftrightarrow>
     pkTransactionID pkt AND 0xFFFFFF = pkTransactionID pkt \<and>
     pred_option address6 (pkIAAddr pkt) \<and> pred_option address6 (pkLinkAddr pkt) \<and> pred_option address6 (pkPeerAddr pkt) \<and>
     (pkLinkAddr pkt = None \<longleftrightarrow> pkPeerAddr pkt = None) \<and> (pkLinkAddr pkt = None \<longleftrightarrow> pkRelayInfo pkt = Map.empty) \<and>
     list_all address6 (pkDNSRecursiveServers pkt) \<and> list_all address6 (pkNTPServers pkt) \<and>
     list_all request_ok (pkPrefixRequests pkt) \<and>
     (pkClientMAC pkt \<noteq> [] \<longrightarrow> 2 \<le> length (pkClientMAC pkt) \<and> length (pkClientMAC pkt) < length (pkDUID pkt))"

lemma parseIANA_ok: "pred_option address6 (snd (parseIANA raw))"
  by (auto simp: parseIANA_def Let_def address6_def split: sum.splits list.splits)

lemma parseIAPD_ok: "parseIAPD raw = Some req \<Longrightarrow> request_ok req"
  by (auto simp: parseIAPD_def Let_def request_ok_def address6_def length_slice split: if_splits sum.splits list.splits)

lemma address_list_ok: "list_all address6 (address_list data)"
proof (induction data rule: address_list.induct)
  case (1 data)
  then show ?case by (subst address_list.simps) (auto simp: address6_def [of "take 16 data"])
qed

lemma ntp_ok: "list_all address6 (parseNTPServerOption data)"
proof (induction data rule: parseNTPServerOption.induct)
  case (1 data)
  then show ?case by (subst parseNTPServerOption.simps) (auto simp: address_list_ok Let_def)
qed

lemma length_hex_string: "length (hex_string data) = 2 * length data"
  by (induction data) (simp_all add: hex_string_def hex_byte_def)

lemma duid_mac: "parseDUID data = (duid, mac) \<Longrightarrow> mac \<noteq> [] \<Longrightarrow> 2 \<le> length mac \<and> length mac < length duid"
  by (auto simp: parseDUID_def Let_def length_hex_string split: if_splits)

lemma relay_attributes_nonempty: "relay_attributes hops \<noteq> Map.empty"
proof -
  have add: "add_attr i m kv k \<noteq> None" if "m k \<noteq> None" for i m kv k
    using that by (auto simp: add_attr_def put_absent_def split: prod.splits)
  have attrs: "foldl (add_attr i) m kvs k \<noteq> None" if "m k \<noteq> None" for i m kvs k
    using that by (induction kvs arbitrary: m) (simp_all add: add del: not_None_eq)
  have hop: "add_hop m ih k \<noteq> None" if "m k \<noteq> None" for m ih k
    using that by (cases ih) (auto simp: add_hop_def Let_def simp del: not_None_eq intro!: attrs)
  have "foldl add_hop m ihs k \<noteq> None" if "m k \<noteq> None" for m ihs k
    using that by (induction ihs arbitrary: m) (simp_all add: hop del: not_None_eq)
  from this [of "[''relay-hop-count'' \<mapsto> dec (length hops)]" "''relay-hop-count''" "List.enumerate 0 hops"]
  show ?thesis by (auto simp: relay_attributes_def)
qed

text \<open>C27: Every packet made from a datagram is well formed: the transaction id has 24 bits, every
  address is sixteen bytes long, a packet has a link address exactly when it has a peer address
  and relay attributes, and the link-layer address is a proper part of the client identifier.\<close>

theorem parsed_packet_well_formed:
  assumes "ParseMessage6 data = Inr msg"
  shows "packet_ok (packetFromMessage6 msg)"
proof -
  have msg: "list_all hop_ok (msgRelayHops msg)" "msgTransactionID msg AND 0xFFFFFF = msgTransactionID msg"
    using parsed_message(1) [OF assms] by simp_all
  have duid: "let dm = (case Option6 msg OptionClientID6 of None \<Rightarrow> ([], []) | Some cid \<Rightarrow> parseDUID cid) in
      snd dm \<noteq> [] \<longrightarrow> 2 \<le> length (snd dm) \<and> length (snd dm) < length (fst dm)"
    using duid_mac [OF surjective_pairing] by (auto simp: Let_def split: option.splits)
  have reqs: "list_all request_ok (List.map_filter parseIAPD xs)" for xs
    using parseIAPD_ok by (induction xs) (auto simp: List.map_filter_simps split: option.splits)
  show ?thesis
    using msg duid reqs relay_attributes_nonempty parseIANA_ok address_list_ok ntp_ok
    by (cases "msgRelayHops msg")
      (auto simp: packet_ok_def packetFromMessage6_def Let_def hop_ok_def address6_def parseIPv6AddressListOption_def split: option.splits)
qed

theorem parsed_packet_well_formed_witness:
  "packet_ok (packetFromMessage6 sample_req6) \<and> pkLinkAddr (packetFromMessage6 sample_req6) = Some sample_addr6"
proof -
  have "ParseMessage6 sample_relayed6 = Inr sample_req6" by code_simp
  from parsed_packet_well_formed [OF this] show ?thesis by (simp add: packetFromMessage6_def sample_req6_def Let_def)
qed

end
