(* ===== verification/Prefix_Refinement.thy ===== *)
theory Prefix_Refinement
  imports Prefix_Delegation
begin

text \<open>
  The table of delegated prefixes (\<^verbatim>\<open>internal/lease/prefix_allocator.go\<close>,
  \<^verbatim>\<open>prefix.go\<close> and the statements of \<^verbatim>\<open>repository.go\<close>) as an implementation of a
  map from holders to prefixes.  \<open>holders_of\<close> is the abstraction; one lemma per statement
  says what it does to the map, and the theorem puts them together for the operations.
\<close>

section \<open>The specification\<close>

type_synonym holders = "string \<times> u32 \<Rightarrow> string option"

text \<open>Two keys the database takes for the same client and identity association.\<close>

definition same_holder :: "string \<times> u32 \<Rightarrow> string \<times> u32 \<Rightarrow> bool" where
  "same_holder k k' \<longleftrightarrow> sql_eq (fst k) (fst k') \<and> snd k = snd k'"

definition assign_prefix :: "string \<times> u32 \<Rightarrow> string option \<Rightarrow> holders \<Rightarrow> holders" where
  "assign_prefix k v m = (\<lambda>k'. if same_holder k k' then v else m k')"

text \<open>What the table means: who holds which prefix.\<close>

definition holders_of :: "prefix_db \<Rightarrow> holders" where
  "holders_of rows = (\<lambda>(client, iapd). case GetActivePrefixLease rows client iapd of Inl _ \<Rightarrow> None | Inr r \<Rightarrow> Some (prefix_key r))"

section \<open>The table implements it\<close>

definition row_holder :: "prefix_lease \<Rightarrow> string \<times> u32" where
  "row_holder r = (plClientID r, plIAPDID r)"

lemma same_holder_sym: "same_holder k k' \<longleftrightarrow> same_holder k' k"
  by (auto simp: same_holder_def sql_eq_sym)

lemma same_holder_trans: "same_holder a b \<Longrightarrow> same_holder b c \<Longrightarrow> same_holder a c"
  using sql_eq_trans by (auto simp: same_holder_def)

lemma active_row_unique:
  assumes "prefix_keys_ok rows" and "r \<in> set rows" and "r' \<in> set rows" and "active_prefix r" and "active_prefix r'"
    and "same_holder (row_holder r) (row_holder r')"
  shows "r = r'"
  using assms
proof (induction rows)
  case (Cons x rows)
  have "sql_eq (plState r) (plState r')" using Cons.prems(4,5) sql_eq_sym sql_eq_trans unfolding active_prefix_def by blast
  with Cons show ?case
    by (auto simp: prefix_key_clash_def same_holder_def row_holder_def sql_eq_sym)
qed simp

lemma holders_iff:
  assumes "prefix_keys_ok rows"
  shows "holders_of rows k = Some p \<longleftrightarrow>
    (\<exists>r \<in> set rows. active_prefix r \<and> same_holder (row_holder r) k \<and> prefix_key r = p)"
proof -
  obtain c i where k: "k = (c, i)" by force
  show ?thesis
  proof (cases "GetActivePrefixLease rows c i")
    case (Inl e)
    then have "\<not> (\<exists>r \<in> set rows. active_prefix r \<and> same_holder (row_holder r) k)"
      by (auto simp: GetActivePrefixLease_def find_None_iff k active_prefix_def same_holder_def row_holder_def split: option.splits)
    then show ?thesis using Inl by (auto simp: holders_of_def k)
  next
    case (Inr r)
    then have r: "r \<in> set rows" "active_prefix r" "same_holder (row_holder r) k"
      by (auto simp: GetActivePrefixLease_def find_Some_iff k active_prefix_def same_holder_def row_holder_def split: option.splits)
    have "r' = r" if "r' \<in> set rows" "active_prefix r'" "same_holder (row_holder r') k" for r'
    proof -
      have "same_holder (row_holder r') (row_holder r)" using same_holder_trans [OF that(3), of "row_holder r"] r(3) same_holder_sym [of k] by simp
      with that(1,2) r(1,2) show ?thesis using active_row_unique [OF assms] by simp
    qed
    moreover have "holders_of rows k = Some (prefix_key r)" using Inr by (simp add: holders_of_def k)
    ultimately show ?thesis using r by (metis option.inject)
  qed
qed

lemma option_ext: "(\<And>p. a = Some p \<longleftrightarrow> b = Some p) \<Longrightarrow> a = b"
  by (cases a; cases b) auto

text \<open>An update of a row that keeps its prefix takes the prefix away when it ends the lease and
  changes nothing otherwise.\<close>

lemma update_holders:
  assumes ok: "prefix_keys_ok rows" and r: "r \<in> set rows" "active_prefix r"
    and l: "plID l = plID r" "plPrefix l = plPrefix r" "plPrefixLen l = plPrefixLen r"
    and up: "UpdatePrefixLease rows l = Inr rows'"
  shows "holders_of rows' = (if active_prefix l then holders_of rows else assign_prefix (row_holder r) None (holders_of rows))"
proof (intro ext option_ext)
  fix k p
  define f where "f x = (if sql_eq (plID x) (plID l) then update_prefix_row l x else x)" for x
  have rows': "rows' = map f rows" "prefix_keys_ok rows'"
    using up by (auto simp: UpdatePrefixLease_def Let_def f_def split: if_splits)
  have eq: "sql_eq (plID x) (plID l) \<longleftrightarrow> x = r" if "x \<in> set rows" for x
    using that r ok prefix_row_by_id [of rows x r] l(1) by auto
  have f: "row_holder (f x) = row_holder x" "prefix_key (f x) = prefix_key x"
    "active_prefix (f x) \<longleftrightarrow> (if x = r then active_prefix l else active_prefix x)" if "x \<in> set rows" for x
    using eq [OF that] l by (auto simp: f_def update_prefix_row_def active_prefix_def row_holder_def prefix_key_def)
  have "holders_of rows' k = Some p \<longleftrightarrow>
      (\<exists>x \<in> set rows. (if x = r then active_prefix l else active_prefix x) \<and> same_holder (row_holder x) k \<and> prefix_key x = p)"
    unfolding holders_iff [OF rows'(2)] using f by (auto simp: rows'(1))
  moreover have "x = r" if "x \<in> set rows" "active_prefix x" "same_holder (row_holder x) k" "same_holder (row_holder r) k" for x
    using active_row_unique [OF ok that(1) r(1) that(2) r(2)] same_holder_trans [OF that(3)] that(4) same_holder_sym by blast
  ultimately show "holders_of rows' k = Some p \<longleftrightarrow>
      (if active_prefix l then holders_of rows else assign_prefix (row_holder r) None (holders_of rows)) k = Some p"
    using r by (auto simp: holders_iff [OF ok] assign_prefix_def)
qed

lemma create_holders:
  assumes ok: "prefix_keys_ok rows" and new: "CreatePrefixLease rows l = Inr rows'" and act: "active_prefix l"
  shows "holders_of rows' = assign_prefix (row_holder l) (Some (prefix_key l)) (holders_of rows)"
proof (intro ext option_ext)
  fix k p
  let ?l = "l\<lparr>plTenantID := []\<rparr>"
  have rows': "rows' = rows @ [?l]" "\<forall>r \<in> set rows. \<not> prefix_key_clash r l"
    using new by (auto simp: CreatePrefixLease_def split: if_splits)
  have ok': "prefix_keys_ok rows'" using ok rows' by (simp add: prefix_keys_snoc prefix_key_clash_def)
  have l: "row_holder ?l = row_holder l" "prefix_key ?l = prefix_key l" "active_prefix ?l"
    using act by (simp_all add: row_holder_def prefix_key_def active_prefix_def)
  have "x = ?l" if "x \<in> set rows" "active_prefix x" "same_holder (row_holder x) k" "same_holder (row_holder l) k" for x
    using active_row_unique [OF ok', of x ?l] that l rows'(1) same_holder_trans [OF that(3)] same_holder_sym by auto
  note other = this
  show "holders_of rows' k = Some p \<longleftrightarrow> assign_prefix (row_holder l) (Some (prefix_key l)) (holders_of rows) k = Some p"
  proof (cases "same_holder (row_holder l) k")
    case True
    have "?l \<in> set rows'" by (simp add: rows'(1))
    moreover have "x = ?l" if "x \<in> set rows'" "active_prefix x" "same_holder (row_holder x) k" for x
      using that other [OF _ that(2,3) True] by (cases "x = ?l") (simp_all add: rows'(1))
    ultimately have "holders_of rows' k = Some p \<longleftrightarrow> prefix_key ?l = p"
      unfolding holders_iff [OF ok'] using True l by metis
    then show ?thesis using True l(2) by (simp add: assign_prefix_def)
  next
    case False
    then show ?thesis
      unfolding assign_prefix_def holders_iff [OF ok'] using l(1) by (simp add: holders_iff [OF ok] rows'(1))
  qed
qed

text \<open>Assigning what is held already changes nothing.\<close>

lemma holders_cong:
  assumes "prefix_keys_ok rows" and "same_holder k k'"
  shows "holders_of rows k = holders_of rows k'"
proof (rule option_ext)
  have "same_holder x k \<longleftrightarrow> same_holder x k'" for x
    using assms(2) same_holder_trans [of x k k'] same_holder_trans [of x k' k] same_holder_sym [of k k'] by blast
  then show "holders_of rows k = Some p \<longleftrightarrow> holders_of rows k' = Some p" for p
    by (simp add: holders_iff [OF assms(1)])
qed

lemma reassign: "prefix_keys_ok rows \<Longrightarrow> assign_prefix k (holders_of rows k) (holders_of rows) = holders_of rows"
  by (rule ext) (simp add: assign_prefix_def holders_cong [of rows k])

lemma get_row_holder:
  assumes "prefix_keys_ok rows"
  shows "GetActivePrefixLease rows c i = Inr r \<Longrightarrow>
    r \<in> set rows \<and> active_prefix r \<and> same_holder (row_holder r) (c, i) \<and> holders_of rows (c, i) = Some (prefix_key r)"
  by (auto simp: GetActivePrefixLease_def holders_of_def find_Some_iff active_prefix_def same_holder_def row_holder_def split: option.splits)

lemma assign_cong: "same_holder k k' \<Longrightarrow> assign_prefix k v m = assign_prefix k' v m"
  using same_holder_trans same_holder_sym unfolding assign_prefix_def by (metis (no_types, opaque_lifting))

lemma end_holders:
  assumes ok: "prefix_keys_ok (pdRows st)" and s: "\<not> sql_eq state ''ACTIVE''"
    and run: "updatePrefixState now scope c i state st = (e, st')"
  shows "holders_of (pdRows st') = (if e = None then assign_prefix (c, i) None (holders_of (pdRows st)) else holders_of (pdRows st))"
proof (cases "TenantIDOrErr scope")
  case (Inl err)
  then show ?thesis using run by (auto simp: updatePrefixState_def)
next
  case tenant: (Inr t)
  show ?thesis
  proof (cases "GetActivePrefixLease (pdRows st) c i")
    case (Inl err)
    then have none: "holders_of (pdRows st) (c, i) = None" by (simp add: holders_of_def)
    then have "assign_prefix (c, i) None (holders_of (pdRows st)) = holders_of (pdRows st)"
      using reassign [OF ok, of "(c, i)"] by simp
    then show ?thesis using run tenant Inl by (auto simp: updatePrefixState_def)
  next
    case (Inr r)
    note r = get_row_holder [OF ok Inr]
    let ?l = "r\<lparr>plState := state, plUpdatedAt := now, plExpiresAt := now\<rparr>"
    have "\<not> active_prefix ?l" using s by (simp add: active_prefix_def)
    then have "UpdatePrefixLease (pdRows st) ?l = Inr rows \<Longrightarrow> holders_of rows = assign_prefix (c, i) None (holders_of (pdRows st))" for rows
      using update_holders [OF ok, of r ?l rows] r assign_cong [of "row_holder r" "(c, i)"] by simp
    then show ?thesis using run tenant Inr by (auto simp: updatePrefixState_def split: sum.splits)
  qed
qed

lemma active_state: "sql_eq leaseStateActive ''ACTIVE''"
  by code_simp

lemma grant_holders:
  assumes ok: "pd_ok (pdRows st)" and used: "used_keys (pdRows st) (poolID pool) \<subseteq> used"
    and run: "allocateOrReusePrefix now env scope tenant c profile pool pp req used st = (Inr pd, st')"
  shows "holders_of (pdRows st') = assign_prefix (c, prIAPDID req) (Some (pdPrefix pd)) (holders_of (pdRows st)) \<and>
    (case holders_of (pdRows st) (c, prIAPDID req) of Some p \<Rightarrow> pdPrefix pd = p | None \<Rightarrow> pdPrefix pd \<notin> used)"
proof -
  let ?k = "(c, prIAPDID req)"
  have keys: "prefix_keys_ok (pdRows st)" using ok by (simp add: pd_ok_def)
  from run obtain t where t: "TenantIDOrErr scope = Inr t" by (auto simp: allocateOrReusePrefix_def split: sum.splits)
  show ?thesis
  proof (cases "GetActivePrefixLease (pdRows st) c (prIAPDID req)")
    case (Inr r)
    note r = get_row_holder [OF keys Inr]
    let ?l = "applyPrefixTiming now profile r"
    obtain rows where up: "UpdatePrefixLease (pdRows st) ?l = Inr rows" and st': "pdRows st' = rows" "pdPrefix pd = prefix_key r"
      using run t Inr by (auto simp: allocateOrReusePrefix_def Let_def buildPrefixDelegation_def split: sum.splits)
    have "active_prefix ?l" using r by (simp add: active_prefix_def)
    then have "holders_of rows = holders_of (pdRows st)"
      using update_holders [OF keys, of r ?l rows] r up by simp
    then show ?thesis using r st' reassign [OF keys, of ?k] by simp
  next
    case (Inl e)
    then have none: "holders_of (pdRows st) ?k = None" by (simp add: holders_of_def)
    obtain cand where cand: "pickAvailablePrefix pp (determinePrefixLength pp req) req used = Some cand"
      using run t Inl by (auto simp: allocateOrReusePrefix_def Let_def split: option.splits)
    from pick_fresh [OF cand] obtain p where p: "NewIPv6PrefixPool pp (determinePrefixLength pp req) used = Some p"
      "fresh_prefix p cand" "usedPrefixes p = used" by blast
    define l where "l = applyPrefixTiming now profile
      \<lparr>plID = envNewID env (stNextID (pdSvc st)), plTenantID = tenant, plPoolID = poolID pool, plClientID = c,
       plIAPDID = prIAPDID req, plPrefix = addr_string (pfx_addr (Masked cand)), plPrefixLen = int (pfx_bits cand),
       plState = leaseStateActive, plExpiresAt = zero_time, plCreatedAt = now, plUpdatedAt = now\<rparr>"
    obtain rows where cr: "CreatePrefixLease (pdRows st) l = Inr rows" and st': "pdRows st' = rows" "pdPrefix pd = prefix_key l"
      using run t Inl cand by (auto simp: allocateOrReusePrefix_def Let_def l_def buildPrefixDelegation_def split: sum.splits)
    from NewIPv6PrefixPool_shape [OF p(1)] obtain n b L where "pool_shape p n b L" by blast
    from fresh_row [OF p(2) this, of l] have "row_prefix l cand" by (simp add: l_def)
    then have "prefix_key l = prefix_string cand" by (rule row_prefix_key)
    then have "prefix_key l \<notin> used" using p(2,3) by (simp add: fresh_prefix_def)
    moreover have "active_prefix l" "row_holder l = ?k"
      using active_state by (simp_all add: l_def active_prefix_def row_holder_def applyPrefixTiming_def)
    ultimately show ?thesis using create_holders [OF keys cr] none st' by simp
  qed
qed

lemma refused_grant:
  "allocateOrReusePrefix now env scope tenant c profile pool pp req used st = (Inl e, st') \<Longrightarrow> pdRows st' = pdRows st"
  by (auto simp: allocateOrReusePrefix_def Let_def split: sum.splits option.splits)

text \<open>C28: The table of prefix leases implements a map from (client, identity association) to the
  prefix held.  In every reachable state: releasing or declining removes the entry, or fails and
  changes nothing; a request answers the prefix the map already has, or one outside the used
  prefixes, and enters it; a failing request changes nothing.  Keys that differ in the case of
  the client's name only are one entry, as for the database.\<close>

theorem prefix_table_refines_map:
  assumes "pd_reach env st"
  defines "m \<equiv> holders_of (pdRows st)"
  shows "(\<forall>now scope c i. case ReleasePrefix now env scope c i st of (e, st') \<Rightarrow>
      holders_of (pdRows st') = (if e = None then assign_prefix (c, i) None m else m)) \<and>
    (\<forall>now scope c i. case DeclinePrefix now env scope c i st of (e, st') \<Rightarrow>
      holders_of (pdRows st') = (if e = None then assign_prefix (c, i) None m else m)) \<and>
    (\<forall>now scope tenant c profile pool pp req.
      case allocateOrReusePrefix now env scope tenant c profile pool pp req (used_keys (pdRows st) (poolID pool)) st of
        (Inl _, st') \<Rightarrow> holders_of (pdRows st') = m
      | (Inr pd, st') \<Rightarrow> holders_of (pdRows st') = assign_prefix (c, prIAPDID req) (Some (pdPrefix pd)) m \<and>
          (case m (c, prIAPDID req) of Some p \<Rightarrow> pdPrefix pd = p
           | None \<Rightarrow> pdPrefix pd \<notin> used_keys (pdRows st) (poolID pool)))"
proof -
  have ok: "pd_ok (pdRows st)" using assms(1) by (rule pd_reach_ok)
  then have keys: "prefix_keys_ok (pdRows st)" by (simp add: pd_ok_def)
  have rel: "case ReleasePrefix now env scope c i st of (e, st') \<Rightarrow>
      holders_of (pdRows st') = (if e = None then assign_prefix (c, i) None m else m)" for now scope c i
    using end_holders [OF keys not_active_states(1)] by (auto simp: ReleasePrefix_def m_def split: option.splits prod.splits)
  have dec: "case DeclinePrefix now env scope c i st of (e, st') \<Rightarrow>
      holders_of (pdRows st') = (if e = None then assign_prefix (c, i) None m else m)" for now scope c i
    using end_holders [OF keys not_active_states(2)] by (auto simp: DeclinePrefix_def m_def split: option.splits prod.splits)
  have alloc: "case allocateOrReusePrefix now env scope tenant c profile pool pp req (used_keys (pdRows st) (poolID pool)) st of
        (Inl _, st') \<Rightarrow> holders_of (pdRows st') = m
      | (Inr pd, st') \<Rightarrow> holders_of (pdRows st') = assign_prefix (c, prIAPDID req) (Some (pdPrefix pd)) m \<and>
          (case m (c, prIAPDID req) of Some p \<Rightarrow> pdPrefix pd = p
           | None \<Rightarrow> pdPrefix pd \<notin> used_keys (pdRows st) (poolID pool))" for now scope tenant c profile pool pp req
  proof -
    let ?run = "allocateOrReusePrefix now env scope tenant c profile pool pp req (used_keys (pdRows st) (poolID pool)) st"
    obtain res st' where run: "?run = (res, st')" by force
    show ?thesis
    proof (cases res)
      case (Inl e)
      then show ?thesis using run refused_grant [of now env scope tenant c profile pool pp req _ st e st'] by (simp add: m_def)
    next
      case (Inr pd)
      then show ?thesis using run grant_holders [OF ok order.refl, of now env scope tenant c profile pool pp req pd st']
        by (simp add: m_def)
    qed
  qed
  show ?thesis by (intro conjI allI) (rule rel dec alloc)+
qed

theorem prefix_table_refines_map_witness:
  "case ReleasePrefix 2000 pd_env sample_scope ''a'' 1 pd_run of (e, st') \<Rightarrow>
     holders_of (pdRows st') = (if e = None then assign_prefix (''a'', 1) None (holders_of (pdRows pd_run)) else holders_of (pdRows pd_run))"
  by (rule conjunct1 [OF prefix_table_refines_map [OF pd_run_reach], THEN spec, THEN spec, THEN spec, THEN spec])

end
