(* ===== verification/Security_Lists.thy ===== *)
theory Security_Lists
  imports Relay Lease_Env
begin

text \<open>
  The sources the security guard asks about a client, under \<^verbatim>\<open>internal/security\<close>: the trusted
  switch ports (\<^verbatim>\<open>snooping/static_store.go\<close>), the MAC lists kept in the database
  (\<^verbatim>\<open>maclist/service.go\<close>, \<^verbatim>\<open>repository.go\<close>) and the access rules
  (\<^verbatim>\<open>policy/evaluator.go\<close>).

  The MAC list service is the one without a Redis client.  SQL compares strings without regard
  to case, as in the other tables.
\<close>

section \<open>Trusted ports\<close>

datatype snooping_error = ErrBindingNotFound | ErrUntrusted

record lookup_key =
  lkTenantID :: string
  lkMAC :: string
  lkPortID :: string
  lkVLANID :: int

record snooping_binding =
  sbTenantID :: string
  sbMACAddress :: string
  sbPortID :: string
  sbVLANID :: int
  sbTrusted :: bool
  sbExpiresAt :: gotime

record static_store =
  ssTrusted :: "string set"
  ssTTL :: duration

definition NewStaticStore :: "string list \<Rightarrow> duration \<Rightarrow> static_store" where
  "NewStaticStore trustedPorts ttl =
     \<lparr>ssTrusted = set (filter (\<lambda>p. p \<noteq> []) (map (\<lambda>p. trim_space (to_lower p)) trustedPorts)),
      ssTTL = (if ttl \<le> 0 then minute else ttl)\<rparr>"

definition LookupSnooping :: "gotime \<Rightarrow> static_store \<Rightarrow> lookup_key \<Rightarrow> snooping_error + snooping_binding" where
  "LookupSnooping now s key =
     (if ssTrusted s = {} then Inl ErrBindingNotFound
      else
        let portID = trim_space (to_lower (lkPortID key)) in
        if portID = [] then Inl ErrBindingNotFound
        else if portID \<notin> ssTrusted s then Inl ErrUntrusted
        else Inr \<lparr>sbTenantID = lkTenantID key, sbMACAddress = lkMAC key, sbPortID = lkPortID key, sbVLANID = lkVLANID key,
               sbTrusted = True, sbExpiresAt = now + ssTTL s\<rparr>)"

section \<open>MAC lists\<close>

record mac_entry =
  meID :: string
  meMAC :: string
  meType :: string
  meAction :: string
  meDescription :: string
  meSource :: string
  mePriority :: int
  meEnabled :: bool
  meValidFrom :: "gotime option"
  meValidUntil :: "gotime option"
  meMetadata :: bytes
  meCreatedAt :: gotime
  meUpdatedAt :: gotime

definition ListTypeWhitelist :: string where "ListTypeWhitelist = ''whitelist''"
definition ListTypeBlacklist :: string where "ListTypeBlacklist = ''blacklist''"
definition ListTypeGraylist :: string where "ListTypeGraylist = ''graylist''"
definition ActionAllow :: string where "ActionAllow = ''allow''"
definition ActionBlock :: string where "ActionBlock = ''block''"
definition ActionMonitor :: string where "ActionMonitor = ''monitor''"

lemmas list_defs = ListTypeWhitelist_def ListTypeBlacklist_def ListTypeGraylist_def ActionAllow_def ActionBlock_def ActionMonitor_def

datatype list_error = MacRequired | UnsupportedListType | UnsupportedAction | EntryNotFound | EntryClash

definition normalizeListMAC :: "string \<Rightarrow> string" where
  "normalizeListMAC mac = to_lower (map (\<lambda>c. if c = CHR ''-'' then CHR '':'' else c) (trim_space mac))"

subsection \<open>The table\<close>

text \<open>The rows of \<^verbatim>\<open>security_mac_lists\<close>, with the primary key \<^verbatim>\<open>id\<close> and the unique key
  \<^verbatim>\<open>(mac, list_type)\<close>.\<close>

definition entry_clash :: "mac_entry \<Rightarrow> mac_entry \<Rightarrow> bool" where
  "entry_clash a b \<longleftrightarrow> sql_eq (meID a) (meID b) \<or> (sql_eq (meMAC a) (meMAC b) \<and> sql_eq (meType a) (meType b))"

definition list_rank :: "mac_entry \<Rightarrow> int" where
  "list_rank e =
     (if sql_eq (meType e) ''blacklist'' then 0 else if sql_eq (meType e) ''whitelist'' then 1
      else if sql_eq (meType e) ''graylist'' then 2 else 3)"

text \<open>The order of the query, from the first.\<close>

definition listed_before :: "mac_entry \<Rightarrow> mac_entry \<Rightarrow> bool" where
  "listed_before a b \<longleftrightarrow>
     list_rank a < list_rank b \<or>
     (list_rank a = list_rank b \<and> (mePriority a < mePriority b \<or> (mePriority a = mePriority b \<and> meUpdatedAt a > meUpdatedAt b)))"

definition in_force :: "gotime \<Rightarrow> mac_entry \<Rightarrow> bool" where
  "in_force now e \<longleftrightarrow>
     meEnabled e \<and> (case meValidFrom e of None \<Rightarrow> True | Some t \<Rightarrow> t \<le> now) \<and>
     (case meValidUntil e of None \<Rightarrow> True | Some t \<Rightarrow> now \<le> t)"

fun first_listed :: "mac_entry list \<Rightarrow> mac_entry option" where
  "first_listed [] = None"
| "first_listed (e # es) =
     (case first_listed es of None \<Rightarrow> Some e | Some b \<Rightarrow> Some (if listed_before b e then b else e))"

definition FindByMAC :: "gotime \<Rightarrow> string \<Rightarrow> mac_entry list \<Rightarrow> mac_entry option" where
  "FindByMAC now mac rows = first_listed (filter (\<lambda>e. sql_eq (meMAC e) mac \<and> in_force now e) rows)"

definition stored_entry :: "mac_entry \<Rightarrow> mac_entry" where
  "stored_entry e = e\<lparr>meMAC := normalizeListMAC (meMAC e), meType := to_lower (meType e), meAction := to_lower (meAction e)\<rparr>"

definition RepoCreateEntry :: "gotime \<Rightarrow> mac_entry \<Rightarrow> mac_entry list \<Rightarrow> list_error + mac_entry list" where
  "RepoCreateEntry now e rows =
     (let e = stored_entry (e\<lparr>meCreatedAt := now, meUpdatedAt := now\<rparr>) in
      if \<exists>r \<in> set rows. entry_clash r e then Inl EntryClash else Inr (rows @ [e]))"

definition RepoUpdateEntry :: "gotime \<Rightarrow> mac_entry \<Rightarrow> mac_entry list \<Rightarrow> list_error + mac_entry list" where
  "RepoUpdateEntry now e rows =
     (let e = stored_entry (e\<lparr>meUpdatedAt := now\<rparr>) in
      if \<not> (\<exists>r \<in> set rows. sql_eq (meID r) (meID e)) then Inl EntryNotFound
      else if \<exists>r \<in> set rows. \<not> sql_eq (meID r) (meID e) \<and> entry_clash r e then Inl EntryClash
      else Inr (map (\<lambda>r. if sql_eq (meID r) (meID e) then e\<lparr>meID := meID r, meCreatedAt := meCreatedAt r\<rparr> else r) rows))"

definition RepoDeleteEntry :: "string \<Rightarrow> mac_entry list \<Rightarrow> list_error + mac_entry list" where
  "RepoDeleteEntry i rows =
     (if \<exists>r \<in> set rows. sql_eq (meID r) i then Inr (filter (\<lambda>r. \<not> sql_eq (meID r) i) rows) else Inl EntryNotFound)"

subsection \<open>The service\<close>

definition validateEntry :: "mac_entry \<Rightarrow> list_error option" where
  "validateEntry e =
     (if trim_space (meMAC e) = [] then Some MacRequired
      else if meType e \<notin> {ListTypeWhitelist, ListTypeBlacklist, ListTypeGraylist} then Some UnsupportedListType
      else if meAction e = [] then None
      else if to_lower (meAction e) \<in> {ActionAllow, ActionBlock, ActionMonitor} then None
      else Some UnsupportedAction)"

definition default_entry :: "mac_entry \<Rightarrow> mac_entry" where
  "default_entry e =
     (let e = e\<lparr>meMAC := normalizeListMAC (meMAC e)\<rparr>;
          e = (if mePriority e = 0 then e\<lparr>mePriority := 100\<rparr> else e);
          e = (if meAction e = [] then e\<lparr>meAction := ActionMonitor\<rparr> else e) in
      if meType e = ListTypeWhitelist \<and> meAction e = ActionMonitor then e\<lparr>meAction := ActionAllow\<rparr> else e)"

definition CreateEntry :: "gotime \<Rightarrow> string \<Rightarrow> mac_entry \<Rightarrow> mac_entry list \<Rightarrow> list_error + mac_entry list" where
  "CreateEntry now newID e rows =
     (case validateEntry e of
        Some err \<Rightarrow> Inl err
      | None \<Rightarrow> RepoCreateEntry now (default_entry (e\<lparr>meID := newID\<rparr>)) rows)"

definition UpdateEntry :: "gotime \<Rightarrow> string \<Rightarrow> mac_entry \<Rightarrow> mac_entry list \<Rightarrow> list_error + mac_entry list" where
  "UpdateEntry now i e rows =
     (case validateEntry e of
        Some err \<Rightarrow> Inl err
      | None \<Rightarrow> RepoUpdateEntry now (default_entry (e\<lparr>meID := trim_space i\<rparr>)) rows)"

definition DeleteEntry :: "string \<Rightarrow> mac_entry list \<Rightarrow> list_error + mac_entry list" where
  "DeleteEntry i rows = RepoDeleteEntry (trim_space i) rows"

text \<open>The tenant is not looked at.\<close>

definition EvaluateMAC :: "gotime \<Rightarrow> mac_entry list \<Rightarrow> string \<Rightarrow> mac_entry option" where
  "EvaluateMAC now rows mac =
     (let mac = normalizeListMAC mac in if mac = [] then None else FindByMAC now mac rows)"

section \<open>Access rules\<close>

definition EffectAllow :: string where "EffectAllow = ''allow''"
definition EffectMonitor :: string where "EffectMonitor = ''monitor''"
definition EffectBlock :: string where "EffectBlock = ''block''"
definition EffectQuarantine :: string where "EffectQuarantine = ''quarantine''"

lemmas effect_defs = EffectAllow_def EffectMonitor_def EffectBlock_def EffectQuarantine_def

record rule_match =
  rmType :: string
  rmValue :: string
  rmNegate :: bool

record access_rule =
  arID :: string
  arName :: string
  arPriority :: int
  arEffect :: string
  arEnabled :: bool
  arMatches :: "rule_match list"

record evaluation_context =
  ecMAC :: string
  ecIP :: string
  ecVLANID :: int
  ecInterfaceID :: string
  ecPortID :: string

record rule_decision =
  rdMatched :: bool
  rdRuleID :: string
  rdEffect :: string
  rdName :: string

text \<open>A compiled match keeps the value of its type, or is invalid.\<close>

datatype match_value = MacIs string | IpIs addr | InPrefix prefix | VlanIs int | InterfaceIs string | PortIs string | InvalidMatch

record compiled_rule =
  crData :: access_rule
  crMatches :: "(match_value \<times> bool) list"

definition nonblank :: "(string \<Rightarrow> match_value) \<Rightarrow> string \<Rightarrow> match_value" where
  "nonblank f raw = (let v = to_lower (trim_space raw) in if v = [] then InvalidMatch else f v)"

definition compileMatch :: "rule_match \<Rightarrow> match_value" where
  "compileMatch m =
     (if rmType m = ''mac'' then nonblank MacIs (rmValue m)
      else if rmType m = ''ip'' then (case ParseAddr (trim_space (rmValue m)) of None \<Rightarrow> InvalidMatch | Some a \<Rightarrow> IpIs a)
      else if rmType m = ''cidr'' then (case ParsePrefix (trim_space (rmValue m)) of None \<Rightarrow> InvalidMatch | Some p \<Rightarrow> InPrefix p)
      else if rmType m = ''vlan'' then (case Atoi (trim_space (rmValue m)) of None \<Rightarrow> InvalidMatch | Some v \<Rightarrow> VlanIs v)
      else if rmType m = ''interface'' then nonblank InterfaceIs (rmValue m)
      else if rmType m = ''port'' then nonblank PortIs (rmValue m)
      else InvalidMatch)"

definition compileRule :: "access_rule \<Rightarrow> compiled_rule" where
  "compileRule r = \<lparr>crData = r, crMatches = map (\<lambda>m. (compileMatch m, rmNegate m)) (arMatches r)\<rparr>"

record compiled_context =
  ccMAC :: string
  ccIP :: "addr option"
  ccVLAN :: int
  ccIface :: string
  ccPort :: string

definition compileEvaluationContext :: "evaluation_context \<Rightarrow> compiled_context" where
  "compileEvaluationContext c =
     \<lparr>ccMAC = to_lower (trim_space (ecMAC c)), ccIP = ParseAddr (trim_space (ecIP c)), ccVLAN = ecVLANID c,
      ccIface = to_lower (trim_space (ecInterfaceID c)), ccPort = to_lower (trim_space (ecPortID c))\<rparr>"

definition value_matches :: "match_value \<Rightarrow> compiled_context \<Rightarrow> bool" where
  "value_matches v c =
     (case v of
        MacIs m \<Rightarrow> ccMAC c \<noteq> [] \<and> ccMAC c = m
      | IpIs a \<Rightarrow> ccIP c = Some a
      | InPrefix p \<Rightarrow> (case ccIP c of None \<Rightarrow> False | Some a \<Rightarrow> Contains p a)
      | VlanIs n \<Rightarrow> ccVLAN c = n
      | InterfaceIs i \<Rightarrow> ccIface c \<noteq> [] \<and> ccIface c = i
      | PortIs p \<Rightarrow> ccPort c \<noteq> [] \<and> ccPort c = p
      | InvalidMatch \<Rightarrow> False)"

definition evaluateMatch :: "match_value \<times> bool \<Rightarrow> compiled_context \<Rightarrow> bool" where
  "evaluateMatch m c =
     (case m of (v, negate) \<Rightarrow> if v = InvalidMatch then False else if negate then \<not> value_matches v c else value_matches v c)"

definition matchesContext :: "compiled_rule \<Rightarrow> compiled_context \<Rightarrow> bool" where
  "matchesContext r c = list_all (\<lambda>m. evaluateMatch m c) (crMatches r)"

subsection \<open>The evaluator and its cache\<close>

record rule_evaluator =
  reTTL :: duration
  reCache :: "string \<rightharpoonup> compiled_rule list \<times> gotime"

definition NewEvaluator :: "duration \<Rightarrow> rule_evaluator" where
  "NewEvaluator ttl = \<lparr>reTTL = (if ttl \<le> 0 then minute else ttl), reCache = Map.empty\<rparr>"

text \<open>\<open>list_rules\<close> is the query of the rule table: the rules in order of priority, or a failure.\<close>

definition loadRules ::
  "gotime \<Rightarrow> (string \<Rightarrow> string + access_rule list) \<Rightarrow> string \<Rightarrow> rule_evaluator \<Rightarrow> compiled_rule list \<times> rule_evaluator" where
  "loadRules now list_rules tenantID e =
     (let fetch = (case list_rules tenantID of
            Inl _ \<Rightarrow> ([], e)
          | Inr records \<Rightarrow>
              let compiled = map compileRule records in
              (compiled, e\<lparr>reCache := (reCache e)(tenantID \<mapsto> (compiled, now + reTTL e))\<rparr>)) in
      case reCache e tenantID of
        Some (rules, expires) \<Rightarrow> if now < expires then (rules, e) else fetch
      | None \<Rightarrow> fetch)"

definition no_decision :: rule_decision where
  "no_decision = \<lparr>rdMatched = False, rdRuleID = [], rdEffect = EffectAllow, rdName = []\<rparr>"

definition EvaluateRules ::
  "gotime \<Rightarrow> (string \<Rightarrow> string + access_rule list) \<Rightarrow> string \<Rightarrow> evaluation_context \<Rightarrow> rule_evaluator \<Rightarrow> rule_decision \<times> rule_evaluator" where
  "EvaluateRules now list_rules tenantID input e =
     (if tenantID = [] then (no_decision, e)
      else
        let (rules, e) = loadRules now list_rules tenantID e; c = compileEvaluationContext input in
        (case find (\<lambda>r. arEnabled (crData r) \<and> matchesContext r c) rules of
           None \<Rightarrow> no_decision
         | Some r \<Rightarrow> \<lparr>rdMatched = True, rdRuleID = arID (crData r), rdEffect = arEffect (crData r), rdName = arName (crData r)\<rparr>, e))"

definition InvalidateRules :: "string \<Rightarrow> rule_evaluator \<Rightarrow> rule_evaluator" where
  "InvalidateRules tenantID e =
     (if tenantID = [] then e\<lparr>reCache := Map.empty\<rparr> else e\<lparr>reCache := (reCache e)(tenantID := None)\<rparr>)"

end
