(* ===== verification/Security_Detector.thy ===== *)
theory Security_Detector
  imports Lease_Env
begin

text \<open>
  The detector of suspicious clients, \<^verbatim>\<open>internal/security/detector\<close>: it counts what each client
  sends, blocks floods of DISCOVER and DECLINE, clients that move between switch ports and
  relays that are not on the list, and forgets a client after a silence.
\<close>

section \<open>The detector\<close>

record detection_config =
  dcDeclineSpikeThreshold :: int
  dcStarvationWindow :: duration
  dcOption82MismatchTolerance :: int
  dcDiscoverBurstThreshold :: int
  dcDiscoverToRequestRatio :: rat
  dcBlockDuration :: duration
  dcRogueServerAllowlist :: "string list"
  dcMACDriftThreshold :: int

record detector_event =
  deTenantID :: string
  deMAC :: string
  deMessageType :: string
  deCircuitID :: string
  deRemoteID :: string
  dePortID :: string
  deGIAddr :: string
  deTimestamp :: gotime

definition DetectorStateOK :: string where "DetectorStateOK = ''ok''"
definition DetectorStateSuspect :: string where "DetectorStateSuspect = ''suspect''"
definition DetectorStateBlocked :: string where "DetectorStateBlocked = ''blocked''"

lemmas detector_state_defs = DetectorStateOK_def DetectorStateSuspect_def DetectorStateBlocked_def

record verdict =
  vdBlock :: bool
  vdScore :: rat
  vdReason :: string
  vdState :: string

text \<open>The ports are the keys of the map \<^verbatim>\<open>portSeen\<close>, in the order in which they came.\<close>

record activity =
  acDeclines :: int
  acDiscovers :: int
  acRequests :: int
  acLastSeen :: gotime
  acBlockedUntil :: gotime
  acLastReason :: string
  acState :: string
  acLastPort :: string
  acPortChanges :: int
  acPortSeen :: "string list"

record simple_detector =
  sdConfig :: detection_config
  sdCache :: "string \<rightharpoonup> activity"
  sdRogueAllowlist :: "string set"

definition NewSimpleDetector :: "detection_config \<Rightarrow> simple_detector" where
  "NewSimpleDetector cfg =
     (let cfg = (if dcStarvationWindow cfg \<le> 0 then cfg\<lparr>dcStarvationWindow := 30 * second\<rparr> else cfg);
          cfg = (if dcDiscoverToRequestRatio cfg \<le> 0 then cfg\<lparr>dcDiscoverToRequestRatio := 1 / 4\<rparr> else cfg);
          cfg = (if dcBlockDuration cfg \<le> 0 then cfg\<lparr>dcBlockDuration := 2 * minute\<rparr> else cfg);
          cfg = (if dcMACDriftThreshold cfg < 0 then cfg\<lparr>dcMACDriftThreshold := 0\<rparr> else cfg) in
      \<lparr>sdConfig = cfg, sdCache = Map.empty,
       sdRogueAllowlist = set (map (\<lambda>a. to_lower (trim_space a)) (dcRogueServerAllowlist cfg))\<rparr>)"

definition new_activity :: "gotime \<Rightarrow> activity" where
  "new_activity now = \<lparr>acDeclines = 0, acDiscovers = 0, acRequests = 0, acLastSeen = now, acBlockedUntil = zero_time,
     acLastReason = [], acState = DetectorStateOK, acLastPort = [], acPortChanges = 0, acPortSeen = []\<rparr>"

definition activity_key :: "detector_event \<Rightarrow> string" where
  "activity_key e = to_lower (deTenantID e @ ''|'' @ deMAC e)"

definition touchBucket :: "gotime \<Rightarrow> simple_detector \<Rightarrow> string \<Rightarrow> activity" where
  "touchBucket now d key =
     (case sdCache d key of
        None \<Rightarrow> new_activity now
      | Some b \<Rightarrow> if now - acLastSeen b > dcStarvationWindow (sdConfig d) then new_activity now else b\<lparr>acLastSeen := now\<rparr>)"

definition isRogueServer :: "simple_detector \<Rightarrow> detector_event \<Rightarrow> bool" where
  "isRogueServer d e =
     (let addr = to_lower (trim_space (deGIAddr e)) in
      sdRogueAllowlist d \<noteq> {} \<and> addr \<noteq> [] \<and> addr \<notin> sdRogueAllowlist d)"

definition block_client :: "gotime \<Rightarrow> simple_detector \<Rightarrow> string \<Rightarrow> activity \<Rightarrow> verdict \<times> activity" where
  "block_client now d reason b =
     (\<lparr>vdBlock = True, vdScore = 0, vdReason = reason, vdState = DetectorStateBlocked\<rparr>,
      b\<lparr>acBlockedUntil := now + dcBlockDuration (sdConfig d), acLastReason := reason, acState := DetectorStateBlocked\<rparr>)"

definition evaluatePreconditions :: "gotime \<Rightarrow> simple_detector \<Rightarrow> detector_event \<Rightarrow> activity \<Rightarrow> verdict option \<times> activity" where
  "evaluatePreconditions now d e b =
     (let b = (if acState b = [] then b\<lparr>acState := DetectorStateOK\<rparr> else b) in
      if acBlockedUntil b > now
      then (Some \<lparr>vdBlock = True, vdScore = 0, vdReason = acLastReason b, vdState = DetectorStateBlocked\<rparr>, b)
      else if isRogueServer d e then (case block_client now d ''rogue_server'' b of (v, b) \<Rightarrow> (Some v, b))
      else (None, b))"

definition trackEvent :: "detector_event \<Rightarrow> activity \<Rightarrow> activity" where
  "trackEvent e b =
     (let t = to_lower (deMessageType e) in
      if t = ''decline'' then b\<lparr>acDeclines := acDeclines b + 1\<rparr>
      else if t = ''discover'' then b\<lparr>acDiscovers := acDiscovers b + 1\<rparr>
      else if t = ''request'' then b\<lparr>acRequests := acRequests b + 1\<rparr>
      else b)"

definition inspectTopology :: "gotime \<Rightarrow> simple_detector \<Rightarrow> detector_event \<Rightarrow> activity \<Rightarrow> verdict option \<times> activity" where
  "inspectTopology now d e b =
     (let port = to_lower (trim_space (dePortID e)); cfg = sdConfig d; moved = (acLastPort b \<noteq> [] \<and> acLastPort b \<noteq> port);
          b' = (if moved then b\<lparr>acPortChanges := acPortChanges b + 1\<rparr> else b) in
      if port = [] then (None, b)
      else if moved \<and> dcOption82MismatchTolerance cfg > 0 \<and> acPortChanges b' > dcOption82MismatchTolerance cfg
      then (case block_client now d ''option82_mismatch'' b' of (v, b) \<Rightarrow> (Some v, b))
      else
        let b = b'\<lparr>acLastPort := port\<rparr> in
        if port \<in> set (acPortSeen b) then (None, b)
        else
          let b = b\<lparr>acPortSeen := acPortSeen b @ [port]\<rparr> in
          if dcMACDriftThreshold cfg > 0 \<and> int (length (acPortSeen b)) > dcMACDriftThreshold cfg
          then (case block_client now d ''mac_drift'' b of (v, b) \<Rightarrow> (Some v, b))
          else (None, b))"

definition request_ratio :: "activity \<Rightarrow> rat" where
  "request_ratio b =
     (if acDiscovers b > 0 then fdiv (float_of_int (acRequests b)) (float_of_int (acDiscovers b)) else float_of_int (acRequests b))"

definition evaluatePatterns :: "gotime \<Rightarrow> simple_detector \<Rightarrow> activity \<Rightarrow> verdict \<times> activity" where
  "evaluatePatterns now d b =
     (let cfg = sdConfig d in
      if dcDeclineSpikeThreshold cfg > 0 \<and> acDeclines b \<ge> dcDeclineSpikeThreshold cfg
      then block_client now d ''decline_spike'' b
      else if dcDiscoverBurstThreshold cfg > 0 \<and> acDiscovers b \<ge> dcDiscoverBurstThreshold cfg
      then
        (if request_ratio b < dcDiscoverToRequestRatio cfg then block_client now d ''starvation_pattern'' b
         else (\<lparr>vdBlock = False, vdScore = request_ratio b, vdReason = ''discover_spike'', vdState = DetectorStateSuspect\<rparr>,
               b\<lparr>acState := DetectorStateSuspect\<rparr>))
      else (\<lparr>vdBlock = False, vdScore = 0, vdReason = [], vdState = acState b\<rparr>, b))"

definition Observe :: "gotime \<Rightarrow> detector_event \<Rightarrow> simple_detector \<Rightarrow> verdict \<times> simple_detector" where
  "Observe now e d =
     (let key = activity_key e;
          (v, b) = (case evaluatePreconditions now d e (touchBucket now d key) of
              (Some v, b) \<Rightarrow> (v, b)
            | (None, b) \<Rightarrow>
                (case inspectTopology now d e (trackEvent e b) of
                   (Some v, b) \<Rightarrow> (v, b)
                 | (None, b) \<Rightarrow> evaluatePatterns now d b)) in
      (v, d\<lparr>sdCache := (sdCache d)(key \<mapsto> b)\<rparr>))"


section \<open>Properties\<close>

lemma config_frame:
  "sdConfig (d\<lparr>sdCache := c\<rparr>) = sdConfig d" "sdRogueAllowlist (d\<lparr>sdCache := c\<rparr>) = sdRogueAllowlist d"
  by simp_all

lemma detector_frame:
  "block_client now (d\<lparr>sdCache := c\<rparr>) reason b = block_client now d reason b"
  "isRogueServer (d\<lparr>sdCache := c\<rparr>) e = isRogueServer d e"
  "evaluatePreconditions now (d\<lparr>sdCache := c\<rparr>) e b = evaluatePreconditions now d e b"
  "inspectTopology now (d\<lparr>sdCache := c\<rparr>) e b = inspectTopology now d e b"
  "evaluatePatterns now (d\<lparr>sdCache := c\<rparr>) b = evaluatePatterns now d b"
  by (simp_all add: block_client_def isRogueServer_def evaluatePreconditions_def inspectTopology_def evaluatePatterns_def
      cong: if_cong option.case_cong)

text \<open>C0: A block ends with a silence.  When a client has sent nothing for longer than the starvation
  window, the detector treats its next message exactly as that of a client it has never seen: the
  block, whatever is left of it, and all counts are forgotten.  By default a block is to last two
  minutes and the window is thirty seconds.\<close>

theorem silence_ends_block:
  assumes "sdCache d (activity_key e) = Some b" and "now - acLastSeen b > dcStarvationWindow (sdConfig d)"
  shows "Observe now e d = Observe now e (d\<lparr>sdCache := (sdCache d)(activity_key e := None)\<rparr>)"
proof -
  have "touchBucket now d (activity_key e) = touchBucket now (d\<lparr>sdCache := (sdCache d)(activity_key e := None)\<rparr>) (activity_key e)"
    using assms by (simp add: touchBucket_def)
  then show ?thesis unfolding Observe_def detector_frame by simp
qed

definition plain_detection :: detection_config where
  "plain_detection = \<lparr>dcDeclineSpikeThreshold = 2, dcStarvationWindow = 0, dcOption82MismatchTolerance = 0,
     dcDiscoverBurstThreshold = 3, dcDiscoverToRequestRatio = 0, dcBlockDuration = 0, dcRogueServerAllowlist = [],
     dcMACDriftThreshold = 0\<rparr>"

definition sample_event :: "string \<Rightarrow> detector_event" where
  "sample_event t = \<lparr>deTenantID = ''t'', deMAC = ''m'', deMessageType = t, deCircuitID = [], deRemoteID = [], dePortID = [],
     deGIAddr = [], deTimestamp = 0\<rparr>"

theorem silence_ends_block_witness:
  "let d = snd (Observe second (sample_event ''decline'') (snd (Observe 0 (sample_event ''decline'') (NewSimpleDetector plain_detection)))) in
   map_option acBlockedUntil (sdCache d (activity_key (sample_event ''decline''))) = Some (121 * second) \<and>
   vdBlock (fst (Observe (31 * second) (sample_event ''discover'') d)) \<and>
   \<not> vdBlock (fst (Observe (32 * second) (sample_event ''discover'') d)) \<and>
   Observe (32 * second) (sample_event ''discover'') d =
     Observe (32 * second) (sample_event ''discover'') (d\<lparr>sdCache := (sdCache d)(activity_key (sample_event ''discover'') := None)\<rparr>)"
proof -
  let ?d = "snd (Observe second (sample_event ''decline'') (snd (Observe 0 (sample_event ''decline'') (NewSimpleDetector plain_detection))))"
  have key: "activity_key (sample_event ''discover'') = activity_key (sample_event ''decline'')"
    by (simp add: activity_key_def sample_event_def)
  have run: "map_option acBlockedUntil (sdCache ?d (activity_key (sample_event ''decline''))) = Some (121 * second)"
    "map_option acLastSeen (sdCache ?d (activity_key (sample_event ''decline''))) = Some second"
    "dcStarvationWindow (sdConfig ?d) = 30 * second"
    "vdBlock (fst (Observe (31 * second) (sample_event ''discover'') ?d))" "\<not> vdBlock (fst (Observe (32 * second) (sample_event ''discover'') ?d))"
    by code_simp+
  then obtain b where b: "sdCache ?d (activity_key (sample_event ''discover'')) = Some b" "acLastSeen b = second"
    unfolding key by auto
  have "32 * second - acLastSeen b > dcStarvationWindow (sdConfig ?d)" using b(2) run(3) by (simp add: second_def)
  from silence_ends_block [OF b(1) this] show ?thesis using run unfolding Let_def by blast
qed

text \<open>A client that only sends DISCOVER: how many of them pass.\<close>

fun passes :: "detector_event \<Rightarrow> gotime list \<Rightarrow> simple_detector \<Rightarrow> nat" where
  "passes e [] d = 0"
| "passes e (t # ts) d = (case Observe t e d of (v, d) \<Rightarrow> (if vdBlock v then 0 else 1) + passes e ts d)"

fun unbroken :: "duration \<Rightarrow> gotime \<Rightarrow> gotime list \<Rightarrow> bool" where
  "unbroken w prev [] = True"
| "unbroken w prev (t # ts) = (t - prev \<le> w \<and> unbroken w t ts)"

lemma flood_step:
  assumes "touchBucket now d (activity_key e) = b"
    and "to_lower (deMessageType e) = ''discover''" and "trim_space (dePortID e) = []" and "\<not> isRogueServer d e"
    and "acDeclines b = 0" and "acRequests b = 0" and "dcDiscoverBurstThreshold (sdConfig d) > 0" and "dcDiscoverToRequestRatio (sdConfig d) > 0"
  obtains v b' where "Observe now e d = (v, d\<lparr>sdCache := (sdCache d)(activity_key e \<mapsto> b')\<rparr>)"
    "acDeclines b' = 0" "acRequests b' = 0" "acLastSeen b' = acLastSeen b"
    "vdBlock v \<longleftrightarrow> acBlockedUntil b > now \<or> acDiscovers b + 1 \<ge> dcDiscoverBurstThreshold (sdConfig d)"
    "acDiscovers b' = (if acBlockedUntil b > now then acDiscovers b else acDiscovers b + 1)"
    "\<not> vdBlock v \<longrightarrow> acBlockedUntil b' = acBlockedUntil b"
proof -
  let ?b = "if acState b = [] then b\<lparr>acState := DetectorStateOK\<rparr> else b"
  let ?b' = "?b\<lparr>acDiscovers := acDiscovers b + 1\<rparr>"
  have ratio: "request_ratio ?b' = 0" if "acDiscovers b + 1 > 0"
    using that assms(6) by (simp add: request_ratio_def fdiv_def float_of_int_def fl64_def)
  show thesis
  proof (cases "acBlockedUntil b > now")
    case True
    show thesis
      by (rule that [of "\<lparr>vdBlock = True, vdScore = 0, vdReason = acLastReason b, vdState = DetectorStateBlocked\<rparr>" ?b])
        (use assms True in \<open>simp_all add: Observe_def evaluatePreconditions_def Let_def\<close>)
  next
    case False
    have pre: "evaluatePreconditions now d e b = (None, ?b)" using False assms(4) by (simp add: evaluatePreconditions_def Let_def)
    have track: "trackEvent e ?b = ?b'" using assms(2) by (simp add: trackEvent_def Let_def)
    have topo: "inspectTopology now d e ?b' = (None, ?b')" using assms(3) by (simp add: inspectTopology_def Let_def to_lower_def)
    have obs: "Observe now e d = (case evaluatePatterns now d ?b' of (v, b) \<Rightarrow> (v, d\<lparr>sdCache := (sdCache d)(activity_key e \<mapsto> b)\<rparr>))"
      unfolding Observe_def Let_def assms(1) pre option.case prod.case track topo ..
    show thesis
    proof (cases "acDiscovers b + 1 \<ge> dcDiscoverBurstThreshold (sdConfig d)")
      case True
      then have "evaluatePatterns now d ?b' = block_client now d ''starvation_pattern'' ?b'"
        using assms(5,7,8) ratio by (auto simp: evaluatePatterns_def Let_def)
      then show thesis using that obs True False assms(5,6) by (simp add: block_client_def)
    next
      case below: False
      then have "evaluatePatterns now d ?b' = (\<lparr>vdBlock = False, vdScore = 0, vdReason = [], vdState = acState ?b'\<rparr>, ?b')"
        using assms(5) by (auto simp: evaluatePatterns_def Let_def)
      then show thesis using that obs below False assms(5,6) by simp
    qed
  qed
qed

text \<open>Below the threshold a client has sent so many DISCOVER messages, at the threshold it stays blocked.\<close>

definition flooding :: "simple_detector \<Rightarrow> detector_event \<Rightarrow> gotime \<Rightarrow> int \<Rightarrow> bool" where
  "flooding d e prev n \<longleftrightarrow>
     (\<exists>b. sdCache d (activity_key e) = Some b \<and> acLastSeen b = prev \<and> acDeclines b = 0 \<and> acRequests b = 0 \<and>
        (if n < dcDiscoverBurstThreshold (sdConfig d) then acDiscovers b = n \<and> acBlockedUntil b = zero_time
         else acDiscovers b \<ge> dcDiscoverBurstThreshold (sdConfig d)))"

lemma flood_observe:
  assumes "flooding d e prev n" and "t - prev \<le> dcStarvationWindow (sdConfig d)" and "zero_time \<le> t"
    and ev: "to_lower (deMessageType e) = ''discover''" "trim_space (dePortID e) = []" "\<not> isRogueServer d e"
    and cfg: "dcDiscoverBurstThreshold (sdConfig d) > 0" "dcDiscoverToRequestRatio (sdConfig d) > 0"
  obtains v d' where "Observe t e d = (v, d')" "vdBlock v \<longleftrightarrow> n + 1 \<ge> dcDiscoverBurstThreshold (sdConfig d)"
    "flooding d' e t (n + 1)" "sdConfig d' = sdConfig d" "sdRogueAllowlist d' = sdRogueAllowlist d"
proof -
  from assms(1) obtain b where b: "sdCache d (activity_key e) = Some b" "acLastSeen b = prev" "acDeclines b = 0" "acRequests b = 0"
    and n: "if n < dcDiscoverBurstThreshold (sdConfig d) then acDiscovers b = n \<and> acBlockedUntil b = zero_time
         else acDiscovers b \<ge> dcDiscoverBurstThreshold (sdConfig d)" by (auto simp: flooding_def)
  have "touchBucket t d (activity_key e) = b\<lparr>acLastSeen := t\<rparr>" using b assms(2) by (simp add: touchBucket_def)
  then obtain v b' where
    s: "Observe t e d = (v, d\<lparr>sdCache := (sdCache d)(activity_key e \<mapsto> b')\<rparr>)" "acDeclines b' = 0" "acRequests b' = 0" "acLastSeen b' = t"
      "vdBlock v \<longleftrightarrow> acBlockedUntil b > t \<or> acDiscovers b + 1 \<ge> dcDiscoverBurstThreshold (sdConfig d)"
      "acDiscovers b' = (if acBlockedUntil b > t then acDiscovers b else acDiscovers b + 1)"
      "\<not> vdBlock v \<longrightarrow> acBlockedUntil b' = acBlockedUntil b"
    by (rule flood_step [OF _ ev _ _ cfg]) (use b in simp_all)
  show thesis
    by (rule that [OF s(1)]) (use s(2-) n assms(3) in \<open>auto simp: flooding_def split: if_splits\<close>)
qed

lemma flood_passes:
  assumes ev: "to_lower (deMessageType e) = ''discover''" "trim_space (dePortID e) = []"
  shows "flooding d e prev n \<Longrightarrow> unbroken (dcStarvationWindow (sdConfig d)) prev ts \<Longrightarrow> (\<And>t. t \<in> set ts \<Longrightarrow> zero_time \<le> t) \<Longrightarrow>
    \<not> isRogueServer d e \<Longrightarrow> 0 < dcDiscoverBurstThreshold (sdConfig d) \<Longrightarrow> 0 < dcDiscoverToRequestRatio (sdConfig d) \<Longrightarrow> 0 \<le> n \<Longrightarrow>
    passes e ts d = min (length ts) (nat (dcDiscoverBurstThreshold (sdConfig d) - 1 - n))"
proof (induction ts arbitrary: d prev n)
  case (Cons t ts)
  from Cons.prems(2,3) have t: "t - prev \<le> dcStarvationWindow (sdConfig d)" "zero_time \<le> t" by auto
  from flood_observe [OF Cons.prems(1) t ev Cons.prems(4-6)] obtain v d' where
    s: "Observe t e d = (v, d')" "vdBlock v \<longleftrightarrow> n + 1 \<ge> dcDiscoverBurstThreshold (sdConfig d)"
      "flooding d' e t (n + 1)" "sdConfig d' = sdConfig d" "sdRogueAllowlist d' = sdRogueAllowlist d" .
  have "\<not> isRogueServer d' e" using s(5) Cons.prems(4) by (simp add: isRogueServer_def)
  then have "passes e ts d' = min (length ts) (nat (dcDiscoverBurstThreshold (sdConfig d) - 1 - (n + 1)))"
    using Cons.IH [OF s(3)] Cons.prems s(4) by simp
  then show ?case using s(1,2) Cons.prems(7) by auto
qed simp

text \<open>C0: A flood of DISCOVER is cut at the threshold.  A new client that sends only DISCOVER, without
  a silence longer than the window, passes exactly threshold minus one times, however long it
  goes on: once blocked it is blocked again whenever a block runs out, because its counts are
  kept.\<close>

theorem discover_flood_cut:
  assumes "dcDiscoverBurstThreshold cfg > 0" and "to_lower (deMessageType e) = ''discover''" and "trim_space (dePortID e) = []"
    and "\<not> isRogueServer (NewSimpleDetector cfg) e"
    and "unbroken (dcStarvationWindow (sdConfig (NewSimpleDetector cfg))) t ts" and "\<forall>u \<in> set (t # ts). zero_time \<le> u"
  shows "passes e (t # ts) (NewSimpleDetector cfg) = min (Suc (length ts)) (nat (dcDiscoverBurstThreshold cfg - 1))"
proof -
  let ?d = "NewSimpleDetector cfg"
  have c: "dcDiscoverBurstThreshold (sdConfig ?d) = dcDiscoverBurstThreshold cfg" "dcDiscoverToRequestRatio (sdConfig ?d) > 0" "sdCache ?d = Map.empty"
    by (simp_all add: NewSimpleDetector_def Let_def)
  have touch: "touchBucket t ?d (activity_key e) = new_activity t" by (simp add: touchBucket_def c)
  obtain v b' where
    s: "Observe t e ?d = (v, ?d\<lparr>sdCache := (sdCache ?d)(activity_key e \<mapsto> b')\<rparr>)" "acDeclines b' = 0" "acRequests b' = 0" "acLastSeen b' = t"
      "vdBlock v \<longleftrightarrow> zero_time > t \<or> 1 \<ge> dcDiscoverBurstThreshold cfg" "acDiscovers b' = (if zero_time > t then 0 else 1)"
      "\<not> vdBlock v \<longrightarrow> acBlockedUntil b' = zero_time"
    by (rule flood_step [OF touch assms(2-4)]) (use c assms(1) in \<open>simp_all add: new_activity_def\<close>)
  let ?d' = "?d\<lparr>sdCache := (sdCache ?d)(activity_key e \<mapsto> b')\<rparr>"
  have "zero_time \<le> t" using assms(6) by simp
  then have "flooding ?d' e t 1" using s c by (auto simp: flooding_def)
  from flood_passes [OF assms(2,3) this] assms c detector_frame(2)
  have "passes e ts ?d' = min (length ts) (nat (dcDiscoverBurstThreshold cfg - 1 - 1))" by simp
  then show ?thesis using s(1,5) \<open>zero_time \<le> t\<close> assms(1) by auto
qed

theorem discover_flood_cut_witness:
  "passes (sample_event ''DISCOVER'') [0, second, 2 * second, 3 * second, 30 * second, 60 * second, 90 * second, 120 * second, 150 * second]
     (NewSimpleDetector plain_detection) = 2"
proof -
  have "to_lower (deMessageType (sample_event ''DISCOVER'')) = ''discover''" "trim_space (dePortID (sample_event ''DISCOVER'')) = []"
    "\<not> isRogueServer (NewSimpleDetector plain_detection) (sample_event ''DISCOVER'')"
    "unbroken (dcStarvationWindow (sdConfig (NewSimpleDetector plain_detection))) 0
       [second, 2 * second, 3 * second, 30 * second, 60 * second, 90 * second, 120 * second, 150 * second]"
    "list_all (\<lambda>t. zero_time \<le> t) [0, second, 2 * second, 3 * second, 30 * second, 60 * second, 90 * second, 120 * second, 150 * second]"
    "dcDiscoverBurstThreshold plain_detection = 3"
    by code_simp+
  then show ?thesis
    using discover_flood_cut [of plain_detection "sample_event ''DISCOVER''" 0
        "[second, 2 * second, 3 * second, 30 * second, 60 * second, 90 * second, 120 * second, 150 * second]"]
    by (simp add: list_all_iff)
qed

end
