(* ===== verification/Security_Guard.thy ===== *)
theory Security_Guard
  imports Security_Lists Security_Detector Handler_Services Ratelimit Lease_Service
begin

text \<open>
  The security guard, \<^verbatim>\<open>internal/security/guard/guard.go\<close> and \<^verbatim>\<open>factory.go\<close>, with the sink of
  its quarantine signals (\<^verbatim>\<open>internal/security/quarantine/lease_sink.go\<close>): the checks a DHCPv4
  message passes before it reaches the lease service, from the MAC lists to the detector.

  The guard marks leases through the lease service and asks it for valid leases, so its
  operations carry the state of the service.  Audit records, metrics and observers are left out;
  what is handed to the IP source guard controller and to RADIUS is kept in the state.
\<close>

section \<open>The interface\<close>

record guard_context =
  gcTenantID :: string
  gcMessageType :: string
  gcRequestPhase :: string
  gcMAC :: string
  gcClientID :: string
  gcCircuitID :: string
  gcRemoteID :: string
  gcRelayAgent :: attrs
  gcPortID :: string
  gcVLANID :: int
  gcInterfaceID :: string
  gcRequestedIP :: string
  gcGIAddr :: string
  gcTimestamp :: gotime

record lease_change =
  lcTenantID :: string
  lcMACAddress :: string
  lcClientID :: string
  lcIPAddress :: string
  lcPoolID :: string
  lcVLANID :: "int option"
  lcInterfaceID :: string
  lcPortID :: string
  lcExpiresAt :: gotime
  lcAction :: string
  lcMDMManaged :: bool
  lcMDMSource :: string
  lcMDMTags :: "string list"
  lcMDMObserved :: "gotime option"

text \<open>The operations the handler calls, on the lease service and a state of the guard's own.  The
  renewal check is given the tenant and the phase of its context.\<close>

record ('r, 'g) guard_ops =
  gCheck :: "gotime \<Rightarrow> guard_context \<Rightarrow> 'r svc_state \<times> 'g \<Rightarrow> string option \<times> 'r svc_state \<times> 'g"
  gCheckRenewACL :: "gotime \<Rightarrow> string \<Rightarrow> string \<Rightarrow> string \<Rightarrow> 'r svc_state \<times> 'g \<Rightarrow> string option \<times> 'r svc_state \<times> 'g"
  gOnLeaseChange :: "lease_change \<Rightarrow> 'g \<Rightarrow> 'g"

definition NewNoop :: "('r, 'g) guard_ops" where
  "NewNoop = \<lparr>gCheck = (\<lambda>_ _ st. (None, st)), gCheckRenewACL = (\<lambda>_ _ _ _ st. (None, st)), gOnLeaseChange = (\<lambda>_ g. g)\<rparr>"

definition ErrUntrustedBinding :: string where "ErrUntrustedBinding = ''security guard: untrusted binding''"
definition ErrRateLimited :: string where "ErrRateLimited = ''security guard: rate limited''"
definition ErrSuspiciousTraffic :: string where "ErrSuspiciousTraffic = ''security guard: suspicious traffic''"
definition ErrMACNotAllowed :: string where "ErrMACNotAllowed = ''security guard: mac not allowed''"
definition ErrPolicyDenied :: string where "ErrPolicyDenied = ''security guard: policy violation''"

section \<open>The static lists\<close>

record mac_acl_config =
  aclWhitelist :: "string list"
  aclBlacklist :: "string list"
  aclGraylist :: "string list"
  aclGraylistAction :: string
  aclEnforceWhitelist :: bool
  aclBindingExemptACL :: bool
  aclRenewExemptBlocked :: bool
  aclDefaultAction :: string

record mac_acl =
  maWhitelist :: "string set"
  maBlacklist :: "string set"
  maGraylist :: "string set"
  maGrayAction :: string
  maEnforceWhitelist :: bool
  maBindingExemptACL :: bool
  maRenewExemptBlocked :: bool
  maDefaultAction :: string

definition GraylistActionMonitor :: string where "GraylistActionMonitor = ''monitor''"
definition GraylistActionBlock :: string where "GraylistActionBlock = ''block''"
definition macACLDefaultActionAllow :: string where "macACLDefaultActionAllow = ''allow''"

definition normalizeMAC :: "string \<Rightarrow> string" where
  "normalizeMAC addr = to_lower (trim_space addr)"

definition normalizeMACEntries :: "string list \<Rightarrow> string set" where
  "normalizeMACEntries entries = set (filter (\<lambda>m. m \<noteq> []) (map normalizeMAC entries))"

definition hasRules :: "mac_acl \<Rightarrow> bool" where
  "hasRules m \<longleftrightarrow>
     maBindingExemptACL m \<or> maEnforceWhitelist m \<or> maWhitelist m \<noteq> {} \<or> maBlacklist m \<noteq> {} \<or> maGraylist m \<noteq> {} \<or>
     maDefaultAction m = macACLDefaultActionAllow"

definition normalizeMACACL :: "mac_acl_config option \<Rightarrow> mac_acl option" where
  "normalizeMACACL cfg =
     (case cfg of
        None \<Rightarrow> None
      | Some c \<Rightarrow>
          let gray = (if aclGraylistAction c \<noteq> GraylistActionMonitor \<and> aclGraylistAction c \<noteq> GraylistActionBlock
                then GraylistActionMonitor else aclGraylistAction c);
              acl = \<lparr>maWhitelist = normalizeMACEntries (aclWhitelist c), maBlacklist = normalizeMACEntries (aclBlacklist c),
                maGraylist = normalizeMACEntries (aclGraylist c), maGrayAction = gray,
                maEnforceWhitelist = aclEnforceWhitelist c, maBindingExemptACL = aclBindingExemptACL c,
                maRenewExemptBlocked = aclRenewExemptBlocked c, maDefaultAction = macACLDefaultActionAllow\<rparr> in
          if hasRules acl then Some acl else None)"

section \<open>The guard\<close>

record guard_deps =
  gdSnooping :: "static_store option"
  gdBinding :: "(access_scope \<Rightarrow> string \<Rightarrow> static_binding option) option"
  gdRules :: "string \<Rightarrow> string + access_rule list"
  gdMACACL :: "mac_acl option"
  gdQuarantine :: bool
  gdPublisher :: bool
  gdRadius :: bool

record lease_snapshot =
  lsTenantID :: string
  lsMACAddress :: string
  lsIPAddress :: string
  lsPoolID :: string
  lsVLANID :: "int option"
  lsInterfaceID :: string
  lsPortID :: string
  lsExpiresAt :: gotime
  lsAction :: string
  lsMDMManaged :: bool
  lsMDMSource :: string
  lsMDMTags :: "string list"
  lsMDMObserved :: "gotime option"

record accounting_report =
  arpTenantID :: string
  arpMACAddress :: string
  arpClientID :: string
  arpIPAddress :: string
  arpAction :: string
  arpExpiresAt :: gotime

record guard_state =
  gsLimiter :: "guard_limiter option"
  gsDetector :: "simple_detector option"
  gsPolicy :: "rule_evaluator option"
  gsMacList :: "mac_entry list option"
  gsPublished :: "lease_snapshot list"
  gsAccounting :: "accounting_report list"

record quarantine_signal =
  qsTenantID :: string
  qsMAC :: string
  qsClientID :: string
  qsState :: string
  qsReason :: string

subsection \<open>Quarantine\<close>

definition mapState :: "string \<Rightarrow> string" where
  "mapState s =
     (if s = DetectorStateBlocked then SecurityStateBlocked else if s = DetectorStateSuspect then SecurityStateSuspect else SecurityStateOK)"

definition ApplyQuarantine :: "gotime \<Rightarrow> quarantine_signal \<Rightarrow> 'r svc_state \<Rightarrow> 'r svc_state" where
  "ApplyQuarantine now signal svc =
     (let identifier = (if qsMAC signal \<noteq> [] then qsMAC signal else qsClientID signal) in
      if identifier = [] \<or> qsTenantID signal = [] then svc
      else snd (UpdateSecurityState now (NewResourceScope (qsTenantID signal) (qsTenantID signal)) identifier (mapState (qsState signal)) svc))"

definition client_signal :: "guard_context \<Rightarrow> string \<Rightarrow> string \<Rightarrow> quarantine_signal" where
  "client_signal ctx state reason =
     \<lparr>qsTenantID = gcTenantID ctx, qsMAC = to_lower (gcMAC ctx), qsClientID = gcClientID ctx, qsState = state, qsReason = reason\<rparr>"

definition applyQuarantine :: "guard_deps \<Rightarrow> gotime \<Rightarrow> guard_context \<Rightarrow> verdict \<Rightarrow> 'r svc_state \<Rightarrow> 'r svc_state" where
  "applyQuarantine deps now ctx v svc =
     (if \<not> gdQuarantine deps \<or> vdState v = [] \<or> vdState v = DetectorStateOK then svc
      else ApplyQuarantine now (client_signal ctx (vdState v) (vdReason v)) svc)"

definition policyDecisionReason :: "rule_decision \<Rightarrow> string" where
  "policyDecisionReason d =
     (let name = trim_space (rdName d) in
      if name = [] then ''policy rule '' @ rdRuleID d else ''policy rule '' @ rdRuleID d @ '' ('' @ name @ '')'')"

definition applyPolicyQuarantine :: "guard_deps \<Rightarrow> gotime \<Rightarrow> guard_context \<Rightarrow> string \<Rightarrow> 'r svc_state \<Rightarrow> 'r svc_state" where
  "applyPolicyQuarantine deps now ctx reason svc =
     (if \<not> gdQuarantine deps then svc else ApplyQuarantine now (client_signal ctx DetectorStateBlocked reason) svc)"

subsection \<open>The checks\<close>

definition pickFirstNonEmpty :: "string list \<Rightarrow> string" where
  "pickFirstNonEmpty values = (case filter (\<lambda>v. v \<noteq> []) (map trim_space values) of [] \<Rightarrow> [] | v # _ \<Rightarrow> v)"

definition binding_exempt :: "guard_deps \<Rightarrow> guard_context \<Rightarrow> bool" where
  "binding_exempt deps ctx =
     (case (gdBinding deps, gdMACACL deps) of
        (Some lookup, Some acl) \<Rightarrow>
          normalizeMAC (gcMAC ctx) \<noteq> [] \<and> maBindingExemptACL acl \<and>
          lookup (NewResourceScope (gcTenantID ctx) (gcTenantID ctx)) (normalizeMAC (gcMAC ctx)) \<noteq> None
      | _ \<Rightarrow> False)"

definition static_acl :: "mac_acl option \<Rightarrow> string \<Rightarrow> string option" where
  "static_acl acl mac =
     (case acl of
        None \<Rightarrow> None
      | Some a \<Rightarrow>
          if mac \<in> maBlacklist a then Some ErrMACNotAllowed
          else if mac \<in> maWhitelist a then None
          else if mac \<in> maGraylist a then (if maGrayAction a = GraylistActionBlock then Some ErrMACNotAllowed else None)
          else if maEnforceWhitelist a then Some ErrMACNotAllowed
          else None)"

definition enforceMACACL :: "guard_deps \<Rightarrow> gotime \<Rightarrow> string \<Rightarrow> guard_state \<Rightarrow> string option" where
  "enforceMACACL deps now mac g =
     (if mac = [] then None
      else case (case gsMacList g of None \<Rightarrow> None | Some rows \<Rightarrow> EvaluateMAC now rows mac) of
        Some e \<Rightarrow> if meAction e = ActionBlock then Some ErrMACNotAllowed else None
      | None \<Rightarrow> static_acl (gdMACACL deps) mac)"

definition enforcePolicy ::
  "guard_deps \<Rightarrow> gotime \<Rightarrow> guard_context \<Rightarrow> 'r svc_state \<times> guard_state \<Rightarrow> string option \<times> 'r svc_state \<times> guard_state" where
  "enforcePolicy deps now ctx st =
     (case st of (svc, g) \<Rightarrow>
      case gsPolicy g of
        None \<Rightarrow> (None, svc, g)
      | Some ev \<Rightarrow>
          (case EvaluateRules now (gdRules deps) (gcTenantID ctx)
              \<lparr>ecMAC = gcMAC ctx, ecIP = pickFirstNonEmpty [gcRequestedIP ctx, gcGIAddr ctx], ecVLANID = gcVLANID ctx,
               ecInterfaceID = gcInterfaceID ctx, ecPortID = gcPortID ctx\<rparr> ev of
             (d, ev) \<Rightarrow>
               let g = g\<lparr>gsPolicy := Some ev\<rparr> in
               if \<not> rdMatched d \<or> rdEffect d = EffectAllow \<or> rdEffect d = EffectMonitor then (None, svc, g)
               else if rdEffect d = EffectQuarantine
               then (Some ErrPolicyDenied, applyPolicyQuarantine deps now ctx (policyDecisionReason d) svc, g)
               else (Some ErrPolicyDenied, svc, g)))"

definition enforceSnooping :: "guard_deps \<Rightarrow> gotime \<Rightarrow> guard_context \<Rightarrow> string option" where
  "enforceSnooping deps now ctx =
     (case gdSnooping deps of
        None \<Rightarrow> None
      | Some store \<Rightarrow>
          (case LookupSnooping now store \<lparr>lkTenantID = gcTenantID ctx, lkMAC = normalizeMAC (gcMAC ctx), lkPortID = gcPortID ctx,
             lkVLANID = gcVLANID ctx\<rparr> of
             Inl _ \<Rightarrow> Some ErrUntrustedBinding
           | Inr _ \<Rightarrow> None))"

definition enforceRate :: "gotime \<Rightarrow> guard_context \<Rightarrow> guard_state \<Rightarrow> string option \<times> guard_state" where
  "enforceRate now ctx g =
     (case gsLimiter g of
        None \<Rightarrow> (None, g)
      | Some l \<Rightarrow>
          (case AllowKey now \<lparr>rkTenantID = gcTenantID ctx, rkMAC = normalizeMAC (gcMAC ctx), rkPortID = gcPortID ctx,
              rkIPAddress = pickFirstNonEmpty [gcRequestedIP ctx, gcGIAddr ctx]\<rparr> l of
             ((allowed, _), l) \<Rightarrow> (if allowed then None else Some ErrRateLimited, g\<lparr>gsLimiter := Some l\<rparr>)))"

definition enforceDetector ::
  "guard_deps \<Rightarrow> gotime \<Rightarrow> guard_context \<Rightarrow> 'r svc_state \<times> guard_state \<Rightarrow> string option \<times> 'r svc_state \<times> guard_state" where
  "enforceDetector deps now ctx st =
     (case st of (svc, g) \<Rightarrow>
      case gsDetector g of
        None \<Rightarrow> (None, svc, g)
      | Some d \<Rightarrow>
          (case Observe now \<lparr>deTenantID = gcTenantID ctx, deMAC = normalizeMAC (gcMAC ctx), deMessageType = gcMessageType ctx,
              deCircuitID = gcCircuitID ctx, deRemoteID = gcRemoteID ctx, dePortID = gcPortID ctx, deGIAddr = gcGIAddr ctx,
              deTimestamp = gcTimestamp ctx\<rparr> d of
             (v, d) \<Rightarrow> (if vdBlock v then Some ErrSuspiciousTraffic else None, applyQuarantine deps now ctx v svc, g\<lparr>gsDetector := Some d\<rparr>)))"

definition Check ::
  "guard_deps \<Rightarrow> gotime \<Rightarrow> guard_context \<Rightarrow> 'r svc_state \<times> guard_state \<Rightarrow> string option \<times> 'r svc_state \<times> guard_state" where
  "Check deps now ctx st =
     (if binding_exempt deps ctx then (None, st)
      else case enforceMACACL deps now (normalizeMAC (gcMAC ctx)) (snd st) of
        Some e \<Rightarrow> (Some e, st)
      | None \<Rightarrow>
          (case enforcePolicy deps now ctx st of
             (Some e, st) \<Rightarrow> (Some e, st)
           | (None, svc, g) \<Rightarrow>
               (case enforceSnooping deps now ctx of
                  Some e \<Rightarrow> (Some e, svc, g)
                | None \<Rightarrow>
                    (case enforceRate now ctx g of
                       (Some e, g) \<Rightarrow> (Some e, svc, g)
                     | (None, g) \<Rightarrow> enforceDetector deps now ctx (svc, g)))))"

text \<open>\<^verbatim>\<open>HasValidLease\<close> of the lease service, for the tenant of the context.\<close>

definition HasValidLease :: "gotime \<Rightarrow> string \<Rightarrow> string \<Rightarrow> 'r svc_state \<Rightarrow> bool" where
  "HasValidLease now tenantID mac svc =
     (let identifier = trim_space mac in
      if identifier = [] \<or> trim_space tenantID = [] then False
      else case GetActiveLease (stDB svc) identifier of
        Inl _ \<Rightarrow> False
      | Inr l \<Rightarrow> leaseExpiresAt l > now)"

definition renew_blacklisted :: "guard_deps \<Rightarrow> gotime \<Rightarrow> string \<Rightarrow> guard_state \<Rightarrow> bool" where
  "renew_blacklisted deps now mac g =
     ((case (case gsMacList g of None \<Rightarrow> None | Some rows \<Rightarrow> EvaluateMAC now rows mac) of
         Some e \<Rightarrow> meType e = ListTypeBlacklist | None \<Rightarrow> False) \<or>
      (case gdMACACL deps of None \<Rightarrow> False | Some a \<Rightarrow> mac \<in> maBlacklist a))"

definition CheckRenewACL ::
  "guard_deps \<Rightarrow> gotime \<Rightarrow> string \<Rightarrow> string \<Rightarrow> string \<Rightarrow> 'r svc_state \<times> guard_state \<Rightarrow> string option \<times> 'r svc_state \<times> guard_state" where
  "CheckRenewACL deps now tenantID phase mac st =
     (let mac = normalizeMAC mac in
      if mac = [] \<or> \<not> renew_blacklisted deps now mac (snd st) then (None, st)
      else if (case gdMACACL deps of None \<Rightarrow> False | Some a \<Rightarrow> maRenewExemptBlocked a) \<and> HasValidLease now tenantID mac (fst st)
      then (None, st)
      else (Some ErrMACNotAllowed, st))"

definition OnLeaseChange :: "guard_deps \<Rightarrow> lease_change \<Rightarrow> guard_state \<Rightarrow> guard_state" where
  "OnLeaseChange deps c g =
     (let g = (if gdPublisher deps then g\<lparr>gsPublished := gsPublished g @
            [\<lparr>lsTenantID = lcTenantID c, lsMACAddress = lcMACAddress c, lsIPAddress = lcIPAddress c, lsPoolID = lcPoolID c,
              lsVLANID = lcVLANID c, lsInterfaceID = lcInterfaceID c, lsPortID = lcPortID c, lsExpiresAt = lcExpiresAt c,
              lsAction = lcAction c, lsMDMManaged = lcMDMManaged c, lsMDMSource = lcMDMSource c, lsMDMTags = lcMDMTags c,
              lsMDMObserved = lcMDMObserved c\<rparr>]\<rparr> else g) in
      if gdRadius deps then g\<lparr>gsAccounting := gsAccounting g @
        [\<lparr>arpTenantID = lcTenantID c, arpMACAddress = lcMACAddress c, arpClientID = lcClientID c, arpIPAddress = lcIPAddress c,
          arpAction = lcAction c, arpExpiresAt = lcExpiresAt c\<rparr>]\<rparr>
      else g)"

definition guard_of :: "guard_deps \<Rightarrow> ('r, guard_state) guard_ops" where
  "guard_of deps = \<lparr>gCheck = Check deps, gCheckRenewACL = CheckRenewACL deps, gOnLeaseChange = OnLeaseChange deps\<rparr>"

section \<open>Construction\<close>

text \<open>The static list is kept in the form of the configuration: the two structs have the same fields
  but for a cache time.\<close>

record security_config =
  scEnabled :: bool
  scPolicyEnabled :: bool
  scSnoopingEnabled :: bool
  scTrustedPorts :: "string list"
  scSnoopingTTL :: duration
  scRateDefault :: rate_profile
  scRateOverrides :: "(string \<times> rate_profile) list"
  scDetection :: detection_config
  scPublishURL :: string
  scRadiusServers :: nat
  scMACACL :: mac_acl_config

definition limits_something :: "rate_profile \<Rightarrow> bool" where
  "limits_something p \<longleftrightarrow> PerMacPPS p > 0 \<or> PerPortPPS p > 0 \<or> PerIPPPS p > 0"

definition buildLimiter :: "security_config \<Rightarrow> guard_limiter option" where
  "buildLimiter cfg =
     (if limits_something (scRateDefault cfg) \<or> (\<exists>(t, p) \<in> set (scRateOverrides cfg). limits_something p)
      then Some \<lparr>glDefault = scRateDefault cfg, glOverrides = map_of (scRateOverrides cfg), glBuckets = Map.empty\<rparr>
      else None)"

definition buildMACACL :: "mac_acl_config \<Rightarrow> mac_acl_config option" where
  "buildMACACL c =
     (if \<not> aclEnforceWhitelist c \<and> \<not> aclBindingExemptACL c \<and> aclWhitelist c = [] \<and> aclBlacklist c = [] \<and> aclGraylist c = [] then None
      else
        let action = to_lower (trim_space (aclGraylistAction c)) in
        Some (c\<lparr>aclGraylistAction := (if action = GraylistActionBlock then GraylistActionBlock else GraylistActionMonitor),
                aclDefaultAction := macACLDefaultActionAllow\<rparr>))"

definition shouldEnableDetector :: "detection_config \<Rightarrow> bool" where
  "shouldEnableDetector c \<longleftrightarrow>
     dcDeclineSpikeThreshold c > 0 \<or> dcDiscoverBurstThreshold c > 0 \<or> dcMACDriftThreshold c > 0 \<or> dcRogueServerAllowlist c \<noteq> []"

text \<open>The guard and its state.  The lease service always serves as quarantine sink; the rule table,
  the MAC lists and the pool service come from outside.\<close>

definition NewFromConfig ::
  "security_config \<Rightarrow> (string \<Rightarrow> string + access_rule list) \<Rightarrow> rule_evaluator option \<Rightarrow> mac_entry list option
     \<Rightarrow> (access_scope \<Rightarrow> string \<Rightarrow> static_binding option) option \<Rightarrow> ('r, guard_state) guard_ops \<times> guard_state" where
  "NewFromConfig cfg rules policyEval macList bindings =
     (let none = \<lparr>gsLimiter = None, gsDetector = None, gsPolicy = None, gsMacList = None, gsPublished = [], gsAccounting = []\<rparr> in
      if \<not> scEnabled cfg then (NewNoop, none)
      else
        (guard_of \<lparr>gdSnooping = (if scSnoopingEnabled cfg \<and> scTrustedPorts cfg \<noteq> []
             then Some (NewStaticStore (scTrustedPorts cfg) (scSnoopingTTL cfg)) else None),
           gdBinding = bindings, gdRules = rules, gdMACACL = normalizeMACACL (buildMACACL (scMACACL cfg)), gdQuarantine = True,
           gdPublisher = (scPublishURL cfg \<noteq> []), gdRadius = (scRadiusServers cfg > 0)\<rparr>,
         none\<lparr>gsLimiter := buildLimiter cfg,
           gsDetector := (if shouldEnableDetector (scDetection cfg) then Some (NewSimpleDetector (scDetection cfg)) else None),
           gsPolicy := (if scPolicyEnabled cfg then policyEval else None), gsMacList := macList\<rparr>))"

end
