(* ===== verification/Dhcpv4_Builder.thy ===== *)
theory Dhcpv4_Builder
  imports Dhcpv4_Option Lease_Env
begin

text \<open>
  The replies of the DHCPv4 server: \<^verbatim>\<open>internal/dhcpv4/builder/builder.go\<close>, with the vendor
  option that tells a roaming client its anchor and session
  (\<^verbatim>\<open>internal/dhcpv4/mobility_options.go\<close>).  The lease result is the one of the lease service;
  the bytes it is put into are those of \<^verbatim>\<open>MarshalBinary\<close>.
\<close>

section \<open>The mobility vendor option\<close>

definition vendorEnterpriseID :: u32 where "vendorEnterpriseID = 32473"
definition vendorSubOptionMobilityAnchorID :: byte where "vendorSubOptionMobilityAnchorID = 1"
definition vendorSubOptionSessionContinuity :: byte where "vendorSubOptionSessionContinuity = 2"

record vendor_sub_option =
  vsCode :: byte
  vsValue :: bytes

definition truncateForBudget :: "bytes \<Rightarrow> int \<Rightarrow> bytes" where
  "truncateForBudget value budget =
     (if budget \<le> 0 then [] else if int (length value) > budget then take (nat budget) value else value)"

text \<open>The loop with what is left of the budget of 255 bytes.\<close>

fun vendor_data :: "int \<Rightarrow> vendor_sub_option list \<Rightarrow> bytes" where
  "vendor_data remaining [] = []"
| "vendor_data remaining (sub # subs) =
     (if remaining \<le> 2 \<or> vsValue sub = [] then vendor_data remaining subs
      else
        let chunk = truncateForBudget (vsValue sub) (remaining - 2) in
        if chunk = [] then vendor_data remaining subs
        else [vsCode sub, of_nat (length chunk)] @ chunk @ vendor_data (remaining - (2 + int (length chunk))) subs)"

definition buildVendorData :: "vendor_sub_option list \<Rightarrow> bytes" where
  "buildVendorData subs = vendor_data 255 subs"

text \<open>\<open>raw_text\<close> is the text of a stored column that \<^verbatim>\<open>json.Marshal\<close> did not write.\<close>

definition raw_bytes :: "(json option \<Rightarrow> bytes) \<Rightarrow> raw_json \<Rightarrow> bytes" where
  "raw_bytes raw_text payload =
     (case payload of
        RawEmpty \<Rightarrow> []
      | RawCanonical j \<Rightarrow> bytes_of_string (json_text j)
      | RawOther v \<Rightarrow> raw_text v)"

definition put_nonempty :: "string \<Rightarrow> string \<Rightarrow> (string \<times> json) list \<Rightarrow> (string \<times> json) list" where
  "put_nonempty k v fs = (if v = [] then fs else obj_put k (JStr v) fs)"

definition sessionContinuityPayload :: "(json option \<Rightarrow> bytes) \<Rightarrow> lease \<Rightarrow> lease_profile \<Rightarrow> bytes" where
  "sessionContinuityPayload raw_text l profile =
     (let raw = raw_bytes raw_text (leaseSessionContinuity l);
          data = obj_put ''leaseExpiresAt'' (JStr (rfc3339 (leaseExpiresAt l))) (obj_put ''poolId'' (JStr (leasePoolID l)) []);
          data = (if profDefaultDuration profile > 0
            then obj_put ''leaseSeconds'' (JInt (trunc (Seconds (profDefaultDuration profile)))) data else data);
          data = put_nonempty ''anchorId'' (leaseMobilityAnchorID l) data;
          data = put_nonempty ''controllerId'' (leaseLastControllerID l) data;
          data = put_nonempty ''geoZone'' (leaseLastGeoZone l) data;
          data = put_nonempty ''location'' (leaseMobilityLocationHint l) data in
      if raw \<noteq> [] then raw else bytes_of_string (json_text (JObj data)))"

definition encodeMobilityVendorOption :: "(json option \<Rightarrow> bytes) \<Rightarrow> lease_result \<Rightarrow> bytes" where
  "encodeMobilityVendorOption raw_text result =
     (let anchor = trim_space (leaseMobilityAnchorID (resLease result));
          session = sessionContinuityPayload raw_text (resLease result) (resProfile result);
          suboptions = (if anchor = [] then [] else
              [\<lparr>vsCode = vendorSubOptionMobilityAnchorID, vsValue = bytes_of_string anchor\<rparr>])
            @ (if session = [] then [] else
              [\<lparr>vsCode = vendorSubOptionSessionContinuity, vsValue = session\<rparr>]);
          payload = buildVendorData suboptions in
      if anchor = [] \<and> session = [] then []
      else if payload = [] then []
      else put32 vendorEnterpriseID @ [of_nat (length payload)] @ payload)"

section \<open>Replies\<close>

definition DefaultLeaseSeconds :: int where "DefaultLeaseSeconds = 3600"

text \<open>\<^verbatim>\<open>uint32(d.Seconds())\<close>: the conversion keeps the low 32 bits of the truncated number, as it
  does on the 64-bit targets the server is built for.\<close>

definition seconds_u32 :: "duration \<Rightarrow> u32" where
  "seconds_u32 d = word_of_int (trunc (Seconds d))"

record reply_builder =
  rbServerIP :: bytes
  rbVendorEncode :: "(lease_result \<Rightarrow> bytes) option"

definition NewReplyFromRequest :: "message \<Rightarrow> message" where
  "NewReplyFromRequest req =
     \<lparr>Op = OpBootReply, HType = HType req, HLen = HLen req, Hops = 0, XID = XID req, Secs = Secs req, Flags = Flags req,
      CIAddr = [], YIAddr = [], SIAddr = replicate (length (SIAddr req)) 0, GIAddr = GIAddr req, CHAddr = CHAddr req,
      SName = replicate 64 0, File = replicate 128 0, Options = Map.empty\<rparr>"

text \<open>\<^verbatim>\<open>net.ParseIP(text).To4()\<close>: \<open>[]\<close> for an address that is not IPv4.\<close>

definition to4_bytes :: "addr \<Rightarrow> bytes" where
  "to4_bytes a = (case Unmap a of Addr4 w \<Rightarrow> put32 w | Addr6 _ _ \<Rightarrow> [])"

definition set_time :: "byte \<Rightarrow> duration \<Rightarrow> message \<Rightarrow> message" where
  "set_time code d m = (if d > 0 then SetOption m code (EncodeUint32 (seconds_u32 d)) else m)"

definition BuildResponse :: "reply_builder \<Rightarrow> message \<Rightarrow> lease_result option \<Rightarrow> byte \<Rightarrow> string + message" where
  "BuildResponse b req result msgType =
     (case result of
        None \<Rightarrow> Inl ''dhcpv4: missing lease result''
      | Some r \<Rightarrow>
          (case ParseIP (leaseIPAddress (resLease r)) of
             None \<Rightarrow> Inl ''dhcpv4: invalid lease ip''
           | Some leaseIP \<Rightarrow>
               let resp = (NewReplyFromRequest req)\<lparr>YIAddr := to4_bytes leaseIP, SIAddr := PadIP (rbServerIP b)\<rparr>;
                   resp = SetOption resp OptionDHCPMessageType [msgType];
                   resp = SetOption resp OptionServerIdentifier (PadIP (rbServerIP b));
                   leaseTime = (if profDefaultDuration (resProfile r) \<le> 0 then DefaultLeaseSeconds * second
                     else profDefaultDuration (resProfile r));
                   resp = SetOption resp OptionIPAddressLeaseTime (EncodeUint32 (seconds_u32 leaseTime));
                   resp = set_time OptionRenewalTime (resRenewalTime r) resp;
                   resp = set_time OptionRebindingTime (resRebindingTime r) resp;
                   payload = (case rbVendorEncode b of None \<Rightarrow> [] | Some f \<Rightarrow> f r) in
               Inr (if payload \<noteq> [] then SetOption resp OptionVendorVIVendorInfo payload else resp)))"

definition BuildNAK :: "reply_builder \<Rightarrow> message \<Rightarrow> string \<Rightarrow> message" where
  "BuildNAK b req reason =
     (let resp = (NewReplyFromRequest req)\<lparr>YIAddr := [0, 0, 0, 0]\<rparr>;
          resp = SetOption resp OptionDHCPMessageType [MessageTypeNak];
          resp = SetOption (resp\<lparr>SIAddr := PadIP (rbServerIP b)\<rparr>) OptionServerIdentifier (PadIP (rbServerIP b)) in
      if reason = [] then resp
      else SetOption resp OptionMessage (bytes_of_string (take 255 reason)))"

definition PacketTypeName :: "byte \<Rightarrow> string" where
  "PacketTypeName t =
     (if t = MessageTypeDiscover then ''DISCOVER'' else if t = MessageTypeOffer then ''OFFER''
      else if t = MessageTypeRequest then ''REQUEST'' else if t = MessageTypeAck then ''ACK''
      else if t = MessageTypeNak then ''NAK'' else [])"

section \<open>Replies on the wire\<close>

lemma builder_shape:
  assumes "BuildResponse b req result t = Inr resp"
  shows "fixed_fields resp \<and> CHAddr resp = CHAddr req \<and> HLen resp = HLen req \<and> plain_codes (Options resp)"
  using assms
  by (auto simp: BuildResponse_def Let_def set_time_def SetOption_def NewReplyFromRequest_def fixed_fields_def
      plain_codes_def option_code_defs split: option.splits if_splits)

lemma builder_fields:
  assumes "BuildResponse b req (Some r) t = Inr resp"
  obtains a where "ParseIP (leaseIPAddress (resLease r)) = Some a" "Op resp = OpBootReply" "XID resp = XID req"
    "Flags resp = Flags req" "GIAddr resp = GIAddr req" "YIAddr resp = to4_bytes a" "SIAddr resp = PadIP (rbServerIP b)"
    "Options resp OptionDHCPMessageType = Some [t]" "Options resp OptionServerIdentifier = Some (PadIP (rbServerIP b))"
    "Options resp OptionIPAddressLeaseTime = Some (put32 (seconds_u32
       (if profDefaultDuration (resProfile r) \<le> 0 then DefaultLeaseSeconds * second else profDefaultDuration (resProfile r))))"
    "Options resp OptionRelayAgentInfo = None"
  using assms
  by (auto simp: BuildResponse_def Let_def set_time_def SetOption_def NewReplyFromRequest_def EncodeUint32_def
      option_code_defs split: option.splits if_splits)

lemma reply_bytes:
  assumes "fixed_fields resp" and "length (CHAddr resp) \<le> 16" and "unat (HLen resp) = length (CHAddr resp)"
    and "plain_codes (Options resp)"
  shows "\<exists>bs. MarshalBinary resp = Inr (resp, bs) \<and> ParseMessage bs = Inr (wire_message resp)"
proof -
  have "fill_hlen resp = resp" using assms(3) by (cases resp) (auto simp: fill_hlen_def)
  then have "MarshalBinary resp = Inr (resp, header_bytes resp @ buildOptions (Options resp))"
    using assms(2) by (simp add: MarshalBinary_def Let_def)
  moreover have "ParseMessage (header_bytes resp @ buildOptions (Options resp)) = Inr (wire_message resp)"
    using parse_header_options [OF assms(1-3) parse_buildOptions [OF assms(4)]] by (simp add: wire_message_def)
  ultimately show ?thesis by blast
qed


section \<open>The vendor option and its length byte\<close>

definition sub_total :: "vendor_sub_option list \<Rightarrow> int" where
  "sub_total subs = sum_list (map (\<lambda>s. 2 + int (length (vsValue s))) subs)"

lemma sub_total_nonneg: "0 \<le> sub_total subs"
  by (induction subs) (auto simp: sub_total_def)

lemma vendor_data_length:
  assumes "\<forall>s \<in> set subs. vsValue s \<noteq> []" and "0 \<le> R"
  shows "if sub_total subs \<le> R then int (length (vendor_data R subs)) = sub_total subs
    else R - 2 \<le> int (length (vendor_data R subs)) \<and> int (length (vendor_data R subs)) \<le> R"
  using assms
proof (induction subs arbitrary: R)
  case Nil
  then show ?case by (simp add: sub_total_def)
next
  case (Cons s subs)
  have tot: "sub_total (s # subs) = 2 + int (length (vsValue s)) + sub_total subs" by (simp add: sub_total_def)
  have ne: "0 < length (vsValue s)" using Cons.prems by simp
  then have pos: "1 \<le> int (length (vsValue s))" by linarith
  show ?case
  proof (cases "R \<le> 2")
    case True
    have "sub_total (s # subs) > R" using True tot pos sub_total_nonneg [of subs] by linarith
    moreover have "int (length (vendor_data R subs)) \<le> R" using Cons.IH [of R] Cons.prems by (auto split: if_splits)
    ultimately show ?thesis using True by simp
  next
    case False
    let ?chunk = "truncateForBudget (vsValue s) (R - 2)"
    have chunk: "int (length ?chunk) = min (int (length (vsValue s))) (R - 2)" "?chunk \<noteq> []"
      using False ne by (auto simp: truncateForBudget_def)
    let ?R = "R - (2 + int (length ?chunk))"
    have len: "int (length (vendor_data R (s # subs))) = 2 + int (length ?chunk) + int (length (vendor_data ?R subs))"
      using False ne chunk(2) by (simp add: Let_def)
    have "0 \<le> ?R" using chunk(1) by simp
    with Cons.IH [of ?R] Cons.prems have IH: "if sub_total subs \<le> ?R then int (length (vendor_data ?R subs)) = sub_total subs
      else ?R - 2 \<le> int (length (vendor_data ?R subs)) \<and> int (length (vendor_data ?R subs)) \<le> ?R" by simp
    show ?thesis
    proof (cases "int (length (vsValue s)) \<le> R - 2")
      case True
      with chunk(1) have "int (length ?chunk) = int (length (vsValue s))" by simp
      then show ?thesis using IH len tot by (auto split: if_splits)
    next
      case False
      with chunk(1) have c: "?R = 0" by simp
      have "int (length (vendor_data ?R subs)) \<le> 0" using IH sub_total_nonneg [of subs] unfolding c by (auto split: if_splits)
      then show ?thesis using len tot c False sub_total_nonneg [of subs] by auto
    qed
  qed
qed

definition vendor_subs :: "(json option \<Rightarrow> bytes) \<Rightarrow> lease_result \<Rightarrow> vendor_sub_option list" where
  "vendor_subs raw_text r =
     filter (\<lambda>s. vsValue s \<noteq> [])
       [\<lparr>vsCode = 1, vsValue = bytes_of_string (trim_space (leaseMobilityAnchorID (resLease r)))\<rparr>,
        \<lparr>vsCode = 2, vsValue = sessionContinuityPayload raw_text (resLease r) (resProfile r)\<rparr>]"

lemma bytes_of_string_Nil [simp]: "bytes_of_string s = [] \<longleftrightarrow> s = []"
  by (simp add: bytes_of_string_def)

lemma vendor_option_eq:
  "encodeMobilityVendorOption raw_text r =
     (if buildVendorData (vendor_subs raw_text r) = [] then []
      else put32 vendorEnterpriseID @ [of_nat (length (buildVendorData (vendor_subs raw_text r)))] @
        buildVendorData (vendor_subs raw_text r))"
  by (auto simp: encodeMobilityVendorOption_def vendor_subs_def Let_def buildVendorData_def
      vendorSubOptionMobilityAnchorID_def vendorSubOptionSessionContinuity_def)

text \<open>C39: The vendor option of a roaming client.  Its length byte always counts the sub-options, at
  most 255 bytes; but with the five bytes before them the option exceeds what an option can
  carry, so the client receives a value as long as announced exactly when the two sub-options
  take at most 250 bytes: a longer session record reaches it cut and malformed.\<close>

theorem vendor_option_cut:
  assumes "encodeMobilityVendorOption raw_text r = opt" and "opt \<noteq> []"
  shows "unat (opt ! 4) = length opt - 5 \<and> length opt \<le> 260 \<and>
    (length (take 255 opt) = 5 + unat (take 255 opt ! 4) \<longleftrightarrow> sub_total (vendor_subs raw_text r) \<le> 250)"
proof -
  let ?p = "buildVendorData (vendor_subs raw_text r)"
  have ne: "\<forall>s \<in> set (vendor_subs raw_text r). vsValue s \<noteq> []" by (simp add: vendor_subs_def)
  from assms have opt: "opt = put32 vendorEnterpriseID @ [of_nat (length ?p)] @ ?p"
    by (auto simp: vendor_option_eq split: if_splits)
  have len: "if sub_total (vendor_subs raw_text r) \<le> 255 then int (length ?p) = sub_total (vendor_subs raw_text r)
      else 253 \<le> int (length ?p) \<and> int (length ?p) \<le> 255"
    using vendor_data_length [OF ne, of 255] unfolding buildVendorData_def by (auto split: if_splits)
  then have b: "length ?p < 256" by (auto split: if_splits)
  have "opt ! 4 = of_nat (length ?p)" "take 255 opt ! 4 = of_nat (length ?p)"
    unfolding opt by (simp_all add: nth_append)
  moreover have "length opt = 5 + length ?p" unfolding opt by simp
  ultimately show ?thesis using len b by (auto simp: unat_of_nat_byte split: if_splits)
qed

definition roaming_lease :: "nat \<Rightarrow> lease_result" where
  "roaming_lease n = \<lparr>resLease = empty_lease\<lparr>leaseMobilityAnchorID := replicate n (CHR ''a''), leaseIPAddress := ''10.0.0.9'',
       leaseSessionContinuity := RawCanonical (JInt 1)\<rparr>,
     resReused = False, resProfile = empty_profile, resRenewalTime = 0, resRebindingTime = 0, resPool = empty_pool,
     resNotification = None\<rparr>"

theorem vendor_option_cut_witness:
  "(let opt = encodeMobilityVendorOption (\<lambda>_. []) (roaming_lease 240) in length (take 255 opt) = 5 + unat (take 255 opt ! 4)) \<and>
   (let opt = encodeMobilityVendorOption (\<lambda>_. []) (roaming_lease 250) in length (take 255 opt) \<noteq> 5 + unat (take 255 opt ! 4))"
proof -
  have t: "sub_total (vendor_subs (\<lambda>_. []) (roaming_lease 240)) \<le> 250"
    "\<not> sub_total (vendor_subs (\<lambda>_. []) (roaming_lease 250)) \<le> 250" by code_simp+
  have n: "encodeMobilityVendorOption (\<lambda>_. []) (roaming_lease 240) \<noteq> []"
    "encodeMobilityVendorOption (\<lambda>_. []) (roaming_lease 250) \<noteq> []" by code_simp+
  show ?thesis
    using vendor_option_cut [OF refl n(1)] vendor_option_cut [OF refl n(2)] t by (simp add: Let_def)
qed

text \<open>A DISCOVER of a client behind the relay 10.0.0.1.\<close>

definition discover_bytes :: bytes where
  "discover_bytes = [1, 1, 6, 1] @ put32 0x3903F326 @ [0, 0, 0x80, 0] @ replicate 12 0 @ [10, 0, 0, 1] @
     [0, 5, 60, 4, 141, 89] @ replicate 202 0 @ put32 DHCPMagicCookie @ [53, 1, 1, 82, 3, 1, 1, 65, 255]"


end
