(* ===== verification/Dhcpv4_Handler.thy ===== *)
theory Dhcpv4_Handler
  imports Handler_Services Mobility Security_Guard Dhcpv4_Builder Lease_State
begin

text \<open>
  The DHCPv4 handler, \<^verbatim>\<open>internal/dhcpv4/handler.go\<close>: relay authorisation, the guard, the choice
  of a pool and a lease profile, the allocation, the state machine stored with the lease, and the
  affinity of roaming clients.  Metrics and logging are left out.  The guard is the interface
  \<open>guard_ops\<close> of \<^verbatim>\<open>Security_Guard\<close>; the pool service, the rule table and the order in which Go
  visits a map are arguments.
\<close>

section \<open>Packets\<close>

text \<open>A nil \<^verbatim>\<open>net.IP\<close> is \<open>None\<close>.\<close>

record packet4 =
  p4XID :: u32
  p4CHAddr :: bytes
  p4ClientID :: string
  p4RequestPhase :: string
  p4CIAddr :: "bytes option"
  p4GIAddr :: "bytes option"
  p4RelayAgentInfo :: attrs
  p4Option82Present :: bool
  p4Option82CircuitID :: string
  p4Option82RemoteID :: string
  p4Option82SubscriberID :: string
  p4Option82Error :: string
  p4VendorClass :: string
  p4UserClass :: string
  p4RequestedIP :: "bytes option"
  p4Options :: options
  p4Broadcast :: bool
  p4IsBOOTP :: bool
  p4IPClass :: string

definition dhcpv4RequestPhaseRequest :: string where "dhcpv4RequestPhaseRequest = ''request''"
definition dhcpv4RequestPhaseRenew :: string where "dhcpv4RequestPhaseRenew = ''renew''"
definition dhcpv4RequestPhaseRebind :: string where "dhcpv4RequestPhaseRebind = ''rebind''"

lemmas phase_defs = dhcpv4RequestPhaseRequest_def dhcpv4RequestPhaseRenew_def dhcpv4RequestPhaseRebind_def

definition OptionParameterRequestList :: byte where "OptionParameterRequestList = 55"

section \<open>The handler and its state\<close>

record pool_times =
  ptMinLeaseTime :: int
  ptMaxLeaseTime :: int
  ptFetchedAt :: gotime

record ('r, 'g) handler4_env =
  h4Svc :: "'r svc_env"
  h4Policy :: policy_engine
  h4Pools :: "pool_service option"
  h4RelayAuth :: "authenticator option"
  h4RelaySel :: "selector option"
  h4Detector :: "detector option"
  h4Visit :: "attrs \<Rightarrow> string list"
  h4Guard :: "('r, 'g) guard_ops"

record ('r, 'g) handler4_state =
  h4sSvc :: "'r svc_state"
  h4sRules :: rule_cache
  h4sSeen :: seen_psk
  h4sAffinity :: "affinity_cache option"
  h4sMDM :: "mdm_cache option"
  h4sPoolTimes :: "string \<rightharpoonup> pool_times"
  h4sGuard :: 'g

datatype failure4 = RelayRefused relay_error | GuardRefused string | ServiceRefused svc_error

definition poolTimesCacheTTL :: duration where "poolTimesCacheTTL = 30 * second"

section \<open>Reading the packet\<close>

definition relayValue :: "packet4 \<Rightarrow> string list \<Rightarrow> string" where
  "relayValue pkt keys = firstAttr (p4RelayAgentInfo pkt) keys"

definition parseVLAN4 :: "string \<Rightarrow> int" where
  "parseVLAN4 raw = (if raw = [] then 0 else case Atoi raw of None \<Rightarrow> 0 | Some v \<Rightarrow> v)"

definition packet_vlan :: "packet4 \<Rightarrow> int" where
  "packet_vlan pkt = parseVLAN4 (relayValue pkt [''vlan-id'', ''agent.vlan-id''])"

definition ipToString4 :: "bytes option \<Rightarrow> string" where
  "ipToString4 ip = (case ip of None \<Rightarrow> [] | Some a \<Rightarrow> ip_string a)"

text \<open>\<^verbatim>\<open>ip != nil && !ip.Equal(net.IPv4zero)\<close>.\<close>

definition set_address :: "bytes option \<Rightarrow> bool" where
  "set_address ip = (case ip of None \<Rightarrow> False | Some a \<Rightarrow> To4 a \<noteq> Some [0, 0, 0, 0])"

definition desiredIP :: "packet4 \<Rightarrow> string" where
  "desiredIP pkt =
     (if p4RequestedIP pkt \<noteq> None then ipToString4 (p4RequestedIP pkt)
      else if set_address (p4CIAddr pkt) then ipToString4 (p4CIAddr pkt)
      else if set_address (p4GIAddr pkt) then ipToString4 (p4GIAddr pkt)
      else [])"

definition identity :: "packet4 \<Rightarrow> string" where
  "identity pkt = (if p4ClientID pkt \<noteq> [] then p4ClientID pkt else hw_string (p4CHAddr pkt))"

definition fallbackPool :: "packet4 \<Rightarrow> string" where
  "fallbackPool pkt =
     (if p4IPClass pkt = ''A'' then ''class-a'' else if p4IPClass pkt = ''B'' then ''class-b''
      else if p4IPClass pkt = ''C'' then ''class-c'' else ''default'')"

definition allocationMetadata :: "packet4 \<Rightarrow> compliance_metadata \<Rightarrow> allocation_metadata" where
  "allocationMetadata pkt compliance =
     (let info = p4RelayAgentInfo pkt; anchor = DeriveMobilityAnchorID info; geo = DeriveGeoZone info;
          ctl = DeriveControllerID info;
          session = put_nonempty ''anchorId'' anchor [];
          session = put_nonempty ''requestedIp'' (desiredIP pkt) session;
          session = put_nonempty ''geoZone'' geo session;
          session = put_nonempty ''controllerId'' ctl session in
      \<lparr>metaUserID = DeriveUserID info,
       metaMobility = \<lparr>mmAnchorID = anchor, mmAccessPointID = DeriveAccessPointID info, mmControllerID = ctl,
         mmGeoZone = geo, mmLocationHint = DeriveLocation info, mmSessionContinuity = session\<rparr>,
       metaCompliance = compliance\<rparr>)"

definition parseOption55 :: "bytes \<Rightarrow> int list" where
  "parseOption55 raw = map uint raw"

definition deviceClassification4 :: "('r, 'g) handler4_env \<Rightarrow> packet4 \<Rightarrow> string \<times> string \<times> string list" where
  "deviceClassification4 env pkt =
     (let info = p4RelayAgentInfo pkt;
          deviceType = ClassifyDeviceType (p4VendorClass pkt) (p4UserClass pkt) info;
          raw = (case p4Options pkt OptionParameterRequestList of None \<Rightarrow> [] | Some v \<Rightarrow> v) in
      case Match (h4Visit env) (h4Detector env)
          \<lparr>dsVendorClass = p4VendorClass pkt, dsUserClass = p4UserClass pkt, dsRelayInfo = info, dsMAC = p4CHAddr pkt,
           dsOption55 = parseOption55 raw\<rparr> of
        None \<Rightarrow> (deviceType, [], [])
      | Some m \<Rightarrow> (if pmPlatform m \<noteq> [] then pmPlatform m else deviceType, pmPersona m, pmTags m))"

definition relayAttributes :: "packet4 \<Rightarrow> string \<rightharpoonup> json" where
  "relayAttributes pkt =
     (let attrs = (\<lambda>k. map_option JStr (p4RelayAgentInfo pkt k)) in
      if set_address (p4GIAddr pkt) then attrs(''giaddr'' \<mapsto> JStr (ipToString4 (p4GIAddr pkt))) else attrs)"

definition policy_input4 :: "gotime \<Rightarrow> ('r, 'g) handler4_env \<Rightarrow> string \<Rightarrow> packet4 \<Rightarrow> bool \<Rightarrow> policy_input" where
  "policy_input4 now env tenantID pkt mdmManaged =
     (case deviceClassification4 env pkt of
        (deviceType, persona, tags) \<Rightarrow>
          let info = p4RelayAgentInfo pkt in
          \<lparr>inTenantID = tenantID, inMAC = hw_string (p4CHAddr pkt), inClientID = p4ClientID pkt, inUserID = DeriveUserID info,
           inDeviceType = deviceType, inDevicePersona = persona, inDeviceTags = tags, inMDMManaged = mdmManaged,
           inUserGroups = DeriveUserGroups (p4UserClass pkt) info, inLocation = DeriveLocation info,
           inVLANID = packet_vlan pkt, inSSID = DeriveSSID info, inAccessPointID = DeriveAccessPointID info,
           inControllerID = DeriveControllerID info, inGeoZone = DeriveGeoZone info,
           inRelayInfo = relayAttributes pkt, inVendorClass = p4VendorClass pkt, inUserClass = p4UserClass pkt,
           inOption60 = p4VendorClass pkt, inOption82 = info, inIPv4Class = p4IPClass pkt, inIsBOOTP = p4IsBOOTP pkt,
           inSupportsSLAAC = False, inTimestamp = now\<rparr>)"

section \<open>Choosing the pool and the profile\<close>

text \<open>The times of a pool as the profile takes them.\<close>

definition with_pool_times :: "int \<Rightarrow> int \<Rightarrow> lease_profile \<Rightarrow> lease_profile" where
  "with_pool_times minLease maxLease profile =
     (let p = (if minLease > 0 then profile\<lparr>profDefaultDuration := minLease * second\<rparr> else profile);
          p = (if maxLease > 0 then p\<lparr>profMaxDuration := maxLease * second\<rparr> else p) in
      if profMaxDuration p > 0 \<and> profDefaultDuration p > profMaxDuration p
      then p\<lparr>profDefaultDuration := profMaxDuration p\<rparr> else p)"

definition applyPoolLeaseTimes ::
  "gotime \<Rightarrow> ('r, 'g) handler4_env \<Rightarrow> string \<Rightarrow> string \<Rightarrow> lease_profile \<Rightarrow> ('r, 'g) handler4_state \<Rightarrow> lease_profile \<times> ('r, 'g) handler4_state" where
  "applyPoolLeaseTimes now env tenantID pid profile st =
     (case h4Pools env of
        None \<Rightarrow> (profile, st)
      | Some ps \<Rightarrow>
          let tenantID = trim_space tenantID; pid = trim_space pid; cacheKey = tenantID @ '':'' @ pid;
              fetch = (case psGetPool ps (NewResourceScope tenantID tenantID) pid of
                 None \<Rightarrow> (profile, st)
               | Some pool \<Rightarrow>
                   (with_pool_times (poolMinLeaseTime pool) (poolMaxLeaseTime pool) profile,
                    st\<lparr>h4sPoolTimes := (h4sPoolTimes st)(cacheKey \<mapsto> \<lparr>ptMinLeaseTime = poolMinLeaseTime pool,
                      ptMaxLeaseTime = poolMaxLeaseTime pool, ptFetchedAt = now\<rparr>)\<rparr>)) in
          if tenantID = [] \<or> pid = [] then (profile, st)
          else case h4sPoolTimes st cacheKey of
            None \<Rightarrow> fetch
          | Some entry \<Rightarrow>
              if now - ptFetchedAt entry < poolTimesCacheTTL
              then (with_pool_times (ptMinLeaseTime entry) (ptMaxLeaseTime entry) profile, st)
              else fetch)"

definition resolvePoolSelector4 :: "('r, 'g) handler4_env \<Rightarrow> string \<Rightarrow> pool_selector option \<Rightarrow> string" where
  "resolvePoolSelector4 env tenantID sel =
     (case (sel, h4Pools env) of
        (Some s, Some ps) \<Rightarrow> (case psResolvePool ps (NewResourceScope [] tenantID) s of None \<Rightarrow> [] | Some pool \<Rightarrow> poolID pool)
      | _ \<Rightarrow> [])"

text \<open>The decision of the policy engine, if there is one; a failed evaluation is only logged.\<close>

definition decide4 ::
  "gotime \<Rightarrow> ('r, 'g) handler4_env \<Rightarrow> string \<Rightarrow> packet4 \<Rightarrow> bool \<Rightarrow> ('r, 'g) handler4_state \<Rightarrow> policy_decision option \<times> ('r, 'g) handler4_state" where
  "decide4 now env tenantID pkt mdmManaged st =
     (let pe = h4Policy env in
      case Evaluate (peParseTime pe) (peListRules pe) (peArrange pe) now (policy_input4 now env tenantID pkt mdmManaged) (h4sRules st) of
        (Inl _, cache) \<Rightarrow> (None, st\<lparr>h4sRules := cache\<rparr>)
      | (Inr d, cache) \<Rightarrow> (Some d, st\<lparr>h4sRules := cache\<rparr>))"

definition affinity_pool ::
  "gotime \<Rightarrow> string \<Rightarrow> string \<Rightarrow> ('r, 'g) handler4_state \<Rightarrow> string \<times> ('r, 'g) handler4_state" where
  "affinity_pool now tenantID identifier st =
     (case h4sAffinity st of
        None \<Rightarrow> ([], st)
      | Some c \<Rightarrow>
          (case LookupAffinity now tenantID identifier c of
             (None, c) \<Rightarrow> ([], st\<lparr>h4sAffinity := Some c\<rparr>)
           | (Some entry, c) \<Rightarrow> (afPoolID entry, st\<lparr>h4sAffinity := Some c\<rparr>)))"

definition leasePlan ::
  "gotime \<Rightarrow> ('r, 'g) handler4_env \<Rightarrow> string \<Rightarrow> string \<Rightarrow> packet4 \<Rightarrow> bool \<Rightarrow> ('r, 'g) handler4_state
     \<Rightarrow> (lease_profile \<times> string) \<times> ('r, 'g) handler4_state" where
  "leasePlan now env tenantID identifier pkt mdmManaged st =
     (case decide4 now env tenantID pkt mdmManaged st of
        (decision, st) \<Rightarrow>
          let profile = (case decision of
                None \<Rightarrow> empty_profile
              | Some d \<Rightarrow> if profDefaultDuration (decLeaseProfile d) > 0 \<or> profMinDuration (decLeaseProfile d) > 0
                  then decLeaseProfile d else empty_profile);
              pid = (case decision of None \<Rightarrow> [] | Some d \<Rightarrow> decPoolID d);
              sel = (case decision of None \<Rightarrow> None | Some d \<Rightarrow> if decPoolID d \<noteq> [] then None else decPoolSelector d);
              (pid, st) = (if pid \<noteq> [] then (pid, st) else affinity_pool now tenantID identifier st);
              pid = (if pid = [] then resolvePoolSelector4 env tenantID sel else pid);
              meta = BuildMetadata tenantID (p4GIAddr pkt) (p4RelayAgentInfo pkt) (packet_vlan pkt)
                (DeriveUserGroups (p4UserClass pkt) (p4RelayAgentInfo pkt));
              pid = (if pid = [] then (case h4RelaySel env of
                  None \<Rightarrow> []
                | Some rs \<Rightarrow> (case Resolve rs meta of None \<Rightarrow> [] | Some p \<Rightarrow> p)) else pid);
              pid = (if pid = [] then fallbackPool pkt else pid);
              (profile, st) = applyPoolLeaseTimes now env tenantID pid profile st in
          ((profile, pid), st))"

section \<open>Relays, guard, compliance, affinity\<close>

definition authorizeRelay ::
  "gotime \<Rightarrow> ('r, 'g) handler4_env \<Rightarrow> string \<Rightarrow> packet4 \<Rightarrow> ('r, 'g) handler4_state \<Rightarrow> failure4 option \<times> ('r, 'g) handler4_state" where
  "authorizeRelay now env tenantID pkt st =
     (case Authorize now (h4RelayAuth env)
        (BuildMetadata tenantID (p4GIAddr pkt) (p4RelayAgentInfo pkt) (packet_vlan pkt) []) (h4sSeen st) of
        (e, seen) \<Rightarrow> (map_option RelayRefused e, st\<lparr>h4sSeen := seen\<rparr>))"

definition guard_context_of :: "gotime \<Rightarrow> string \<Rightarrow> string \<Rightarrow> packet4 \<Rightarrow> string \<Rightarrow> guard_context" where
  "guard_context_of now tenantID messageType pkt phase =
     \<lparr>gcTenantID = tenantID, gcMessageType = messageType,
      gcRequestPhase = (if phase = [] then dhcpv4RequestPhaseRequest else phase),
      gcMAC = hw_string (p4CHAddr pkt), gcClientID = p4ClientID pkt,
      gcCircuitID = relayValue pkt [''circuit-id'', ''agent.circuit-id''],
      gcRemoteID = relayValue pkt [''remote-id'', ''agent.remote-id''],
      gcRelayAgent = p4RelayAgentInfo pkt,
      gcPortID = relayValue pkt [''port-id'', ''circuit-id'', ''agent.circuit-id''],
      gcVLANID = parseVLAN4 (relayValue pkt [''vlan-id'']),
      gcInterfaceID = relayValue pkt [''interface-id''],
      gcRequestedIP = ipToString4 (p4RequestedIP pkt), gcGIAddr = ipToString4 (p4GIAddr pkt), gcTimestamp = now\<rparr>"

definition runGuard ::
  "gotime \<Rightarrow> ('r, 'g) handler4_env \<Rightarrow> string \<Rightarrow> string \<Rightarrow> packet4 \<Rightarrow> string \<Rightarrow> ('r, 'g) handler4_state
     \<Rightarrow> failure4 option \<times> ('r, 'g) handler4_state" where
  "runGuard now env tenantID messageType pkt phase st =
     (case (if phase = dhcpv4RequestPhaseRenew \<or> phase = dhcpv4RequestPhaseRebind
            then gCheckRenewACL (h4Guard env) now tenantID phase (hw_string (p4CHAddr pkt)) (h4sSvc st, h4sGuard st)
            else gCheck (h4Guard env) now (guard_context_of now tenantID messageType pkt phase) (h4sSvc st, h4sGuard st)) of
        (e, svc, g) \<Rightarrow> (map_option GuardRefused e, st\<lparr>h4sSvc := svc, h4sGuard := g\<rparr>))"

definition lookupComplianceMetadata4 ::
  "gotime \<Rightarrow> string \<Rightarrow> packet4 \<Rightarrow> ('r, 'g) handler4_state \<Rightarrow> compliance_metadata \<times> ('r, 'g) handler4_state" where
  "lookupComplianceMetadata4 now tenantID pkt st =
     (let none = metaCompliance empty_metadata;
          deviceID = (if p4ClientID pkt = [] then to_lower (hw_string (p4CHAddr pkt)) else p4ClientID pkt) in
      case h4sMDM st of
        None \<Rightarrow> (none, st)
      | Some c \<Rightarrow>
          (case LookupMDM now tenantID deviceID c of
             (None, c) \<Rightarrow> (none, st\<lparr>h4sMDM := Some c\<rparr>)
           | (Some r, c) \<Rightarrow>
               (\<lparr>cmValid = True, cmManaged = crManaged r, cmSource = crSource r, cmTags = crTags r, cmObservedAt = crObservedAt r\<rparr>,
                st\<lparr>h4sMDM := Some c\<rparr>)))"

definition rememberMobilityAffinity ::
  "gotime \<Rightarrow> string \<Rightarrow> string \<Rightarrow> packet4 \<Rightarrow> allocation_metadata \<Rightarrow> lease_result \<Rightarrow> ('r, 'g) handler4_state \<Rightarrow> ('r, 'g) handler4_state" where
  "rememberMobilityAffinity now tenantID identifier pkt meta res st =
     (case h4sAffinity st of
        None \<Rightarrow> st
      | Some c \<Rightarrow>
          let pid = trim_space (leasePoolID (resLease res)); m = metaMobility meta in
          if pid = [] then st
          else st\<lparr>h4sAffinity := Some (RememberAffinity now tenantID identifier
            \<lparr>afPoolID = pid, afCoordinates = \<lparr>coAnchorID = mmAnchorID m, coAccessPointID = mmAccessPointID m,
               coControllerID = mmControllerID m, coGeoZone = mmGeoZone m, coLocation = mmLocationHint m,
               coVLANID = packet_vlan pkt\<rparr>, afStoredAt = zero_time\<rparr> c)\<rparr>)"

definition poolVLAN :: "address_pool \<Rightarrow> int option" where
  "poolVLAN pool = poolVLANID pool"

definition poolInterface :: "address_pool \<Rightarrow> packet4 \<Rightarrow> string" where
  "poolInterface pool pkt =
     (case poolInterfaceID pool of Some i \<Rightarrow> trim_space i | None \<Rightarrow> relayValue pkt [''interface-id''])"

definition decodeMDMTags :: "raw_json \<Rightarrow> string list" where
  "decodeMDMTags raw =
     (let clean = filter (\<lambda>t. t \<noteq> []) \<circ> map trim_space in
      case raw of
        RawCanonical (JArr vs) \<Rightarrow> (case string_list_of vs of None \<Rightarrow> [] | Some tags \<Rightarrow> clean tags)
      | RawOther (Some (JArr vs)) \<Rightarrow> (case string_list_of vs of None \<Rightarrow> [] | Some tags \<Rightarrow> clean tags)
      | _ \<Rightarrow> [])"

definition LeaseActionGranted :: string where "LeaseActionGranted = ''granted''"

definition emitLeaseChange ::
  "('r, 'g) handler4_env \<Rightarrow> string \<Rightarrow> packet4 \<Rightarrow> lease_result \<Rightarrow> string \<Rightarrow> ('r, 'g) handler4_state \<Rightarrow> ('r, 'g) handler4_state" where
  "emitLeaseChange env tenantID pkt res action st =
     (let l = resLease res in
      st\<lparr>h4sGuard := gOnLeaseChange (h4Guard env)
        \<lparr>lcTenantID = tenantID, lcMACAddress = hw_string (p4CHAddr pkt), lcClientID = p4ClientID pkt,
         lcIPAddress = leaseIPAddress l, lcPoolID = leasePoolID l, lcVLANID = poolVLAN (resPool res),
         lcInterfaceID = poolInterface (resPool res) pkt,
         lcPortID = relayValue pkt [''port-id'', ''circuit-id'', ''agent.circuit-id''], lcExpiresAt = leaseExpiresAt l,
         lcAction = action, lcMDMManaged = leaseMDMManaged l, lcMDMSource = trim_space (leaseMDMSource l),
         lcMDMTags = decodeMDMTags (leaseMDMTags l), lcMDMObserved = leaseMDMObservedAt l\<rparr> (h4sGuard st)\<rparr>)"

section \<open>Messages\<close>

text \<open>What DISCOVER, REQUEST and BOOTP requests share: the checks, the plan and the allocation.  The
  metadata goes back to the caller.  The result is \<open>None\<close> when the choice of an address does not
  end.\<close>

definition admit ::
  "gotime \<Rightarrow> ('r, 'g) handler4_env \<Rightarrow> string \<Rightarrow> string \<Rightarrow> packet4 \<Rightarrow> string \<Rightarrow> ('r, 'g) handler4_state
     \<Rightarrow> failure4 option \<times> ('r, 'g) handler4_state" where
  "admit now env tenantID messageType pkt phase st =
     (case authorizeRelay now env tenantID pkt st of
        (Some e, st) \<Rightarrow> (Some e, st)
      | (None, st) \<Rightarrow> runGuard now env tenantID messageType pkt phase st)"

definition allocate4 ::
  "gotime \<Rightarrow> ('r, 'g) handler4_env \<Rightarrow> string \<Rightarrow> packet4 \<Rightarrow> ('r, 'g) handler4_state
     \<Rightarrow> ((failure4 + lease_result \<times> allocation_metadata) \<times> ('r, 'g) handler4_state) option" where
  "allocate4 now env tenantID pkt st =
     (case lookupComplianceMetadata4 now tenantID pkt st of
        (compliance, st) \<Rightarrow>
          (case leasePlan now env tenantID (identity pkt) pkt (cmValid compliance \<and> cmManaged compliance) st of
             ((profile, pid), st) \<Rightarrow>
               let meta = allocationMetadata pkt compliance in
               (case AllocateOrReuseWithMetadata now (h4Svc env) (NewResourceScope tenantID tenantID) (identity pkt) profile pid
                  (desiredIP pkt) meta (h4sSvc st) of
                  None \<Rightarrow> None
                | Some (Inl e, svc) \<Rightarrow> Some (Inl (ServiceRefused e), st\<lparr>h4sSvc := svc\<rparr>)
                | Some (Inr res, svc) \<Rightarrow> Some (Inr (res, meta), st\<lparr>h4sSvc := svc\<rparr>))))"

text \<open>The transition of the stored lease to a state.\<close>

definition set_fsm ::
  "gotime \<Rightarrow> ('r, 'g) handler4_env \<Rightarrow> string \<Rightarrow> lease_result \<Rightarrow> string \<Rightarrow> ('r, 'g) handler4_state
     \<Rightarrow> failure4 option \<times> ('r, 'g) handler4_state" where
  "set_fsm now env tenantID res target st =
     (case UpdateDHCPv4LeaseFSMByLeaseID now (h4Svc env) (NewResourceScope tenantID tenantID) (leaseID (resLease res)) target (h4sSvc st) of
        (Inl e, svc) \<Rightarrow> (Some (ServiceRefused e), st\<lparr>h4sSvc := svc\<rparr>)
      | (Inr _, svc) \<Rightarrow> (None, st\<lparr>h4sSvc := svc\<rparr>))"

definition HandleDiscover ::
  "gotime \<Rightarrow> ('r, 'g) handler4_env \<Rightarrow> string \<Rightarrow> packet4 \<Rightarrow> ('r, 'g) handler4_state
     \<Rightarrow> ((failure4 + lease_result) \<times> ('r, 'g) handler4_state) option" where
  "HandleDiscover now env tenantID pkt st =
     (case admit now env tenantID ''discover'' pkt ''discover'' st of
        (Some e, st) \<Rightarrow> Some (Inl e, st)
      | (None, st) \<Rightarrow>
          (case allocate4 now env tenantID pkt st of
             None \<Rightarrow> None
           | Some (Inl e, st) \<Rightarrow> Some (Inl e, st)
           | Some (Inr (res, meta), st) \<Rightarrow>
               (case set_fsm now env tenantID res StateOffered st of
                  (Some e, st) \<Rightarrow> Some (Inl e, st)
                | (None, st) \<Rightarrow> Some (Inr res, rememberMobilityAffinity now tenantID (identity pkt) pkt meta res st))))"

definition request_target :: "string \<Rightarrow> string" where
  "request_target phase =
     (if phase = dhcpv4RequestPhaseRenew then StateRenewing
      else if phase = dhcpv4RequestPhaseRebind then StateRebinding else StateBound)"

definition HandleRequest ::
  "gotime \<Rightarrow> ('r, 'g) handler4_env \<Rightarrow> string \<Rightarrow> packet4 \<Rightarrow> ('r, 'g) handler4_state
     \<Rightarrow> ((failure4 + lease_result) \<times> ('r, 'g) handler4_state) option" where
  "HandleRequest now env tenantID pkt st =
     (case admit now env tenantID ''request'' pkt (p4RequestPhase pkt) st of
        (Some e, st) \<Rightarrow> Some (Inl e, st)
      | (None, st) \<Rightarrow>
          (case allocate4 now env tenantID pkt st of
             None \<Rightarrow> None
           | Some (Inl e, st) \<Rightarrow> Some (Inl e, st)
           | Some (Inr (res, meta), st) \<Rightarrow>
               (case set_fsm now env tenantID res (request_target (p4RequestPhase pkt)) st of
                  (Some e, st) \<Rightarrow> Some (Inl e, st)
                | (None, st) \<Rightarrow>
                    Some (Inr res, emitLeaseChange env tenantID pkt res LeaseActionGranted
                      (rememberMobilityAffinity now tenantID (identity pkt) pkt meta res st)))))"

definition HandleBootRequest ::
  "gotime \<Rightarrow> ('r, 'g) handler4_env \<Rightarrow> string \<Rightarrow> packet4 \<Rightarrow> ('r, 'g) handler4_state
     \<Rightarrow> ((failure4 + lease_result) \<times> ('r, 'g) handler4_state) option" where
  "HandleBootRequest now env tenantID pkt st =
     (case admit now env tenantID ''bootp'' pkt dhcpv4RequestPhaseRequest st of
        (Some e, st) \<Rightarrow> Some (Inl e, st)
      | (None, st) \<Rightarrow>
          (case allocate4 now env tenantID pkt st of
             None \<Rightarrow> None
           | Some (Inl e, st) \<Rightarrow> Some (Inl e, st)
           | Some (Inr (res, meta), st) \<Rightarrow>
               Some (Inr res, emitLeaseChange env tenantID pkt res LeaseActionGranted
                 (rememberMobilityAffinity now tenantID (identity pkt) pkt meta res st))))"

text \<open>DECLINE and RELEASE differ in the message type the guard sees only.\<close>

definition end_lease ::
  "string \<Rightarrow> gotime \<Rightarrow> ('r, 'g) handler4_env \<Rightarrow> string \<Rightarrow> packet4 \<Rightarrow> ('r, 'g) handler4_state \<Rightarrow> failure4 option \<times> ('r, 'g) handler4_state" where
  "end_lease messageType now env tenantID pkt st =
     (case admit now env tenantID messageType pkt dhcpv4RequestPhaseRequest st of
        (Some e, st) \<Rightarrow> (Some e, st)
      | (None, st) \<Rightarrow>
          let scope = NewResourceScope tenantID tenantID in
          (case ReleaseByIdentifier now (h4Svc env) scope (identity pkt) (h4sSvc st) of
             (Inl e, svc) \<Rightarrow> (Some (ServiceRefused e), st\<lparr>h4sSvc := svc\<rparr>)
           | (Inr _, svc) \<Rightarrow>
               (case UpdateDHCPv4LeaseFSMByIdentifier now (h4Svc env) scope (identity pkt) StateReleased svc of
                  (Inl e, svc) \<Rightarrow> (Some (ServiceRefused e), st\<lparr>h4sSvc := svc\<rparr>)
                | (Inr _, svc) \<Rightarrow> (None, st\<lparr>h4sSvc := svc\<rparr>))))"

definition HandleDecline ::
  "gotime \<Rightarrow> ('r, 'g) handler4_env \<Rightarrow> string \<Rightarrow> packet4 \<Rightarrow> ('r, 'g) handler4_state \<Rightarrow> failure4 option \<times> ('r, 'g) handler4_state" where
  "HandleDecline = end_lease ''decline''"

definition HandleRelease ::
  "gotime \<Rightarrow> ('r, 'g) handler4_env \<Rightarrow> string \<Rightarrow> packet4 \<Rightarrow> ('r, 'g) handler4_state \<Rightarrow> failure4 option \<times> ('r, 'g) handler4_state" where
  "HandleRelease = end_lease ''release''"

end
