(* ===== verification/Dhcpv4_Server.thy ===== *)
theory Dhcpv4_Server
  imports Dhcpv4_Handler Ratelimit
begin

text \<open>
  The DHCPv4 server, \<^verbatim>\<open>internal/dhcpv4/server.go\<close> with the checks of \<^verbatim>\<open>option82.go\<close> and
  \<^verbatim>\<open>security.go\<close>: a datagram is parsed, limited by its MAC address, turned into a packet, checked
  and handed to the handler; the reply is built, encoded and addressed.  The socket loop, its
  queue and workers are left out: the model takes the datagrams one after the other.
\<close>

section \<open>The server\<close>

text \<open>A UDP address is the bytes of its IP, \<open>[]\<close> for a nil one, and the port.\<close>

type_synonym udp_addr = "bytes \<times> nat"

definition flagBroadcast :: u16 where "flagBroadcast = 0x8000"

text \<open>\<open>s4ErrorText\<close> is the text of the errors of the services behind the handler, which reaches the
  client in the message option of a NAK.\<close>

record server4 =
  s4TenantID :: string
  s4RelayParser :: option82_parser
  s4Validator :: "validator option"
  s4Partitioner :: "partitioner option"
  s4RelayWhitelist :: "string set"
  s4Builder :: reply_builder
  s4ErrorText :: "failure4 \<Rightarrow> string"

record ('r, 'g) server4_state =
  s4Handler :: "('r, 'g) handler4_state"
  s4Limiter :: mac_limiter

subsection \<open>From the message to the packet\<close>

definition dhcpv4ClassifyRequestPhase :: "message \<Rightarrow> string" where
  "dhcpv4ClassifyRequestPhase msg =
     (if get_option msg OptionDHCPMessageType \<noteq> [MessageTypeRequest] then dhcpv4RequestPhaseRequest
      else if firstIPv4 (CIAddr msg) = None then dhcpv4RequestPhaseRequest
      else if length (get_option msg OptionServerIdentifier) = 4 then dhcpv4RequestPhaseRequest
      else if Flags msg AND flagBroadcast \<noteq> 0 then dhcpv4RequestPhaseRebind
      else dhcpv4RequestPhaseRenew)"

definition pickIPv4 :: "bytes option list \<Rightarrow> bytes option" where
  "pickIPv4 candidates =
     (case List.map_filter (\<lambda>c. case c of None \<Rightarrow> None | Some ip \<Rightarrow> firstIPv4 ip) candidates of
        [] \<Rightarrow> None
      | a # _ \<Rightarrow> Some a)"

definition classifyIPv4 :: "packet4 \<Rightarrow> string" where
  "classifyIPv4 pkt =
     (case pickIPv4 [p4RequestedIP pkt, p4CIAddr pkt, p4GIAddr pkt] of
        None \<Rightarrow> []
      | Some addr \<Rightarrow>
          let first = hd addr in
          if first < 128 then ''A'' else if first < 192 then ''B'' else if first < 224 then ''C'' else [])"

definition put_id :: "string list \<Rightarrow> string \<Rightarrow> attrs \<Rightarrow> attrs" where
  "put_id keys v m = (if v = [] then m else foldl (\<lambda>m k. m(k \<mapsto> v)) m keys)"

definition packetFromMessage :: "server4 \<Rightarrow> message \<Rightarrow> packet4" where
  "packetFromMessage srv msg =
     (let raw82 = get_option msg OptionRelayAgentInfo;
          present = (raw82 \<noteq> []);
          (parsed, err82) = (case ParseOption82 raw82 of Inl e \<Rightarrow> (empty_parsed, e) | Inr p \<Rightarrow> (p, []));
          info = fst (Decode (s4RelayParser srv) raw82);
          info = (if present then
              put_id [''circuit-id'', ''agent.circuit-id''] (CircuitID parsed)
               (put_id [''remote-id'', ''agent.remote-id''] (RemoteID parsed)
                 (put_id [''subscriber-id''] (SubscriberID parsed) info))
            else info);
          cid = get_option msg OptionClientIdentifier;
          rip = get_option msg OptionRequestedIPAddress;
          pkt = \<lparr>p4XID = XID msg, p4CHAddr = CHAddr msg,
            p4ClientID = (if cid = [] then [] else FormatClientID cid),
            p4RequestPhase = dhcpv4ClassifyRequestPhase msg,
            p4CIAddr = Some (CIAddr msg), p4GIAddr = Some (GIAddr msg), p4RelayAgentInfo = info,
            p4Option82Present = present, p4Option82CircuitID = CircuitID parsed,
            p4Option82RemoteID = RemoteID parsed, p4Option82SubscriberID = SubscriberID parsed,
            p4Option82Error = err82,
            p4VendorClass = (let vc = get_option msg OptionVendorClass in if vc = [] then [] else ParseVendorClass vc),
            p4UserClass = (let uc = get_option msg OptionUserClass in if uc = [] then [] else DecodeUserClass uc),
            p4RequestedIP = (if length rip = 4 then Some rip else None),
            p4Options = Options msg, p4Broadcast = (Flags msg AND flagBroadcast \<noteq> 0),
            p4IsBOOTP = (Options msg OptionDHCPMessageType = None), p4IPClass = []\<rparr> in
      pkt\<lparr>p4IPClass := classifyIPv4 pkt\<rparr>)"

subsection \<open>Where a reply goes\<close>

definition destinationFor :: "message \<Rightarrow> udp_addr option \<Rightarrow> udp_addr" where
  "destinationFor req fallback =
     (case firstIPv4 (GIAddr req) of
        Some gi \<Rightarrow> (gi, 67)
      | None \<Rightarrow>
          (case fallback of
             None \<Rightarrow> ([255, 255, 255, 255], 68)
           | Some (ip, port) \<Rightarrow>
               if Flags req AND flagBroadcast \<noteq> 0 \<or> ip = [] \<or> To4 ip = Some [0, 0, 0, 0] then ([255, 255, 255, 255], 68)
               else (case firstIPv4 (CIAddr req) of Some ci \<Rightarrow> (ci, 68) | None \<Rightarrow> (ip, port))))"

text \<open>What goes out: the destination and the bytes, or nothing when the reply cannot be encoded.\<close>

type_synonym sent = "(udp_addr \<times> bytes) option"

definition sendResponse :: "message \<Rightarrow> message \<Rightarrow> udp_addr option \<Rightarrow> sent" where
  "sendResponse req msg addr =
     (case MarshalBinary msg of
        Inl _ \<Rightarrow> None
      | Inr (_, payload) \<Rightarrow> Some (destinationFor req addr, payload))"

definition sendNak :: "server4 \<Rightarrow> message \<Rightarrow> udp_addr option \<Rightarrow> string \<Rightarrow> sent" where
  "sendNak srv req addr reason = sendResponse req (BuildNAK (s4Builder srv) req reason) addr"

subsection \<open>Checks before the handler\<close>

definition dhcpv4AllowByMAC :: "gotime \<Rightarrow> message \<Rightarrow> mac_limiter \<Rightarrow> bool \<times> mac_limiter" where
  "dhcpv4AllowByMAC now msg l = AllowMAC now l (hw_string (CHAddr msg))"

definition dhcpv4RelayValidate :: "server4 \<Rightarrow> packet4 \<Rightarrow> udp_addr option \<Rightarrow> string option" where
  "dhcpv4RelayValidate srv pkt remote =
     map_option error_text
       (ValidateRelay (s4RelayWhitelist srv)
         \<lparr>rrOption82Present = p4Option82Present pkt, rrGIAddr = (case p4GIAddr pkt of None \<Rightarrow> [] | Some a \<Rightarrow> a), rrXID = p4XID pkt\<rparr>
         (case remote of None \<Rightarrow> None | Some (ip, _) \<Rightarrow> if ip = [] then None else Some ip))"

definition dhcpv4Option82Validate :: "server4 \<Rightarrow> packet4 \<Rightarrow> string option" where
  "dhcpv4Option82Validate srv pkt =
     (case s4Validator srv of
        None \<Rightarrow> None
      | Some v \<Rightarrow>
          map_option error_text (Validate (Some v) (p4Option82Present pkt) (p4Option82Error pkt) (p4Option82CircuitID pkt) (p4Option82RemoteID pkt)))"

definition shouldHandleRelay4 :: "server4 \<Rightarrow> packet4 \<Rightarrow> bool" where
  "shouldHandleRelay4 srv pkt =
     ShouldHandle (s4Partitioner srv) (BuildMetadata (s4TenantID srv) (p4GIAddr pkt) (p4RelayAgentInfo pkt) 0 [])"

text \<open>The checks every message passes, in the order of the code: \<open>Some nak\<close> stops with a NAK or
  silently.\<close>

definition screen4 :: "server4 \<Rightarrow> message \<Rightarrow> packet4 \<Rightarrow> udp_addr option \<Rightarrow> sent option" where
  "screen4 srv msg pkt addr =
     (case dhcpv4RelayValidate srv pkt addr of
        Some reason \<Rightarrow> Some (sendNak srv msg addr reason)
      | None \<Rightarrow>
          (case dhcpv4Option82Validate srv pkt of
             Some reason \<Rightarrow> Some (sendNak srv msg addr reason)
           | None \<Rightarrow> if shouldHandleRelay4 srv pkt then None else Some None))"

subsection \<open>Handlers of the message types\<close>

definition handleDiscover ::
  "gotime \<Rightarrow> server4 \<Rightarrow> ('r, 'g) handler4_env \<Rightarrow> message \<Rightarrow> udp_addr option \<Rightarrow> ('r, 'g) handler4_state
     \<Rightarrow> (sent \<times> ('r, 'g) handler4_state) option" where
  "handleDiscover now srv env msg addr st =
     (let pkt = packetFromMessage srv msg in
      case screen4 srv msg pkt addr of
        Some out \<Rightarrow> Some (out, st)
      | None \<Rightarrow>
          (case HandleDiscover now env (s4TenantID srv) pkt st of
             None \<Rightarrow> None
           | Some (Inl _, st) \<Rightarrow> Some (None, st)
           | Some (Inr result, st) \<Rightarrow>
               (case BuildResponse (s4Builder srv) msg (Some result) MessageTypeOffer of
                  Inl _ \<Rightarrow> Some (None, st)
                | Inr resp \<Rightarrow> Some (sendResponse msg resp addr, st))))"

definition handleRequest ::
  "gotime \<Rightarrow> server4 \<Rightarrow> ('r, 'g) handler4_env \<Rightarrow> message \<Rightarrow> udp_addr option \<Rightarrow> ('r, 'g) handler4_state
     \<Rightarrow> (sent \<times> ('r, 'g) handler4_state) option" where
  "handleRequest now srv env msg addr st =
     (let pkt = packetFromMessage srv msg in
      case screen4 srv msg pkt addr of
        Some out \<Rightarrow> Some (out, st)
      | None \<Rightarrow>
          (case HandleRequest now env (s4TenantID srv) pkt st of
             None \<Rightarrow> None
           | Some (Inl e, st) \<Rightarrow> Some (sendNak srv msg addr (s4ErrorText srv e), st)
           | Some (Inr result, st) \<Rightarrow>
               (case BuildResponse (s4Builder srv) msg (Some result) MessageTypeAck of
                  Inl e \<Rightarrow> Some (sendNak srv msg addr e, st)
                | Inr resp \<Rightarrow> Some (sendResponse msg resp addr, st))))"

definition handleBootRequest ::
  "gotime \<Rightarrow> server4 \<Rightarrow> ('r, 'g) handler4_env \<Rightarrow> message \<Rightarrow> udp_addr option \<Rightarrow> ('r, 'g) handler4_state
     \<Rightarrow> (sent \<times> ('r, 'g) handler4_state) option" where
  "handleBootRequest now srv env msg addr st =
     (let pkt = packetFromMessage srv msg in
      case screen4 srv msg pkt addr of
        Some out \<Rightarrow> Some (out, st)
      | None \<Rightarrow>
          (case HandleBootRequest now env (s4TenantID srv) pkt st of
             None \<Rightarrow> None
           | Some (Inl _, st) \<Rightarrow> Some (None, st)
           | Some (Inr result, st) \<Rightarrow>
               (case BuildResponse (s4Builder srv) msg (Some result) MessageTypeAck of
                  Inl _ \<Rightarrow> Some (None, st)
                | Inr resp \<Rightarrow> Some (sendResponse msg resp addr, st))))"

text \<open>DECLINE and RELEASE are never answered, unless a check refuses them.\<close>

definition handleDecline ::
  "gotime \<Rightarrow> server4 \<Rightarrow> ('r, 'g) handler4_env \<Rightarrow> message \<Rightarrow> udp_addr option \<Rightarrow> ('r, 'g) handler4_state
     \<Rightarrow> sent \<times> ('r, 'g) handler4_state" where
  "handleDecline now srv env msg addr st =
     (let pkt = packetFromMessage srv msg in
      case screen4 srv msg pkt addr of
        Some out \<Rightarrow> (out, st)
      | None \<Rightarrow> (None, snd (HandleDecline now env (s4TenantID srv) pkt st)))"

definition handleRelease ::
  "gotime \<Rightarrow> server4 \<Rightarrow> ('r, 'g) handler4_env \<Rightarrow> message \<Rightarrow> udp_addr option \<Rightarrow> ('r, 'g) handler4_state
     \<Rightarrow> sent \<times> ('r, 'g) handler4_state" where
  "handleRelease now srv env msg addr st =
     (let pkt = packetFromMessage srv msg in
      case screen4 srv msg pkt addr of
        Some out \<Rightarrow> (out, st)
      | None \<Rightarrow> (None, snd (HandleRelease now env (s4TenantID srv) pkt st)))"

text \<open>One parsed message that passed the MAC limiter.\<close>

definition dispatch4 ::
  "gotime \<Rightarrow> server4 \<Rightarrow> ('r, 'g) handler4_env \<Rightarrow> message \<Rightarrow> udp_addr option \<Rightarrow> ('r, 'g) handler4_state
     \<Rightarrow> (sent \<times> ('r, 'g) handler4_state) option" where
  "dispatch4 now srv env msg addr st =
     (case get_option msg OptionDHCPMessageType of
        [t] \<Rightarrow>
          if t = MessageTypeDiscover then handleDiscover now srv env msg addr st
          else if t = MessageTypeRequest then handleRequest now srv env msg addr st
          else if t = MessageTypeDecline then Some (handleDecline now srv env msg addr st)
          else if t = MessageTypeRelease then Some (handleRelease now srv env msg addr st)
          else Some (None, st)
      | _ \<Rightarrow> if Op msg = OpBootRequest then handleBootRequest now srv env msg addr st else Some (None, st))"

definition processDatagram4 ::
  "gotime \<Rightarrow> server4 \<Rightarrow> ('r, 'g) handler4_env \<Rightarrow> bytes \<Rightarrow> udp_addr option \<Rightarrow> ('r, 'g) server4_state
     \<Rightarrow> (sent \<times> ('r, 'g) server4_state) option" where
  "processDatagram4 now srv env data addr st =
     (case ParseMessage data of
        Inl _ \<Rightarrow> Some (None, st)
      | Inr msg \<Rightarrow>
          (case dhcpv4AllowByMAC now msg (s4Limiter st) of
             (False, l) \<Rightarrow> Some (None, st\<lparr>s4Limiter := l\<rparr>)
           | (True, l) \<Rightarrow>
               map_option (\<lambda>(out, h). (out, st\<lparr>s4Limiter := l, s4Handler := h\<rparr>)) (dispatch4 now srv env msg addr (s4Handler st))))"

subsection \<open>Construction\<close>

record server4_options =
  o4TenantID :: string
  o4ServerIP :: bytes
  o4MACRateLimitPPS :: int
  o4RelayWhitelist :: "string list"
  o4RelayParser :: "option82_parser option"
  o4Option82Policy :: option82_policy
  o4Partitioner :: "partitioner option"

text \<open>The server and its limiter; the sizes of queues and worker pools do not matter here.\<close>

definition NewServer4 :: "(json option \<Rightarrow> bytes) \<Rightarrow> (failure4 \<Rightarrow> string) \<Rightarrow> server4_options \<Rightarrow> server4 \<times> mac_limiter" where
  "NewServer4 raw_text error_of opts =
     (\<lparr>s4TenantID = o4TenantID opts,
       s4RelayParser = (case o4RelayParser opts of None \<Rightarrow> NewDefaultOption82Parser | Some p \<Rightarrow> p),
       s4Validator = Some (NewOption82Validator (o4Option82Policy opts)),
       s4Partitioner = o4Partitioner opts,
       s4RelayWhitelist = NormalizeIPSet (o4RelayWhitelist opts),
       s4Builder = \<lparr>rbServerIP = (if o4ServerIP opts = [] then [0, 0, 0, 0] else o4ServerIP opts),
         rbVendorEncode = Some (encodeMobilityVendorOption raw_text)\<rparr>,
       s4ErrorText = error_of\<rparr>,
      NewMACRateLimiter (o4MACRateLimitPPS opts))"

end
