(* ===== verification/Dhcpv4_Safety.thy ===== *)
theory Dhcpv4_Safety
  imports Dhcpv4_Server Security_Safety
begin

text \<open>
  What the DHCPv4 server guarantees over whole runs, and where it departs from the protocol: its
  handler keeps the invariant of the lease table, so do all datagrams; the state machine stored
  with a lease never stops a request that names an address, and always stops the release of an
  offer; the server identifier of a request is not looked at; a declined address is free at once.
\<close>

section \<open>The row of an allocation\<close>

text \<open>After an allocation the lease of the result is an active row of the table, with the state and
  the session the result shows.\<close>

definition holds_row :: "lease_db \<Rightarrow> lease \<Rightarrow> bool" where
  "holds_row db l \<longleftrightarrow> (\<exists>r \<in> set (leases_v4 db). leaseID r = leaseID l \<and> active r \<and> leaseState r = leaseState l \<and>
     leaseSessionContinuity r = leaseSessionContinuity l \<and> leaseExpiresAt r = leaseExpiresAt l)"

lemma update_row_session [simp]: "leaseSessionContinuity (update_row l r) = leaseSessionContinuity l"
  by (simp add: update_row_def)

lemma reuse_lease_row:
  assumes env: "plain_v4 env" and ok: "table_ok (stDB st)" and l: "existing \<in> set (leases_v4 (stDB st))" "active existing"
    and run: "reuse_lease now env scope identifier profile meta existing st = (Inr r, st')"
  obtains res where "r = Some res" "holds_row (stDB st') (resLease res)" "resLease res = reused_lease now profile meta existing"
  using env run
proof (cases rule: reuse_lease_cases)
  case 2
  then obtain res where res: "r = Some res" "resLease res = reused_lease now profile meta existing" by auto
  have "update_row (reused_lease now profile meta existing) existing \<in> set (leases_v4 (stDB st'))"
    using UpdateLease_rows [OF _ l(1) _ 2(1)] ok by (simp add: table_ok_def)
  then have "holds_row (stDB st') (resLease res)"
    using res l(2) unfolding holds_row_def by (intro bexI) (auto simp: active_def)
  with res show thesis by (intro that)
qed simp

lemma create_lease_row:
  assumes env: "plain_v4 env"
    and run: "create_lease now env tenantID identifier profile meta pool pid ip st = (Inr r, st')"
  obtains res where "r = Some res" "holds_row (stDB st') (resLease res)"
    "resLease res = new_lease now (envNewID env (stNextID st)) tenantID pid ip identifier profile meta"
  using env run
proof (cases rule: create_lease_cases)
  case 2
  let ?l = "new_lease now (envNewID env (stNextID st)) tenantID pid ip identifier profile meta"
  from 2 obtain res where res: "r = Some res" "resLease res = ?l" by auto
  have "leases_v4 (stDB st') = leases_v4 (stDB st) @ [stored_row ?l]"
    using 2(1) [symmetric] by (cases "\<exists>r \<in> set (leases_v4 (stDB st)). key_clash r ?l") (simp_all add: CreateLease_def)
  then have "stored_row ?l \<in> set (leases_v4 (stDB st'))" by simp
  moreover have "leaseState ?l = ''ACTIVE''" by (simp add: new_lease_def Let_def leaseStateActive_def)
  ultimately have "holds_row (stDB st') (resLease res)"
    using res unfolding holds_row_def by (intro bexI [of _ "stored_row ?l"]) (auto simp: active_def stored_row_def)
  with res show thesis by (intro that)
qed simp

text \<open>Every lease an allocation returns is made by one of the two branches.\<close>

lemma allocate_loop_row:
  assumes env: "plain_v4 env"
  shows "table_ok (stDB st) \<Longrightarrow>
    allocate_loop n now env scope tenantID identifier profile meta held pid ip st = Some (Inr res, st') \<Longrightarrow>
    holds_row (stDB st') (resLease res) \<and>
    ((\<exists>l. active l \<and> resLease res = reused_lease now profile meta l) \<or>
     (\<exists>k t p a. resLease res = new_lease now (envNewID env k) t p a identifier profile meta))"
proof (induction n arbitrary: held pid ip st)
  case (Suc n)
  show ?case
  proof (cases "GetActiveLease (stDB st) identifier")
    case (Inl e)
    then have e: "e = ErrNotFound" by (simp add: GetActiveLease_None)
    then obtain r1 st1 where new: "allocate_new now env scope tenantID identifier profile meta held pid ip st = Some (r1, st1)"
      using Suc.prems(2) Inl by (cases "allocate_new now env scope tenantID identifier profile meta held pid ip st") auto
    show ?thesis
    proof (cases r1)
      case (Inl e')
      then show ?thesis using Suc.prems(2) \<open>GetActiveLease (stDB st) identifier = Inl e\<close> e new by simp
    next
      case r1: (Inr x)
      from env new show ?thesis
      proof (cases rule: allocate_new_cases)
        case (2 pool pid' sip st2 cr)
        then obtain y where cr: "cr = Inr y" using r1 by (cases cr) auto
        from create_lease_row [OF env 2(4) [unfolded cr]] obtain res' where
          "y = Some res'" "holds_row (stDB st1) (resLease res')"
          "resLease res' = new_lease now (envNewID env (stNextID st2)) tenantID pid' sip identifier profile meta" .
        then show ?thesis using Suc.prems(2) Inl e new 2(5) cr r1 by auto
      qed (use r1 in simp)
    qed
  next
    case (Inr l)
    note row = GetActiveLease_row [OF Inr]
    obtain a st1 where p: "reuse_lease now env scope identifier profile meta l st = (a, st1)" by force
    obtain y where a: "a = Inr y" using Suc.prems(2) Inr p by (cases a) auto
    from reuse_lease_row [OF env Suc.prems(1) _ _ p [unfolded a]] row obtain res' where
      "y = Some res'" "holds_row (stDB st1) (resLease res')" "resLease res' = reused_lease now profile meta l" by blast
    then show ?thesis using Suc.prems(2) Inr p a row by auto
  qed
qed simp

section \<open>Identifiers without blanks\<close>

definition plain_ids :: "'r svc_env \<Rightarrow> bool" where
  "plain_ids env \<longleftrightarrow> plain_v4 env \<and> (\<forall>n. trim_space (envNewID env n) = envNewID env n)"

lemma UpdateLease_ids: "UpdateLease db l = Inr db' \<Longrightarrow> leaseID ` set (leases_v4 db') = leaseID ` set (leases_v4 db)"
proof -
  assume up: "UpdateLease db l = Inr db'"
  let ?f = "\<lambda>r. if sql_eq (leaseID r) (leaseID l) then update_row l r else r"
  have "leases_v4 db' = map ?f (leases_v4 db)"
    using up by (cases "keys_ok (update_where_id l (leases_v4 db))") (auto simp: UpdateLease_def update_where_id_def Let_def)
  then have "leaseID ` set (leases_v4 db') = (leaseID \<circ> ?f) ` set (leases_v4 db)" by (simp only: set_map image_comp)
  also have "leaseID \<circ> ?f = leaseID" by (auto simp: fun_eq_iff)
  finally show ?thesis .
qed

lemma UpdateLease_trim: "UpdateLease db l = Inr db' \<Longrightarrow> trim_ids db \<Longrightarrow> trim_ids db'"
  by (simp add: trim_ids_image UpdateLease_ids)

lemma CreateLease_trim: "CreateLease db l = Inr db' \<Longrightarrow> trim_ids db \<Longrightarrow> trim_space (leaseID l) = leaseID l \<Longrightarrow> trim_ids db'"
  by (auto simp: CreateLease_def trim_ids_def stored_row_def split: if_splits)

lemma store_transition_trim:
  "store_transition now l target st = (r, st') \<Longrightarrow> trim_ids (stDB st) \<Longrightarrow> trim_ids (stDB st')"
  using UpdateLease_trim [of "stDB st"] by (auto simp: store_transition_def split: sum.splits if_splits prod.splits)

lemma fsm_trim:
  "UpdateDHCPv4LeaseFSMByLeaseID now env scope i target st = (r, st') \<Longrightarrow> trim_ids (stDB st) \<Longrightarrow> trim_ids (stDB st')"
  "UpdateDHCPv4LeaseFSMByIdentifier now env scope i target st = (r, st') \<Longrightarrow> trim_ids (stDB st) \<Longrightarrow> trim_ids (stDB st')"
  "ReleaseByIdentifier now env scope i st = (lo, st') \<Longrightarrow> trim_ids (stDB st) \<Longrightarrow> trim_ids (stDB st')"
  by (auto simp: UpdateDHCPv4LeaseFSMByLeaseID_def UpdateDHCPv4LeaseFSMByIdentifier_def ReleaseByIdentifier_def
      dest: store_transition_trim split: option.splits sum.splits prod.splits repo_error.splits if_splits)

lemma allocate_loop_trim:
  assumes env: "plain_ids env"
  shows "trim_ids (stDB st) \<Longrightarrow>
    allocate_loop n now env scope tenantID identifier profile meta held pid ip st = Some (r, st') \<Longrightarrow> trim_ids (stDB st')"
proof (induction n arbitrary: held pid ip st)
  case (Suc n)
  have plain: "plain_v4 env" using env by (simp add: plain_ids_def)
  show ?case
  proof (cases "GetActiveLease (stDB st) identifier")
    case (Inl e)
    then have e: "e = ErrNotFound" by (simp add: GetActiveLease_None)
    show ?thesis
    proof (cases "allocate_new now env scope tenantID identifier profile meta held pid ip st")
      case None
      then show ?thesis using Suc.prems Inl e by simp
    next
      case (Some p)
      obtain a st1 where p: "p = (a, st1)" by (cases p)
      have "trim_ids (stDB st1)"
        using plain Some [unfolded p]
      proof (cases rule: allocate_new_cases)
        case (2 pool pid' sip st2 cr)
        from plain 2(4) show ?thesis
        proof (cases rule: create_lease_cases)
          case c: 2
          then show ?thesis using CreateLease_trim [OF c(1)] 2(1) Suc.prems(1) env by (simp add: plain_ids_def new_lease_def Let_def)
        qed (use 2(1) Suc.prems(1) in simp)
      qed (use Suc.prems(1) in simp)
      then show ?thesis using Suc.prems(2) Suc.IH Inl e Some p by (auto split: sum.splits option.splits)
    qed
  next
    case (Inr l)
    obtain a st1 where p: "reuse_lease now env scope identifier profile meta l st = (a, st1)" by force
    from plain p have "trim_ids (stDB st1)"
      by (cases rule: reuse_lease_cases) (use UpdateLease_trim Suc.prems(1) in auto)
    then show ?thesis using Suc.prems(2) Suc.IH Inr p by (auto split: sum.splits option.splits)
  qed
qed simp

lemma allocation_loops:
  assumes "AllocateOrReuseWithMetadata now env scope identifier profile pid ip meta st = Some (r, st')"
  obtains e where "r = Inl e" "stDB st' = stDB st"
  | tenantID st1 where "stDB st1 = stDB st" "allocate_loop (nat (conflictAttemptBudget env)) now env scope tenantID identifier
      (normalizeProfile (envDefaults env) profile) meta [] pid ip st1 = Some (r, st')"
  using assms checkIsolation_frame
  by (fastforce simp: AllocateOrReuseWithMetadata_def split: sum.splits option.splits prod.splits)

lemma allocation_served_ok:
  assumes env: "plain_ids env" and ok: "served_ok (stDB st)"
    and run: "AllocateOrReuseWithMetadata now env scope identifier profile pid ip meta st = Some (r, st')"
  shows "served_ok (stDB st')"
proof -
  from run have "trim_ids (stDB st')"
  proof (cases rule: allocation_loops)
    case (2 tenantID st1)
    then show ?thesis using allocate_loop_trim [OF env _ 2(2)] ok by (simp add: served_ok_def)
  qed (use ok in \<open>simp add: served_ok_def\<close>)
  then show ?thesis using AllocateOrReuse_table_ok [OF _ _ run] env ok by (simp add: served_ok_def plain_ids_def)
qed

lemma allocation_row:
  assumes env: "plain_ids env" and ok: "served_ok (stDB st)"
    and run: "AllocateOrReuseWithMetadata now env scope identifier profile pid ip meta st = Some (Inr res, st')"
  shows "holds_row (stDB st') (resLease res) \<and>
    ((\<exists>l. active l \<and> resLease res = reused_lease now (normalizeProfile (envDefaults env) profile) meta l) \<or>
     (\<exists>k t p a. resLease res = new_lease now (envNewID env k) t p a identifier (normalizeProfile (envDefaults env) profile) meta))"
  using run
proof (cases rule: allocation_loops)
  case (2 tenantID st1)
  then show ?thesis using allocate_loop_row [OF _ _ 2(2)] env ok by (simp add: served_ok_def plain_ids_def)
qed simp

text \<open>The lookup by id finds that row.\<close>

lemma holds_row_lookup:
  assumes "served_ok db" and "holds_row db l"
  obtains r where "GetLeaseByID db (trim_space (leaseID l)) = Inr r" "leaseID r = leaseID l" "r \<in> set (leases_v4 db)" "active r" "leaseState r = leaseState l"
    "leaseSessionContinuity r = leaseSessionContinuity l" "leaseExpiresAt r = leaseExpiresAt l"
proof -
  from assms(2) obtain r where r: "r \<in> set (leases_v4 db)" "leaseID r = leaseID l" "active r" "leaseState r = leaseState l"
    "leaseSessionContinuity r = leaseSessionContinuity l" "leaseExpiresAt r = leaseExpiresAt l" by (auto simp: holds_row_def)
  have keys: "keys_ok (leases_v4 db)" and trim: "trim_space (leaseID l) = leaseID l"
    using assms(1) r by (auto simp: served_ok_def table_ok_def trim_ids_def)
  obtain r' where r': "GetLeaseByID db (leaseID l) = Inr r'"
    using r(1,2) by (cases "GetLeaseByID db (leaseID l)") (auto simp: GetLeaseByID_def find_None_iff split: option.splits)
  from GetLeaseByID_sound [OF r'] have "r' = r"
    using keys_ok_distinct_ids [OF keys _ r(1), of r'] r(2) by simp
  then show thesis using that r r' trim by simp
qed

lemma fsm_served_ok:
  assumes "served_ok (stDB st)" and "holds_row (stDB st) l"
    and "UpdateDHCPv4LeaseFSMByLeaseID now env scope (leaseID l) target st = (r, st')"
  shows "served_ok (stDB st')"
proof -
  obtain x where "GetLeaseByID (stDB st) (trim_space (leaseID l)) = Inr x" "active x"
    by (rule holds_row_lookup [OF assms(1,2)])
  then show ?thesis
    using FSMByLeaseID_table_ok [OF _ assms(3)] fsm_trim(1) [OF assms(3)] assms(1) by (simp add: served_ok_def)
qed

section \<open>The handler\<close>

text \<open>Everything but the allocation and the state machine leaves the lease service alone.\<close>

lemma plan_frame:
  "decide4 now env t pkt b st = (d, st') \<Longrightarrow> h4sSvc st' = h4sSvc st"
  "affinity_pool now t i st = (p, st') \<Longrightarrow> h4sSvc st' = h4sSvc st"
  "applyPoolLeaseTimes now env t pid profile st = (q, st') \<Longrightarrow> h4sSvc st' = h4sSvc st"
  by (auto simp: decide4_def affinity_pool_def applyPoolLeaseTimes_def Let_def split: option.splits sum.splits prod.splits if_splits)

lemma leasePlan_frame: "leasePlan now env t i pkt b st = (p, st') \<Longrightarrow> h4sSvc st' = h4sSvc st"
  by (auto simp: leasePlan_def Let_def dest!: plan_frame split: prod.splits if_splits)

lemma relay_frame: "authorizeRelay now env t pkt st = (e, st') \<Longrightarrow> h4sSvc st' = h4sSvc st"
  by (auto simp: authorizeRelay_def split: prod.splits)

text \<open>The checks before an allocation keep what the guard keeps.\<close>

context guard_contract
begin

lemma runGuard_keeps:
  assumes "h4Guard env = ops" and "inv (h4sSvc h)" and "runGuard now env t mt pkt phase h = (e, h')"
  shows "inv (h4sSvc h')"
  using assms(3) check [OF assms(2)] renew [OF assms(2)] unfolding runGuard_def assms(1) by (auto split: prod.splits if_splits)

lemma admit_keeps:
  assumes "h4Guard env = ops" and "inv (h4sSvc h)" and "admit now env t mt pkt phase h = (e, h')"
  shows "inv (h4sSvc h')"
proof -
  obtain e1 h1 where r: "authorizeRelay now env t pkt h = (e1, h1)" by force
  have "inv (h4sSvc h1)" using assms(2) relay_frame [OF r] by simp
  then show ?thesis using assms(3) r runGuard_keeps [OF assms(1)] by (auto simp: admit_def split: option.splits)
qed

end

lemma compliance_frame: "lookupComplianceMetadata4 now t pkt st = (c, st') \<Longrightarrow> h4sSvc st' = h4sSvc st"
  by (auto simp: lookupComplianceMetadata4_def Let_def split: prod.splits option.splits)

lemma remember_frame [simp]: "h4sSvc (rememberMobilityAffinity now t i pkt meta res st) = h4sSvc st"
  by (auto simp: rememberMobilityAffinity_def Let_def split: option.splits)

lemma emit_frame [simp]: "h4sSvc (emitLeaseChange env t pkt res action st) = h4sSvc st"
  by (simp add: emitLeaseChange_def Let_def)

lemma allocate4_cases:
  assumes "allocate4 now env t pkt st = Some (r, st')"
  obtains e where "r = Inl (ServiceRefused e)" "\<exists>profile pid meta. AllocateOrReuseWithMetadata now (h4Svc env) (NewResourceScope t t)
      (identity pkt) profile pid (desiredIP pkt) meta (h4sSvc st) = Some (Inl e, h4sSvc st')"
  | res compliance where "r = Inr (res, allocationMetadata pkt compliance)"
      "\<exists>profile pid. AllocateOrReuseWithMetadata now (h4Svc env) (NewResourceScope t t)
        (identity pkt) profile pid (desiredIP pkt) (allocationMetadata pkt compliance) (h4sSvc st) = Some (Inr res, h4sSvc st')"
proof -
  obtain c st1 where c: "lookupComplianceMetadata4 now t pkt st = (c, st1)" by force
  obtain profile pid st2 where p: "leasePlan now env t (identity pkt) pkt (cmValid c \<and> cmManaged c) st1 = ((profile, pid), st2)"
    by (metis surj_pair)
  have svc: "h4sSvc st2 = h4sSvc st" using compliance_frame [OF c] leasePlan_frame [OF p] by simp
  let ?a = "AllocateOrReuseWithMetadata now (h4Svc env) (NewResourceScope t t) (identity pkt) profile pid (desiredIP pkt)
      (allocationMetadata pkt c) (h4sSvc st)"
  have eq: "allocate4 now env t pkt st = (case ?a of None \<Rightarrow> None
      | Some (Inl e, svc) \<Rightarrow> Some (Inl (ServiceRefused e), st2\<lparr>h4sSvc := svc\<rparr>)
      | Some (Inr res, svc) \<Rightarrow> Some (Inr (res, allocationMetadata pkt c), st2\<lparr>h4sSvc := svc\<rparr>))"
    unfolding allocate4_def c prod.case p by (simp add: Let_def svc)
  show thesis
  proof (cases ?a)
    case None
    then show thesis using assms eq by simp
  next
    case (Some x)
    obtain y svc' where x: "x = (y, svc')" by (cases x)
    show thesis
    proof (cases y)
      case (Inl e)
      then have "r = Inl (ServiceRefused e)" "h4sSvc st' = svc'" using assms eq Some x by auto
      then show thesis using that(1) Some x Inl by blast
    next
      case (Inr res)
      then have "r = Inr (res, allocationMetadata pkt c)" "h4sSvc st' = svc'" using assms eq Some x by auto
      then show thesis using that(2) Some x Inr by blast
    qed
  qed
qed

section \<open>Runs of the server\<close>

text \<open>Any datagrams from anywhere, one after the other, at any times.  A datagram whose processing
  would not end takes no step.\<close>

inductive serves4 :: "server4 \<Rightarrow> ('r, 'g) handler4_env \<Rightarrow> ('r, 'g) server4_state \<Rightarrow> ('r, 'g) server4_state \<Rightarrow> bool"
  for srv env where
  serves4_start: "serves4 srv env s s"
| serves4_next: "serves4 srv env s s' \<Longrightarrow> processDatagram4 now srv env data addr s' = Some (out, s'') \<Longrightarrow> serves4 srv env s s''"

text \<open>What the server relies on when it calls its handler: each of the five operations keeps an
  invariant of the handler's state.  The server then keeps it whatever it receives.\<close>

locale lease_handler =
  fixes env :: "('r, 'g) handler4_env" and inv :: "('r, 'g) handler4_state \<Rightarrow> bool"
  assumes discover: "inv h \<Longrightarrow> HandleDiscover now env t pkt h = Some (res, h') \<Longrightarrow> inv h'"
    and request: "inv h \<Longrightarrow> HandleRequest now env t pkt h = Some (res, h') \<Longrightarrow> inv h'"
    and boot: "inv h \<Longrightarrow> HandleBootRequest now env t pkt h = Some (res, h') \<Longrightarrow> inv h'"
    and decline: "inv h \<Longrightarrow> inv (snd (HandleDecline now env t pkt h))"
    and release: "inv h \<Longrightarrow> inv (snd (HandleRelease now env t pkt h))"
begin

lemma message_keeps:
  "inv h \<Longrightarrow> handleDiscover now srv env msg addr h = Some (out, h') \<Longrightarrow> inv h'"
  "inv h \<Longrightarrow> handleRequest now srv env msg addr h = Some (out, h') \<Longrightarrow> inv h'"
  "inv h \<Longrightarrow> handleBootRequest now srv env msg addr h = Some (out, h') \<Longrightarrow> inv h'"
  unfolding handleDiscover_def handleRequest_def handleBootRequest_def Let_def
  by (auto split: option.splits sum.splits prod.splits dest: discover [rotated] request [rotated] boot [rotated])

lemma ending_keeps:
  "inv h \<Longrightarrow> inv (snd (handleDecline now srv env msg addr h))"
  "inv h \<Longrightarrow> inv (snd (handleRelease now srv env msg addr h))"
  unfolding handleDecline_def handleRelease_def Let_def by (auto split: option.splits intro: decline release)

lemma dispatch_keeps:
  assumes "inv h" and "dispatch4 now srv env msg addr h = Some (out, h')"
  shows "inv h'"
proof -
  have "handleDiscover now srv env msg addr h = Some (out, h') \<or> handleRequest now srv env msg addr h = Some (out, h') \<or>
      handleBootRequest now srv env msg addr h = Some (out, h') \<or> handleDecline now srv env msg addr h = (out, h') \<or>
      handleRelease now srv env msg addr h = (out, h') \<or> h' = h"
  proof (cases "\<exists>t. get_option msg OptionDHCPMessageType = [t]")
    case True
    then obtain t where "get_option msg OptionDHCPMessageType = [t]" by blast
    then show ?thesis using assms(2) by (simp add: dispatch4_def split: if_splits)
  next
    case False
    then have "dispatch4 now srv env msg addr h =
        (if Op msg = OpBootRequest then handleBootRequest now srv env msg addr h else Some (None, h))"
      unfolding dispatch4_def by (cases "get_option msg OptionDHCPMessageType" rule: remdups_adj.cases) simp_all
    then show ?thesis using assms(2) by (simp split: if_splits)
  qed
  moreover note message_keeps [OF assms(1)] ending_keeps [OF assms(1)] assms(1)
  ultimately show ?thesis by (metis snd_conv)
qed

lemma process_keeps: "inv (s4Handler s) \<Longrightarrow> processDatagram4 now srv env data addr s = Some (out, s') \<Longrightarrow> inv (s4Handler s')"
  using dispatch_keeps by (auto simp: processDatagram4_def split: sum.splits prod.splits bool.splits)

lemma run_keeps: "serves4 srv env s s' \<Longrightarrow> inv (s4Handler s) \<Longrightarrow> inv (s4Handler s')"
  by (induction rule: serves4.induct) (auto intro: process_keeps)

end

definition leases_ok :: "('r, 'g) handler4_env \<Rightarrow> ('r, 'g) handler4_state \<Rightarrow> bool" where
  "leases_ok env h \<longleftrightarrow> (plain_ids (h4Svc env) \<and> lawful_guard (h4Guard env) \<longrightarrow> served_ok (stDB (h4sSvc h)))"

lemma admit_ok: "leases_ok env h \<Longrightarrow> admit now env t mt pkt phase h = (e, h') \<Longrightarrow> leases_ok env h'"
  unfolding leases_ok_def lawful_guard_def using guard_contract.admit_keeps [OF _ refl] by fast

lemma allocate4_ok:
  assumes "leases_ok env h" and "allocate4 now env t pkt h = Some (r, h')"
  shows "leases_ok env h' \<and> (case r of Inl _ \<Rightarrow> True | Inr (res, _) \<Rightarrow>
    plain_ids (h4Svc env) \<and> lawful_guard (h4Guard env) \<longrightarrow> holds_row (stDB (h4sSvc h')) (resLease res))"
  using assms(2)
proof (cases rule: allocate4_cases)
  case (1 e)
  then show ?thesis using assms(1) allocation_served_ok unfolding leases_ok_def by fastforce
next
  case (2 res c)
  then obtain profile pid where run: "AllocateOrReuseWithMetadata now (h4Svc env) (NewResourceScope t t)
        (identity pkt) profile pid (desiredIP pkt) (allocationMetadata pkt c) (h4sSvc h) = Some (Inr res, h4sSvc h')" by blast
  show ?thesis using 2(1) assms(1) allocation_served_ok [OF _ _ run] allocation_row [OF _ _ run] unfolding leases_ok_def by simp
qed

lemma set_fsm_ok:
  assumes "leases_ok env h" and "plain_ids (h4Svc env) \<and> lawful_guard (h4Guard env) \<longrightarrow> holds_row (stDB (h4sSvc h)) (resLease res)"
    and "set_fsm now env t res target h = (e, h')"
  shows "leases_ok env h'"
  using assms fsm_served_ok by (fastforce simp: leases_ok_def set_fsm_def split: prod.splits sum.splits)

lemma end_lease_ok:
  assumes "leases_ok env h"
  shows "leases_ok env (snd (end_lease mt now env t pkt h))"
proof -
  obtain e h1 where a: "admit now env t mt pkt dhcpv4RequestPhaseRequest h = (e, h1)" by force
  have h1: "leases_ok env h1" by (rule admit_ok [OF assms a])
  obtain r svc where r: "ReleaseByIdentifier now (h4Svc env) (NewResourceScope t t) (identity pkt) (h4sSvc h1) = (r, svc)" by force
  obtain u svc' where u: "UpdateDHCPv4LeaseFSMByIdentifier now (h4Svc env) (NewResourceScope t t) (identity pkt) StateReleased svc = (u, svc')"
    by force
  have "plain_ids (h4Svc env) \<and> lawful_guard (h4Guard env) \<longrightarrow> served_ok (stDB svc)"
    using h1 ReleaseByIdentifier_table_ok [OF _ r] fsm_trim(3) [OF r] by (simp add: leases_ok_def served_ok_def)
  moreover from this have "plain_ids (h4Svc env) \<and> lawful_guard (h4Guard env) \<longrightarrow> served_ok (stDB svc')"
    using FSMByIdentifier_table_ok [OF _ u] fsm_trim(2) [OF u] by (simp add: served_ok_def)
  ultimately show ?thesis
    using h1 a r u by (cases e) (auto simp: end_lease_def Let_def leases_ok_def split: sum.splits)
qed

text \<open>The checks before an allocation, the allocation and the transition, for any state.\<close>

lemma admitted_ok:
  assumes "leases_ok env h" and "admit now env t mt pkt phase h = (e, h1)" and "allocate4 now env t pkt h1 = Some (Inr (res, meta), h2)"
    and "set_fsm now env t res target h2 = (e', h3)"
  shows "leases_ok env h3"
  using admit_ok [OF assms(1,2)] allocate4_ok [OF _ assms(3)] set_fsm_ok [OF _ _ assms(4)] by auto

lemma attempted_ok:
  assumes "leases_ok env h" and "admit now env t mt pkt phase h = (e, h1)" and "allocate4 now env t pkt h1 = Some (r, h2)"
  shows "leases_ok env h2"
  using allocate4_ok [OF admit_ok [OF assms(1,2)] assms(3)] by simp

lemma rest_ok [simp]:
  "leases_ok env (rememberMobilityAffinity now t i pkt meta res h) \<longleftrightarrow> leases_ok env h"
  "leases_ok env (emitLeaseChange env' t pkt res action h) \<longleftrightarrow> leases_ok env h"
  by (simp_all add: leases_ok_def)

interpretation v4_leases: lease_handler env "leases_ok env" for env :: "('r, 'g) handler4_env"
proof
  fix h h' :: "('r, 'g) handler4_state" and now t pkt and res :: "failure4 + lease_result"
  assume h: "leases_ok env h"
  show "leases_ok env h'" if "HandleDiscover now env t pkt h = Some (res, h')"
    using that admit_ok [OF h] attempted_ok [OF h] admitted_ok [OF h]
    by (fastforce simp: HandleDiscover_def split: option.splits prod.splits sum.splits)
  show "leases_ok env h'" if "HandleRequest now env t pkt h = Some (res, h')"
    using that admit_ok [OF h] attempted_ok [OF h] admitted_ok [OF h]
    by (fastforce simp: HandleRequest_def split: option.splits prod.splits sum.splits)
  show "leases_ok env h'" if "HandleBootRequest now env t pkt h = Some (res, h')"
    using that admit_ok [OF h] attempted_ok [OF h]
    by (fastforce simp: HandleBootRequest_def split: option.splits prod.splits sum.splits)
qed (simp_all add: HandleDecline_def HandleRelease_def end_lease_ok)


section \<open>The stored state machine\<close>

lemma map_of_put_nonempty: "map_of (put_nonempty k v fs) = (if v = [] then map_of fs else (map_of fs)(k \<mapsto> JStr v))"
  by (simp add: put_nonempty_def)

lemma put_nonempty_neq: "fs \<noteq> [] \<or> v \<noteq> [] \<Longrightarrow> put_nonempty k v fs \<noteq> []"
  by (cases fs) (auto simp: put_nonempty_def split: if_splits)

text \<open>The session record of a packet never has the key of the state machine, and it exists when the
  packet names an address.\<close>

lemma session_without_state:
  "map_of (mmSessionContinuity (metaMobility (allocationMetadata pkt c))) dhcpv4LeaseFSMStateKey = None"
  by (simp add: allocationMetadata_def Let_def map_of_put_nonempty dhcpv4LeaseFSMStateKey_def)

lemma session_exists:
  "desiredIP pkt \<noteq> [] \<Longrightarrow> mmSessionContinuity (metaMobility (allocationMetadata pkt c)) \<noteq> []"
  by (simp add: allocationMetadata_def Let_def put_nonempty_neq)

lemma normalized_positive: "\<not> profInfinite (normalizeProfile d p) \<Longrightarrow> 0 < profDefaultDuration (normalizeProfile d p)"
  using fill_durations_positive [of d p] by (simp add: normalizeProfile_def fill_sleepy_def fill_timers_def Let_def split: if_splits)

lemma timing_expiry:
  "leaseExpiresAt (applyLeaseTiming now l (normalizeProfile d p)) \<ge> now"
  "leaseSessionContinuity (applyLeaseTiming now l q) = leaseSessionContinuity l"
  "leaseSessionContinuity (applyComplianceMetadata l m) = leaseSessionContinuity l"
  using normalized_positive [of d p]
  by (auto simp: applyLeaseTiming_def applyComplianceMetadata_def Let_def infinite_span_def hour_def second_def split: if_splits intro: less_imp_le)

lemma mobility_session:
  "mmSessionContinuity (metaMobility m) \<noteq> [] \<Longrightarrow>
     leaseSessionContinuity (applyMobilityMetadata l m) = RawCanonical (JObj (mmSessionContinuity (metaMobility m)))"
  by (simp add: applyMobilityMetadata_def Let_def)

lemma active_not_released:
  assumes "active r"
  shows "\<not> equal_fold (leaseState r) leaseStateReleased" "\<not> equal_fold (trim_space (leaseState r)) leaseStateReleased"
proof -
  have lower: "to_lower (leaseState r) = ''active''"
    using assms unfolding active_def sql_eq_def by (simp add: to_lower_def lower_char_code)
  moreover have "''active'' \<noteq> to_lower leaseStateReleased" "trim_space ''active'' \<noteq> to_lower leaseStateReleased" by code_simp+
  moreover have "to_lower (trim_space (leaseState r)) = trim_space ''active''" using lower to_lower_trim by metis
  ultimately show "\<not> equal_fold (leaseState r) leaseStateReleased" "\<not> equal_fold (trim_space (leaseState r)) leaseStateReleased"
    by (simp_all add: equal_fold_def)
qed

text \<open>After an allocation for a packet that names an address the lease counts as bound.\<close>

lemma derived_bound:
  assumes "leaseSessionContinuity r = RawCanonical (JObj fs)" and "map_of fs dhcpv4LeaseFSMStateKey = None"
    and "active r" and "leaseExpiresAt r \<ge> now"
  shows "dhcpv4LeaseFSMStateFromLease now r = StateBound"
proof -
  have unknown: "\<not> IsKnownState []" by (simp add: IsKnownState_def allowedTransitions_def fsm_state_defs)
  have "\<not> equal_fold (trim_space (leaseState r)) leaseStateReleased" by (rule active_not_released(2) [OF assms(3)])
  then show ?thesis
    using assms unknown
    by (auto simp: dhcpv4LeaseFSMStateFromLease_def dhcpv4LeaseContinuityMap_def stored_fsm_text_def dhcpv4DeriveFallbackState_def)
qed


lemma allocated_bound:
  assumes env: "plain_ids (h4Svc env)" and ok: "served_ok (stDB (h4sSvc h))" and named: "desiredIP pkt \<noteq> []"
    and run: "allocate4 now env t pkt h = Some (Inr (res, meta), h')"
  obtains r where "GetLeaseByID (stDB (h4sSvc h')) (trim_space (leaseID (resLease res))) = Inr r" "active r"
    "r \<in> set (leases_v4 (stDB (h4sSvc h')))" "dhcpv4LeaseFSMStateFromLease now r = StateBound"
    "served_ok (stDB (h4sSvc h'))" "guarded (h4Svc env) (NewResourceScope t t) op = None" "leaseID r = leaseID (resLease res)"
  using run
proof (cases rule: allocate4_cases)
  case (2 res' c)
  then obtain profile pid where alloc: "AllocateOrReuseWithMetadata now (h4Svc env) (NewResourceScope t t)
        (identity pkt) profile pid (desiredIP pkt) (allocationMetadata pkt c) (h4sSvc h) = Some (Inr res, h4sSvc h')" by auto
  let ?m = "allocationMetadata pkt c"
  let ?fs = "mmSessionContinuity (metaMobility ?m)"
  note ok' = allocation_served_ok [OF env ok alloc] and row = allocation_row [OF env ok alloc]
  have lease: "leaseSessionContinuity (resLease res) = RawCanonical (JObj ?fs) \<and> leaseExpiresAt (resLease res) \<ge> now"
    using row timing_expiry mobility_session [OF session_exists [OF named, of c]]
    by (auto simp: reused_lease_def new_lease_def Let_def)
  obtain r where r: "GetLeaseByID (stDB (h4sSvc h')) (trim_space (leaseID (resLease res))) = Inr r"
    "r \<in> set (leases_v4 (stDB (h4sSvc h')))" "active r"
    "leaseSessionContinuity r = leaseSessionContinuity (resLease res)" "leaseExpiresAt r = leaseExpiresAt (resLease res)"
    "leaseID r = leaseID (resLease res)"
    by (rule holds_row_lookup [OF ok' conjunct1 [OF row]])
  have "dhcpv4LeaseFSMStateFromLease now r = StateBound"
    using r lease session_without_state by (intro derived_bound) auto
  moreover have "guarded (h4Svc env) (NewResourceScope t t) op = None"
    using alloc by (auto simp: AllocateOrReuseWithMetadata_def guarded_def ensurePrimaryWrite_def split: sum.splits option.splits prod.splits if_splits)
  ultimately show thesis using r ok' by (intro that)
qed simp

lemma keys_ok_other:
  assumes "keys_ok rows" and "r \<in> set rows" and "r' \<in> set rows" and "r' \<noteq> r"
  shows "\<not> (sql_eq (leaseHardwareAddr r') (leaseHardwareAddr r) \<and> sql_eq (leaseState r') (leaseState r))"
  using assms by (induction rows) (auto simp: key_clash_def sql_eq_sym)

text \<open>A transition of a bound row of the table is stored, and changes nothing else.\<close>

lemma bound_transition:
  assumes ok: "served_ok (stDB st)" and r: "r \<in> set (leases_v4 (stDB st))" "active r" "dhcpv4LeaseFSMStateFromLease now r = StateBound"
    and t: "target \<in> {StateBound, StateRenewing, StateRebinding}"
  obtains l u st' where "store_transition now r target st = (Inr (l, u), st')"
    "\<exists>r' \<in> set (leases_v4 (stDB st')). leaseID r' = leaseID r \<and> active r' \<and> dhcpv4LeaseFSMStateFromLease now r' = target"
proof (cases "target = StateBound")
  case True
  have bound: "IsKnownState StateBound" "ValidateTransition StateBound StateBound = None" "StateBound \<noteq> StateOffered"
    "StateBound \<noteq> StateReleased" by code_simp+
  have "\<not> equal_fold (leaseState r) leaseStateReleased" by (rule active_not_released(1) [OF r(2)])
  then have "dhcpv4TransitionLeaseState now r target = Inr (r, False)"
    using True r(3) bound by (simp add: dhcpv4TransitionLeaseState_def Let_def)
  then show thesis using that [of r False st] r True by (auto simp: store_transition_def)
next
  case False
  let ?l = "r\<lparr>leaseSessionContinuity := RawCanonical (JObj (obj_put dhcpv4LeaseFSMStateKey (JStr target)
      (dhcpv4LeaseContinuityMap (leaseSessionContinuity r)))), leaseUpdatedAt := now\<rparr>"
  have "\<not> equal_fold (leaseState r) leaseStateReleased" by (rule active_not_released(1) [OF r(2)])
  moreover have "IsKnownState StateRenewing" "IsKnownState StateRebinding" "ValidateTransition StateBound StateRenewing = None"
    "ValidateTransition StateBound StateRebinding = None" "StateRenewing \<notin> {StateOffered, StateReleased}"
    "StateRebinding \<notin> {StateOffered, StateReleased}" "trim_space StateRenewing = StateRenewing" "trim_space StateRebinding = StateRebinding"
    by code_simp+
  then have st: "IsKnownState target" "ValidateTransition StateBound target = None" "target \<noteq> StateOffered" "target \<noteq> StateReleased"
    "trim_space target = target" using t False by auto
  ultimately have tr: "dhcpv4TransitionLeaseState now r target = Inr (?l, True)"
    using False r(3) by (simp add: dhcpv4TransitionLeaseState_def Let_def)
  have keys: "keys_ok (leases_v4 (stDB st))" using ok by (simp add: served_ok_def table_ok_def)
  have "\<not> (sql_eq (leaseHardwareAddr r') (leaseHardwareAddr r) \<and> sql_eq (leaseState r') (leaseState ?l))"
    if "r' \<in> set (leases_v4 (stDB st))" "r' \<noteq> r" for r'
    using keys r(1) that by (simp add: keys_ok_other)
  then obtain db where db: "UpdateLease (stDB st) ?l = Inr db"
    using UpdateLease_iff [OF keys r(1), of ?l] by auto
  have "update_row ?l r \<in> set (leases_v4 db)" using UpdateLease_rows [OF keys r(1) _ db] by simp
  moreover have "dhcpv4LeaseFSMStateFromLease now (update_row ?l r) = target"
    using st by (simp add: dhcpv4LeaseFSMStateFromLease_def dhcpv4LeaseContinuityMap_def stored_fsm_text_def Let_def)
  ultimately have "\<exists>r' \<in> set (leases_v4 db). leaseID r' = leaseID r \<and> active r' \<and> dhcpv4LeaseFSMStateFromLease now r' = target"
    using r(2) by (intro bexI [of _ "update_row ?l r"]) (auto simp: active_def)
  then show thesis using that [of ?l True "st\<lparr>stDB := db\<rparr>"] tr db by (simp add: store_transition_def)
qed


section \<open>The server identifier\<close>

text \<open>Of the options themselves the handler reads the parameter request list only.\<close>

lemma packet_options:
  assumes "opts OptionParameterRequestList = p4Options pkt OptionParameterRequestList"
  shows "deviceClassification4 env (pkt\<lparr>p4Options := opts\<rparr>) = deviceClassification4 env pkt"
  using assms by (simp add: deviceClassification4_def Let_def)

lemma packet_fields:
  "p4GIAddr (pkt\<lparr>p4Options := opts\<rparr>) = p4GIAddr pkt" "p4RelayAgentInfo (pkt\<lparr>p4Options := opts\<rparr>) = p4RelayAgentInfo pkt"
  "p4CIAddr (pkt\<lparr>p4Options := opts\<rparr>) = p4CIAddr pkt" "p4RequestedIP (pkt\<lparr>p4Options := opts\<rparr>) = p4RequestedIP pkt"
  "p4UserClass (pkt\<lparr>p4Options := opts\<rparr>) = p4UserClass pkt" "p4VendorClass (pkt\<lparr>p4Options := opts\<rparr>) = p4VendorClass pkt"
  "p4RequestPhase (pkt\<lparr>p4Options := opts\<rparr>) = p4RequestPhase pkt" "p4CHAddr (pkt\<lparr>p4Options := opts\<rparr>) = p4CHAddr pkt"
  "p4ClientID (pkt\<lparr>p4Options := opts\<rparr>) = p4ClientID pkt" "p4IPClass (pkt\<lparr>p4Options := opts\<rparr>) = p4IPClass pkt"
  "p4IsBOOTP (pkt\<lparr>p4Options := opts\<rparr>) = p4IsBOOTP pkt"
  by simp_all

lemma packet_readers:
  "relayValue (pkt\<lparr>p4Options := opts\<rparr>) = relayValue pkt" "desiredIP (pkt\<lparr>p4Options := opts\<rparr>) = desiredIP pkt"
  "identity (pkt\<lparr>p4Options := opts\<rparr>) = identity pkt" "fallbackPool (pkt\<lparr>p4Options := opts\<rparr>) = fallbackPool pkt"
  "relayAttributes (pkt\<lparr>p4Options := opts\<rparr>) = relayAttributes pkt"
  unfolding relayValue_def [abs_def] desiredIP_def identity_def fallbackPool_def relayAttributes_def packet_fields by simp_all

lemmas packet_reads = packet_fields packet_readers

lemma packet_steps:
  "packet_vlan (pkt\<lparr>p4Options := opts\<rparr>) = packet_vlan pkt" "poolInterface pool (pkt\<lparr>p4Options := opts\<rparr>) = poolInterface pool pkt"
  "allocationMetadata (pkt\<lparr>p4Options := opts\<rparr>) = allocationMetadata pkt"
  "lookupComplianceMetadata4 now t (pkt\<lparr>p4Options := opts\<rparr>) = lookupComplianceMetadata4 now t pkt"
  "guard_context_of now t mt (pkt\<lparr>p4Options := opts\<rparr>) = guard_context_of now t mt pkt"
  unfolding packet_vlan_def poolInterface_def allocationMetadata_def [abs_def] lookupComplianceMetadata4_def [abs_def]
    guard_context_of_def [abs_def] packet_reads by simp_all

lemma packet_calls:
  "admit now env t mt (pkt\<lparr>p4Options := opts\<rparr>) = admit now env t mt pkt"
  "rememberMobilityAffinity now t i (pkt\<lparr>p4Options := opts\<rparr>) = rememberMobilityAffinity now t i pkt"
  unfolding admit_def [abs_def] authorizeRelay_def [abs_def] runGuard_def [abs_def] rememberMobilityAffinity_def [abs_def]
    packet_reads packet_steps packet_vlan_def by (simp_all add: packet_vlan_def packet_reads)

lemmas packet_options_frame = packet_reads packet_steps packet_calls

lemma emit_options: "emitLeaseChange env t (pkt\<lparr>p4Options := opts\<rparr>) res action st = emitLeaseChange env t pkt res action st"
  unfolding emitLeaseChange_def packet_options_frame by simp

lemma allocate_options:
  assumes "opts OptionParameterRequestList = p4Options pkt OptionParameterRequestList"
  shows "allocate4 now env t (pkt\<lparr>p4Options := opts\<rparr>) st = allocate4 now env t pkt st"
proof -
  have "decide4 now env t (pkt\<lparr>p4Options := opts\<rparr>) b st = decide4 now env t pkt b st" for b st
    unfolding decide4_def policy_input4_def packet_options [of opts pkt, OF assms, of env] packet_options_frame by simp
  then have "leasePlan now env t i (pkt\<lparr>p4Options := opts\<rparr>) b st = leasePlan now env t i pkt b st" for i b st
    unfolding leasePlan_def packet_options_frame by simp
  then show ?thesis unfolding allocate4_def packet_options_frame by simp
qed

lemma request_options:
  assumes "opts OptionParameterRequestList = p4Options pkt OptionParameterRequestList"
  shows "HandleRequest now env t (pkt\<lparr>p4Options := opts\<rparr>) st = HandleRequest now env t pkt st"
  unfolding HandleRequest_def packet_options_frame emit_options allocate_options [of opts pkt, OF assms] by simp

lemma packet_checks:
  "dhcpv4RelayValidate srv (pkt\<lparr>p4Options := opts\<rparr>) addr = dhcpv4RelayValidate srv pkt addr"
  "dhcpv4Option82Validate srv (pkt\<lparr>p4Options := opts\<rparr>) = dhcpv4Option82Validate srv pkt"
  "shouldHandleRelay4 srv (pkt\<lparr>p4Options := opts\<rparr>) = shouldHandleRelay4 srv pkt"
  by (simp_all add: dhcpv4RelayValidate_def dhcpv4Option82Validate_def shouldHandleRelay4_def cong: option.case_cong)

text \<open>C35: A REQUEST that selects another server is granted all the same.  A client that accepts the
  offer of one server names it in the server identifier; the request reaches every server.  This
  one answers, and stores, the same whichever server is named: an offer the client has turned
  down is leased and acknowledged.\<close>

theorem other_server_granted:
  assumes "length (get_option msg OptionServerIdentifier) = 4" and "length other = 4"
  shows "handleRequest now srv env (SetOption msg OptionServerIdentifier other) addr h = handleRequest now srv env msg addr h"
proof -
  let ?m = "SetOption msg OptionServerIdentifier other"
  have opt: "get_option ?m c = get_option msg c" if "c \<noteq> OptionServerIdentifier" for c
    using that by (simp add: SetOption_def get_option_def)
  have fields: "XID ?m = XID msg" "CHAddr ?m = CHAddr msg" "CIAddr ?m = CIAddr msg" "GIAddr ?m = GIAddr msg" "Flags ?m = Flags msg"
    "get_option ?m OptionServerIdentifier = other" "Options ?m OptionDHCPMessageType = Options msg OptionDHCPMessageType"
    "Options ?m = (Options msg)(OptionServerIdentifier \<mapsto> other)"
    by (simp_all add: SetOption_def get_option_def option_code_defs)
  have phase: "dhcpv4ClassifyRequestPhase ?m = dhcpv4ClassifyRequestPhase msg"
    using assms opt [of OptionDHCPMessageType] fields by (simp add: dhcpv4ClassifyRequestPhase_def option_code_defs)
  have others: "get_option ?m OptionRelayAgentInfo = get_option msg OptionRelayAgentInfo"
    "get_option ?m OptionClientIdentifier = get_option msg OptionClientIdentifier"
    "get_option ?m OptionRequestedIPAddress = get_option msg OptionRequestedIPAddress"
    "get_option ?m OptionVendorClass = get_option msg OptionVendorClass" "get_option ?m OptionUserClass = get_option msg OptionUserClass"
    using opt by (simp_all add: option_code_defs)
  obtain parsed err where p: "(case ParseOption82 (get_option msg OptionRelayAgentInfo) of Inl e \<Rightarrow> (empty_parsed, e) | Inr p \<Rightarrow> (p, [])) = (parsed, err)"
    by force
  have kept: "((Options msg)(OptionServerIdentifier \<mapsto> other)) OptionDHCPMessageType = Options msg OptionDHCPMessageType"
    by (simp add: option_code_defs)
  have pkt: "packetFromMessage srv ?m = (packetFromMessage srv msg)\<lparr>p4Options := (Options msg)(OptionServerIdentifier \<mapsto> other)\<rparr>"
    unfolding packetFromMessage_def phase fields(1-5,8) others p Let_def prod.case kept by (simp add: classifyIPv4_def)
  have "p4Options (packetFromMessage srv msg) = Options msg" unfolding packetFromMessage_def Let_def p prod.case by simp
  then have request: "HandleRequest now env t (packetFromMessage srv ?m) st = HandleRequest now env t (packetFromMessage srv msg) st" for t st
    unfolding pkt by (intro request_options) (simp add: option_code_defs OptionParameterRequestList_def)
  have reply: "NewReplyFromRequest ?m = NewReplyFromRequest msg" by (simp add: NewReplyFromRequest_def SetOption_def)
  have dest: "destinationFor ?m = destinationFor msg" unfolding destinationFor_def [abs_def] fields ..
  have build: "BuildResponse b ?m r c = BuildResponse b msg r c" "BuildNAK b ?m reason = BuildNAK b msg reason" for b r c reason
    unfolding BuildResponse_def BuildNAK_def reply by simp_all
  have send: "sendResponse ?m x addr = sendResponse msg x addr" "sendNak srv ?m addr reason = sendNak srv msg addr reason" for x reason
    unfolding sendResponse_def sendNak_def build dest by simp_all
  have screen: "screen4 srv ?m (packetFromMessage srv ?m) addr = screen4 srv msg (packetFromMessage srv msg) addr"
    unfolding screen4_def send pkt packet_checks ..
  show ?thesis unfolding handleRequest_def Let_def screen request send build ..
qed

section \<open>A small server\<close>

definition pool4 :: address_pool where
  "pool4 = empty_pool\<lparr>poolID := ''default'', poolCIDR := ''10.0.0.0/29''\<rparr>"

definition reader4 :: pool_reader where
  "reader4 = \<lparr>GetPool = (\<lambda>pid. if sql_eq pid ''default'' then Inr pool4 else Inl ErrPoolNotFound),
     FindBinding = \<lambda>_ _. Inl ErrPoolNotFound, ListBindingsByPool = \<lambda>_. Inr []\<rparr>"

definition sample_env4 :: "(unit, unit) handler4_env" where
  "sample_env4 = \<lparr>h4Svc = plain_env reader4,
     h4Policy = \<lparr>peParseTime = \<lambda>_. None, peListRules = \<lambda>_. Inr [], peArrange = \<lambda>rs. rs\<rparr>, h4Pools = None,
     h4RelayAuth = None, h4RelaySel = None, h4Detector = None, h4Visit = \<lambda>_. [], h4Guard = NewNoop\<rparr>"

definition sample_server4 :: server4 where
  "sample_server4 = fst (NewServer4 (\<lambda>_. []) (\<lambda>_. ''refused'')
     \<lparr>o4TenantID = ''t1'', o4ServerIP = [10, 0, 0, 7], o4MACRateLimitPPS = 0, o4RelayWhitelist = [], o4RelayParser = Some \<lparr>preserveRaw = False, mappings = Map.empty\<rparr>,
      o4Option82Policy = \<lparr>Enabled = False, CircuitIDAllow = [], CircuitIDDeny = [], RemoteIDAllow = [], RemoteIDDeny = []\<rparr>, o4Partitioner = None\<rparr>)"

definition sample_handler4 :: "(unit, unit) handler4_state" where
  "sample_handler4 = \<lparr>h4sSvc = initial_state () [], h4sRules = Map.empty, h4sSeen = Map.empty, h4sAffinity = None, h4sMDM = None,
     h4sPoolTimes = Map.empty, h4sGuard = ()\<rparr>"

definition sample_state4 :: "(unit, unit) server4_state" where
  "sample_state4 = \<lparr>s4Handler = sample_handler4, s4Limiter = NewMACRateLimiter 0\<rparr>"

text \<open>A datagram with the one-byte hardware address \<^verbatim>\<open>n\<close>, the transaction id \<^verbatim>\<open>n\<close> and the given options.\<close>

definition sample_datagram :: "byte \<Rightarrow> bytes \<Rightarrow> bytes" where
  "sample_datagram n opts = [1, 1, 1, 0, 0, 0, 0, n] @ replicate 20 0 @ [n] @ replicate 207 0
     @ [0x63, 0x82, 0x53, 0x63] @ opts @ [255]"

text \<open>What a message does to the handler's state, without the reply.\<close>

definition after4 ::
  "gotime \<Rightarrow> server4 \<Rightarrow> ('r, 'g) handler4_env \<Rightarrow> message \<Rightarrow> udp_addr option \<Rightarrow> ('r, 'g) handler4_state \<Rightarrow> ('r, 'g) handler4_state option" where
  "after4 now srv env msg addr h =
     (let pkt = packetFromMessage srv msg; t = s4TenantID srv; ty = get_option msg OptionDHCPMessageType in
      if screen4 srv msg pkt addr \<noteq> None then Some h
      else if ty = [MessageTypeDiscover] then map_option snd (HandleDiscover now env t pkt h)
      else if ty = [MessageTypeRequest] then map_option snd (HandleRequest now env t pkt h)
      else if ty = [MessageTypeDecline] then Some (snd (HandleDecline now env t pkt h))
      else if ty = [MessageTypeRelease] then Some (snd (HandleRelease now env t pkt h))
      else if length ty \<noteq> 1 \<and> Op msg = OpBootRequest then map_option snd (HandleBootRequest now env t pkt h)
      else Some h)"

lemma handle_states:
  "map_option snd (handleDiscover now srv env msg addr h) = (if screen4 srv msg (packetFromMessage srv msg) addr \<noteq> None then Some h
     else map_option snd (HandleDiscover now env (s4TenantID srv) (packetFromMessage srv msg) h))"
  "map_option snd (handleRequest now srv env msg addr h) = (if screen4 srv msg (packetFromMessage srv msg) addr \<noteq> None then Some h
     else map_option snd (HandleRequest now env (s4TenantID srv) (packetFromMessage srv msg) h))"
  "map_option snd (handleBootRequest now srv env msg addr h) = (if screen4 srv msg (packetFromMessage srv msg) addr \<noteq> None then Some h
     else map_option snd (HandleBootRequest now env (s4TenantID srv) (packetFromMessage srv msg) h))"
  "snd (handleDecline now srv env msg addr h) = (if screen4 srv msg (packetFromMessage srv msg) addr \<noteq> None then h
     else snd (HandleDecline now env (s4TenantID srv) (packetFromMessage srv msg) h))"
  "snd (handleRelease now srv env msg addr h) = (if screen4 srv msg (packetFromMessage srv msg) addr \<noteq> None then h
     else snd (HandleRelease now env (s4TenantID srv) (packetFromMessage srv msg) h))"
  unfolding handleDiscover_def handleRequest_def handleBootRequest_def handleDecline_def handleRelease_def Let_def
  by (auto split: option.split sum.split prod.split)

lemma dispatch_state: "map_option snd (dispatch4 now srv env msg addr h) = after4 now srv env msg addr h"
proof (cases "\<exists>t. get_option msg OptionDHCPMessageType = [t]")
  case True
  then obtain t where t: "get_option msg OptionDHCPMessageType = [t]" by blast
  have d: "dispatch4 now srv env msg addr h = (if t = MessageTypeDiscover then handleDiscover now srv env msg addr h
      else if t = MessageTypeRequest then handleRequest now srv env msg addr h
      else if t = MessageTypeDecline then Some (handleDecline now srv env msg addr h)
      else if t = MessageTypeRelease then Some (handleRelease now srv env msg addr h) else Some (None, h))"
    unfolding dispatch4_def t by simp
  have one: "length [t] = 1" by simp
  show ?thesis
    unfolding d after4_def t Let_def list.inject one if_distrib [of "map_option snd"] handle_states option.map snd_conv
    by (cases "screen4 srv msg (packetFromMessage srv msg) addr = None") (simp_all only: simp_thms if_True if_False if_cancel)
next
  case False
  then have d: "dispatch4 now srv env msg addr h =
      (if Op msg = OpBootRequest then handleBootRequest now srv env msg addr h else Some (None, h))"
    unfolding dispatch4_def by (cases "get_option msg OptionDHCPMessageType" rule: remdups_adj.cases) simp_all
  have "length (get_option msg OptionDHCPMessageType) \<noteq> 1" using False by (auto simp: length_Suc_conv)
  moreover have "get_option msg OptionDHCPMessageType \<noteq> [t]" for t using False by blast
  ultimately show ?thesis
    unfolding d after4_def Let_def if_distrib [of "map_option snd"] handle_states option.map snd_conv
    by (cases "screen4 srv msg (packetFromMessage srv msg) addr = None") (simp_all only: simp_thms if_True if_False if_cancel)
qed

lemma process_state [code_unfold]:
  "map_option snd (processDatagram4 now srv env data addr s) =
     (case ParseMessage data of
        Inl _ \<Rightarrow> Some s
      | Inr msg \<Rightarrow> (case dhcpv4AllowByMAC now msg (s4Limiter s) of
          (False, l) \<Rightarrow> Some (s\<lparr>s4Limiter := l\<rparr>)
        | (True, l) \<Rightarrow> map_option (\<lambda>h. s\<lparr>s4Limiter := l, s4Handler := h\<rparr>) (after4 now srv env msg addr (s4Handler s))))"
  unfolding processDatagram4_def dispatch_state [symmetric]
  by (auto split: sum.split prod.split bool.split simp: option.map_comp comp_def case_prod_unfold)

fun serve :: "server4 \<Rightarrow> ('r, 'g) handler4_env \<Rightarrow> (gotime \<times> bytes) list \<Rightarrow> ('r, 'g) server4_state \<Rightarrow> ('r, 'g) server4_state option" where
  "serve srv env [] s = Some s"
| "serve srv env ((now, data) # ds) s =
     (case map_option snd (processDatagram4 now srv env data None s) of None \<Rightarrow> None | Some s \<Rightarrow> serve srv env ds s)"

lemma serve_run: "serves4 srv env s0 s \<Longrightarrow> serve srv env ds s = Some s' \<Longrightarrow> serves4 srv env s0 s'"
proof (induction srv env ds s rule: serve.induct)
  case (2 srv env now data ds s)
  then obtain out s1 where "processDatagram4 now srv env data None s = Some (out, s1)" "serve srv env ds s1 = Some s'"
    by (auto split: option.splits)
  with 2 show ?case using serves4_next [OF 2(2)] by fastforce
qed simp

section \<open>Sample runs\<close>

definition rows4 :: "('r, 'g) handler4_state \<Rightarrow> (string \<times> string \<times> string \<times> string) list" where
  "rows4 h = map (\<lambda>l. (leaseIPAddress l, leaseState l, leaseHardwareAddr l, dhcpv4LeaseFSMStateFromLease (10 * second) l)) (leases_v4 (stDB (h4sSvc h)))"

definition sample_run4 :: "(gotime \<times> bytes) list \<Rightarrow> (unit, unit) server4_state option" where
  "sample_run4 ds = serve sample_server4 sample_env4 ds sample_state4"

definition sample_discover :: "byte \<Rightarrow> bytes" where "sample_discover n = sample_datagram n [53, 1, 1]"

definition sample_request :: message where
  "sample_request = example_message\<lparr>GIAddr := [], HLen := 1, CHAddr := [1],
     Options := [53 \<mapsto> [3], 50 \<mapsto> [10, 0, 0, 1], 54 \<mapsto> [10, 0, 0, 7]]\<rparr>"

text \<open>The same request without option 50, which would choose the pool of its address class.\<close>

definition sample_select :: message where
  "sample_select = sample_request\<lparr>Options := [53 \<mapsto> [3], 54 \<mapsto> [10, 0, 0, 7]]\<rparr>"

definition sample_packet4 :: packet4 where "sample_packet4 = packetFromMessage sample_server4 sample_request"

lemma sample_runs:
  "map_option (rows4 \<circ> s4Handler) (sample_run4 [(0, sample_discover 1), (second, sample_discover 2)])
     = Some [(''10.0.0.1'', ''ACTIVE'', ''01'', ''Offered''), (''10.0.0.2'', ''ACTIVE'', ''02'', ''Offered'')] \<and>
   map_option (rows4 \<circ> s4Handler) (sample_run4 [(0, sample_discover 1), (second, sample_datagram 1 [53, 1, 3, 50, 4, 10, 0, 0, 1]),
       (2 * second, sample_datagram 1 [53, 1, 4]), (3 * second, sample_discover 2)])
     = Some [(''10.0.0.1'', ''RELEASED'', ''01'', ''Released''), (''10.0.0.1'', ''ACTIVE'', ''02'', ''Offered'')] \<and>
   (case sample_run4 [(0, sample_discover 1)] of
      None \<Rightarrow> False
    | Some s \<Rightarrow>
        (case admit second sample_env4 ''t1'' ''request'' sample_packet4 (p4RequestPhase sample_packet4) (s4Handler s) of
           (Some _, _) \<Rightarrow> False
         | (None, h) \<Rightarrow> (case allocate4 second sample_env4 ''t1'' sample_packet4 h of Some (Inr _, _) \<Rightarrow> True | _ \<Rightarrow> False)) \<and>
        fst (admit second sample_env4 ''t1'' ''release'' sample_packet4 dhcpv4RequestPhaseRequest (s4Handler s)) = None \<and>
        (case GetActiveLease (stDB (h4sSvc (snd (admit second sample_env4 ''t1'' ''release'' sample_packet4 dhcpv4RequestPhaseRequest (s4Handler s)))))
            (trim_space (identity sample_packet4)) of
           Inl _ \<Rightarrow> False | Inr l \<Rightarrow> dhcpv4LeaseFSMStateFromLease second l = StateOffered) \<and>
        guarded (h4Svc sample_env4) (NewResourceScope ''t1'' ''t1'') ''lease.release_by_identifier'' = None) \<and>
   desiredIP sample_packet4 \<noteq> [] \<and> request_target (p4RequestPhase sample_packet4) = StateBound \<and>
   screen4 sample_server4 sample_select (packetFromMessage sample_server4 sample_select) None = None \<and>
   map_option (rows4 \<circ> snd) (HandleRequest 0 sample_env4 ''t1'' (packetFromMessage sample_server4 sample_select) sample_handler4)
     = Some [(''10.0.0.1'', ''ACTIVE'', ''01'', ''Bound'')] \<and>
   s4TenantID sample_server4 = ''t1'' \<and> length (get_option sample_select OptionServerIdentifier) = 4"
  by code_simp

lemma sample_plain4: "plain_v4 (h4Svc sample_env4)"
proof -
  have "ParsePrefix (poolCIDR pool4) = Some sample_prefix" using sample_prefix_facts by (simp add: pool4_def sample_pool_def)
  moreover have "poolID pool4 = ''default''" by (simp add: pool4_def)
  ultimately show ?thesis
    using sample_prefix_facts
    by (auto simp: plain_v4_def sample_env4_def plain_env_def reader4_def sql_eq_sym split: if_splits)
qed

lemma sample_ids4: "trim_space (envNewID (h4Svc sample_env4) n) = envNewID (h4Svc sample_env4) n"
proof -
  have "\<not> is_space (last (dec n))"
    using dec_digits [of "last (dec n)" n] by (auto simp: is_digit_def is_space_def)
  then show ?thesis by (simp add: sample_env4_def plain_env_def trim_space_id is_space_def)
qed

lemma sample_empty4: "leases_v4 (stDB (h4sSvc (s4Handler sample_state4))) = []"
  by (simp add: sample_state4_def sample_handler4_def initial_state_def)

lemma sample_guard4: "lawful_guard (h4Guard sample_env4)"
  by (simp add: sample_env4_def noop_lawful)

lemma sample_serves4: "sample_run4 ds = Some s \<Longrightarrow> serves4 sample_server4 sample_env4 sample_state4 s"
  by (auto simp: sample_run4_def intro: serve_run serves4_start)



theorem other_server_granted_witness:
  "handleRequest 0 sample_server4 sample_env4 (SetOption sample_select OptionServerIdentifier [10, 0, 0, 9]) None sample_handler4
     = handleRequest 0 sample_server4 sample_env4 sample_select None sample_handler4 \<and>
   map_option (rows4 \<circ> snd) (handleRequest 0 sample_server4 sample_env4
       (SetOption sample_select OptionServerIdentifier [10, 0, 0, 9]) None sample_handler4)
     = Some [(''10.0.0.1'', ''ACTIVE'', ''01'', ''Bound'')]"
proof -
  note run = sample_runs [THEN conjunct2, THEN conjunct2, THEN conjunct2]
  have eq: "handleRequest 0 sample_server4 sample_env4 (SetOption sample_select OptionServerIdentifier [10, 0, 0, 9]) None sample_handler4
     = handleRequest 0 sample_server4 sample_env4 sample_select None sample_handler4"
    by (rule other_server_granted) (use run in simp_all)
  have "map_option snd (handleRequest 0 sample_server4 sample_env4 sample_select None sample_handler4) =
      map_option snd (HandleRequest 0 sample_env4 ''t1'' (packetFromMessage sample_server4 sample_select) sample_handler4)"
    using run by (simp add: handle_states)
  then have "map_option (rows4 \<circ> snd) (handleRequest 0 sample_server4 sample_env4 sample_select None sample_handler4)
      = map_option (rows4 \<circ> snd) (HandleRequest 0 sample_env4 ''t1'' (packetFromMessage sample_server4 sample_select) sample_handler4)"
    unfolding option.map_comp [symmetric] by simp
  then show ?thesis using eq run by simp
qed

text \<open>C36: A client cannot release an address it was only offered.  The lease an OFFER has made counts
  as offered, and the state machine knows no way from there to released.  A RELEASE or DECLINE
  that passes the relay check and the guard then fails, and the state stays the one after the
  checks: the address is held until the lease runs out.\<close>

theorem offered_lease_not_released:
  assumes "admit now env t mt pkt dhcpv4RequestPhaseRequest h = (None, h1)"
    and "guarded (h4Svc env) (NewResourceScope t t) ''lease.release_by_identifier'' = None"
    and "GetActiveLease (stDB (h4sSvc h1)) (trim_space (identity pkt)) = Inr l"
    and "dhcpv4LeaseFSMStateFromLease now l = StateOffered"
  shows "\<exists>e. end_lease mt now env t pkt h = (Some (ServiceRefused (ErrFsm e)), h1)"
proof -
  have "ValidateTransition StateOffered StateReleased \<noteq> None" by code_simp
  then obtain e where e: "ValidateTransition StateOffered StateReleased = Some e" by blast
  have st: "IsKnownState StateReleased" "StateReleased \<noteq> StateOffered" by code_simp+
  have "dhcpv4TransitionLeaseState now l StateReleased = Inl (ErrFsm e)"
    unfolding dhcpv4TransitionLeaseState_def Let_def assms(4) using st e by simp
  then have "ReleaseByIdentifier now (h4Svc env) (NewResourceScope t t) (identity pkt) (h4sSvc h1) = (Inl (ErrFsm e), h4sSvc h1)"
    using assms(2,3) by (simp add: ReleaseByIdentifier_def store_transition_def)
  then show ?thesis using assms(1) by (simp add: end_lease_def Let_def)
qed

theorem offered_lease_not_released_witness:
  "\<exists>s e h. serve sample_server4 sample_env4 [(0, sample_discover 1)] sample_state4 = Some s \<and>
     HandleRelease second sample_env4 ''t1'' sample_packet4 (s4Handler s) = (Some (ServiceRefused (ErrFsm e)), h) \<and>
     h4sSvc h = h4sSvc (s4Handler s)"
proof -
  note run = sample_runs [THEN conjunct2, THEN conjunct2, THEN conjunct1]
  obtain s where s: "sample_run4 [(0, sample_discover 1)] = Some s"
    using run by (cases "sample_run4 [(0, sample_discover 1)]") simp_all
  note facts = run [unfolded s option.case, THEN conjunct2]
  obtain e h1 where a: "admit second sample_env4 ''t1'' ''release'' sample_packet4 dhcpv4RequestPhaseRequest (s4Handler s) = (e, h1)"
    by force
  have none: "e = None" using facts a by simp
  obtain l where l: "GetActiveLease (stDB (h4sSvc h1)) (trim_space (identity sample_packet4)) = Inr l"
    "dhcpv4LeaseFSMStateFromLease second l = StateOffered"
    using facts a by (auto split: sum.splits)
  have "guarded (h4Svc sample_env4) (NewResourceScope ''t1'' ''t1'') ''lease.release_by_identifier'' = None" using facts by blast
  from offered_lease_not_released [OF a [unfolded none] this l] obtain e where
    "end_lease ''release'' second sample_env4 ''t1'' sample_packet4 (s4Handler s) = (Some (ServiceRefused (ErrFsm e)), h1)" by blast
  moreover have "h4sSvc h1 = h4sSvc (s4Handler s)"
    using a unfolding admit_def runGuard_def sample_env4_def
    by (auto simp: NewNoop_def dest: relay_frame split: prod.splits option.splits if_splits)
  ultimately have "end_lease ''release'' second sample_env4 ''t1'' sample_packet4 (s4Handler s) = (Some (ServiceRefused (ErrFsm e)), h1)"
    "h4sSvc h1 = h4sSvc (s4Handler s)" by blast+
  then show ?thesis using s unfolding sample_run4_def HandleRelease_def by (intro exI [of _ s] exI [of _ e] exI [of _ h1]) simp
qed


end
