(* ===== verification/Spec2Isabelle.thy ===== *)
theory Spec2Isabelle
  imports Float64 Dhcpv4_Option Lease_Safety Dhcpv6_Safety Dhcpv6_Wellformed Prefix_Refinement Dhcpv4_Safety
begin

text \<open>Work in progress.\<close>

end
